(* ===== verification/Net_Prelude.thy ===== *)
theory Net_Prelude
  imports Main "HOL-Library.Word" "HOL-Library.Sublist"
begin

text \<open>
  The prelude of the development: the crate's one error type (\<open>errors/error.rs\<close>) and its
  \<open>Result\<close> alias, machine integers and their wire encodings, and the parts of Rust's
  standard library that the components share (slices, results, options).

  Conventions. An integer of width $w$ is a \<open>w word\<close>. A \<open>Vec<u8>\<close> or \<open>&[u8]\<close> is a list of
  bytes. A \<open>String\<close> or \<open>&str\<close> is its sequence of UTF-8 bytes, written as a list of 8-bit
  \<open>char\<close>, so \<open>len()\<close> is \<open>length\<close>. A function that may fail returns \<open>Inl\<close> of a
  \<open>NetworkError\<close> or \<open>Inr\<close> of its value. Native-endian encodings are little-endian, as on
  every target the daemon's service unit runs on.
\<close>

unbundle bit_operations_syntax

section \<open>Machine integers\<close>

type_synonym u8 = "8 word"
type_synonym u16 = "16 word"
type_synonym u32 = "32 word"
type_synonym u64 = "64 word"
type_synonym i32 = "32 word"
type_synonym byte = "8 word"
type_synonym bytes = "8 word list"

named_theorems wire_simps \<open>encoders and decoders of fixed-width integers\<close>
named_theorems str_simps \<open>evaluation of the string functions on literals\<close>

section \<open>Errors and results\<close>

text \<open>
  \<open>errors/error.rs\<close>. The variant \<open>Io\<close> wraps an operating-system error; the model keeps its
  rendered text.
\<close>

datatype NetworkError =
    Io string
  | Netlink string
  | Device string
  | Config string
  | Dhcp string
  | Dns string
  | Wifi string
  | Vpn string
  | FirewallErr string
  | NotFound string
  | PermissionDenied string
  | Timeout string
  | InvalidState string
  | Parse string
  | Other string

type_synonym 'a result = "NetworkError + 'a"

fun is_transient :: "NetworkError \<Rightarrow> bool" where
  "is_transient (Timeout _) = True"
| "is_transient (Dhcp _) = True"
| "is_transient (Dns _) = True"
| "is_transient (Netlink _) = True"
| "is_transient _ = False"

fun error_to_string :: "NetworkError \<Rightarrow> string" where
  "error_to_string (Io m) = ''I/O error: '' @ m"
| "error_to_string (Netlink m) = ''netlink error: '' @ m"
| "error_to_string (Device m) = ''device error: '' @ m"
| "error_to_string (Config m) = ''configuration error: '' @ m"
| "error_to_string (Dhcp m) = ''DHCP error: '' @ m"
| "error_to_string (Dns m) = ''DNS error: '' @ m"
| "error_to_string (Wifi m) = ''Wi-Fi error: '' @ m"
| "error_to_string (Vpn m) = ''VPN error: '' @ m"
| "error_to_string (FirewallErr m) = ''firewall error: '' @ m"
| "error_to_string (NotFound m) = ''not found: '' @ m"
| "error_to_string (PermissionDenied m) = ''permission denied: '' @ m"
| "error_to_string (Timeout m) = ''operation timed out: '' @ m"
| "error_to_string (InvalidState m) = ''invalid state: '' @ m"
| "error_to_string (Parse m) = ''parse error: '' @ m"
| "error_to_string (Other m) = m"

text \<open>The \<open>?\<close> operator: stop at the first error, otherwise go on with the value.\<close>

definition bind_r :: "'e + 'a \<Rightarrow> ('a \<Rightarrow> 'e + 'b) \<Rightarrow> 'e + 'b" where
  "bind_r r f = (case r of Inl e \<Rightarrow> Inl e | Inr x \<Rightarrow> f x)"

lemma bind_r_simps [simp]:
  "bind_r (Inl e) f = Inl e"
  "bind_r (Inr x) f = f x"
  by (simp_all add: bind_r_def)

lemma bind_r_eq_Inr: "bind_r r f = Inr y \<longleftrightarrow> (\<exists>x. r = Inr x \<and> f x = Inr y)"
  by (cases r) auto

lemma bind_r_eq_Inl: "bind_r r f = Inl e \<longleftrightarrow> r = Inl e \<or> (\<exists>x. r = Inr x \<and> f x = Inl e)"
  by (cases r) auto

lemma bind_r_assoc: "bind_r (bind_r r f) g = bind_r r (\<lambda>x. bind_r (f x) g)"
  by (cases r) auto

definition ok_or :: "'e \<Rightarrow> 'a option \<Rightarrow> 'e + 'a" where
  "ok_or e x = (case x of None \<Rightarrow> Inl e | Some v \<Rightarrow> Inr v)"

definition map_err :: "('e \<Rightarrow> 'f) \<Rightarrow> 'e + 'a \<Rightarrow> 'f + 'a" where
  "map_err f r = (case r of Inl e \<Rightarrow> Inl (f e) | Inr x \<Rightarrow> Inr x)"

definition is_ok :: "'e + 'a \<Rightarrow> bool" where
  "is_ok r = (case r of Inl _ \<Rightarrow> False | Inr _ \<Rightarrow> True)"

definition ok :: "'e + 'a \<Rightarrow> 'a option" where
  "ok r = (case r of Inl _ \<Rightarrow> None | Inr x \<Rightarrow> Some x)"

lemma result_simps [simp]:
  "ok_or e None = Inl e" "ok_or e (Some v) = Inr v"
  "map_err f (Inl e') = Inl (f e')" "map_err f (Inr x) = Inr x"
  "\<not> is_ok (Inl e')" "is_ok (Inr x)"
  "ok (Inl e') = None" "ok (Inr x) = Some x"
  by (simp_all add: ok_or_def map_err_def is_ok_def ok_def)

lemma ok_or_eq_Inr [simp]: "ok_or e x = Inr v \<longleftrightarrow> x = Some v"
  by (cases x) auto

lemma map_err_eq_Inr [simp]: "map_err f r = Inr v \<longleftrightarrow> r = Inr v"
  by (cases r) auto

text \<open>Running a fallible step over a list, stopping at the first error (\<open>for x in xs { f(x)?; }\<close>).\<close>

fun try_all :: "('a \<Rightarrow> 'e + unit) \<Rightarrow> 'a list \<Rightarrow> 'e + unit" where
  "try_all f [] = Inr ()"
| "try_all f (x # xs) = bind_r (f x) (\<lambda>_. try_all f xs)"

lemma try_all_Inr: "try_all f xs = Inr () \<longleftrightarrow> (\<forall>x \<in> set xs. f x = Inr ())"
  by (induction xs) (auto simp: bind_r_eq_Inr)

text \<open>Collecting an iterator of results: the values in order, or the first error.\<close>

fun map_r :: "('a \<Rightarrow> 'e + 'b) \<Rightarrow> 'a list \<Rightarrow> 'e + 'b list" where
  "map_r f [] = Inr []"
| "map_r f (x # xs) = bind_r (f x) (\<lambda>y. bind_r (map_r f xs) (\<lambda>ys. Inr (y # ys)))"

lemma map_r_all: "(\<And>x. x \<in> set xs \<Longrightarrow> f x = Inr (g x)) \<Longrightarrow> map_r f xs = Inr (map g xs)"
  by (induction xs) simp_all

lemma map_r_length: "map_r f xs = Inr ys \<Longrightarrow> length ys = length xs"
  by (induction xs arbitrary: ys) (auto simp: bind_r_eq_Inr)

section \<open>Bytes on the wire\<close>

definition be16 :: "u16 \<Rightarrow> bytes" where
  "be16 w = [ucast (drop_bit 8 w), ucast w]"

definition be32 :: "u32 \<Rightarrow> bytes" where
  "be32 w = [ucast (drop_bit 24 w), ucast (drop_bit 16 w), ucast (drop_bit 8 w), ucast w]"

definition le16 :: "u16 \<Rightarrow> bytes" where
  "le16 w = [ucast w, ucast (drop_bit 8 w)]"

definition le32 :: "u32 \<Rightarrow> bytes" where
  "le32 w = [ucast w, ucast (drop_bit 8 w), ucast (drop_bit 16 w), ucast (drop_bit 24 w)]"

definition from_be16 :: "byte \<Rightarrow> byte \<Rightarrow> u16" where
  "from_be16 a b = push_bit 8 (ucast a) OR ucast b"

definition from_be32 :: "byte \<Rightarrow> byte \<Rightarrow> byte \<Rightarrow> byte \<Rightarrow> u32" where
  "from_be32 a b c d =
     push_bit 24 (ucast a) OR push_bit 16 (ucast b) OR push_bit 8 (ucast c) OR ucast d"

definition from_le16 :: "byte \<Rightarrow> byte \<Rightarrow> u16" where
  "from_le16 a b = from_be16 b a"

definition from_le32 :: "byte \<Rightarrow> byte \<Rightarrow> byte \<Rightarrow> byte \<Rightarrow> u32" where
  "from_le32 a b c d = from_be32 d c b a"

lemma length_wire [simp]:
  "length (be16 w) = 2" "length (be32 v) = 4" "length (le16 w) = 2" "length (le32 v) = 4"
  by (simp_all add: be16_def be32_def le16_def le32_def)

lemma from_be16_inverse: "from_be16 (ucast (drop_bit 8 w)) (ucast w) = w"
  by (rule bit_word_eqI) (auto simp: from_be16_def bit_simps)

lemma from_be32_inverse:
  "from_be32 (ucast (drop_bit 24 w)) (ucast (drop_bit 16 w)) (ucast (drop_bit 8 w)) (ucast w) = w"
proof (rule bit_word_eqI)
  fix n assume n: "n < LENGTH(32)"
  consider "n < 8" | "8 \<le> n" "n < 16" | "16 \<le> n" "n < 24" | "24 \<le> n" by linarith
  then show "bit (from_be32 (ucast (drop_bit 24 w)) (ucast (drop_bit 16 w))
      (ucast (drop_bit 8 w)) (ucast w)) n = bit w n"
    using n by cases (auto simp: from_be32_def bit_simps)
qed

lemma from_wire [simp]:
  "from_be16 (be16 w ! 0) (be16 w ! Suc 0) = w"
  "from_le16 (le16 w ! 0) (le16 w ! Suc 0) = w"
  "from_be32 (be32 v ! 0) (be32 v ! 1) (be32 v ! 2) (be32 v ! 3) = v"
  "from_le32 (le32 v ! 0) (le32 v ! 1) (le32 v ! 2) (le32 v ! 3) = v"
  by (simp_all add: be16_def be32_def le16_def le32_def from_le16_def from_le32_def
        from_be16_inverse from_be32_inverse)

text \<open>Reading an array of exactly four bytes, \<open><[u8; 4]>::try_from(slice)\<close>.\<close>

fun try_be32 :: "bytes \<Rightarrow> u32 option" where
  "try_be32 [a, b, c, d] = Some (from_be32 a b c d)"
| "try_be32 _ = None"

lemma try_be32_be32 [simp]: "try_be32 (be32 w) = Some w"
  by (simp add: be32_def from_be32_inverse)

lemma try_be32_length: "try_be32 bs \<noteq> None \<longleftrightarrow> length bs = 4"
  by (induction bs rule: try_be32.induct) auto

lemma byte_bit_high [simp]:
  "bit (b :: byte) (8 + n) \<longleftrightarrow> False" "bit (b :: byte) (16 + n) \<longleftrightarrow> False"
  "bit (b :: byte) (24 + n) \<longleftrightarrow> False"
  by (auto dest: bit_imp_le_length)

lemma be32_from_be32: "be32 (from_be32 a b c d) = [a, b, c, d]"
  unfolding be32_def from_be32_def
  by (auto intro!: bit_word_eqI simp: bit_simps)

lemma be32_inject [simp]: "be32 v = be32 w \<longleftrightarrow> v = w"
  by (metis option.inject try_be32_be32)

text \<open>\<open>slice.chunks_exact(n)\<close>: the trailing remainder is dropped.\<close>

function chunks_exact :: "nat \<Rightarrow> 'a list \<Rightarrow> 'a list list" where
  "chunks_exact n xs =
     (if n = 0 \<or> length xs < n then [] else take n xs # chunks_exact n (drop n xs))"
  by pat_completeness auto
termination
  by (relation "measure (\<lambda>(n, xs). length xs)") auto

declare chunks_exact.simps [simp del]

lemma chunks_exact_Nil [simp]: "chunks_exact n [] = []"
  by (subst chunks_exact.simps) auto

lemma chunks_exact_append:
  "length x = n \<Longrightarrow> 0 < n \<Longrightarrow> chunks_exact n (x @ xs) = x # chunks_exact n xs"
  by (simp add: chunks_exact.simps [of n "x @ xs"])

lemma chunks_exact_length: "c \<in> set (chunks_exact n xs) \<Longrightarrow> length c = n"
  by (induction n xs rule: chunks_exact.induct)
    (subst (asm) (2) chunks_exact.simps, auto split: if_splits)

lemma chunks_exact_concat_map:
  assumes "\<And>x. length (f x) = n" and "0 < n"
  shows "chunks_exact n (concat (map f xs)) = map f xs"
  using assms by (induction xs) (simp_all add: chunks_exact_append)

text \<open>\<open>n as u8\<close> of a length: truncation to the low byte.\<close>

definition as_u8 :: "nat \<Rightarrow> u8" where "as_u8 n = word_of_nat n"
definition as_u16 :: "nat \<Rightarrow> u16" where "as_u16 n = word_of_nat n"
definition as_u32 :: "nat \<Rightarrow> u32" where "as_u32 n = word_of_nat n"

lemma unat_as [simp]:
  "n < 256 \<Longrightarrow> unat (as_u8 n) = n"
  "n < 65536 \<Longrightarrow> unat (as_u16 n) = n"
  "n < 4294967296 \<Longrightarrow> unat (as_u32 n) = n"
  by (simp_all add: as_u8_def as_u16_def as_u32_def unat_of_nat)

lemma find_split: "find P xs = Some x \<Longrightarrow> \<exists>ys zs. xs = ys @ x # zs \<and> P x \<and> (\<forall>y \<in> set ys. \<not> P y)"
proof (induction xs)
  case Nil
  then show ?case by simp
next
  case (Cons a xs)
  show ?case
  proof (cases "P a")
    case True
    with Cons.prems have "a # xs = [] @ x # xs \<and> P x" by simp
    then show ?thesis by (metis empty_iff list.set(1))
  next
    case False
    with Cons obtain ys zs where "xs = ys @ x # zs" "P x" "\<forall>y \<in> set ys. \<not> P y" by auto
    with False have "a # xs = (a # ys) @ x # zs \<and> P x \<and> (\<forall>y \<in> set (a # ys). \<not> P y)" by simp
    then show ?thesis by blast
  qed
qed

lemma find_member: "find P xs = Some x \<Longrightarrow> x \<in> set xs \<and> P x"
  by (auto dest: find_split)

end
