(* ===== verification/Rust_Str.thy ===== *)
theory Rust_Str
  imports Net_Prelude
begin

text \<open>
  The parts of Rust's \<open>str\<close> and integer \<open>FromStr\<close>/\<open>Display\<close> that the crate uses. A string is
  the list of its UTF-8 bytes. Splitting, searching and comparing on ASCII needles agree with
  Rust byte for byte, because no byte of a multi-byte UTF-8 sequence is below 128; whitespace
  is Unicode's \<open>White_Space\<close>, recognised by its UTF-8 encodings.
\<close>

section \<open>Bytes and characters\<close>

definition byte_of_char :: "char \<Rightarrow> byte" where
  "byte_of_char c = word_of_nat (of_char c)"

definition char_of_byte :: "byte \<Rightarrow> char" where
  "char_of_byte b = char_of (unat b)"

lemma char_of_byte_of_char [simp]: "char_of_byte (byte_of_char c) = c"
proof -
  have "of_char c < (256 :: nat)" by simp
  then show ?thesis by (simp add: char_of_byte_def byte_of_char_def unat_of_nat)
qed

lemma byte_of_char_of_byte [simp]: "byte_of_char (char_of_byte b) = b"
proof -
  have "unat b < 256" using unsigned_less [of b, where 'a = nat] by simp
  then show ?thesis by (simp add: char_of_byte_def byte_of_char_def)
qed

definition as_bytes :: "string \<Rightarrow> bytes" where
  "as_bytes s = map byte_of_char s"

definition of_bytes :: "bytes \<Rightarrow> string" where
  "of_bytes bs = map char_of_byte bs"

lemma of_bytes_as_bytes [simp]: "of_bytes (as_bytes s) = s"
  by (simp add: of_bytes_def as_bytes_def comp_def)

lemma as_bytes_of_bytes [simp]: "as_bytes (of_bytes bs) = bs"
  by (simp add: of_bytes_def as_bytes_def comp_def)

lemma length_as_bytes [simp]: "length (as_bytes s) = length s"
  by (simp add: as_bytes_def)

lemma as_bytes_append [simp]: "as_bytes (s @ t) = as_bytes s @ as_bytes t"
  by (simp add: as_bytes_def)

abbreviation nl :: char where "nl \<equiv> CHR 0x0A"
abbreviation cr :: char where "cr \<equiv> CHR 0x0D"
abbreviation tab :: char where "tab \<equiv> CHR 0x09"
abbreviation nul :: char where "nul \<equiv> CHR 0x00"
abbreviation dquote :: char where "dquote \<equiv> CHR 0x22"
abbreviation bslash :: char where "bslash \<equiv> CHR 0x5C"

text \<open>A string in single quotes, as in the crate's messages.\<close>

definition quoted :: "string \<Rightarrow> string" where
  "quoted s = CHR 0x27 # s @ [CHR 0x27]"

abbreviation code_of :: "char \<Rightarrow> nat" where "code_of c \<equiv> of_char c"

definition is_ascii :: "char \<Rightarrow> bool" where
  "is_ascii c = (code_of c < 128)"

section \<open>UTF-8 decoding, \<open>String::from_utf8_lossy\<close>\<close>

text \<open>
  The length of the first chunk of a non-empty byte string and whether it is one well-formed
  character: an ill-formed chunk is the longest prefix of a well-formed sequence (at least one
  byte), as Rust's \<open>Utf8Chunks\<close> consumes it.
\<close>

definition cont :: "byte \<Rightarrow> bool" where
  "cont b = (0x80 \<le> b \<and> b \<le> 0xBF)"

definition second_ok :: "byte \<Rightarrow> byte \<Rightarrow> bool" where
  "second_ok a b =
     (if a = 0xE0 then 0xA0 \<le> b \<and> b \<le> 0xBF
      else if a = 0xED then 0x80 \<le> b \<and> b \<le> 0x9F
      else if a = 0xF0 then 0x90 \<le> b \<and> b \<le> 0xBF
      else if a = 0xF4 then 0x80 \<le> b \<and> b \<le> 0x8F
      else cont b)"

definition utf8_width :: "byte \<Rightarrow> nat" where
  "utf8_width a =
     (if a < 0x80 then 1
      else if 0xC2 \<le> a \<and> a \<le> 0xDF then 2
      else if 0xE0 \<le> a \<and> a \<le> 0xEF then 3
      else if 0xF0 \<le> a \<and> a \<le> 0xF4 then 4
      else 0)"

fun utf8_chunk :: "bytes \<Rightarrow> nat \<times> bool" where
  "utf8_chunk [] = (0, False)"
| "utf8_chunk (a # bs) =
     (if utf8_width a = 0 then (1, False)
      else if utf8_width a = 1 then (1, True)
      else (case bs of
        [] \<Rightarrow> (1, False)
      | b # bs' \<Rightarrow>
          (if \<not> second_ok a b then (1, False)
           else if utf8_width a = 2 then (2, True)
           else (case bs' of
             [] \<Rightarrow> (2, False)
           | c # bs'' \<Rightarrow>
               (if \<not> cont c then (2, False)
                else if utf8_width a = 3 then (3, True)
                else (case bs'' of
                  [] \<Rightarrow> (3, False)
                | d # _ \<Rightarrow> (if cont d then (4, True) else (3, False))))))))"

text \<open>U+FFFD in UTF-8.\<close>

definition replacement :: bytes where "replacement = [0xEF, 0xBF, 0xBD]"

lemma utf8_chunk_pos: "0 < fst (utf8_chunk (a # bs))"
  by (auto split: list.splits)

function lossy_bytes :: "bytes \<Rightarrow> bytes" where
  "lossy_bytes [] = []"
| "lossy_bytes (a # bs) =
     (let (n, good) = utf8_chunk (a # bs)
      in (if good then take n (a # bs) else replacement) @ lossy_bytes (drop n (a # bs)))"
  by pat_completeness auto
termination
proof (relation "measure length")
  fix a bs x n good
  assume "x = utf8_chunk (a # bs)" "(n, good) = x"
  then have "0 < n" using utf8_chunk_pos [of a bs] by (metis fst_conv)
  then show "(drop n (a # bs), a # bs) \<in> measure length" by simp
qed simp

declare lossy_bytes.simps(2) [simp del]

definition from_utf8_lossy :: "bytes \<Rightarrow> string" where
  "from_utf8_lossy bs = of_bytes (lossy_bytes bs)"

lemma lossy_bytes_ascii: "\<forall>b \<in> set bs. b < 0x80 \<Longrightarrow> lossy_bytes bs = bs"
proof (induction bs)
  case Nil
  then show ?case by simp
next
  case (Cons a bs)
  then have "utf8_chunk (a # bs) = (1, True)" by (simp add: utf8_width_def)
  with Cons show ?case by (simp add: lossy_bytes.simps(2) Let_def)
qed

lemma byte_of_ascii: "is_ascii c \<Longrightarrow> byte_of_char c < 0x80"
  by (simp add: is_ascii_def byte_of_char_def word_less_nat_alt unat_of_nat)

lemma from_utf8_lossy_ascii:
  "\<forall>c \<in> set s. is_ascii c \<Longrightarrow> from_utf8_lossy (as_bytes s) = s"
proof -
  assume "\<forall>c \<in> set s. is_ascii c"
  then have "\<forall>b \<in> set (as_bytes s). b < 0x80"
    by (auto simp: as_bytes_def intro: byte_of_ascii)
  then show ?thesis by (simp add: from_utf8_lossy_def lossy_bytes_ascii)
qed

section \<open>Whitespace\<close>

text \<open>The number of bytes of the whitespace character a string starts with, 0 if none.\<close>

fun ws_len :: "string \<Rightarrow> nat" where
  "ws_len [] = 0"
| "ws_len (a # s) =
     (if (9 \<le> code_of a \<and> code_of a \<le> 13) \<or> code_of a = 32 then 1
      else if code_of a = 0xC2 then
        (case s of b # _ \<Rightarrow> if code_of b = 0x85 \<or> code_of b = 0xA0 then 2 else 0 | [] \<Rightarrow> 0)
      else if code_of a = 0xE1 then
        (case s of b # c # _ \<Rightarrow> if code_of b = 0x9A \<and> code_of c = 0x80 then 3 else 0 | _ \<Rightarrow> 0)
      else if code_of a = 0xE2 then
        (case s of b # c # _ \<Rightarrow>
           if code_of b = 0x80 \<and> ((0x80 \<le> code_of c \<and> code_of c \<le> 0x8A) \<or> code_of c = 0xA8 \<or> code_of c = 0xA9
                \<or> code_of c = 0xAF) then 3
           else if code_of b = 0x81 \<and> code_of c = 0x9F then 3 else 0
         | _ \<Rightarrow> 0)
      else if code_of a = 0xE3 then
        (case s of b # c # _ \<Rightarrow> if code_of b = 0x80 \<and> code_of c = 0x80 then 3 else 0 | _ \<Rightarrow> 0)
      else 0)"

fun contains_whitespace :: "string \<Rightarrow> bool" where
  "contains_whitespace [] = False"
| "contains_whitespace (a # s) = (0 < ws_len (a # s) \<or> contains_whitespace s)"

function trim_start :: "string \<Rightarrow> string" where
  "trim_start s = (if s \<noteq> [] \<and> 0 < ws_len s then trim_start (drop (ws_len s) s) else s)"
  by pat_completeness auto
termination
  by (relation "measure length") auto

declare trim_start.simps [simp del]

fun trim_end :: "string \<Rightarrow> string" where
  "trim_end [] = []"
| "trim_end (c # s) = (if trim_start (c # s) = [] then [] else c # trim_end s)"

definition trim :: "string \<Rightarrow> string" where
  "trim s = trim_end (trim_start s)"

lemma ws_len_plain: "33 \<le> code_of c \<Longrightarrow> code_of c < 128 \<Longrightarrow> ws_len (c # s) = 0"
  by simp

lemma trim_start_plain: "s = [] \<or> 33 \<le> code_of (hd s) \<and> code_of (hd s) < 128 \<Longrightarrow> trim_start s = s"
  by (cases s) (auto simp: trim_start.simps ws_len_plain)

lemma trim_end_plain: "\<forall>c \<in> set s. 33 \<le> code_of c \<and> code_of c < 128 \<Longrightarrow> trim_end s = s"
  by (induction s) (auto simp: trim_start_plain)

lemma trim_plain: "\<forall>c \<in> set s. 33 \<le> code_of c \<and> code_of c < 128 \<Longrightarrow> trim s = s"
  by (cases s) (simp_all add: trim_def trim_start_plain trim_end_plain)

section \<open>Searching and splitting\<close>

fun strip_prefix :: "string \<Rightarrow> string \<Rightarrow> string option" where
  "strip_prefix [] s = Some s"
| "strip_prefix (p # ps) [] = None"
| "strip_prefix (p # ps) (c # s) = (if p = c then strip_prefix ps s else None)"

lemma strip_prefix_Some: "strip_prefix p s = Some r \<longleftrightarrow> s = p @ r"
  by (induction p s rule: strip_prefix.induct) auto

definition starts_with :: "string \<Rightarrow> string \<Rightarrow> bool" where
  "starts_with s p = (strip_prefix p s \<noteq> None)"

lemma starts_with_iff: "starts_with s p \<longleftrightarrow> (\<exists>r. s = p @ r)"
  by (auto simp: starts_with_def strip_prefix_Some)

definition ends_with :: "string \<Rightarrow> string \<Rightarrow> bool" where
  "ends_with s p = (length p \<le> length s \<and> drop (length s - length p) s = p)"

lemma ends_with_iff: "ends_with s p \<longleftrightarrow> (\<exists>r. s = r @ p)"
proof
  assume "ends_with s p"
  then have "s = take (length s - length p) s @ p"
    by (metis append_take_drop_id ends_with_def)
  then show "\<exists>r. s = r @ p" by blast
qed (auto simp: ends_with_def)

fun str_contains :: "string \<Rightarrow> string \<Rightarrow> bool" where
  "str_contains [] p = (p = [])"
| "str_contains (c # s) p = (starts_with (c # s) p \<or> str_contains s p)"

lemma str_contains_Cons:
  "(\<exists>a b. c # s = a @ p @ b) \<longleftrightarrow> (\<exists>r. c # s = p @ r) \<or> (\<exists>a b. s = a @ p @ b)"
  (is "?l \<longleftrightarrow> ?r1 \<or> ?r2")
proof
  assume ?l
  then obtain a b where ab: "c # s = a @ p @ b" by blast
  show "?r1 \<or> ?r2"
  proof (cases a)
    case Nil
    with ab show ?thesis by auto
  next
    case (Cons x a')
    with ab have "s = a' @ p @ b" by simp
    then show ?thesis by blast
  qed
next
  assume "?r1 \<or> ?r2"
  then consider r where "c # s = p @ r" | a b where "s = a @ p @ b" by blast
  then show ?l
  proof cases
    case 1
    then have "c # s = [] @ p @ r" by simp
    then show ?thesis by blast
  next
    case 2
    then have "c # s = (c # a) @ p @ b" by simp
    then show ?thesis by blast
  qed
qed

lemma str_contains_iff: "str_contains s p \<longleftrightarrow> (\<exists>a b. s = a @ p @ b)"
  by (induction s) (simp, simp only: str_contains.simps starts_with_iff str_contains_Cons)

fun split_once :: "char \<Rightarrow> string \<Rightarrow> (string \<times> string) option" where
  "split_once c [] = None"
| "split_once c (x # xs) =
     (if x = c then Some ([], xs) else map_option (\<lambda>(a, b). (x # a, b)) (split_once c xs))"

lemma split_once_Some: "split_once c s = Some (a, b) \<longleftrightarrow> s = a @ c # b \<and> c \<notin> set a"
proof (induction s arbitrary: a)
  case (Cons x s)
  then show ?case by (cases a) auto
qed simp

lemma split_once_None: "split_once c s = None \<longleftrightarrow> c \<notin> set s"
  by (induction s) auto

fun split_once_str :: "string \<Rightarrow> string \<Rightarrow> (string \<times> string) option" where
  "split_once_str p [] = (if p = [] then Some ([], []) else None)"
| "split_once_str p (x # xs) =
     (case strip_prefix p (x # xs) of
        Some r \<Rightarrow> Some ([], r)
      | None \<Rightarrow> map_option (\<lambda>(a, b). (x # a, b)) (split_once_str p xs))"

lemma split_once_str_Some: "split_once_str p s = Some (a, b) \<Longrightarrow> s = a @ p @ b"
  by (induction p s arbitrary: a rule: split_once_str.induct)
    (auto split: option.splits if_splits simp: strip_prefix_Some)

text \<open>\<open>s.rsplit_once(c)\<close>.\<close>

definition rsplit_once :: "char \<Rightarrow> string \<Rightarrow> (string \<times> string) option" where
  "rsplit_once c s = map_option (\<lambda>(a, b). (rev b, rev a)) (split_once c (rev s))"

lemma rsplit_once_Some: "rsplit_once c s = Some (a, b) \<longleftrightarrow> s = a @ c # b \<and> c \<notin> set b"
proof -
  have "rsplit_once c s = Some (a, b) \<longleftrightarrow> split_once c (rev s) = Some (rev b, rev a)"
    by (auto simp: rsplit_once_def)
  also have "\<dots> \<longleftrightarrow> rev s = rev b @ c # rev a \<and> c \<notin> set b"
    by (simp add: split_once_Some)
  also have "rev s = rev b @ c # rev a \<longleftrightarrow> s = a @ c # b"
    by (simp add: rev_swap)
  finally show ?thesis .
qed

text \<open>\<open>s.split(pat)\<close> on a character class: always at least one piece.\<close>

fun split_by :: "(char \<Rightarrow> bool) \<Rightarrow> string \<Rightarrow> string list" where
  "split_by p [] = [[]]"
| "split_by p (x # xs) =
     (if p x then [] # split_by p xs
      else (case split_by p xs of [] \<Rightarrow> [[x]] | y # ys \<Rightarrow> (x # y) # ys))"

abbreviation split_on :: "char \<Rightarrow> string \<Rightarrow> string list" where
  "split_on c \<equiv> split_by (\<lambda>x. x = c)"

fun str_join :: "string \<Rightarrow> string list \<Rightarrow> string" where
  "str_join sep [] = []"
| "str_join sep [x] = x"
| "str_join sep (x # y # ys) = x @ sep @ str_join sep (y # ys)"

lemma split_by_not_Nil [simp]: "split_by p s \<noteq> []"
  by (cases s) (auto split: list.splits)

lemma split_by_none: "\<forall>c \<in> set s. \<not> p c \<Longrightarrow> split_by p s = [s]"
  by (induction s) auto

lemma split_by_append:
  "\<forall>c \<in> set a. \<not> p c \<Longrightarrow> p x \<Longrightarrow> split_by p (a @ x # b) = a # split_by p b"
  by (induction a) auto

lemma split_by_pieces: "\<forall>x \<in> set (split_by p s). \<forall>c \<in> set x. \<not> p c"
  by (induction s) (auto split: list.splits)

lemma split_on_join:
  assumes "xs \<noteq> []" "\<forall>x \<in> set xs. c \<notin> set x"
  shows "split_on c (str_join [c] xs) = xs"
  using assms
proof (induction xs rule: list_nonempty_induct)
  case (single x)
  have "split_on c x = [x]" by (rule split_by_none) (use single in auto)
  then show ?case by simp
next
  case (cons x xs)
  then obtain y ys where xs: "xs = y # ys" by (cases xs) auto
  have "split_on c (x @ c # str_join [c] xs) = x # split_on c (str_join [c] xs)"
    by (rule split_by_append) (use cons in auto)
  also have "split_on c (str_join [c] xs) = xs" by (rule cons.IH) (use cons.prems in auto)
  finally show ?case by (simp add: xs)
qed

text \<open>\<open>s.lines()\<close>: a final line break adds no empty line; a line's \<open>\r\n\<close> loses both.\<close>

definition strip_cr :: "string \<Rightarrow> string" where
  "strip_cr s = (if s \<noteq> [] \<and> last s = cr then butlast s else s)"

definition lines :: "string \<Rightarrow> string list" where
  "lines s = (let ps = split_on nl s
              in map strip_cr (butlast ps) @ (if last ps = [] then [] else [last ps]))"

function split_ws_raw :: "string \<Rightarrow> string list" where
  "split_ws_raw [] = [[]]"
| "split_ws_raw (x # xs) =
     (if 0 < ws_len (x # xs) then [] # split_ws_raw (drop (ws_len (x # xs)) (x # xs))
      else (case split_ws_raw xs of [] \<Rightarrow> [[x]] | y # ys \<Rightarrow> (x # y) # ys))"
  by pat_completeness auto
termination
  by (relation "measure length") auto

definition split_whitespace :: "string \<Rightarrow> string list" where
  "split_whitespace s = filter (\<lambda>p. p \<noteq> []) (split_ws_raw s)"

section \<open>Case and digits\<close>

definition ascii_lower :: "char \<Rightarrow> char" where
  "ascii_lower c = (if 65 \<le> code_of c \<and> code_of c \<le> 90 then char_of (code_of c + 32) else c)"

definition ascii_upper :: "char \<Rightarrow> char" where
  "ascii_upper c = (if 97 \<le> code_of c \<and> code_of c \<le> 122 then char_of (code_of c - 32) else c)"

definition to_ascii_lowercase :: "string \<Rightarrow> string" where
  "to_ascii_lowercase s = map ascii_lower s"

definition to_ascii_uppercase :: "string \<Rightarrow> string" where
  "to_ascii_uppercase s = map ascii_upper s"

definition is_digit :: "char \<Rightarrow> bool" where
  "is_digit c = (48 \<le> code_of c \<and> code_of c \<le> 57)"

definition is_alpha :: "char \<Rightarrow> bool" where
  "is_alpha c = ((65 \<le> code_of c \<and> code_of c \<le> 90) \<or> (97 \<le> code_of c \<and> code_of c \<le> 122))"

definition is_alnum :: "char \<Rightarrow> bool" where
  "is_alnum c = (is_digit c \<or> is_alpha c)"

definition is_hexdigit :: "char \<Rightarrow> bool" where
  "is_hexdigit c =
     (is_digit c \<or> (65 \<le> code_of c \<and> code_of c \<le> 70) \<or> (97 \<le> code_of c \<and> code_of c \<le> 102))"

text \<open>\<open>c.to_digit(radix)\<close>.\<close>

definition to_digit :: "nat \<Rightarrow> char \<Rightarrow> nat option" where
  "to_digit r c =
     (let d = (if is_digit c then Some (code_of c - 48)
               else if 97 \<le> code_of c \<and> code_of c \<le> 122 then Some (code_of c - 87)
               else if 65 \<le> code_of c \<and> code_of c \<le> 90 then Some (code_of c - 55)
               else None)
      in case d of None \<Rightarrow> None | Some v \<Rightarrow> if v < r then Some v else None)"

fun digits_val :: "nat \<Rightarrow> string \<Rightarrow> nat \<Rightarrow> nat option" where
  "digits_val r [] acc = Some acc"
| "digits_val r (c # s) acc =
     (case to_digit r c of None \<Rightarrow> None | Some d \<Rightarrow> digits_val r s (acc * r + d))"

text \<open>\<open>uN::from_str_radix\<close>: an optional \<open>+\<close>, then at least one digit, no overflow.\<close>

definition parse_uint :: "nat \<Rightarrow> nat \<Rightarrow> string \<Rightarrow> nat option" where
  "parse_uint mx r s =
     (let ds = (case s of [] \<Rightarrow> [] | c # cs \<Rightarrow> if c = CHR ''+'' then cs else s)
      in if ds = [] then None
         else case digits_val r ds 0 of
                None \<Rightarrow> None
              | Some n \<Rightarrow> if n \<le> mx then Some n else None)"

definition parse_u8 :: "string \<Rightarrow> u8 option" where
  "parse_u8 s = map_option word_of_nat (parse_uint 255 10 s)"

definition parse_u16 :: "string \<Rightarrow> u16 option" where
  "parse_u16 s = map_option word_of_nat (parse_uint 65535 10 s)"

definition parse_u32 :: "string \<Rightarrow> u32 option" where
  "parse_u32 s = map_option word_of_nat (parse_uint 4294967295 10 s)"

definition parse_hex_u8 :: "string \<Rightarrow> u8 option" where
  "parse_hex_u8 s = map_option word_of_nat (parse_uint 255 16 s)"

text \<open>\<open>s.parse::<i32>()\<close>, as an integer.\<close>

definition parse_i32 :: "string \<Rightarrow> int option" where
  "parse_i32 s =
     (case s of
        c # cs \<Rightarrow> if c = CHR ''-'' then
                    (if cs = [] then None
                     else case digits_val 10 cs 0 of
                            None \<Rightarrow> None
                          | Some n \<Rightarrow> if n \<le> 2147483648 then Some (- int n) else None)
                  else map_option int (parse_uint 2147483647 10 s)
      | [] \<Rightarrow> None)"

definition digit_char :: "nat \<Rightarrow> char" where
  "digit_char d = char_of (if d < 10 then 48 + d else 87 + d)"

fun show_radix :: "nat \<Rightarrow> nat \<Rightarrow> string" where
  "show_radix r n = (if n < r \<or> r < 2 then [digit_char n] else show_radix r (n div r) @ [digit_char (n mod r)])"

declare show_radix.simps [simp del]

abbreviation show_nat :: "nat \<Rightarrow> string" where "show_nat \<equiv> show_radix 10"

definition show_int :: "int \<Rightarrow> string" where
  "show_int i = (if i < 0 then CHR ''-'' # show_nat (nat (- i)) else show_nat (nat i))"

text \<open>\<open>format!("{b:02x}")\<close>.\<close>

definition hex2 :: "byte \<Rightarrow> string" where
  "hex2 b = [digit_char (unat b div 16), digit_char (unat b mod 16)]"

lemma to_digit_digit_char: "d < r \<Longrightarrow> r \<le> 16 \<Longrightarrow> to_digit r (digit_char d) = Some d"
proof -
  assume a: "d < r" "r \<le> 16"
  have "\<forall>d < 16. code_of (digit_char d) = (if d < 10 then 48 + d else 87 + d)"
    by (simp add: digit_char_def)
  with a have "code_of (digit_char d) = (if d < 10 then 48 + d else 87 + d)" by simp
  with a show ?thesis by (auto simp: to_digit_def is_digit_def)
qed

lemma digits_val_append:
  "digits_val r (s @ t) acc = Option.bind (digits_val r s acc) (digits_val r t)"
  by (induction r s acc rule: digits_val.induct) (auto split: option.splits)

lemma digits_val_show:
  "2 \<le> r \<Longrightarrow> r \<le> 16 \<Longrightarrow> digits_val r (show_radix r n) 0 = Some n"
proof (induction r n rule: show_radix.induct)
  case (1 r n)
  show ?case
  proof (cases "n < r")
    case True
    with 1 show ?thesis by (simp add: show_radix.simps [of r n] to_digit_digit_char)
  next
    case False
    with 1 have "digits_val r (show_radix r (n div r)) 0 = Some (n div r)" by simp
    with False 1 show ?thesis
      by (simp add: show_radix.simps [of r n] digits_val_append to_digit_digit_char)
  qed
qed

lemma show_radix_chars:
  "2 \<le> r \<Longrightarrow> r \<le> 16 \<Longrightarrow> c \<in> set (show_radix r n) \<Longrightarrow> to_digit r c \<noteq> None"
proof (induction r n rule: show_radix.induct)
  case (1 r n)
  show ?case
  proof (cases "n < r")
    case True
    with 1 show ?thesis by (auto simp: show_radix.simps [of r n] to_digit_digit_char)
  next
    case False
    with 1 show ?thesis by (auto simp: show_radix.simps [of r n] to_digit_digit_char)
  qed
qed

lemma show_radix_not_Nil [simp]: "show_radix r n \<noteq> []"
  by (subst show_radix.simps) auto

lemma to_digit_not_sign: "to_digit r (CHR ''+'') = None" "to_digit r (CHR ''-'') = None"
  "to_digit r (CHR ''.'') = None" "to_digit r (CHR ''/'') = None" "to_digit r (CHR '':'') = None"
  by (simp_all add: to_digit_def is_digit_def)

lemma to_digit_Some_sign: "to_digit r c = Some d \<Longrightarrow> c \<noteq> CHR ''+''"
  using to_digit_not_sign(1) [of r] by auto

lemma parse_uint_show:
  assumes "2 \<le> r" "r \<le> 16" "n \<le> mx"
  shows "parse_uint mx r (show_radix r n) = Some n"
proof -
  obtain c cs where s: "show_radix r n = c # cs" by (cases "show_radix r n") auto
  with show_radix_chars [of r c n] assms obtain d where "to_digit r c = Some d" by auto
  then have "c \<noteq> CHR ''+''" by (rule to_digit_Some_sign)
  with s digits_val_show [of r n] assms show ?thesis by (simp add: parse_uint_def)
qed

lemma parse_uint_le: "parse_uint mx r s = Some n \<Longrightarrow> n \<le> mx"
  by (auto simp: parse_uint_def Let_def split: if_splits option.splits list.splits)

lemma parse_hex2: "parse_hex_u8 (hex2 b) = Some b"
proof -
  have b: "unat b < 256" using unsigned_less [of b, where 'a = nat] by simp
  then have "unat b div 16 < 16" "unat b mod 16 < 16" by (auto simp: less_mult_imp_div_less)
  then have d: "to_digit 16 (digit_char (unat b div 16)) = Some (unat b div 16)"
    "to_digit 16 (digit_char (unat b mod 16)) = Some (unat b mod 16)"
    by (simp_all add: to_digit_digit_char)
  have "digit_char (unat b div 16) \<noteq> CHR ''+''" by (rule to_digit_Some_sign [OF d(1)])
  with d b show ?thesis by (simp add: parse_hex_u8_def parse_uint_def hex2_def)
qed

section \<open>Lines and numbers read back\<close>

lemma contains_whitespace_nl: "nl \<in> set s \<Longrightarrow> contains_whitespace s"
  by (induction s) auto

lemma show_nat_digits: "c \<in> set (show_nat n) \<Longrightarrow> is_digit c"
proof -
  assume "c \<in> set (show_nat n)"
  then have "to_digit 10 c \<noteq> None" by (intro show_radix_chars) auto
  then show ?thesis by (auto simp: to_digit_def split: if_splits)
qed

lemma show_nat_plain: "c \<in> set (show_nat n) \<Longrightarrow> 48 \<le> code_of c \<and> code_of c \<le> 57"
  using show_nat_digits [of c n] by (auto simp: is_digit_def)

lemma show_nat_free [simp]:
  "nl \<notin> set (show_nat n)" "tab \<notin> set (show_nat n)" "cr \<notin> set (show_nat n)" "nul \<notin> set (show_nat n)"
  by (auto dest: show_nat_plain)

lemma parse_u32_show [simp]: "parse_u32 (show_nat (unat n)) = Some n"
proof -
  have "unat n \<le> 4294967295" using unsigned_less [of n, where 'a = nat] by simp
  then show ?thesis by (simp add: parse_u32_def parse_uint_show)
qed

lemma parse_i32_show:
  assumes "- 2147483648 \<le> i" "i < 2147483648"
  shows "parse_i32 (show_int i) = Some i"
proof (cases "i < 0")
  case True
  have "digits_val 10 (show_nat (nat (- i))) 0 = Some (nat (- i))"
    by (rule digits_val_show) auto
  with True assms show ?thesis by (simp add: parse_i32_def show_int_def)
next
  case False
  obtain c cs where cs: "show_nat (nat i) = c # cs" by (cases "show_nat (nat i)") auto
  then have "c \<noteq> CHR ''-''" using show_nat_plain [of c "nat i"] by auto
  with False assms cs parse_uint_show [of 10 "nat i" 2147483647] show ?thesis
    by (simp add: parse_i32_def show_int_def)
qed

definition unlines :: "string list \<Rightarrow> string" where
  "unlines ls = concat (map (\<lambda>l. l @ [nl]) ls)"

lemma split_unlines:
  "\<forall>l \<in> set ls. nl \<notin> set l \<Longrightarrow> split_on nl (unlines ls) = ls @ [[]]"
proof (induction ls)
  case (Cons l ls)
  then have "\<forall>c \<in> set l. c \<noteq> nl" by auto
  with Cons show ?case by (simp add: unlines_def split_by_append)
qed (simp add: unlines_def)

lemma lines_unlines:
  "\<forall>l \<in> set ls. nl \<notin> set l \<and> strip_cr l = l \<Longrightarrow> lines (unlines ls) = ls"
  by (simp add: lines_def split_unlines map_idI)

end
