(* ===== verification/Security.thy ===== *)
theory Security
  imports Rust_Str
begin

text \<open>
  Input validation (\<^verbatim>\<open>src/src/security/validation.rs\<close>), peer identities and the capability check
  (\<^verbatim>\<open>permissions.rs\<close>, \<^verbatim>\<open>policy.rs\<close>), and the secrets store (\<^verbatim>\<open>secrets.rs\<close>). The user and group
  database is a parameter; the secrets directory is the map of its files, and every file operation
  may fail with an error of the caller's choosing.
\<close>

section \<open>Validation\<close>

definition validate_interface_name :: "string \<Rightarrow> unit result" where
  "validate_interface_name name =
     (if name = [] \<or> 15 < length name then
        Inl (Parse (''interface name '' @ quoted name @ '' must be 1-15 characters''))
      else if CHR ''/'' \<in> set name \<or> contains_whitespace name \<or> name = ''.'' \<or> name = ''..'' then
        Inl (Parse (''interface name '' @ quoted name @ '' contains invalid characters''))
      else Inr ())"

definition validate_ssid :: "string \<Rightarrow> unit result" where
  "validate_ssid ssid =
     (if ssid = [] \<or> 32 < length ssid then Inl (Parse ''SSID must be 1-32 bytes'')
      else if nul \<in> set ssid \<or> nl \<in> set ssid \<or> dquote \<in> set ssid then
        Inl (Parse ''SSID contains invalid characters'')
      else Inr ())"

definition validate_wpa_passphrase :: "string \<Rightarrow> unit result" where
  "validate_wpa_passphrase pass =
     (if length pass < 8 \<or> 63 < length pass then
        Inl (Parse ''WPA passphrase must be 8-63 characters'')
      else if \<not> list_all is_ascii pass then Inl (Parse ''WPA passphrase must be ASCII'')
      else Inr ())"

definition identifier_char :: "char \<Rightarrow> bool" where
  "identifier_char c = (is_alnum c \<or> c = CHR ''-'' \<or> c = CHR ''_'' \<or> c = CHR ''.'')"

definition validate_identifier :: "string \<Rightarrow> unit result" where
  "validate_identifier ident =
     (if ident = [] \<or> 64 < length ident then
        Inl (Parse (''identifier '' @ quoted ident @ '' must be 1-64 characters''))
      else if \<not> list_all identifier_char ident then
        Inl (Parse (''identifier '' @ quoted ident @ '' may only contain letters, digits, ''
          @ quoted ''-'' @ '', '' @ quoted ''_'' @ '', '' @ quoted ''.''))
      else Inr ())"

definition validate_mac_address :: "string \<Rightarrow> unit result" where
  "validate_mac_address mac =
     (let bad = Inl (Parse (quoted mac @ '' is not a valid MAC address''));
          octets = split_on (CHR '':'') mac
      in if length octets \<noteq> 6 then bad
         else if \<not> list_all (\<lambda>octet. length octet = 2 \<and> list_all is_hexdigit octet) octets then bad
         else Inr ())"

definition validate_quoted_value :: "string \<Rightarrow> string \<Rightarrow> unit result" where
  "validate_quoted_value field val =
     (if dquote \<in> set val \<or> bslash \<in> set val \<or> nul \<in> set val \<or> nl \<in> set val then
        Inl (Wifi (field @ '' may not contain a quote, backslash, or control character''))
      else Inr ())"

definition validate_cert_path :: "string \<Rightarrow> string \<Rightarrow> unit result" where
  "validate_cert_path field path =
     (if \<not> starts_with path ''/'' then Inl (Config (field @ '' must be an absolute path''))
      else validate_quoted_value field path)"

definition KNOWN_EAP_METHODS :: "string list" where
  "KNOWN_EAP_METHODS =
     [''TLS'', ''PEAP'', ''TTLS'', ''FAST'', ''LEAP'', ''PWD'', ''PSK'', ''PAX'', ''SAKE'', ''GPSK'',
      ''IKEV2'', ''TNC'', ''GTC'', ''MD5'', ''OTP'', ''SIM'', ''AKA'', ''AKA'' @ [CHR 0x27], ''WSC'', ''TEAP'']"

definition validate_eap_method :: "string \<Rightarrow> unit result" where
  "validate_eap_method meth =
     (if \<not> List.member KNOWN_EAP_METHODS (to_ascii_uppercase meth) then
        Inl (Wifi (quoted meth @ '' is not a recognized EAP method''))
      else Inr ())"

lemma validate_identifier_ok:
  "validate_identifier s = Inr () \<longleftrightarrow> s \<noteq> [] \<and> length s \<le> 64 \<and> list_all identifier_char s"
  by (auto simp: validate_identifier_def)

lemma validate_quoted_value_ok:
  "validate_quoted_value f v = Inr () \<longleftrightarrow>
     dquote \<notin> set v \<and> bslash \<notin> set v \<and> nul \<notin> set v \<and> nl \<notin> set v"
  by (auto simp: validate_quoted_value_def)

lemma validate_ssid_ok:
  "validate_ssid s = Inr () \<longleftrightarrow>
     s \<noteq> [] \<and> length s \<le> 32 \<and> nul \<notin> set s \<and> nl \<notin> set s \<and> dquote \<notin> set s"
  by (auto simp: validate_ssid_def)

lemma identifier_char_plain:
  "identifier_char c \<Longrightarrow> 33 \<le> code_of c \<and> code_of c < 128 \<and> c \<noteq> CHR ''/'' \<and> c \<noteq> dquote"
  by (auto simp: identifier_char_def is_alnum_def is_digit_def is_alpha_def)

section \<open>Peers and capabilities\<close>

record PeerIdentity =
  pi_uid :: u32
  pi_gid :: u32
  pi_pid :: i32

text \<open>\<open>getgrnam\<close>, \<open>getpwuid\<close> (the user name) and \<open>getgrgid\<close> (the member names).\<close>

record GroupDb =
  gd_getgrnam :: "string \<Rightarrow> u32 option"
  gd_getpwuid :: "u32 \<Rightarrow> string option"
  gd_getgrgid :: "u32 \<Rightarrow> string list option"

definition is_root :: "PeerIdentity \<Rightarrow> bool" where
  "is_root p = (pi_uid p = 0)"

definition group_gid :: "GroupDb \<Rightarrow> string \<Rightarrow> u32 option" where
  "group_gid db name = (if nul \<in> set name then None else gd_getgrnam db name)"

definition uid_in_supplementary_group :: "GroupDb \<Rightarrow> u32 \<Rightarrow> u32 \<Rightarrow> bool" where
  "uid_in_supplementary_group db uid gid =
     (case gd_getpwuid db uid of
        None \<Rightarrow> False
      | Some username \<Rightarrow>
          (case gd_getgrgid db gid of
             None \<Rightarrow> False
           | Some members \<Rightarrow> List.member members username))"

definition in_group :: "GroupDb \<Rightarrow> PeerIdentity \<Rightarrow> string \<Rightarrow> bool" where
  "in_group db p group_name =
     (if is_root p then True
      else (case group_gid db group_name of
              Some gid \<Rightarrow> gid = pi_gid p \<or> uid_in_supplementary_group db (pi_uid p) gid
            | None \<Rightarrow> False))"

datatype Capability =
  ViewState | ManageConnections | ManageWifi | ManageVpn | ManageFirewall | ManageHotspot
  | ManageBluetooth | ManageProxy | Admin

definition capability_name :: "Capability \<Rightarrow> string" where
  "capability_name c =
     (case c of
        ViewState \<Rightarrow> ''ViewState'' | ManageConnections \<Rightarrow> ''ManageConnections''
      | ManageWifi \<Rightarrow> ''ManageWifi'' | ManageVpn \<Rightarrow> ''ManageVpn'' | ManageFirewall \<Rightarrow> ''ManageFirewall''
      | ManageHotspot \<Rightarrow> ''ManageHotspot'' | ManageBluetooth \<Rightarrow> ''ManageBluetooth''
      | ManageProxy \<Rightarrow> ''ManageProxy'' | Admin \<Rightarrow> ''Admin'')"

definition PRIVILEGED_GROUP :: string where "PRIVILEGED_GROUP = ''netdev''"

definition check :: "GroupDb \<Rightarrow> PeerIdentity \<Rightarrow> Capability \<Rightarrow> unit result" where
  "check db identity capability =
     (let allowed = (case capability of
                       ViewState \<Rightarrow> True
                     | Admin \<Rightarrow> is_root identity
                     | _ \<Rightarrow> is_root identity \<or> in_group db identity PRIVILEGED_GROUP)
      in if allowed then Inr ()
         else Inl (PermissionDenied (''uid '' @ show_nat (unat (pi_uid identity)) @ '' lacks ''
                @ capability_name capability)))"

lemma check_ok:
  "check db p c = Inr () \<longleftrightarrow>
     c = ViewState \<or> is_root p \<or> (c \<noteq> Admin \<and> in_group db p PRIVILEGED_GROUP)"
  by (cases c) (auto simp: check_def)

section \<open>Secrets\<close>

text \<open>The faults a file operation may meet: the error text, if it fails, and for a failing write the
  number of bytes written before it.\<close>

record FsFaults =
  ff_read :: "string option"
  ff_mkdir :: "string option"
  ff_open :: "string option"
  ff_chmod :: "string option"
  ff_write :: "(string \<times> nat) option"
  ff_rename :: "string option"
  ff_readdir :: "string option"
  ff_remove :: "string \<Rightarrow> bool"

text \<open>The secrets directory: absent, or the contents of its files by file name.\<close>

type_synonym secrets_dir = "(string \<rightharpoonup> string) option"

definition files :: "secrets_dir \<Rightarrow> string \<rightharpoonup> string" where
  "files d = (case d of Some m \<Rightarrow> m | None \<Rightarrow> Map.empty)"

definition secret_name :: "string \<Rightarrow> string \<Rightarrow> string" where
  "secret_name owner key = owner @ ''.'' @ key"

definition secret_path :: "string \<Rightarrow> string \<Rightarrow> string result" where
  "secret_path owner key =
     bind_r (validate_identifier owner) (\<lambda>_.
     bind_r (validate_identifier key) (\<lambda>_. Inr (secret_name owner key)))"

text \<open>\<open>Path::with_extension("tmp")\<close> on a file name with a dot after its first character: the part
  after the last dot is replaced. A name whose only dot is its first character has no extension,
  and gets one.\<close>

definition with_tmp :: "string \<Rightarrow> string" where
  "with_tmp name =
     (case rsplit_once (CHR ''.'') name of
        Some (stem, _) \<Rightarrow> if stem = [] then name @ ''.tmp'' else stem @ ''.tmp''
      | None \<Rightarrow> name @ ''.tmp'')"

definition secret_get :: "FsFaults \<Rightarrow> string \<Rightarrow> string \<Rightarrow> secrets_dir \<Rightarrow> string option result" where
  "secret_get F owner key d =
     bind_r (secret_path owner key) (\<lambda>path.
       case ff_read F of
         Some e \<Rightarrow> Inl (Io e)
       | None \<Rightarrow> Inr (files d path))"

text \<open>\<open>set\<close>: the directory is created, the temporary file written and renamed over the final one; a
  fault leaves what was done before it.\<close>

definition secret_set ::
    "FsFaults \<Rightarrow> string \<Rightarrow> string \<Rightarrow> string \<Rightarrow> secrets_dir \<Rightarrow> unit result \<times> secrets_dir" where
  "secret_set F owner key val d =
     (case secret_path owner key of
        Inl e \<Rightarrow> (Inl e, d)
      | Inr path \<Rightarrow>
          (case ff_mkdir F of
             Some e \<Rightarrow> (Inl (Io e), d)
           | None \<Rightarrow>
               let m = files d; tmp = with_tmp path
               in (case ff_open F of
                    Some e \<Rightarrow> (Inl (Io e), Some m)
                  | None \<Rightarrow>
                      (case ff_chmod F of
                         Some e \<Rightarrow> (Inl (Io e), Some (m(tmp \<mapsto> [])))
                       | None \<Rightarrow>
                           (case ff_write F of
                              Some (e, n) \<Rightarrow> (Inl (Io e), Some (m(tmp \<mapsto> take n val)))
                            | None \<Rightarrow>
                                (case ff_rename F of
                                   Some e \<Rightarrow> (Inl (Io e), Some (m(tmp \<mapsto> val)))
                                 | None \<Rightarrow> (Inr (), Some ((m(tmp := None))(path \<mapsto> val)))))))))"

definition secret_delete_all :: "FsFaults \<Rightarrow> string \<Rightarrow> secrets_dir \<Rightarrow> unit result \<times> secrets_dir" where
  "secret_delete_all F owner d =
     (case validate_identifier owner of
        Inl e \<Rightarrow> (Inl e, d)
      | Inr _ \<Rightarrow>
          (case d of
             None \<Rightarrow> (Inr (), d)
           | Some m \<Rightarrow>
               (case ff_readdir F of
                  Some e \<Rightarrow> (Inl (Io e), d)
                | None \<Rightarrow>
                    (Inr (), Some (\<lambda>name. if starts_with name (owner @ ''.'') \<and> \<not> ff_remove F name
                                           then None else m name)))))"

text \<open>The null backend.\<close>

definition null_get :: "string \<Rightarrow> string \<Rightarrow> string option result" where
  "null_get owner key = Inr None"

definition null_set :: "string \<Rightarrow> string \<Rightarrow> string \<Rightarrow> unit result" where
  "null_set owner key val =
     Inl (Other (''no secrets backend configured; cannot store a secret for '' @ quoted owner))"

definition null_delete_all :: "string \<Rightarrow> unit result" where
  "null_delete_all owner = Inr ()"

section \<open>The contract of a secrets backend\<close>

text \<open>
  What \<open>trait SecretsBackend\<close> promises its callers: a stored secret is read back, secrets with
  names that stand apart do not disturb each other, and a deleted owner has no secrets left.
\<close>

locale secrets_contract =
  fixes getf :: "string \<Rightarrow> string \<Rightarrow> 's \<Rightarrow> string option result"
    and setf :: "string \<Rightarrow> string \<Rightarrow> string \<Rightarrow> 's \<Rightarrow> unit result \<times> 's"
    and delf :: "string \<Rightarrow> 's \<Rightarrow> unit result \<times> 's"
    and apart :: "string \<times> string \<Rightarrow> string \<times> string \<Rightarrow> bool"
  assumes get_set: "setf ow k v s = (Inr (), s') \<Longrightarrow> getf ow k s' = Inr (Some v)"
    and get_apart: "setf ow k v s = (r, s') \<Longrightarrow> apart (ow, k) (ow', k') \<Longrightarrow> getf ow' k' s' = getf ow' k' s"
    and get_deleted: "delf ow s = (Inr (), s') \<Longrightarrow> getf ow k s' = Inr (Some v) \<Longrightarrow> False"
begin

text \<open>A secret survives any later store under a name that stands apart from it.\<close>

lemma get_set_set:
  assumes "setf ow k v s = (Inr (), s1)" "setf ow' k' v' s1 = (r, s2)" "apart (ow', k') (ow, k)"
  shows "getf ow k s2 = Inr (Some v)"
  using get_apart [OF assms(2,3)] get_set [OF assms(1)] by simp

lemma overwrite:
  assumes "setf ow k v s = (Inr (), s1)" "setf ow k v' s1 = (Inr (), s2)"
  shows "getf ow k s2 = Inr (Some v')"
  using get_set [OF assms(2)] .

end

definition no_faults :: FsFaults where
  "no_faults = \<lparr>ff_read = None, ff_mkdir = None, ff_open = None, ff_chmod = None, ff_write = None,
     ff_rename = None, ff_readdir = None, ff_remove = (\<lambda>_. False)\<rparr>"

lemma no_faults_simps [simp]:
  "ff_read no_faults = None" "ff_mkdir no_faults = None" "ff_open no_faults = None"
  "ff_chmod no_faults = None" "ff_write no_faults = None" "ff_rename no_faults = None"
  "ff_readdir no_faults = None" "\<not> ff_remove no_faults n"
  by (simp_all add: no_faults_def)

definition names_apart :: "string \<times> string \<Rightarrow> string \<times> string \<Rightarrow> bool" where
  "names_apart = (\<lambda>(ow, k) (ow', k').
     secret_name ow k \<noteq> secret_name ow' k' \<and> with_tmp (secret_name ow k) \<noteq> secret_name ow' k')"

lemma secret_get_no_faults:
  "secret_get no_faults ow k d =
     bind_r (validate_identifier ow) (\<lambda>_. bind_r (validate_identifier k) (\<lambda>_. Inr (files d (secret_name ow k))))"
  by (auto simp: secret_get_def secret_path_def bind_r_assoc bind_r_def split: sum.splits)

lemma secret_set_files:
  assumes "secret_set F ow k v d = (r, d')" "name \<noteq> secret_name ow k" "name \<noteq> with_tmp (secret_name ow k)"
  shows "files d' name = files d name"
  using assms
  by (auto simp: secret_set_def secret_path_def bind_r_eq_Inr Let_def files_def
      split: sum.splits option.splits prod.splits)

interpretation file_secrets: secrets_contract "secret_get no_faults" "secret_set F" "secret_delete_all no_faults"
  names_apart for F
proof
  fix ow k v s s' r ow' k'
  show "secret_set F ow k v s = (Inr (), s') \<Longrightarrow> secret_get no_faults ow k s' = Inr (Some v)"
    by (auto simp: secret_set_def secret_get_def secret_path_def bind_r_eq_Inr Let_def
        files_def split: sum.splits option.splits prod.splits)
  show "secret_set F ow k v s = (r, s') \<Longrightarrow> names_apart (ow, k) (ow', k')
      \<Longrightarrow> secret_get no_faults ow' k' s' = secret_get no_faults ow' k' s"
    using secret_set_files [of F ow k v s r s' "secret_name ow' k'"]
    by (auto simp: names_apart_def secret_get_no_faults)
  show "secret_delete_all no_faults ow s = (Inr (), s') \<Longrightarrow> secret_get no_faults ow k s' = Inr (Some v) \<Longrightarrow> False"
    by (auto simp: secret_delete_all_def secret_get_no_faults bind_r_eq_Inr files_def
        starts_with_iff secret_name_def split: sum.splits option.splits if_splits)
qed

text \<open>Owners and keys without a dot, and no key called \<open>tmp\<close>, stand apart.\<close>

definition dotless :: "string \<Rightarrow> bool" where
  "dotless s = (CHR ''.'' \<notin> set s)"

lemma with_tmp_path: "dotless k \<Longrightarrow> ow \<noteq> [] \<Longrightarrow> with_tmp (secret_name ow k) = secret_name ow ''tmp''"
proof -
  assume a: "dotless k" "ow \<noteq> []"
  then have "rsplit_once (CHR ''.'') (ow @ ''.'' @ k) = Some (ow, k)"
    by (simp add: rsplit_once_Some dotless_def)
  with a show ?thesis by (simp add: with_tmp_def secret_name_def)
qed

lemma path_inject: "dotless ow \<Longrightarrow> dotless ow' \<Longrightarrow> secret_name ow k = secret_name ow' k' \<longleftrightarrow> ow = ow' \<and> k = k'"
proof -
  assume "dotless ow" "dotless ow'"
  then have "split_once (CHR ''.'') (ow @ ''.'' @ k) = Some (ow, k)"
    "split_once (CHR ''.'') (ow' @ ''.'' @ k') = Some (ow', k')"
    by (simp_all add: split_once_Some dotless_def)
  then show ?thesis unfolding secret_name_def by (metis option.inject prod.inject)
qed

lemma dotless_apart:
  assumes "dotless ow" "dotless ow'" "dotless k" "ow \<noteq> []" "k' \<noteq> ''tmp''" "(ow, k) \<noteq> (ow', k')"
  shows "names_apart (ow, k) (ow', k')"
  using assms path_inject [of ow ow' k k'] path_inject [of ow ow' "''tmp''" k']
  by (auto simp: names_apart_def with_tmp_path)

section \<open>Properties\<close>



text \<open>
  Deleting an owner also deletes the secrets of every owner whose name extends it after a dot:
  once \<open>delete_all\<close> for an owner succeeds, a secret stored for the owner \<open>owner.sub\<close> is gone too.
\<close>

theorem delete_all_crosses_owners:
  assumes "secret_set no_faults (ow @ ''.'' @ sub) k v d = (Inr (), d1)"
    and "secret_delete_all no_faults ow d1 = (Inr (), d2)"
  shows "secret_get no_faults (ow @ ''.'' @ sub) k d1 = Inr (Some v)
    \<and> secret_get no_faults (ow @ ''.'' @ sub) k d2 = Inr None"
proof
  show g: "secret_get no_faults (ow @ ''.'' @ sub) k d1 = Inr (Some v)"
    by (rule file_secrets.get_set [OF assms(1)])
  have "files d2 (secret_name (ow @ ''.'' @ sub) k) = None"
    using assms(2)
    by (auto simp: secret_delete_all_def files_def starts_with_iff secret_name_def
        split: sum.splits option.splits)
  with g show "secret_get no_faults (ow @ ''.'' @ sub) k d2 = Inr None"
    by (auto simp: secret_get_no_faults bind_r_eq_Inr bind_r_def split: sum.splits)
qed

theorem delete_all_crosses_owners_witness:
  "secret_get no_faults ''vpn.work'' ''psk''
     (snd (secret_delete_all no_faults ''vpn''
       (snd (secret_set no_faults ''vpn.work'' ''psk'' ''pw'' None)))) = Inr None"
proof -
  have v: "validate_identifier ''vpn.work'' = Inr ()" "validate_identifier ''psk'' = Inr ()"
    "validate_identifier ''vpn'' = Inr ()"
    by (simp_all add: validate_identifier_def identifier_char_def is_alnum_def is_alpha_def is_digit_def)
  have s: "secret_set no_faults (''vpn'' @ ''.'' @ ''work'') ''psk'' ''pw'' None
      = (Inr (), snd (secret_set no_faults ''vpn.work'' ''psk'' ''pw'' None))"
    by (simp add: secret_set_def secret_path_def v Let_def)
  have d: "secret_delete_all no_faults ''vpn'' (snd (secret_set no_faults ''vpn.work'' ''psk'' ''pw'' None))
      = (Inr (), snd (secret_delete_all no_faults ''vpn''
          (snd (secret_set no_faults ''vpn.work'' ''psk'' ''pw'' None))))"
    by (simp add: secret_delete_all_def v split: option.splits)
  show ?thesis using delete_all_crosses_owners [OF s d] by simp
qed

end
