(* ===== verification/Hash_Map.thy ===== *)
theory Hash_Map
  imports Net_Prelude
begin

text \<open>
  \<open>std::collections::HashMap\<close> as an association list with distinct keys. The order of the list stands
  for the map's unspecified iteration order; the laws clients rely on are the locale below.
\<close>

definition hm_get :: "('k \<times> 'v) list \<Rightarrow> 'k \<Rightarrow> 'v option" where
  "hm_get m k = map_of m k"

definition hm_remove :: "'k \<Rightarrow> ('k \<times> 'v) list \<Rightarrow> ('k \<times> 'v) list" where
  "hm_remove k m = filter (\<lambda>(k', _). k' \<noteq> k) m"

definition hm_insert :: "'k \<Rightarrow> 'v \<Rightarrow> ('k \<times> 'v) list \<Rightarrow> ('k \<times> 'v) list" where
  "hm_insert k v m = (k, v) # hm_remove k m"

definition hm_values :: "('k \<times> 'v) list \<Rightarrow> 'v list" where
  "hm_values m = map snd m"

definition hm_ok :: "('k \<times> 'v) list \<Rightarrow> bool" where
  "hm_ok m = distinct (map fst m)"

text \<open>\<open>if let Some(v) = map.get_mut(k)\<close>: the value is changed in place.\<close>

definition hm_modify :: "'k \<Rightarrow> ('v \<Rightarrow> 'v) \<Rightarrow> ('k \<times> 'v) list \<Rightarrow> ('k \<times> 'v) list" where
  "hm_modify k f m = map (\<lambda>(k', v). (k', if k' = k then f v else v)) m"

locale hash_map_laws =
  fixes get :: "'m \<Rightarrow> 'k \<Rightarrow> 'v option"
    and ins :: "'k \<Rightarrow> 'v \<Rightarrow> 'm \<Rightarrow> 'm"
    and del :: "'k \<Rightarrow> 'm \<Rightarrow> 'm"
    and emp :: 'm
  assumes get_emp: "get emp k = None"
    and get_ins: "get (ins k v m) j = (if j = k then Some v else get m j)"
    and get_del: "get (del k m) j = (if j = k then None else get m j)"
begin

lemma ins_twice: "get (ins k v (ins k u m)) = get (ins k v m)"
  by (simp add: get_ins fun_eq_iff)

lemma del_ins: "get (del k (ins k v m)) = get (del k m)"
  by (simp add: get_ins get_del fun_eq_iff)

text \<open>Building a map by inserting a list: the last value of a key wins.\<close>

lemma get_fold_ins: "get (fold (\<lambda>(k, v). ins k v) kvs m) j =
    (case map_of (rev kvs) j of Some v \<Rightarrow> Some v | None \<Rightarrow> get m j)"
proof (induction kvs arbitrary: m)
  case (Cons kv kvs)
  then show ?case
    by (cases kv) (auto simp: get_ins map_add_def split: option.splits)
qed simp

end

lemma map_of_remove: "map_of (hm_remove k m) j = (if j = k then None else map_of m j)"
  by (induction m) (auto simp: hm_remove_def)

interpretation hm: hash_map_laws hm_get hm_insert hm_remove "[]"
  by unfold_locales (simp_all add: hm_get_def hm_insert_def map_of_remove)

lemma hm_ok_remove [simp]: "hm_ok m \<Longrightarrow> hm_ok (hm_remove k m)"
  by (induction m) (auto simp: hm_ok_def hm_remove_def)

lemma hm_ok_insert [simp]: "hm_ok m \<Longrightarrow> hm_ok (hm_insert k v m)"
  using hm_ok_remove [of m k] by (auto simp: hm_ok_def hm_insert_def hm_remove_def)

lemma hm_ok_Nil [simp]: "hm_ok []"
  by (simp add: hm_ok_def)

lemma hm_modify_keys [simp]: "map fst (hm_modify k f m) = map fst m"
  by (induction m) (auto simp: hm_modify_def)

lemma hm_ok_modify [simp]: "hm_ok (hm_modify k f m) = hm_ok m"
  by (simp add: hm_ok_def)

lemma hm_get_modify: "hm_get (hm_modify k f m) j = (if j = k then map_option f (hm_get m j) else hm_get m j)"
  by (induction m) (auto simp: hm_modify_def hm_get_def)

lemma hm_values_get: "hm_ok m \<Longrightarrow> v \<in> set (hm_values m) \<longleftrightarrow> (\<exists>k. hm_get m k = Some v)"
  by (force simp: hm_values_def hm_get_def hm_ok_def)

end
