(* ===== verification/Rust_Io.thy ===== *)
theory Rust_Io
  imports Net_Prelude
begin

text \<open>
  Effectful code. A call that reads or changes the outside world (the kernel, a file, a clock) is
  a function of an explicit world state; it returns a result and the new world, panics, or, where
  a loop was given too little fuel, does not return. The early return \<open>?\<close> is \<open>bind_io\<close>, the
  ignored result \<open>let _ = ...\<close> is \<open>ignore_io\<close>, a \<open>for\<close> loop whose body uses \<open>?\<close> is \<open>for_io\<close>.
\<close>

datatype 'a outcome = Ret 'a | Panic | NoFuel

type_synonym ('w, 'a) io = "'w \<Rightarrow> ('a result \<times> 'w) outcome"

definition return_io :: "'a \<Rightarrow> ('w, 'a) io" where
  "return_io x = (\<lambda>w. Ret (Inr x, w))"

definition fail_io :: "NetworkError \<Rightarrow> ('w, 'a) io" where
  "fail_io e = (\<lambda>w. Ret (Inl e, w))"

definition lift_io :: "'a result \<Rightarrow> ('w, 'a) io" where
  "lift_io r = (\<lambda>w. Ret (r, w))"

definition bind_io :: "('w, 'a) io \<Rightarrow> ('a \<Rightarrow> ('w, 'b) io) \<Rightarrow> ('w, 'b) io" where
  "bind_io m f =
     (\<lambda>w. case m w of
            Ret (Inr x, w') \<Rightarrow> f x w'
          | Ret (Inl e, w') \<Rightarrow> Ret (Inl e, w')
          | Panic \<Rightarrow> Panic
          | NoFuel \<Rightarrow> NoFuel)"

definition try_io :: "('w, 'a) io \<Rightarrow> ('w, 'a result) io" where
  "try_io m =
     (\<lambda>w. case m w of
            Ret (r, w') \<Rightarrow> Ret (Inr r, w')
          | Panic \<Rightarrow> Panic
          | NoFuel \<Rightarrow> NoFuel)"

definition then_io :: "('w, unit) io \<Rightarrow> ('w, 'b) io \<Rightarrow> ('w, 'b) io" where
  "then_io m n = bind_io m (\<lambda>_. n)"

definition ignore_io :: "('w, 'a) io \<Rightarrow> ('w, unit) io" where
  "ignore_io m = bind_io (try_io m) (\<lambda>_. return_io ())"

definition map_err_io :: "(NetworkError \<Rightarrow> NetworkError) \<Rightarrow> ('w, 'a) io \<Rightarrow> ('w, 'a) io" where
  "map_err_io f m = bind_io (try_io m) (\<lambda>r. lift_io (map_err f r))"

fun for_io :: "'a list \<Rightarrow> ('a \<Rightarrow> ('w, unit) io) \<Rightarrow> ('w, unit) io" where
  "for_io [] f = return_io ()"
| "for_io (x # xs) f = then_io (f x) (for_io xs f)"

fun map_io :: "'a list \<Rightarrow> ('a \<Rightarrow> ('w, 'b) io) \<Rightarrow> ('w, 'b list) io" where
  "map_io [] f = return_io []"
| "map_io (x # xs) f = bind_io (f x) (\<lambda>y. bind_io (map_io xs f) (\<lambda>ys. return_io (y # ys)))"

text \<open>Calls of the outside world: one that always answers, a system call that may fail with a
  message, and one whose answer is already a result.\<close>

definition ask :: "('w \<Rightarrow> 'a \<times> 'w) \<Rightarrow> ('w, 'a) io" where
  "ask f = (\<lambda>w. case f w of (x, w') \<Rightarrow> Ret (Inr x, w'))"

definition sys_call :: "(string \<Rightarrow> NetworkError) \<Rightarrow> ('w \<Rightarrow> (string + 'a) \<times> 'w) \<Rightarrow> ('w, 'a) io" where
  "sys_call mk f = (\<lambda>w. case f w of (Inl e, w') \<Rightarrow> Ret (Inl (mk e), w') | (Inr x, w') \<Rightarrow> Ret (Inr x, w'))"

definition ask_result :: "('w \<Rightarrow> 'a result \<times> 'w) \<Rightarrow> ('w, 'a) io" where
  "ask_result f = (\<lambda>w. Ret (f w))"

lemmas io_defs = return_io_def fail_io_def lift_io_def bind_io_def try_io_def then_io_def
  ignore_io_def map_err_io_def

lemma bind_io_Ret [simp]:
  "m w = Ret (Inr x, w') \<Longrightarrow> bind_io m f w = f x w'"
  "m w = Ret (Inl e, w') \<Longrightarrow> bind_io m f w = Ret (Inl e, w')"
  "m w = Panic \<Longrightarrow> bind_io m f w = Panic"
  "m w = NoFuel \<Longrightarrow> bind_io m f w = NoFuel"
  by (simp_all add: bind_io_def)

lemma io_unit_laws [simp]:
  "bind_io (return_io x) f = f x"
  "bind_io (fail_io e) f = fail_io e"
  "bind_io m return_io = m"
  by (auto simp: io_defs fun_eq_iff split: outcome.splits sum.splits prod.splits)

lemma bind_io_assoc: "bind_io (bind_io m f) g = bind_io m (\<lambda>x. bind_io (f x) g)"
  by (auto simp: bind_io_def fun_eq_iff split: outcome.splits sum.splits)

lemma bind_io_Ok:
  "bind_io m f w = Ret (Inr y, w2) \<longleftrightarrow>
     (\<exists>x w1. m w = Ret (Inr x, w1) \<and> f x w1 = Ret (Inr y, w2))"
  by (auto simp: bind_io_def split: outcome.splits sum.splits prod.splits)

lemma io_results [simp]:
  "return_io x w = Ret (r, w') \<longleftrightarrow> r = Inr x \<and> w' = w"
  "fail_io e w = Ret (r, w') \<longleftrightarrow> r = Inl e \<and> w' = w"
  "lift_io q w = Ret (r, w') \<longleftrightarrow> r = q \<and> w' = w"
  by (auto simp: io_defs)

lemma return_io_apply: "return_io x w = Ret (Inr x, w)"
  by (simp add: return_io_def)

lemma try_io_Ret [simp]: "m w = Ret (r, w') \<Longrightarrow> try_io m w = Ret (Inr r, w')"
  by (simp add: try_io_def)

text \<open>
  Hoare-style invariants: a world predicate that every step of a call keeps. \<open>keeps_io P m\<close> says
  that \<open>m\<close> keeps \<open>P\<close> whatever result it returns; it composes over all the combinators.
\<close>

definition keeps_io :: "('w \<Rightarrow> bool) \<Rightarrow> ('w, 'a) io \<Rightarrow> bool" where
  "keeps_io P m = (\<forall>w r w'. P w \<longrightarrow> m w = Ret (r, w') \<longrightarrow> P w')"

lemma keeps_ioI [intro?]: "(\<And>w r w'. P w \<Longrightarrow> m w = Ret (r, w') \<Longrightarrow> P w') \<Longrightarrow> keeps_io P m"
  by (simp add: keeps_io_def)

lemma keeps_ioD: "keeps_io P m \<Longrightarrow> m w = Ret (r, w') \<Longrightarrow> P w \<Longrightarrow> P w'"
  by (simp add: keeps_io_def)

named_theorems keeps_intros

lemma keeps_basic [keeps_intros, simp]:
  "keeps_io P (return_io x)" "keeps_io P (fail_io e)" "keeps_io P (lift_io r)"
  by (auto simp: keeps_io_def io_defs)

lemma bind_io_cases:
  assumes "bind_io m f w = Ret (r, w')"
  obtains (ok) x w1 where "m w = Ret (Inr x, w1)" "f x w1 = Ret (r, w')"
    | (err) e where "m w = Ret (Inl e, w')" "r = Inl e"
proof (cases "m w")
  case (Ret a)
  obtain q w1 where a: "a = (q, w1)" by (cases a)
  show thesis
    by (cases q) (use assms Ret a ok err in \<open>auto simp: bind_io_def\<close>)
qed (use assms in \<open>auto simp: bind_io_def\<close>)

lemma keeps_bind [keeps_intros]:
  assumes m: "keeps_io P m" and f: "\<And>x. keeps_io P (f x)"
  shows "keeps_io P (bind_io m f)"
proof
  fix w r w'
  assume w: "P w" and r: "bind_io m f w = Ret (r, w')"
  from r show "P w'"
  proof (cases rule: bind_io_cases)
    case (ok x w1)
    then show ?thesis using keeps_ioD [OF m _ w] keeps_ioD [OF f [of x]] by blast
  next
    case err
    then show ?thesis using keeps_ioD [OF m _ w] by blast
  qed
qed

lemma keeps_try [keeps_intros]: "keeps_io P m \<Longrightarrow> keeps_io P (try_io m)"
  unfolding keeps_io_def try_io_def by (auto split: outcome.splits)

lemma keeps_then [keeps_intros]: "keeps_io P m \<Longrightarrow> keeps_io P n \<Longrightarrow> keeps_io P (then_io m n)"
  unfolding then_io_def by (rule keeps_bind)

lemma keeps_ignore [keeps_intros]: "keeps_io P m \<Longrightarrow> keeps_io P (ignore_io m)"
  unfolding ignore_io_def by (intro keeps_intros)

lemma keeps_map_err [keeps_intros]: "keeps_io P m \<Longrightarrow> keeps_io P (map_err_io f m)"
  unfolding map_err_io_def by (intro keeps_intros)

lemma keeps_for [keeps_intros]: "(\<And>x. x \<in> set xs \<Longrightarrow> keeps_io P (f x)) \<Longrightarrow> keeps_io P (for_io xs f)"
  by (induction xs) (auto intro: keeps_intros)

lemma keeps_map [keeps_intros]: "(\<And>x. x \<in> set xs \<Longrightarrow> keeps_io P (f x)) \<Longrightarrow> keeps_io P (map_io xs f)"
  by (induction xs) (auto intro!: keeps_intros)

lemma keeps_lift_then [keeps_intros]:
  "(r = Inr () \<Longrightarrow> keeps_io P m) \<Longrightarrow> keeps_io P (then_io (lift_io r) m)"
  by (cases r) (auto simp: keeps_io_def io_defs)

lemma keeps_sys_call: "(\<And>w r w'. P w \<Longrightarrow> f w = (r, w') \<Longrightarrow> P w') \<Longrightarrow> keeps_io P (sys_call mk f)"
  unfolding keeps_io_def sys_call_def by (auto split: prod.splits sum.splits)

lemma keeps_ask: "(\<And>w x w'. P w \<Longrightarrow> f w = (x, w') \<Longrightarrow> P w') \<Longrightarrow> keeps_io P (ask f)"
  unfolding keeps_io_def ask_def by (auto split: prod.splits)

text \<open>Calls that always return: no panic and no missing fuel.\<close>

definition returns_io :: "('w, 'a) io \<Rightarrow> bool" where
  "returns_io m = (\<forall>w. \<exists>r w'. m w = Ret (r, w'))"

lemma returns_basic [simp]:
  "returns_io (return_io x)" "returns_io (fail_io e)" "returns_io (lift_io r)"
  by (auto simp: returns_io_def io_defs)

lemma returns_bind:
  assumes "returns_io m" "\<And>x. returns_io (f x)"
  shows "returns_io (bind_io m f)"
  unfolding returns_io_def
proof
  fix w
  obtain r w1 where m: "m w = Ret (r, w1)" using assms(1) unfolding returns_io_def by blast
  show "\<exists>r w'. bind_io m f w = Ret (r, w')"
  proof (cases r)
    case (Inl e)
    with m show ?thesis by simp
  next
    case (Inr x)
    with m assms(2) [of x] show ?thesis by (auto simp: returns_io_def)
  qed
qed

lemma returns_calls [simp]: "returns_io (ask f)" "returns_io (sys_call mk g)" "returns_io (ask_result h)"
  by (auto simp: returns_io_def ask_def sys_call_def ask_result_def split: prod.splits sum.splits)

lemma returns_then: "returns_io m \<Longrightarrow> returns_io n \<Longrightarrow> returns_io (then_io m n)"
  unfolding then_io_def by (rule returns_bind)

lemma returns_try: "returns_io m \<Longrightarrow> returns_io (try_io m)"
  unfolding returns_io_def by (metis try_io_Ret)

lemma returns_ignore: "returns_io m \<Longrightarrow> returns_io (ignore_io m)"
  unfolding ignore_io_def by (intro returns_bind returns_try) simp_all

lemma returns_for: "(\<And>x. x \<in> set xs \<Longrightarrow> returns_io (f x)) \<Longrightarrow> returns_io (for_io xs f)"
  by (induction xs) (auto intro: returns_then)

lemma returns_map: "(\<And>x. x \<in> set xs \<Longrightarrow> returns_io (f x)) \<Longrightarrow> returns_io (map_io xs f)"
  by (induction xs) (auto intro!: returns_bind)

lemmas returns_intros = returns_bind returns_then returns_try returns_ignore returns_for returns_map

lemma returns_ioD: "returns_io m \<Longrightarrow> \<exists>r w'. m w = Ret (r, w')"
  by (simp add: returns_io_def)

text \<open>Successful calls.\<close>

lemma ask_Ok: "ask f w = Ret (Inr x, w') \<longleftrightarrow> f w = (x, w')"
  by (auto simp: ask_def split: prod.splits)

lemma sys_call_Ok: "sys_call mk f w = Ret (Inr x, w') \<longleftrightarrow> f w = (Inr x, w')"
  by (auto simp: sys_call_def split: prod.splits sum.splits)

lemma then_io_Ok:
  "then_io m n w = Ret (Inr y, w2) \<longleftrightarrow> (\<exists>w1. m w = Ret (Inr (), w1) \<and> n w1 = Ret (Inr y, w2))"
  by (simp add: then_io_def bind_io_Ok)

lemmas io_Ok = bind_io_Ok then_io_Ok ask_Ok sys_call_Ok

section \<open>State beside the world\<close>

text \<open>
  The statics of a module are a state component next to the world: \<open>on_world\<close> runs a call that does
  not touch them, \<open>zoom\<close> one that touches a part of a larger state.
\<close>

definition on_world :: "('w, 'a) io \<Rightarrow> ('s \<times> 'w, 'a) io" where
  "on_world m = (\<lambda>(s, w). case m w of Ret (r, w') \<Rightarrow> Ret (r, (s, w')) | Panic \<Rightarrow> Panic | NoFuel \<Rightarrow> NoFuel)"

definition zoom :: "('s \<Rightarrow> 't) \<Rightarrow> ('t \<Rightarrow> 's \<Rightarrow> 's) \<Rightarrow> ('t \<times> 'w, 'a) io \<Rightarrow> ('s \<times> 'w, 'a) io" where
  "zoom get put m =
     (\<lambda>(s, w). case m (get s, w) of Ret (r, (t, w')) \<Rightarrow> Ret (r, (put t s, w')) | Panic \<Rightarrow> Panic | NoFuel \<Rightarrow> NoFuel)"

definition get_state :: "('s \<Rightarrow> 'a) \<Rightarrow> ('s \<times> 'w, 'a) io" where
  "get_state f = (\<lambda>(s, w). Ret (Inr (f s), (s, w)))"

definition modify_state :: "('s \<Rightarrow> 's) \<Rightarrow> ('s \<times> 'w, unit) io" where
  "modify_state f = (\<lambda>(s, w). Ret (Inr (), (f s, w)))"

lemma state_calls [simp]:
  "get_state f (s, w) = Ret (Inr (f s), (s, w))"
  "modify_state g (s, w) = Ret (Inr (), (g s, w))"
  by (simp_all add: get_state_def modify_state_def)

lemma on_world_Ret: "m w = Ret (r, w') \<Longrightarrow> on_world m (s, w) = Ret (r, (s, w'))"
  by (simp add: on_world_def)

lemma zoom_Ret: "m (get s, w) = Ret (r, (t, w')) \<Longrightarrow> zoom get put m (s, w) = Ret (r, (put t s, w'))"
  by (simp add: zoom_def)

lemma on_world_cases:
  assumes "on_world m (s, w) = Ret (r, (s', w'))"
  shows "s' = s \<and> m w = Ret (r, w')"
  using assms by (auto simp: on_world_def split: outcome.splits)

lemma zoom_cases:
  assumes "zoom get put m (s, w) = Ret (r, (s', w'))"
  obtains t where "s' = put t s" "m (get s, w) = Ret (r, (t, w'))"
  using assms by (auto simp: zoom_def split: outcome.splits)

lemma returns_state [simp]: "returns_io (get_state f)" "returns_io (modify_state g)"
  by (auto simp: returns_io_def get_state_def modify_state_def)

lemma returns_on_world: "returns_io m \<Longrightarrow> returns_io (on_world m)"
  unfolding returns_io_def on_world_def
proof (clarify)
  fix s w
  assume "\<forall>w. \<exists>r w'. m w = Ret (r, w')"
  then obtain r w' where "m w = Ret (r, w')" by blast
  then show "\<exists>r w'. (case m w of Ret (r, w') \<Rightarrow> Ret (r, s, w') | Panic \<Rightarrow> Panic | NoFuel \<Rightarrow> NoFuel) = Ret (r, w')"
    by simp
qed

lemma returns_zoom: "returns_io m \<Longrightarrow> returns_io (zoom get put m)"
  unfolding returns_io_def zoom_def
proof (clarify)
  fix s w
  assume "\<forall>w. \<exists>r w'. m w = Ret (r, w')"
  then obtain r t w' where "m (get s, w) = Ret (r, (t, w'))" by (metis surj_pair)
  then show "\<exists>r w'. (case m (get s, w) of Ret (r, t, w') \<Rightarrow> Ret (r, put t s, w') | Panic \<Rightarrow> Panic | NoFuel \<Rightarrow> NoFuel) = Ret (r, w')"
    by simp
qed

text \<open>Invariants of the state part.\<close>

lemma keeps_on_world [keeps_intros]: "keeps_io (\<lambda>(s, w). P s) (on_world m)"
  unfolding keeps_io_def on_world_def by (auto split: outcome.splits)

lemma keeps_get_state [keeps_intros]: "keeps_io P (get_state f)"
  unfolding keeps_io_def get_state_def by auto

lemma keeps_modify_state: "(\<And>s. P s \<Longrightarrow> P (f s)) \<Longrightarrow> keeps_io (\<lambda>(s, w). P s) (modify_state f)"
  unfolding keeps_io_def modify_state_def by auto

lemma keeps_zoom: "(\<And>s t. P s \<Longrightarrow> P (put t s)) \<Longrightarrow> keeps_io (\<lambda>(s, w). P s) (zoom get put m)"
  unfolding keeps_io_def zoom_def by (auto split: outcome.splits)

end
