(* ===== verification/Temp_File.thy ===== *)
theory Temp_File
  imports Rust_Io Rust_Str
begin

text \<open>
  Temporary names, files and directories, \<^verbatim>\<open>security/tempfile.rs\<close>. The environment gives the random
  bytes and creates a file or directory only where nothing exists yet.
\<close>

datatype create_result = Created | AlreadyExists | CreateFailed string

record 'w TempEnv =
  te_urandom :: "'w \<Rightarrow> (string + bytes) \<times> 'w"
  te_temp_dir :: string
  te_create_dir :: "string \<Rightarrow> 'w \<Rightarrow> create_result \<times> 'w"
  te_create_new :: "string \<Rightarrow> 'w \<Rightarrow> create_result \<times> 'w"

definition random_suffix :: "('w, 'z) TempEnv_scheme \<Rightarrow> ('w, string) io" where
  "random_suffix E =
     bind_io (sys_call (\<lambda>e. Other (''reading /dev/urandom: '' @ e)) (te_urandom E))
       (\<lambda>buf. return_io (concat (map hex2 buf)))"

definition random_temp_path :: "('w, 'z) TempEnv_scheme \<Rightarrow> string \<Rightarrow> string \<Rightarrow> ('w, string) io" where
  "random_temp_path E pre ext =
     bind_io (random_suffix E) (\<lambda>r. return_io (te_temp_dir E @ ''/'' @ pre @ ''-'' @ r @ ''.'' @ ext))"

text \<open>The attempts \<open>for _ in 0..4\<close>: a new name each time, an existing entry is never opened.\<close>

fun create_attempts ::
    "('w, 'z) TempEnv_scheme \<Rightarrow> (string \<Rightarrow> 'w \<Rightarrow> create_result \<times> 'w) \<Rightarrow> string \<Rightarrow> string \<Rightarrow> string \<Rightarrow> nat
      \<Rightarrow> ('w, string) io" where
  "create_attempts E create pre ext what 0 =
     fail_io (Other (''could not create a temp '' @ what @ '' after several attempts''))"
| "create_attempts E create pre ext what (Suc n) =
     bind_io (random_temp_path E pre ext) (\<lambda>path.
     bind_io (ask (create path)) (\<lambda>r.
       case r of
         Created \<Rightarrow> return_io path
       | AlreadyExists \<Rightarrow> create_attempts E create pre ext what n
       | CreateFailed e \<Rightarrow> fail_io (Io e)))"

definition create_secret_temp_dir :: "('w, 'z) TempEnv_scheme \<Rightarrow> string \<Rightarrow> ('w, string) io" where
  "create_secret_temp_dir E pre = create_attempts E (te_create_dir E) pre ''d'' ''directory'' 4"

definition create_secret_temp_file :: "('w, 'z) TempEnv_scheme \<Rightarrow> string \<Rightarrow> string \<Rightarrow> ('w, string) io" where
  "create_secret_temp_file E pre ext = create_attempts E (te_create_new E) pre ext ''file'' 4"

text \<open>What is handed out was newly created by this call, and the attempts end.\<close>

lemma create_attempts_new:
  "create_attempts E create pre ext what n w = Ret (Inr path, w') \<Longrightarrow> \<exists>w1. create path w1 = (Created, w')"
  by (induction n arbitrary: w) (auto simp: io_Ok split: create_result.splits, metis create_result.exhaust)

lemma create_attempts_returns: "returns_io (create_attempts E create pre ext what n)"
proof (induction n)
  case (Suc n)
  then show ?case
    by (auto intro!: returns_intros simp: random_temp_path_def random_suffix_def split: create_result.splits)
qed simp

end
