(* ===== verification/Wifi.thy ===== *)
theory Wifi
  imports Security Hash_Map Temp_File
begin

text \<open>
  Wi-Fi: \<^verbatim>\<open>src/src/wifi/\<close>, with \<^verbatim>\<open>monitoring/signal.rs\<close>. The client of
  wpa_supplicant's control socket, scans and their table, association, the choice of an access
  point, and the hostapd configuration. The socket, the clock and \<^verbatim>\<open>/dev/urandom\<close> are parameters.
\<close>

section \<open>Security types, \<^verbatim>\<open>wifi/security.rs\<close>\<close>

datatype SecurityType = Open | Wep | WpaPsk | Wpa2Psk | Wpa3Sae | WpaEnterprise | Wpa3Enterprise

definition key_mgmt :: "SecurityType \<Rightarrow> string" where
  "key_mgmt s =
     (case s of
        Open \<Rightarrow> ''NONE'' | Wep \<Rightarrow> ''NONE''
      | WpaPsk \<Rightarrow> ''WPA-PSK'' | Wpa2Psk \<Rightarrow> ''WPA-PSK''
      | Wpa3Sae \<Rightarrow> ''SAE''
      | WpaEnterprise \<Rightarrow> ''WPA-EAP''
      | Wpa3Enterprise \<Rightarrow> ''WPA-EAP-SUITE-B-192'')"

definition needs_passphrase :: "SecurityType \<Rightarrow> bool" where
  "needs_passphrase s = (s \<noteq> Open)"

definition is_enterprise :: "SecurityType \<Rightarrow> bool" where
  "is_enterprise s = (s = WpaEnterprise \<or> s = Wpa3Enterprise)"

definition from_flags :: "string \<Rightarrow> SecurityType" where
  "from_flags flags =
     (if str_contains flags ''SAE'' then
        (if str_contains flags ''EAP'' then Wpa3Enterprise else Wpa3Sae)
      else if str_contains flags ''EAP'' then WpaEnterprise
      else if str_contains flags ''WPA2'' \<or> str_contains flags ''RSN'' then Wpa2Psk
      else if str_contains flags ''WPA'' then WpaPsk
      else if str_contains flags ''WEP'' then Wep
      else Open)"

section \<open>Scan results, \<^verbatim>\<open>wifi/network.rs\<close>\<close>

record WifiNetwork =
  wn_ssid :: string
  wn_bssid :: string
  wn_frequency_mhz :: u32
  wn_signal_dbm :: i32
  wn_security :: SecurityType

definition clamp_dbm :: "int \<Rightarrow> int" where
  "clamp_dbm x = (if x < -100 then -100 else if -50 < x then -50 else x)"

definition signal_percent :: "WifiNetwork \<Rightarrow> u8" where
  "signal_percent n = min (word_of_int ((clamp_dbm (sint (wn_signal_dbm n)) + 100) * 2)) 100"

text \<open>One row: the columns are read from left to right, the first missing or unreadable one ends it.
  A row of four columns has an empty name, which is skipped.\<close>

definition parse_scan_line :: "string \<Rightarrow> WifiNetwork option" where
  "parse_scan_line line =
     (case split_on tab line of
        bssid # freq # sig # flags # rest \<Rightarrow>
          Option.bind (parse_u32 freq) (\<lambda>f.
          Option.bind (parse_i32 sig) (\<lambda>s.
            let ssid = (case rest of [] \<Rightarrow> [] | x # _ \<Rightarrow> x)
            in if ssid = [] then None
               else Some \<lparr>wn_ssid = ssid, wn_bssid = bssid, wn_frequency_mhz = f,
                          wn_signal_dbm = word_of_int s, wn_security = from_flags flags\<rparr>))
      | _ \<Rightarrow> None)"

definition parse_scan_results :: "string \<Rightarrow> WifiNetwork list" where
  "parse_scan_results raw = List.map_filter parse_scan_line (drop 1 (lines raw))"

section \<open>Choosing an access point, \<^verbatim>\<open>wifi/roaming.rs\<close>\<close>

text \<open>\<open>Iterator::max_by_key\<close>: the last of the elements with the greatest key.\<close>

fun max_by_key :: "('a \<Rightarrow> 'b :: linorder) \<Rightarrow> 'a list \<Rightarrow> 'a option" where
  "max_by_key f [] = None"
| "max_by_key f (x # xs) =
     (case max_by_key f xs of None \<Rightarrow> Some x | Some y \<Rightarrow> Some (if f y < f x then x else y))"

abbreviation (input) ROAM_HYSTERESIS_DBM :: int where "ROAM_HYSTERESIS_DBM \<equiv> 8"

definition best_bss :: "WifiNetwork list \<Rightarrow> string \<Rightarrow> WifiNetwork option" where
  "best_bss networks ssid = max_by_key (\<lambda>n. sint (wn_signal_dbm n)) (filter (\<lambda>n. wn_ssid n = ssid) networks)"

definition should_roam :: "WifiNetwork list \<Rightarrow> string \<Rightarrow> string \<Rightarrow> WifiNetwork option" where
  "should_roam networks ssid current_bssid =
     Option.bind (find (\<lambda>n. wn_bssid n = current_bssid) networks) (\<lambda>current.
     Option.bind (best_bss networks ssid) (\<lambda>candidate.
       if wn_bssid candidate \<noteq> current_bssid
          \<and> ROAM_HYSTERESIS_DBM \<le> sint (wn_signal_dbm candidate - wn_signal_dbm current)
       then Some candidate else None))"

section \<open>The control socket, \<^verbatim>\<open>wifi/wpa.rs\<close>\<close>

datatype dgram = Datagram bytes | TimedOut string | RecvFailed string

record 'w WpaEnv = "'w TempEnv" +
  wp_bind :: "string \<Rightarrow> 'w \<Rightarrow> (string + nat) \<times> 'w"
  wp_connect :: "nat \<Rightarrow> string \<Rightarrow> 'w \<Rightarrow> (string + unit) \<times> 'w"
  wp_set_timeout :: "nat \<Rightarrow> nat \<Rightarrow> 'w \<Rightarrow> (string + unit) \<times> 'w"
  wp_send :: "nat \<Rightarrow> bytes \<Rightarrow> 'w \<Rightarrow> (string + unit) \<times> 'w"
  wp_recv :: "nat \<Rightarrow> 'w \<Rightarrow> dgram \<times> 'w"
  wp_close :: "nat \<Rightarrow> 'w \<Rightarrow> 'w"
  wp_unlink :: "string \<Rightarrow> 'w \<Rightarrow> 'w"
  wp_now :: "'w \<Rightarrow> nat \<times> 'w"
  wp_sleep :: "nat \<Rightarrow> 'w \<Rightarrow> 'w"
  wp_open :: "string \<Rightarrow> 'w \<Rightarrow> (string + unit) \<times> 'w"

record WpaCtrl =
  wc_sock :: nat
  wc_client_path :: string

text \<open>Running \<open>m\<close> and then a destructor, whatever \<open>m\<close> returned.\<close>

definition finally_io :: "('w, 'a) io \<Rightarrow> ('w \<Rightarrow> 'w) \<Rightarrow> ('w, 'a) io" where
  "finally_io m d = (\<lambda>w. case m w of Ret (r, w') \<Rightarrow> Ret (r, d w') | Panic \<Rightarrow> Panic | NoFuel \<Rightarrow> NoFuel)"

text \<open>An error after the socket exists closes it; its file stays behind, since only the destructor of a
  complete \<^typ>\<open>WpaCtrl\<close> removes it.\<close>

definition or_close :: "'w WpaEnv \<Rightarrow> nat \<Rightarrow> ('w, 'a) io \<Rightarrow> ('w, 'a) io" where
  "or_close E sock m =
     (\<lambda>w. case m w of Ret (Inl e, w') \<Rightarrow> Ret (Inl e, wp_close E sock w') | r \<Rightarrow> r)"

definition wpa_connect :: "'w WpaEnv \<Rightarrow> string \<Rightarrow> string \<Rightarrow> ('w, WpaCtrl) io" where
  "wpa_connect E ctrl_dir ifname =
     then_io (lift_io (validate_interface_name ifname))
       (let server_path = ctrl_dir @ ''/'' @ ifname in
        bind_io (random_temp_path E (''mitos-wpa-'' @ ifname) ''sock'') (\<lambda>client_path.
        bind_io (sys_call (\<lambda>e. Wifi (''bind control client socket: '' @ e)) (wp_bind E client_path)) (\<lambda>sock.
        or_close E sock
          (then_io (sys_call (\<lambda>e. Wifi (''connect to wpa_supplicant at '' @ server_path @ '': '' @ e))
                     (wp_connect E sock server_path))
          (then_io (sys_call Io (wp_set_timeout E sock 5000))
            (return_io \<lparr>wc_sock = sock, wc_client_path = client_path\<rparr>))))))"

definition wpa_drop :: "'w WpaEnv \<Rightarrow> WpaCtrl \<Rightarrow> 'w \<Rightarrow> 'w" where
  "wpa_drop E c w = wp_close E (wc_sock c) (wp_unlink E (wc_client_path c) w)"

definition with_ctrl :: "'w WpaEnv \<Rightarrow> string \<Rightarrow> string \<Rightarrow> (WpaCtrl \<Rightarrow> ('w, 'a) io) \<Rightarrow> ('w, 'a) io" where
  "with_ctrl E dir ifname body =
     bind_io (wpa_connect E dir ifname) (\<lambda>c. finally_io (body c) (wpa_drop E c))"

definition recv_line :: "'w WpaEnv \<Rightarrow> nat \<Rightarrow> ('w, string) io" where
  "recv_line E sock =
     (\<lambda>w. case wp_recv E sock w of
            (Datagram b, w') \<Rightarrow> Ret (Inr (trim_end (from_utf8_lossy (take 8192 b))), w')
          | (TimedOut e, w') \<Rightarrow> Ret (Inl (Io e), w')
          | (RecvFailed e, w') \<Rightarrow> Ret (Inl (Io e), w'))"

definition wpa_request :: "'w WpaEnv \<Rightarrow> WpaCtrl \<Rightarrow> string \<Rightarrow> ('w, string) io" where
  "wpa_request E c cmd =
     then_io (sys_call Io (wp_send E (wc_sock c) (as_bytes cmd))) (recv_line E (wc_sock c))"

definition request_ok :: "'w WpaEnv \<Rightarrow> WpaCtrl \<Rightarrow> string \<Rightarrow> ('w, unit) io" where
  "request_ok E c cmd =
     bind_io (wpa_request E c cmd) (\<lambda>reply.
       if trim reply = ''OK'' then return_io ()
       else fail_io (Wifi (quoted cmd @ '' failed: '' @ reply)))"

definition wpa_ping :: "'w WpaEnv \<Rightarrow> WpaCtrl \<Rightarrow> ('w, bool) io" where
  "wpa_ping E c = bind_io (wpa_request E c ''PING'') (\<lambda>reply. return_io (trim reply = ''PONG''))"

definition wpa_scan :: "'w WpaEnv \<Rightarrow> WpaCtrl \<Rightarrow> ('w, unit) io" where
  "wpa_scan E c = request_ok E c ''SCAN''"

definition scan_results_raw :: "'w WpaEnv \<Rightarrow> WpaCtrl \<Rightarrow> ('w, string) io" where
  "scan_results_raw E c = wpa_request E c ''SCAN_RESULTS''"

definition parse_pairs :: "string \<Rightarrow> (string \<times> string) list" where
  "parse_pairs raw = fold (\<lambda>(k, v). hm_insert k v) (List.map_filter (split_once (CHR ''='')) (lines raw)) []"

definition wpa_status :: "'w WpaEnv \<Rightarrow> WpaCtrl \<Rightarrow> ('w, (string \<times> string) list) io" where
  "wpa_status E c = bind_io (wpa_request E c ''STATUS'') (\<lambda>raw. return_io (parse_pairs raw))"

definition signal_poll :: "'w WpaEnv \<Rightarrow> WpaCtrl \<Rightarrow> ('w, (string \<times> string) list) io" where
  "signal_poll E c = bind_io (wpa_request E c ''SIGNAL_POLL'') (\<lambda>raw. return_io (parse_pairs raw))"

definition add_network :: "'w WpaEnv \<Rightarrow> WpaCtrl \<Rightarrow> ('w, u32) io" where
  "add_network E c =
     bind_io (wpa_request E c ''ADD_NETWORK'') (\<lambda>reply.
       lift_io (ok_or (Wifi (''unexpected ADD_NETWORK reply: '' @ reply)) (parse_u32 (trim reply))))"

definition show_u32 :: "u32 \<Rightarrow> string" where
  "show_u32 n = show_nat (unat n)"

definition set_network_quoted :: "'w WpaEnv \<Rightarrow> WpaCtrl \<Rightarrow> u32 \<Rightarrow> string \<Rightarrow> string \<Rightarrow> ('w, unit) io" where
  "set_network_quoted E c ident key val =
     then_io (lift_io (validate_quoted_value key val))
       (request_ok E c (''SET_NETWORK '' @ show_u32 ident @ '' '' @ key @ '' '' @ [dquote] @ val @ [dquote]))"

definition set_network_raw :: "'w WpaEnv \<Rightarrow> WpaCtrl \<Rightarrow> u32 \<Rightarrow> string \<Rightarrow> string \<Rightarrow> ('w, unit) io" where
  "set_network_raw E c ident key val =
     request_ok E c (''SET_NETWORK '' @ show_u32 ident @ '' '' @ key @ '' '' @ val)"

definition enable_network :: "'w WpaEnv \<Rightarrow> WpaCtrl \<Rightarrow> u32 \<Rightarrow> ('w, unit) io" where
  "enable_network E c ident = request_ok E c (''ENABLE_NETWORK '' @ show_u32 ident)"

definition disable_network :: "'w WpaEnv \<Rightarrow> WpaCtrl \<Rightarrow> u32 \<Rightarrow> ('w, unit) io" where
  "disable_network E c ident = request_ok E c (''DISABLE_NETWORK '' @ show_u32 ident)"

definition select_network :: "'w WpaEnv \<Rightarrow> WpaCtrl \<Rightarrow> u32 \<Rightarrow> ('w, unit) io" where
  "select_network E c ident = request_ok E c (''SELECT_NETWORK '' @ show_u32 ident)"

definition remove_network :: "'w WpaEnv \<Rightarrow> WpaCtrl \<Rightarrow> u32 \<Rightarrow> ('w, unit) io" where
  "remove_network E c ident = request_ok E c (''REMOVE_NETWORK '' @ show_u32 ident)"

definition list_network_line :: "string \<Rightarrow> (u32 \<times> string) option" where
  "list_network_line l =
     (case split_on tab l of
        ident # ssid # _ \<Rightarrow> map_option (\<lambda>n. (n, ssid)) (parse_u32 ident)
      | _ \<Rightarrow> None)"

definition list_networks :: "'w WpaEnv \<Rightarrow> WpaCtrl \<Rightarrow> ('w, (u32 \<times> string) list) io" where
  "list_networks E c =
     bind_io (wpa_request E c ''LIST_NETWORKS'') (\<lambda>raw.
       return_io (List.map_filter list_network_line (drop 1 (lines raw))))"

definition wpa_disconnect :: "'w WpaEnv \<Rightarrow> WpaCtrl \<Rightarrow> ('w, unit) io" where
  "wpa_disconnect E c = request_ok E c ''DISCONNECT''"

definition wpa_reconnect :: "'w WpaEnv \<Rightarrow> WpaCtrl \<Rightarrow> ('w, unit) io" where
  "wpa_reconnect E c = request_ok E c ''RECONNECT''"

definition save_config :: "'w WpaEnv \<Rightarrow> WpaCtrl \<Rightarrow> ('w, unit) io" where
  "save_config E c = request_ok E c ''SAVE_CONFIG''"

subsection \<open>The event stream\<close>

definition monitor_request :: "'w WpaEnv \<Rightarrow> WpaCtrl \<Rightarrow> string \<Rightarrow> ('w, string) io" where
  "monitor_request E m cmd =
     then_io (sys_call Io (wp_send E (wc_sock m) (as_bytes cmd))) (recv_line E (wc_sock m))"

text \<open>The destructor sends \<open>DETACH\<close>, ignoring its outcome, and removes the socket's file.\<close>

definition monitor_drop :: "'w WpaEnv \<Rightarrow> WpaCtrl \<Rightarrow> 'w \<Rightarrow> 'w" where
  "monitor_drop E m w =
     (case monitor_request E m ''DETACH'' w of
        Ret (_, w') \<Rightarrow> wpa_drop E m w'
      | _ \<Rightarrow> wpa_drop E m w)"

definition monitor_attach :: "'w WpaEnv \<Rightarrow> string \<Rightarrow> string \<Rightarrow> ('w, WpaCtrl) io" where
  "monitor_attach E ctrl_dir ifname =
     then_io (lift_io (validate_interface_name ifname))
       (let server_path = ctrl_dir @ ''/'' @ ifname in
        bind_io (random_temp_path E (''mitos-wpa-mon-'' @ ifname) ''sock'') (\<lambda>client_path.
        bind_io (sys_call (\<lambda>e. Wifi (''bind monitor socket: '' @ e)) (wp_bind E client_path)) (\<lambda>sock.
        then_io (or_close E sock (sys_call (\<lambda>e. Wifi (''connect monitor to wpa_supplicant at '' @ server_path @ '': '' @ e))
                   (wp_connect E sock server_path)))
          (let mon = \<lparr>wc_sock = sock, wc_client_path = client_path\<rparr> in
           (\<lambda>w. case monitor_request E mon ''ATTACH'' w of
                  Ret (Inr reply, w') \<Rightarrow>
                    if trim reply = ''OK'' then Ret (Inr mon, w')
                    else Ret (Inl (Wifi (''ATTACH failed: '' @ reply)), monitor_drop E mon w')
                | Ret (Inl e, w') \<Rightarrow> Ret (Inl e, monitor_drop E mon w')
                | Panic \<Rightarrow> Panic
                | NoFuel \<Rightarrow> NoFuel)))))"

definition event_of_line :: "string \<Rightarrow> string" where
  "event_of_line line =
     (case Option.bind (strip_prefix ''<'' line) (split_once (CHR ''>'')) of
        Some (_, rest) \<Rightarrow> rest
      | None \<Rightarrow> line)"

fun wait_for_any :: "'w WpaEnv \<Rightarrow> nat \<Rightarrow> nat \<Rightarrow> nat \<Rightarrow> string list \<Rightarrow> ('w, string option) io" where
  "wait_for_any E 0 sock deadline names w = NoFuel"
| "wait_for_any E (Suc fuel) sock deadline names w =
     (case wp_now E w of (now, w1) \<Rightarrow>
      if deadline \<le> now then Ret (Inr None, w1)
      else (case wp_set_timeout E sock (deadline - now) w1 of
              (Inl e, w2) \<Rightarrow> Ret (Inl (Io e), w2)
            | (Inr _, w2) \<Rightarrow>
                (case wp_recv E sock w2 of
                   (Datagram b, w3) \<Rightarrow>
                     (let line = trim_end (from_utf8_lossy (take 8192 b))
                      in if list_ex (starts_with (event_of_line line)) names then Ret (Inr (Some line), w3)
                         else wait_for_any E fuel sock deadline names w3)
                 | (TimedOut _, w3) \<Rightarrow> Ret (Inr None, w3)
                 | (RecvFailed e, w3) \<Rightarrow> Ret (Inl (Io e), w3))))"

section \<open>Scanning, \<^verbatim>\<open>wifi/scanner.rs\<close>, and \<^verbatim>\<open>monitoring/signal.rs\<close>\<close>

abbreviation (input) SCAN_MAX_WAIT :: nat where "SCAN_MAX_WAIT \<equiv> 8000"

definition wifi_scan :: "'w WpaEnv \<Rightarrow> nat \<Rightarrow> string \<Rightarrow> string \<Rightarrow> ('w, WifiNetwork list) io" where
  "wifi_scan E fuel ctrl_dir ifname =
     with_ctrl E ctrl_dir ifname (\<lambda>ctrl.
       then_io
         (bind_io (try_io (monitor_attach E ctrl_dir ifname)) (\<lambda>attached.
            case attached of
              Inr monitor \<Rightarrow>
                finally_io
                  (then_io (wpa_scan E ctrl)
                     (bind_io (ask (wp_now E)) (\<lambda>now.
                      bind_io (wait_for_any E fuel (wc_sock monitor) (now + SCAN_MAX_WAIT)
                                [''CTRL-EVENT-SCAN-RESULTS'', ''CTRL-EVENT-SCAN-FAILED''])
                        (\<lambda>_. return_io ()))))
                  (monitor_drop E monitor)
            | Inl _ \<Rightarrow>
                then_io (wpa_scan E ctrl) (\<lambda>w. Ret (Inr (), wp_sleep E 3000 w))))
         (bind_io (scan_results_raw E ctrl) (\<lambda>raw. return_io (parse_scan_results raw))))"

definition last_results :: "'w WpaEnv \<Rightarrow> string \<Rightarrow> string \<Rightarrow> ('w, WifiNetwork list) io" where
  "last_results E ctrl_dir ifname =
     with_ctrl E ctrl_dir ifname (\<lambda>ctrl.
       bind_io (scan_results_raw E ctrl) (\<lambda>raw. return_io (parse_scan_results raw)))"

record SignalInfo =
  si_rssi_dbm :: "int option"
  si_link_speed_mbps :: "int option"
  si_frequency_mhz :: "u32 option"

definition signal_current :: "'w WpaEnv \<Rightarrow> string \<Rightarrow> string \<Rightarrow> ('w, SignalInfo) io" where
  "signal_current E ctrl_dir ifname =
     with_ctrl E ctrl_dir ifname (\<lambda>ctrl.
       bind_io (signal_poll E ctrl) (\<lambda>poll.
         return_io \<lparr>si_rssi_dbm = Option.bind (hm_get poll ''RSSI'') parse_i32,
                    si_link_speed_mbps = Option.bind (hm_get poll ''LINKSPEED'') parse_i32,
                    si_frequency_mhz = Option.bind (hm_get poll ''FREQUENCY'') parse_u32\<rparr>))"

section \<open>Association, \<^verbatim>\<open>wifi/wifi.rs\<close>\<close>

record EapConfig =
  ec_identity :: "string option"
  ec_ca_cert_path :: "string option"
  ec_client_cert_path :: "string option"
  ec_private_key_path :: "string option"
  ec_private_key_password :: "string option"
  ec_eap_method :: "string option"
  ec_eap_phase2 :: "string option"

definition trim_quotes :: "string \<Rightarrow> string" where
  "trim_quotes s = rev (dropWhile (\<lambda>c. c = dquote) (rev (dropWhile (\<lambda>c. c = dquote) s)))"

definition if_some :: "'a option \<Rightarrow> ('a \<Rightarrow> ('w, unit) io) \<Rightarrow> ('w, unit) io" where
  "if_some x f = (case x of Some v \<Rightarrow> f v | None \<Rightarrow> return_io ())"

definition check_cert_readable :: "'w WpaEnv \<Rightarrow> string \<Rightarrow> ('w, unit) io" where
  "check_cert_readable E path =
     sys_call (\<lambda>e. Config (''cannot read '' @ quoted path @ '': '' @ e)) (wp_open E path)"

definition set_cert :: "'w WpaEnv \<Rightarrow> WpaCtrl \<Rightarrow> u32 \<Rightarrow> string \<Rightarrow> string \<Rightarrow> string \<Rightarrow> ('w, unit) io" where
  "set_cert E c ident field key path =
     then_io (lift_io (validate_cert_path field path))
    (then_io (check_cert_readable E path)
             (set_network_quoted E c ident key path))"

definition configure_eap ::
    "'w WpaEnv \<Rightarrow> WpaCtrl \<Rightarrow> u32 \<Rightarrow> string \<Rightarrow> EapConfig \<Rightarrow> string option \<Rightarrow> ('w, unit) io" where
  "configure_eap E c ident ssid eap password =
     bind_io (lift_io (ok_or (Wifi (quoted ssid
        @ '' is an Enterprise network but no EAP identity (username) was configured'')) (ec_identity eap)))
     (\<lambda>identity.
     then_io (set_network_quoted E c ident ''identity'' identity)
    (then_io (if_some (ec_eap_method eap) (\<lambda>m.
        then_io (lift_io (validate_eap_method m))
          (set_network_raw E c ident ''eap'' (to_ascii_uppercase m))))
    (then_io (if_some (ec_eap_phase2 eap) (\<lambda>p2.
        then_io (lift_io (validate_quoted_value ''EAP phase2'' p2))
          (set_network_quoted E c ident ''phase2'' p2)))
    (then_io (case password of
                Some pass \<Rightarrow> set_network_quoted E c ident ''password'' pass
              | None \<Rightarrow>
                  if ec_client_cert_path eap = None then
                    fail_io (Wifi (quoted ssid
                      @ '' needs either a password or a client certificate for Enterprise auth''))
                  else return_io ())
    (then_io (if_some (ec_ca_cert_path eap) (set_cert E c ident ''CA certificate path'' ''ca_cert''))
    (then_io (if_some (ec_client_cert_path eap)
                (set_cert E c ident ''client certificate path'' ''client_cert''))
             (if_some (ec_private_key_path eap) (\<lambda>key.
                then_io (set_cert E c ident ''private key path'' ''private_key'' key)
                  (if_some (ec_private_key_password eap)
                     (set_network_quoted E c ident ''private_key_passwd''))))))))))"

fun wait_for_association :: "'w WpaEnv \<Rightarrow> nat \<Rightarrow> WpaCtrl \<Rightarrow> string \<Rightarrow> nat \<Rightarrow> ('w, unit) io" where
  "wait_for_association E 0 c ssid deadline w = NoFuel"
| "wait_for_association E (Suc fuel) c ssid deadline w =
     (case wpa_status E c w of
        Ret (Inr status, w1) \<Rightarrow>
          (let state = (case hm_get status ''wpa_state'' of Some s \<Rightarrow> s | None \<Rightarrow> []);
               current_ssid = (case hm_get status ''ssid'' of Some s \<Rightarrow> s | None \<Rightarrow> [])
           in if state = ''COMPLETED'' \<and> current_ssid = ssid then Ret (Inr (), w1)
              else (case wp_now E w1 of (now, w2) \<Rightarrow>
                if deadline \<le> now then
                  Ret (Inl (Timeout (''association with '' @ quoted ssid
                    @ '' did not complete (last state: '' @ state @ '')'')), w2)
                else wait_for_association E fuel c ssid deadline (wp_sleep E 300 w2)))
      | Ret (Inl e, w1) \<Rightarrow> Ret (Inl e, w1)
      | Panic \<Rightarrow> Panic
      | NoFuel \<Rightarrow> NoFuel)"

text \<open>Removing the networks already configured under this name, ignoring failures.\<close>

definition clear_networks :: "'w WpaEnv \<Rightarrow> WpaCtrl \<Rightarrow> string \<Rightarrow> ('w, unit) io" where
  "clear_networks E c ssid =
     bind_io (try_io (list_networks E c)) (\<lambda>r.
       for_io (case r of Inr nets \<Rightarrow> nets | Inl _ \<Rightarrow> []) (\<lambda>(ident, existing).
         if trim_quotes existing = ssid then ignore_io (remove_network E c ident) else return_io ()))"

definition wifi_connect ::
    "'w WpaEnv \<Rightarrow> nat \<Rightarrow> string \<Rightarrow> string \<Rightarrow> string \<Rightarrow> SecurityType \<Rightarrow> string option \<Rightarrow> EapConfig option
      \<Rightarrow> ('w, unit) io" where
  "wifi_connect E fuel ctrl_dir ifname ssid security passphrase eap =
     then_io (lift_io (validate_ssid ssid))
    (with_ctrl E ctrl_dir ifname (\<lambda>ctrl.
     then_io (clear_networks E ctrl ssid)
    (bind_io (add_network E ctrl) (\<lambda>ident.
     then_io (set_network_quoted E ctrl ident ''ssid'' ssid)
    (then_io (set_network_raw E ctrl ident ''key_mgmt'' (key_mgmt security))
    (then_io
       (if is_enterprise security then
          bind_io (lift_io (ok_or (Wifi (quoted ssid
             @ '' is an Enterprise network but no EAP identity/certificate configuration was provided'')) eap))
            (\<lambda>e. configure_eap E ctrl ident ssid e passphrase)
        else if \<not> needs_passphrase security then return_io ()
        else (case passphrase of
                Some pass \<Rightarrow>
                  then_io (lift_io (validate_wpa_passphrase pass))
                    (set_network_quoted E ctrl ident ''psk'' pass)
              | None \<Rightarrow> fail_io (Wifi (quoted ssid @ '' requires a passphrase but none was provided/stored''))))
    (then_io (enable_network E ctrl ident)
    (then_io (select_network E ctrl ident)
    (bind_io (ask (wp_now E)) (\<lambda>now.
       wait_for_association E fuel ctrl ssid (now + 20000)))))))))))"

definition wifi_disconnect :: "'w WpaEnv \<Rightarrow> string \<Rightarrow> string \<Rightarrow> ('w, unit) io" where
  "wifi_disconnect E ctrl_dir ifname = with_ctrl E ctrl_dir ifname (wpa_disconnect E)"

definition wifi_forget :: "'w WpaEnv \<Rightarrow> string \<Rightarrow> string \<Rightarrow> string \<Rightarrow> ('w, unit) io" where
  "wifi_forget E ctrl_dir ifname ssid =
     with_ctrl E ctrl_dir ifname (\<lambda>ctrl.
       bind_io (list_networks E ctrl) (\<lambda>nets.
       then_io (for_io nets (\<lambda>(ident, existing).
                  if trim_quotes existing = ssid then remove_network E ctrl ident else return_io ()))
         (save_config E ctrl)))"

definition current_status :: "'w WpaEnv \<Rightarrow> string \<Rightarrow> string \<Rightarrow> ('w, (string \<times> string) list) io" where
  "current_status E ctrl_dir ifname = with_ctrl E ctrl_dir ifname (wpa_status E)"

section \<open>The access-point configuration, \<^verbatim>\<open>wifi/hotspot.rs\<close>\<close>

record HotspotConfig =
  hc_interface :: string
  hc_ssid :: string
  hc_passphrase :: "string option"
  hc_channel :: u8
  hc_hw_mode :: string

definition line_of :: "string \<Rightarrow> string" where
  "line_of s = s @ [nl]"

definition render_config :: "HotspotConfig \<Rightarrow> string" where
  "render_config cfg =
     line_of (''interface='' @ hc_interface cfg)
   @ line_of ''driver=nl80211''
   @ line_of (''ssid='' @ hc_ssid cfg)
   @ line_of (''hw_mode='' @ hc_hw_mode cfg)
   @ line_of (''channel='' @ show_nat (unat (hc_channel cfg)))
   @ line_of ''ieee80211n=1''
   @ line_of ''wmm_enabled=1''
   @ (case hc_passphrase cfg of
        Some pass \<Rightarrow>
            line_of ''wpa=2''
          @ line_of (''wpa_passphrase='' @ pass)
          @ line_of ''wpa_key_mgmt=WPA-PSK''
          @ line_of ''rsn_pairwise=CCMP''
      | None \<Rightarrow> line_of ''# open network: no wpa_passphrase configured'')"

text \<open>What a start of the access point checks before it writes the file.\<close>

definition hotspot_check :: "HotspotConfig \<Rightarrow> unit result" where
  "hotspot_check cfg =
     bind_r (validate_interface_name (hc_interface cfg)) (\<lambda>_.
     bind_r (validate_ssid (hc_ssid cfg)) (\<lambda>_.
       case hc_passphrase cfg of Some p \<Rightarrow> validate_wpa_passphrase p | None \<Rightarrow> Inr ()))"

text \<open>Files, processes and the table of running children.\<close>

record 'w ApEnv =
  ap_mkdir :: "string \<Rightarrow> 'w \<Rightarrow> (string + unit) \<times> 'w"
  ap_write :: "string \<Rightarrow> string \<Rightarrow> 'w \<Rightarrow> (string + unit) \<times> 'w"
  ap_unlink :: "string \<Rightarrow> 'w \<Rightarrow> 'w"
  ap_spawn :: "string \<Rightarrow> 'w \<Rightarrow> (string + nat) \<times> 'w"
  ap_kill :: "nat \<Rightarrow> 'w \<Rightarrow> 'w"

definition config_path :: "string \<Rightarrow> string" where
  "config_path ifname = ''/run/mitos-network/hostapd-'' @ ifname @ ''.conf''"

type_synonym children = "(string \<times> nat) list"

definition hotspot_stop :: "'w ApEnv \<Rightarrow> string \<Rightarrow> children \<times> 'w \<Rightarrow> children \<times> 'w" where
  "hotspot_stop A ifname = (\<lambda>(ch, w).
     (hm_remove ifname ch,
      ap_unlink A (config_path ifname)
        (case hm_get ch ifname of Some pid \<Rightarrow> ap_kill A pid w | None \<Rightarrow> w)))"

definition hotspot_start :: "'w ApEnv \<Rightarrow> HotspotConfig \<Rightarrow> (children \<times> 'w, unit) io" where
  "hotspot_start A cfg =
     then_io (lift_io (hotspot_check cfg))
    (then_io (\<lambda>s. Ret (Inr (), hotspot_stop A (hc_interface cfg) s))
    (then_io (on_world (sys_call Io (ap_mkdir A ''/run/mitos-network'')))
    (then_io (on_world (sys_call Io (ap_write A (config_path (hc_interface cfg)) (render_config cfg))))
    (bind_io (on_world (sys_call (\<lambda>e. Wifi (''failed to spawn hostapd: '' @ e))
                (ap_spawn A (config_path (hc_interface cfg)))))
      (\<lambda>pid (ch, w). Ret (Inr (), (hm_insert (hc_interface cfg) pid ch, w)))))))"

definition is_running :: "string \<Rightarrow> children \<Rightarrow> bool" where
  "is_running ifname ch = (hm_get ch ifname \<noteq> None)"

section \<open>What is sent to wpa_supplicant\<close>

text \<open>The commands of the control protocol as the daemon means them: fixed words, a verb with a network
  number, an unquoted field whose value is one of a fixed set, and a quoted field whose value cannot
  end the quotation or the line.\<close>

inductive wpa_command :: "string \<Rightarrow> bool" where
  fixed: "cmd \<in> {''STATUS'', ''LIST_NETWORKS'', ''ADD_NETWORK'', ''SCAN'', ''SCAN_RESULTS'',
      ''SIGNAL_POLL'', ''PING'', ''DISCONNECT'', ''RECONNECT'', ''SAVE_CONFIG'', ''ATTACH'', ''DETACH''}
    \<Longrightarrow> wpa_command cmd"
| verb: "v \<in> {''ENABLE_NETWORK '', ''DISABLE_NETWORK '', ''SELECT_NETWORK '', ''REMOVE_NETWORK ''}
    \<Longrightarrow> wpa_command (v @ show_u32 n)"
| raw: "(key, val) \<in> {''key_mgmt''} \<times> range key_mgmt \<union> {''eap''} \<times> set KNOWN_EAP_METHODS
    \<Longrightarrow> wpa_command (''SET_NETWORK '' @ show_u32 n @ '' '' @ key @ '' '' @ val)"
| quot: "key \<in> {''ssid'', ''psk'', ''identity'', ''phase2'', ''password'', ''ca_cert'', ''client_cert'',
      ''private_key'', ''private_key_passwd''}
    \<Longrightarrow> dquote \<notin> set val \<Longrightarrow> bslash \<notin> set val \<Longrightarrow> nul \<notin> set val \<Longrightarrow> nl \<notin> set val
    \<Longrightarrow> wpa_command (''SET_NETWORK '' @ show_u32 n @ '' '' @ key @ '' '' @ [dquote] @ val @ [dquote])"

text \<open>A world that records what was sent: only sending adds to the record, and only what was sent.\<close>

definition records :: "'w WpaEnv \<Rightarrow> ('w \<Rightarrow> bytes list) \<Rightarrow> bool" where
  "records E log =
     ((\<forall>fd b w. log (snd (wp_send E fd b w)) = log w @ [b]) \<and>
      (\<forall>w. log (snd (te_urandom E w)) = log w) \<and>
      (\<forall>p w. log (snd (wp_bind E p w)) = log w) \<and>
      (\<forall>fd p w. log (snd (wp_connect E fd p w)) = log w) \<and>
      (\<forall>fd t w. log (snd (wp_set_timeout E fd t w)) = log w) \<and>
      (\<forall>fd w. log (snd (wp_recv E fd w)) = log w) \<and>
      (\<forall>fd w. log (wp_close E fd w) = log w) \<and>
      (\<forall>p w. log (wp_unlink E p w) = log w) \<and>
      (\<forall>w. log (snd (wp_now E w)) = log w) \<and>
      (\<forall>d w. log (wp_sleep E d w) = log w) \<and>
      (\<forall>p w. log (snd (wp_open E p w)) = log w))"

definition only_commands :: "bytes set \<Rightarrow> ('w \<Rightarrow> bytes list) \<Rightarrow> 'w \<Rightarrow> bool" where
  "only_commands old log w = (\<forall>b \<in> set (log w). b \<in> old \<or> (\<exists>cmd. wpa_command cmd \<and> b = as_bytes cmd))"

lemma only_commandsI: "log w' = log w \<Longrightarrow> only_commands old log w \<Longrightarrow> only_commands old log w'"
  by (simp add: only_commands_def)

lemma keeps_finally:
  "keeps_io P m \<Longrightarrow> (\<And>w. P w \<Longrightarrow> P (d w)) \<Longrightarrow> keeps_io P (finally_io m d)"
  unfolding keeps_io_def finally_io_def by (auto split: outcome.splits)

lemma keeps_or_close:
  "keeps_io P m \<Longrightarrow> (\<And>w. P w \<Longrightarrow> P (wp_close E s w)) \<Longrightarrow> keeps_io P (or_close E s m)"
  unfolding keeps_io_def or_close_def by (auto split: outcome.splits sum.splits)

lemma recordsD:
  assumes "records E log"
  shows "wp_send E fd b w = (r1, w') \<Longrightarrow> log w' = log w @ [b]"
    "te_urandom E w = (r2, w') \<Longrightarrow> log w' = log w"
    "wp_bind E p w = (r3, w') \<Longrightarrow> log w' = log w"
    "wp_connect E fd p w = (r4, w') \<Longrightarrow> log w' = log w"
    "wp_set_timeout E fd t w = (r5, w') \<Longrightarrow> log w' = log w"
    "wp_recv E fd w = (r6, w') \<Longrightarrow> log w' = log w"
    "wp_now E w = (r7, w') \<Longrightarrow> log w' = log w"
    "wp_open E p w = (r8, w') \<Longrightarrow> log w' = log w"
    "log (wp_close E fd w) = log w" "log (wp_unlink E p w) = log w" "log (wp_sleep E t w) = log w"
  using assms unfolding records_def by (metis snd_conv)+

lemma keeps_quiet:
  assumes "\<And>w r w'. f w = (r, w') \<Longrightarrow> log w' = log w"
  shows "keeps_io (only_commands old log) (sys_call mk f)"
  by (rule keeps_sys_call) (drule assms, simp add: only_commands_def)

lemma keeps_quiet_ask:
  assumes "\<And>w r w'. f w = (r, w') \<Longrightarrow> log w' = log w"
  shows "keeps_io (only_commands old log) (ask f)"
  by (rule keeps_ask) (drule assms, simp add: only_commands_def)

lemma keeps_recv_line: "records E log \<Longrightarrow> keeps_io (only_commands old log) (recv_line E s)"
  unfolding keeps_io_def recv_line_def
  by (auto split: prod.splits dgram.splits dest: recordsD(6) intro: only_commandsI)

lemma keeps_request:
  assumes "records E log" "wpa_command cmd"
  shows "keeps_io (only_commands old log) (wpa_request E c cmd)"
proof -
  have "only_commands old log w'" if "only_commands old log w" "wp_send E s (as_bytes cmd) w = (r, w')" for w s r w'
    using that recordsD(1) [OF assms(1) that(2)] assms(2) by (auto simp: only_commands_def)
  then show ?thesis
    unfolding wpa_request_def
    by (intro keeps_then keeps_sys_call keeps_recv_line assms) blast
qed

lemma keeps_request_ok:
  "records E log \<Longrightarrow> wpa_command cmd \<Longrightarrow> keeps_io (only_commands old log) (request_ok E c cmd)"
  unfolding request_ok_def by (auto intro!: keeps_bind keeps_request)

lemma keeps_verbs:
  assumes "records E log"
  shows "keeps_io (only_commands old log) (enable_network E c n)"
    "keeps_io (only_commands old log) (select_network E c n)"
    "keeps_io (only_commands old log) (remove_network E c n)"
    "keeps_io (only_commands old log) (list_networks E c)"
    "keeps_io (only_commands old log) (add_network E c)"
  unfolding enable_network_def select_network_def remove_network_def list_networks_def add_network_def
  by (rule keeps_request_ok [OF assms wpa_command.verb], simp)+
    (intro keeps_bind keeps_request [OF assms wpa_command.fixed] keeps_basic, simp)+

lemma keeps_set_quoted:
  assumes "records E log"
    and "key \<in> {''ssid'', ''psk'', ''identity'', ''phase2'', ''password'', ''ca_cert'', ''client_cert'',
      ''private_key'', ''private_key_passwd''}"
  shows "keeps_io (only_commands old log) (set_network_quoted E c n key val)"
  unfolding set_network_quoted_def
  by (intro keeps_lift_then keeps_request_ok assms(1) wpa_command.quot assms(2))
    (auto simp: validate_quoted_value_ok)

lemma keeps_set_raw:
  assumes "records E log"
    and "(key, val) \<in> {''key_mgmt''} \<times> range key_mgmt \<union> {''eap''} \<times> set KNOWN_EAP_METHODS"
  shows "keeps_io (only_commands old log) (set_network_raw E c n key val)"
  unfolding set_network_raw_def by (intro keeps_request_ok assms(1) wpa_command.raw assms(2))

lemma keeps_if_some: "(\<And>v. keeps_io P (f v)) \<Longrightarrow> keeps_io P (if_some x f)"
  unfolding if_some_def by (cases x) auto

lemma keeps_set_cert:
  assumes "records E log" "key \<in> {''ca_cert'', ''client_cert'', ''private_key''}"
  shows "keeps_io (only_commands old log) (set_cert E c n field key path)"
proof -
  have "keeps_io (only_commands old log) (check_cert_readable E path)"
    unfolding check_cert_readable_def by (rule keeps_quiet) (rule recordsD(8) [OF assms(1)])
  then show ?thesis unfolding set_cert_def
    by (intro keeps_lift_then keeps_then keeps_set_quoted assms(1)) (use assms(2) in auto)
qed

lemma validate_eap_method_ok:
  "validate_eap_method m = Inr () \<longleftrightarrow> to_ascii_uppercase m \<in> set KNOWN_EAP_METHODS"
  by (auto simp: validate_eap_method_def)

lemma keeps_configure_eap:
  assumes "records E log"
  shows "keeps_io (only_commands old log) (configure_eap E c n ssid eap password)"
  unfolding configure_eap_def
  by (intro keeps_bind keeps_basic keeps_then keeps_lift_then keeps_set_quoted keeps_set_raw keeps_if_some
        keeps_set_cert assms)
    (auto simp: validate_eap_method_ok split: option.splits intro!: keeps_set_quoted assms)

lemma keeps_status: "records E log \<Longrightarrow> keeps_io (only_commands old log) (wpa_status E c)"
  unfolding wpa_status_def by (auto intro!: keeps_bind keeps_request wpa_command.fixed)

lemma keeps_wait:
  assumes "records E log"
  shows "keeps_io (only_commands old log) (wait_for_association E fuel c ssid deadline)"
proof
  fix w r w'
  assume "only_commands old log w" "wait_for_association E fuel c ssid deadline w = Ret (r, w')"
  then show "only_commands old log w'"
  proof (induction fuel arbitrary: w)
    case (Suc fuel)
    then obtain q w1 where st: "wpa_status E c w = Ret (q, w1)"
      by (cases "wpa_status E c w") auto
    with keeps_ioD [OF keeps_status [OF assms]] Suc.prems(1) have ok: "only_commands old log w1" by blast
    obtain now w2 where n: "wp_now E w1 = (now, w2)" by (cases "wp_now E w1")
    with ok recordsD(7) [OF assms n] have ok2: "only_commands old log w2" by (auto intro: only_commandsI)
    then have ok3: "only_commands old log (wp_sleep E 300 w2)"
      by (rule only_commandsI [rotated]) (rule recordsD(11) [OF assms])
    show ?case
      using Suc.prems(2) st ok n ok2 Suc.IH [OF ok3]
      by (cases q) (auto simp: Let_def split: if_splits)
  qed simp
qed

lemma keeps_wpa_connect:
  assumes "records E log"
  shows "keeps_io (only_commands old log) (wpa_connect E dir ifname)"
  unfolding wpa_connect_def random_temp_path_def random_suffix_def Let_def
  by (intro keeps_lift_then keeps_bind keeps_then keeps_or_close keeps_quiet keeps_basic)
    (erule recordsD(2-5) [OF assms] | simp add: only_commands_def recordsD(9) [OF assms])+

lemma keeps_with_ctrl:
  assumes "records E log" "\<And>c. keeps_io (only_commands old log) (body c)"
  shows "keeps_io (only_commands old log) (with_ctrl E dir ifname body)"
  unfolding with_ctrl_def wpa_drop_def
  by (intro keeps_bind keeps_wpa_connect keeps_finally assms)
    (auto intro: only_commandsI simp: recordsD(9,10) [OF assms(1)])

lemma keeps_clear_networks:
  assumes "records E log"
  shows "keeps_io (only_commands old log) (clear_networks E c ssid)"
  unfolding clear_networks_def
  by (intro keeps_bind keeps_try keeps_for keeps_verbs assms)
    (auto intro!: keeps_ignore keeps_verbs assms split: prod.splits)

lemma keeps_wifi_connect:
  assumes "records E log"
  shows "keeps_io (only_commands old log) (wifi_connect E fuel dir ifname ssid sec pass eap)"
proof -
  have now: "keeps_io (only_commands old log) (ask (wp_now E))"
    by (rule keeps_quiet_ask) (rule recordsD(7) [OF assms])
  have auth: "keeps_io (only_commands old log)
     (if is_enterprise sec then
          bind_io (lift_io (ok_or e0 eap)) (\<lambda>e. configure_eap E c n ssid e pass)
        else if \<not> needs_passphrase sec then return_io ()
        else (case pass of
                Some pass \<Rightarrow>
                  then_io (lift_io (validate_wpa_passphrase pass)) (set_network_quoted E c n ''psk'' pass)
              | None \<Rightarrow> fail_io e1))" for c n e0 e1
    by (auto intro!: keeps_bind keeps_then keeps_configure_eap keeps_set_quoted assms split: option.splits)
  show ?thesis
    unfolding wifi_connect_def
    by (intro keeps_lift_then keeps_with_ctrl keeps_then keeps_bind keeps_clear_networks keeps_set_quoted
          keeps_set_raw keeps_verbs keeps_wait auth now assms) simp_all
qed

lemma wpa_command_line: "wpa_command cmd \<Longrightarrow> nl \<notin> set cmd \<and> nul \<notin> set cmd"
proof (induction rule: wpa_command.induct)
  case (raw key val n)
  then show ?case
    by (auto simp: show_u32_def key_mgmt_def KNOWN_EAP_METHODS_def split: SecurityType.splits)
qed (auto simp: show_u32_def)

text \<open>C16. No injection into wpa_supplicant: whatever the network name, passphrase, identity, certificate
  paths and EAP methods are, every datagram a connection attempt sends to the control socket is one
  of the protocol's own commands on a single line, with each supplied value either checked against a
  fixed list or enclosed in quotes it cannot close.\<close>

theorem connect_commands_safe:
  assumes "records E log"
    and "wifi_connect E fuel dir ifname ssid sec pass eap w = Ret (r, w')"
  shows "\<forall>b \<in> set (log w'). b \<in> set (log w) \<or>
    (\<exists>cmd. wpa_command cmd \<and> nl \<notin> set cmd \<and> nul \<notin> set cmd \<and> b = as_bytes cmd)"
proof -
  have "only_commands (set (log w)) log w" by (simp add: only_commands_def)
  with keeps_ioD [OF keeps_wifi_connect [OF assms(1)] assms(2)]
  have "only_commands (set (log w)) log w'" .
  then show ?thesis using wpa_command_line by (fastforce simp: only_commands_def)
qed

text \<open>A supplicant that accepts every command and reports the association complete.\<close>

definition ready_wpa :: "string \<Rightarrow> bytes list WpaEnv" where
  "ready_wpa ssid =
     \<lparr>te_urandom = (\<lambda>w. (Inr [1, 2], w)), te_temp_dir = ''/tmp'',
      te_create_dir = (\<lambda>_ w. (Created, w)), te_create_new = (\<lambda>_ w. (Created, w)),
      wp_bind = (\<lambda>p w. (Inr 3, w)), wp_connect = (\<lambda>fd p w. (Inr (), w)),
      wp_set_timeout = (\<lambda>fd t w. (Inr (), w)), wp_send = (\<lambda>fd b w. (Inr (), w @ [b])),
      wp_recv = (\<lambda>fd w. (Datagram (as_bytes
        (if last w = as_bytes ''ADD_NETWORK'' then ''0''
         else if last w = as_bytes ''STATUS'' then ''wpa_state=COMPLETED'' @ [nl] @ ''ssid='' @ ssid
         else ''OK'')), w)),
      wp_close = (\<lambda>fd w. w), wp_unlink = (\<lambda>p w. w), wp_now = (\<lambda>w. (0, w)),
      wp_sleep = (\<lambda>d w. w), wp_open = (\<lambda>p w. (Inr (), w))\<rparr>"

lemma ready_wpa_records: "records (ready_wpa ssid) id"
  by (simp add: records_def ready_wpa_def)

lemma as_bytes_inject: "as_bytes s = as_bytes t \<longleftrightarrow> s = t"
  by (metis of_bytes_as_bytes)

lemma ready_request:
  "wpa_request (ready_wpa ''cafe'') c cmd w = Ret (Inr
     (if cmd = ''ADD_NETWORK'' then ''0''
      else if cmd = ''STATUS'' then ''wpa_state=COMPLETED'' @ [nl] @ ''ssid=cafe'' else ''OK''), w @ [as_bytes cmd])"
proof -
  have "from_utf8_lossy (as_bytes s) = s" if "s \<in> {''0'', ''OK'', ''wpa_state=COMPLETED'' @ [nl] @ ''ssid=cafe''}" for s
    using that by (intro from_utf8_lossy_ascii) (auto simp: is_ascii_def)
  moreover have "trim_end s = s" if "s \<in> {''0'', ''OK'', ''wpa_state=COMPLETED'' @ [nl] @ ''ssid=cafe''}" for s
    using that by (auto simp: trim_start_plain trim_start.simps [of "nl # t" for t])
  ultimately show ?thesis
    by (simp add: wpa_request_def recv_line_def ready_wpa_def sys_call_def io_defs as_bytes_inject)
qed

lemma ready_request_ok:
  "cmd \<noteq> ''ADD_NETWORK'' \<Longrightarrow> cmd \<noteq> ''STATUS'' \<Longrightarrow>
     request_ok (ready_wpa ''cafe'') c cmd w = Ret (Inr (), w @ [as_bytes cmd])"
  by (simp add: request_ok_def ready_request trim_plain return_io_apply)

lemma ready_ctrl: "wpa_connect (ready_wpa ''cafe'') ''/run/wpa'' ''wlan0'' w =
    Ret (Inr \<lparr>wc_sock = 3, wc_client_path = ''/tmp/mitos-wpa-wlan0-0102.sock''\<rparr>, w)"
proof -
  have "validate_interface_name ''wlan0'' = Inr ()" "hex2 1 = ''01''" "hex2 2 = ''02''" by code_simp+
  then show ?thesis
    by (simp add: wpa_connect_def random_temp_path_def random_suffix_def ready_wpa_def or_close_def
        sys_call_def io_defs)
qed

lemma ready_status: "wpa_status (ready_wpa ''cafe'') c w =
    Ret (Inr [(''ssid'', ''cafe''), (''wpa_state'', ''COMPLETED'')], w @ [as_bytes ''STATUS''])"
proof -
  have "parse_pairs (''wpa_state=COMPLETED'' @ [nl] @ ''ssid=cafe'') = [(''ssid'', ''cafe''), (''wpa_state'', ''COMPLETED'')]"
    by code_simp
  then show ?thesis by (simp add: wpa_status_def ready_request return_io_apply)
qed

lemma ready_now: "wp_now (ready_wpa ssid) w = (0, w)"
  by (simp add: ready_wpa_def)

lemma ready_connect:
  "\<exists>w'. wifi_connect (ready_wpa ''cafe'') 1 ''/run/wpa'' ''wlan0'' ''cafe'' Wpa2Psk (Some ''espresso1'') None [] = Ret (Inr (), w')"
proof -
  have ok: "validate_ssid ''cafe'' = Inr ()" "validate_wpa_passphrase ''espresso1'' = Inr ()"
    "validate_quoted_value key ''cafe'' = Inr ()" "validate_quoted_value key ''espresso1'' = Inr ()" for key
    by (simp_all add: validate_ssid_def validate_wpa_passphrase_def is_ascii_def validate_quoted_value_def)
  have "show_nat 0 = ''0''" by code_simp
  then have "parse_u32 (trim ''0'') = Some 0" using parse_u32_show [of 0] by (simp add: trim_plain)
  moreover have "lines ''OK'' = [''OK'']" by code_simp
  ultimately show ?thesis using ok
    by (simp add: wifi_connect_def with_ctrl_def ready_ctrl finally_io_def clear_networks_def list_networks_def
        ready_request add_network_def set_network_quoted_def set_network_raw_def ready_request_ok
        enable_network_def select_network_def is_enterprise_def needs_passphrase_def ready_status ready_now
        hm_get_def ask_def then_io_def lift_io_def return_io_apply ok_or_def try_io_def bind_io_def One_nat_def)
qed

theorem connect_commands_safe_witness:
  "\<exists>w'. wifi_connect (ready_wpa ''cafe'') 1 ''/run/wpa'' ''wlan0'' ''cafe'' Wpa2Psk (Some ''espresso1'') None [] = Ret (Inr (), w') \<and>
     (\<forall>b \<in> set w'. \<exists>cmd. wpa_command cmd \<and> nl \<notin> set cmd \<and> b = as_bytes cmd)"
proof -
  obtain w' where w: "wifi_connect (ready_wpa ''cafe'') 1 ''/run/wpa'' ''wlan0'' ''cafe'' Wpa2Psk (Some ''espresso1'') None [] = Ret (Inr (), w')"
    using ready_connect by blast
  from connect_commands_safe [OF ready_wpa_records w] w show ?thesis by auto
qed

section \<open>Choosing an access point\<close>

lemma max_by_key_Some:
  "max_by_key f xs = Some x \<Longrightarrow> x \<in> set xs \<and> (\<forall>y \<in> set xs. f y \<le> f x)"
proof (induction xs arbitrary: x)
  case (Cons a xs)
  show ?case
  proof (cases "max_by_key f xs")
    case None
    then have "xs = []" by (cases xs) (auto split: option.splits)
    with Cons.prems show ?thesis by simp
  next
    case (Some y)
    with Cons.IH [OF Some] Cons.prems show ?thesis by (auto split: if_splits)
  qed
qed simp

text \<open>Roaming settles: a roam goes to an access point of the wanted network that no other visible one
  beats, at least eight decibels (as 32-bit differences go) above the current one, and from the new
  access point, on the same scan, no further roam is made.\<close>

theorem roam_settles:
  assumes "should_roam networks ssid current = Some c"
  shows "c \<in> set networks \<and> wn_ssid c = ssid \<and> wn_bssid c \<noteq> current \<and>
    (\<forall>n \<in> set networks. wn_ssid n = ssid \<longrightarrow> sint (wn_signal_dbm n) \<le> sint (wn_signal_dbm c)) \<and>
    (\<exists>n \<in> set networks. wn_bssid n = current \<and> 8 \<le> sint (wn_signal_dbm c - wn_signal_dbm n)) \<and>
    should_roam networks ssid (wn_bssid c) = None"
proof -
  from assms obtain n where n: "find (\<lambda>n. wn_bssid n = current) networks = Some n"
    "best_bss networks ssid = Some c" "wn_bssid c \<noteq> current" "8 \<le> sint (wn_signal_dbm c - wn_signal_dbm n)"
    by (auto simp: should_roam_def bind_eq_Some_conv split: if_splits)
  from max_by_key_Some [OF n(2) [unfolded best_bss_def]]
  have c: "c \<in> set networks" "wn_ssid c = ssid"
    "\<forall>n \<in> set networks. wn_ssid n = ssid \<longrightarrow> sint (wn_signal_dbm n) \<le> sint (wn_signal_dbm c)" by auto
  from n(1) have "n \<in> set networks" "wn_bssid n = current"
    by (auto simp: find_Some_iff)
  with c n show ?thesis by (auto simp: should_roam_def split: bind_splits)
qed

theorem roam_settles_witness:
  "map_option wn_bssid (should_roam
     [\<lparr>wn_ssid = ''home'', wn_bssid = ''a'', wn_frequency_mhz = 2412, wn_signal_dbm = -70, wn_security = Open\<rparr>,
      \<lparr>wn_ssid = ''home'', wn_bssid = ''b'', wn_frequency_mhz = 5180, wn_signal_dbm = -55, wn_security = Open\<rparr>] ''home'' ''a'')
   = Some ''b'' \<and>
   should_roam
     [\<lparr>wn_ssid = ''home'', wn_bssid = ''a'', wn_frequency_mhz = 2412, wn_signal_dbm = -70, wn_security = Open\<rparr>,
      \<lparr>wn_ssid = ''home'', wn_bssid = ''b'', wn_frequency_mhz = 5180, wn_signal_dbm = -55, wn_security = Open\<rparr>] ''home'' ''b'' = None"
  (is "map_option _ (should_roam ?ns _ _) = _ \<and> _")
proof -
  have r: "should_roam ?ns ''home'' ''a'' = Some (?ns ! 1)" by code_simp
  from roam_settles [OF r] r show ?thesis by simp
qed

section \<open>The scan table\<close>

text \<open>A row of wpa_supplicant's table for a network, with its flags column.\<close>

definition show_scan_row :: "WifiNetwork \<times> string \<Rightarrow> string" where
  "show_scan_row = (\<lambda>(n, flags). str_join [tab]
     [wn_bssid n, show_nat (unat (wn_frequency_mhz n)), show_int (sint (wn_signal_dbm n)), flags, wn_ssid n])"

definition row_ok :: "WifiNetwork \<times> string \<Rightarrow> bool" where
  "row_ok = (\<lambda>(n, flags).
     wn_ssid n \<noteq> [] \<and> wn_security n = from_flags flags \<and>
     list_all (\<lambda>s. tab \<notin> set s \<and> nl \<notin> set s \<and> cr \<notin> set s) [wn_ssid n, wn_bssid n, flags])"

lemma show_int_free: "c \<in> {nl, tab, cr} \<Longrightarrow> c \<notin> set (show_int i)"
  by (auto simp: show_int_def)

lemma parse_scan_row:
  assumes "row_ok r"
  shows "parse_scan_line (show_scan_row r) = Some (fst r)"
proof -
  obtain n flags where r: "r = (n, flags)" by (cases r)
  let ?cols = "[wn_bssid n, show_nat (unat (wn_frequency_mhz n)), show_int (sint (wn_signal_dbm n)), flags, wn_ssid n]"
  have "split_on tab (str_join [tab] ?cols) = ?cols"
    by (rule split_on_join) (use assms show_int_free [of tab] in \<open>auto simp: row_ok_def r\<close>)
  moreover have "parse_i32 (show_int (sint (wn_signal_dbm n))) = Some (sint (wn_signal_dbm n))"
    using sint_range_size [of "wn_signal_dbm n"] by (intro parse_i32_show) (simp_all add: word_size)
  ultimately show ?thesis using assms
    by (simp add: parse_scan_line_def show_scan_row_def r row_ok_def)
qed

lemma show_scan_row_line:
  assumes "row_ok r"
  shows "nl \<notin> set (show_scan_row r) \<and> strip_cr (show_scan_row r) = show_scan_row r"
proof -
  have "c \<notin> set (show_scan_row r)" if "c \<in> {nl, cr}" for c
    using assms that show_int_free [of c] by (auto simp: show_scan_row_def row_ok_def split: prod.splits)
  then show ?thesis by (auto simp: strip_cr_def dest: last_in_set)
qed

text \<open>Reading a scan: a table with one header line and one line per network is read back as exactly
  those networks, in order, each classified by its flags column.\<close>

theorem scan_table_roundtrip:
  assumes "list_all row_ok rows" and "nl \<notin> set header" and "strip_cr header = header"
  shows "parse_scan_results (unlines (header # map show_scan_row rows)) = map fst rows"
proof -
  have "lines (unlines (header # map show_scan_row rows)) = header # map show_scan_row rows"
    by (rule lines_unlines) (use assms show_scan_row_line in \<open>auto simp: list_all_iff\<close>)
  moreover have "List.map_filter parse_scan_line (map show_scan_row rows) = map fst rows"
    using assms(1) by (induction rows) (auto simp: map_filter_simps parse_scan_row)
  ultimately show ?thesis by (simp add: parse_scan_results_def)
qed

theorem scan_table_roundtrip_witness:
  "map wn_ssid (parse_scan_results (unlines (''bssid / frequency'' # map show_scan_row
     [(\<lparr>wn_ssid = ''HomeNet'', wn_bssid = ''aa:bb:cc:dd:ee:ff'', wn_frequency_mhz = 2412, wn_signal_dbm = -45,
        wn_security = Wpa2Psk\<rparr>, ''[WPA2-PSK-CCMP][ESS]'')]))) = [''HomeNet'']"
proof -
  have "from_flags ''[WPA2-PSK-CCMP][ESS]'' = Wpa2Psk" by code_simp
  then have "list_all row_ok [(\<lparr>wn_ssid = ''HomeNet'', wn_bssid = ''aa:bb:cc:dd:ee:ff'', wn_frequency_mhz = 2412,
      wn_signal_dbm = -45, wn_security = Wpa2Psk\<rparr>, ''[WPA2-PSK-CCMP][ESS]'')]"
    by (simp add: row_ok_def)
  from scan_table_roundtrip [OF this, of "''bssid / frequency''"] show ?thesis
    by (simp only: strip_cr_def) simp
qed

section \<open>The access-point file\<close>

definition config_lines :: "HotspotConfig \<Rightarrow> string list" where
  "config_lines cfg =
     [''interface='' @ hc_interface cfg, ''driver=nl80211'', ''ssid='' @ hc_ssid cfg,
      ''hw_mode='' @ hc_hw_mode cfg, ''channel='' @ show_nat (unat (hc_channel cfg)), ''ieee80211n=1'', ''wmm_enabled=1'']
   @ (case hc_passphrase cfg of
        Some pass \<Rightarrow> [''wpa=2'', ''wpa_passphrase='' @ pass, ''wpa_key_mgmt=WPA-PSK'', ''rsn_pairwise=CCMP'']
      | None \<Rightarrow> [''# open network: no wpa_passphrase configured''])"

lemma render_config_lines: "render_config cfg = unlines (config_lines cfg)"
  by (simp add: render_config_def config_lines_def unlines_def line_of_def split: option.splits)

lemma split_by_prefix: "p x \<Longrightarrow> split_by p (a @ x # b) = split_by p a @ split_by p b"
  by (induction a) (auto split: list.splits)

lemma split_on_middle:
  assumes "c \<notin> set m"
  shows "m \<in> set (split_on c (a @ c # m @ c # b))"
proof -
  have "split_on c m = [m]" by (rule split_by_none) (use assms in auto)
  then show ?thesis by (simp add: split_by_prefix)
qed

text \<open>C17. The hostapd file and line breaks: for a configuration the start of a hotspot accepts, whose
  passphrase has no line break, the file has exactly the intended lines; but the passphrase check
  accepts line breaks, and then whatever follows one stands on a line of its own, a directive of the
  file.\<close>

theorem hostapd_config_lines:
  assumes "hotspot_check cfg = Inr ()" and "nl \<notin> set (hc_hw_mode cfg)"
    and "list_all is_ascii directive" and "nl \<notin> set directive" and "length directive \<le> 54"
    and evil: "evil = cfg\<lparr>hc_passphrase := Some (''password'' @ nl # directive)\<rparr>"
  shows "((\<forall>pass. hc_passphrase cfg = Some pass \<longrightarrow> nl \<notin> set pass) \<longrightarrow>
      split_on nl (render_config cfg) = config_lines cfg @ [[]]) \<and>
    hotspot_check evil = Inr () \<and> directive \<in> set (split_on nl (render_config evil))"
proof (intro conjI impI)
  have plain: "nl \<notin> set (hc_interface cfg)" "nl \<notin> set (hc_ssid cfg)"
    using assms(1) contains_whitespace_nl [of "hc_interface cfg"]
    by (auto simp: hotspot_check_def bind_r_eq_Inr validate_interface_name_def validate_ssid_def split: if_splits)
  assume "\<forall>pass. hc_passphrase cfg = Some pass \<longrightarrow> nl \<notin> set pass"
  with plain assms(2) show "split_on nl (render_config cfg) = config_lines cfg @ [[]]"
    unfolding render_config_lines
    by (intro split_unlines) (auto simp: config_lines_def split: option.splits)
next
  show "hotspot_check evil = Inr ()"
    using assms by (auto simp: hotspot_check_def bind_r_eq_Inr validate_wpa_passphrase_def is_ascii_def)
next
  let ?pre = "unlines (take 8 (config_lines evil)) @ ''wpa_passphrase=password''"
  let ?post = "unlines [''wpa_key_mgmt=WPA-PSK'', ''rsn_pairwise=CCMP'']"
  have "render_config evil = ?pre @ nl # directive @ nl # ?post"
    unfolding evil render_config_lines by (simp add: config_lines_def unlines_def)
  then show "directive \<in> set (split_on nl (render_config evil))"
    by (simp only: split_on_middle [OF assms(4)])
qed

theorem hostapd_config_lines_witness:
  "\<exists>cfg. hotspot_check cfg = Inr () \<and> ''ignore_broadcast_ssid=1'' \<in> set (split_on nl (render_config cfg))"
proof -
  let ?cfg = "\<lparr>hc_interface = ''wlan0'', hc_ssid = ''cafe'', hc_passphrase = None, hc_channel = 6, hc_hw_mode = ''g''\<rparr>"
  have "hotspot_check ?cfg = Inr ()" by code_simp
  from hostapd_config_lines [OF this _ _ _ _ refl, of "''ignore_broadcast_ssid=1''"] show ?thesis
    by (auto simp: is_ascii_def)
qed

end
