(* ===== verification/Ip_Addr.thy ===== *)
theory Ip_Addr
  imports Rust_Str
begin

text \<open>
  IP addresses: what the crate uses of \<open>std::net\<close> (\<open>IpAddr\<close>, its parser and its printer), the
  subnet arithmetic of \<^verbatim>\<open>src/src/ip/ipv4.rs\<close>, the IPv6 helpers of \<^verbatim>\<open>src/src/ip/ipv6.rs\<close>, the
  family tag of \<^verbatim>\<open>src/src/ip/mod.rs\<close> and the CIDR parser of \<^verbatim>\<open>src/src/ip/address.rs\<close>. An IPv4
  address is its 32-bit value, an IPv6 address its 128-bit value.
\<close>

section \<open>Big-endian byte strings of any width\<close>

fun le_digits :: "nat \<Rightarrow> nat \<Rightarrow> bytes" where
  "le_digits 0 n = []"
| "le_digits (Suc k) n = word_of_nat n # le_digits k (n div 256)"

fun le_val :: "bytes \<Rightarrow> nat" where
  "le_val [] = 0"
| "le_val (b # bs) = unat b + 256 * le_val bs"

lemma length_le_digits [simp]: "length (le_digits k n) = k"
  by (induction k n rule: le_digits.induct) auto

lemma unat_byte_of_nat: "unat (word_of_nat n :: byte) = n mod 256"
  by (simp add: unat_of_nat)

lemma le_val_le_digits: "le_val (le_digits k n) = n mod 256 ^ k"
proof (induction k n rule: le_digits.induct)
  case (2 k n)
  then show ?case by (simp add: unat_byte_of_nat mod_mult2_eq)
qed simp

lemma le_digits_le_val: "le_digits (length bs) (le_val bs) = bs"
proof (induction bs)
  case (Cons b bs)
  have b: "unat b < 256" using unsigned_less [of b, where 'a = nat] by simp
  then have "(unat b + 256 * le_val bs) div 256 = le_val bs" by simp
  moreover have "(word_of_nat (unat b + 256 * le_val bs) :: byte) = b"
    by (rule word_unat_eq_iff [THEN iffD2]) (use b in \<open>simp only: unat_byte_of_nat\<close>, simp)
  ultimately show ?case using Cons by (simp del: of_nat_add)
qed simp

lemma le_val_less: "le_val bs < 256 ^ length bs"
proof (induction bs)
  case (Cons b bs)
  have "unat b < 256" using unsigned_less [of b, where 'a = nat] by simp
  with Cons show ?case by simp
qed simp

section \<open>\<open>std::net\<close> addresses\<close>

type_synonym Ipv4Addr = "32 word"
type_synonym Ipv6Addr = "128 word"

datatype IpAddr = V4 Ipv4Addr | V6 Ipv6Addr

definition octets4 :: "Ipv4Addr \<Rightarrow> bytes" where "octets4 a = be32 a"

definition octets6 :: "Ipv6Addr \<Rightarrow> bytes" where "octets6 a = rev (le_digits 16 (unat a))"

definition from_octets6 :: "bytes \<Rightarrow> Ipv6Addr" where
  "from_octets6 bs = word_of_nat (le_val (rev bs))"

definition ipv4_new :: "byte \<Rightarrow> byte \<Rightarrow> byte \<Rightarrow> byte \<Rightarrow> Ipv4Addr" where
  "ipv4_new a b c d = from_be32 a b c d"

definition segments :: "Ipv6Addr \<Rightarrow> u16 list" where
  "segments a = map (\<lambda>c. from_be16 (c ! 0) (c ! 1)) (chunks_exact 2 (octets6 a))"

definition ipv6_new :: "u16 list \<Rightarrow> Ipv6Addr" where
  "ipv6_new segs = from_octets6 (concat (map be16 segs))"

lemma length_octets4 [simp]: "length (octets4 a) = 4"
  by (simp add: octets4_def length_wire)

lemma length_octets6 [simp]: "length (octets6 a) = 16"
  by (simp add: octets6_def)

lemma from_octets6_octets6 [simp]: "from_octets6 (octets6 a) = a"
proof -
  have "unat a < 256 ^ 16" using unsigned_less [of a, where 'a = nat] by simp
  then show ?thesis by (simp add: from_octets6_def octets6_def le_val_le_digits del: le_digits.simps)
qed

lemma octets6_from_octets6: "length bs = 16 \<Longrightarrow> octets6 (from_octets6 bs) = bs"
proof -
  assume l: "length bs = 16"
  have "le_val (rev bs) < 2 ^ 128" using le_val_less [of "rev bs"] l by simp
  then have "unat (word_of_nat (le_val (rev bs)) :: 128 word) = le_val (rev bs)"
    by (simp add: unat_of_nat)
  then show ?thesis using le_digits_le_val [of "rev bs"] l
    by (simp add: from_octets6_def octets6_def)
qed

lemma octets6_inject: "octets6 a = octets6 b \<longleftrightarrow> a = b"
  by (metis from_octets6_octets6)

lemma segments_ipv6_new:
  assumes "length segs = 8"
  shows "segments (ipv6_new segs) = segs"
proof -
  have l: "length (concat (map be16 segs)) = 16"
    using assms by (simp add: length_concat comp_def length_wire sum_list_triv)
  have "chunks_exact 2 (concat (map be16 segs)) = map be16 segs"
    by (rule chunks_exact_concat_map) (simp_all add: length_wire)
  with l show ?thesis
    by (simp add: segments_def ipv6_new_def octets6_from_octets6 comp_def be16_def
        from_be16_inverse [unfolded be16_def])
qed

definition is_ipv4 :: "IpAddr \<Rightarrow> bool" where
  "is_ipv4 ip = (case ip of V4 _ \<Rightarrow> True | V6 _ \<Rightarrow> False)"

subsection \<open>Parsing\<close>

text \<open>\<open>Parser::read_number\<close>: the digits are consumed greedily; too many, an overflow or a
  forbidden leading zero fail.\<close>

definition read_number :: "nat \<Rightarrow> nat \<Rightarrow> nat \<Rightarrow> bool \<Rightarrow> string \<Rightarrow> (nat \<times> string) option" where
  "read_number r mx digits zero_ok s =
     (let ds = takeWhile (\<lambda>c. to_digit r c \<noteq> None) s; rest = dropWhile (\<lambda>c. to_digit r c \<noteq> None) s
      in if ds = [] \<or> digits < length ds \<or> (\<not> zero_ok \<and> hd ds = CHR ''0'' \<and> 1 < length ds)
         then None
         else (case digits_val r ds 0 of
                 None \<Rightarrow> None
               | Some n \<Rightarrow> if n \<le> mx then Some (n, rest) else None))"

definition read_given_char :: "char \<Rightarrow> string \<Rightarrow> string option" where
  "read_given_char c s = (case s of x # xs \<Rightarrow> if x = c then Some xs else None | [] \<Rightarrow> None)"

definition read_separator ::
    "char \<Rightarrow> nat \<Rightarrow> (string \<Rightarrow> ('a \<times> string) option) \<Rightarrow> string \<Rightarrow> ('a \<times> string) option" where
  "read_separator c i p s =
     (if 0 < i then Option.bind (read_given_char c s) p else p s)"

definition read_octet :: "nat \<Rightarrow> string \<Rightarrow> (nat \<times> string) option" where
  "read_octet i s = read_separator (CHR ''.'') i (read_number 10 255 3 False) s"

definition read_ipv4_addr :: "string \<Rightarrow> (Ipv4Addr \<times> string) option" where
  "read_ipv4_addr s =
     Option.bind (read_octet 0 s) (\<lambda>(a, s1).
     Option.bind (read_octet 1 s1) (\<lambda>(b, s2).
     Option.bind (read_octet 2 s2) (\<lambda>(c, s3).
     Option.bind (read_octet 3 s3) (\<lambda>(d, s4).
       Some (ipv4_new (word_of_nat a) (word_of_nat b) (word_of_nat c) (word_of_nat d), s4)))))"

text \<open>\<open>read_groups\<close> of \<open>Parser::read_ipv6_addr\<close> with \<open>limit\<close> slots, from slot \<open>i\<close>: the groups
  read, whether they end in an embedded IPv4 address, and the rest.\<close>

function read_groups :: "nat \<Rightarrow> nat \<Rightarrow> string \<Rightarrow> u16 list \<times> bool \<times> string" where
  "read_groups limit i s =
     (if limit \<le> i then ([], False, s)
      else (case (if i < limit - 1 then read_separator (CHR '':'') i read_ipv4_addr s else None) of
        Some (v4, s') \<Rightarrow>
          (map (\<lambda>c. from_be16 (c ! 0) (c ! 1)) (chunks_exact 2 (octets4 v4)), True, s')
      | None \<Rightarrow>
          (case read_separator (CHR '':'') i (read_number 16 65535 4 True) s of
             None \<Rightarrow> ([], False, s)
           | Some (g, s') \<Rightarrow>
               (case read_groups limit (i + 1) s' of
                  (gs, v, s'') \<Rightarrow> (word_of_nat g # gs, v, s'')))))"
  by pat_completeness auto
termination
  by (relation "measure (\<lambda>(limit, i, s). limit - i)") auto

declare read_groups.simps [simp del]

definition read_ipv6_addr :: "string \<Rightarrow> (Ipv6Addr \<times> string) option" where
  "read_ipv6_addr s =
     (case read_groups 8 0 s of
        (head, head_v4, s1) \<Rightarrow>
          if length head = 8 then Some (ipv6_new head, s1)
          else if head_v4 then None
          else Option.bind (read_given_char (CHR '':'') s1) (\<lambda>s2.
               Option.bind (read_given_char (CHR '':'') s2) (\<lambda>s3.
                 (case read_groups (8 - (length head + 1)) 0 s3 of
                    (tail, _, s4) \<Rightarrow>
                      Some (ipv6_new (head @ replicate (8 - length head - length tail) 0 @ tail), s4)))))"

text \<open>\<open>IpAddr::from_str\<close>, \<open>Ipv4Addr::from_str\<close>: the whole input must be consumed.\<close>

definition parse_ipv4 :: "string \<Rightarrow> Ipv4Addr option" where
  "parse_ipv4 s =
     (if 15 < length s then None
      else (case read_ipv4_addr s of Some (a, []) \<Rightarrow> Some a | _ \<Rightarrow> None))"

definition parse_ip :: "string \<Rightarrow> IpAddr option" where
  "parse_ip s =
     (case read_ipv4_addr s of
        Some (a, r) \<Rightarrow> if r = [] then Some (V4 a) else None
      | None \<Rightarrow>
          (case read_ipv6_addr s of
             Some (a, r) \<Rightarrow> if r = [] then Some (V6 a) else None
           | None \<Rightarrow> None))"

subsection \<open>Printing\<close>

definition show_ipv4 :: "Ipv4Addr \<Rightarrow> string" where
  "show_ipv4 a = str_join ''.'' (map (\<lambda>b. show_nat (unat b)) (octets4 a))"

text \<open>The longest run of zero segments, the first of the longest: (start, length).\<close>

fun zero_span :: "u16 list \<Rightarrow> nat \<Rightarrow> nat \<times> nat \<Rightarrow> nat \<times> nat \<Rightarrow> nat \<times> nat" where
  "zero_span [] i cur best = best"
| "zero_span (g # gs) i cur best =
     (if g = 0 then
        (let cur' = (if snd cur = 0 then (i, 1) else (fst cur, snd cur + 1))
         in zero_span gs (i + 1) cur' (if snd best < snd cur' then cur' else best))
      else zero_span gs (i + 1) (0, 0) best)"

definition show_segs :: "u16 list \<Rightarrow> string" where
  "show_segs gs = str_join '':'' (map (\<lambda>g. show_radix 16 (unat g)) gs)"

definition show_ipv6 :: "Ipv6Addr \<Rightarrow> string" where
  "show_ipv6 a =
     (let gs = segments a
      in if take 5 gs = replicate 5 0 \<and> gs ! 5 = 0xFFFF
         then ''::ffff:'' @ show_ipv4 (word_of_nat (unat a))
         else (case zero_span gs 0 (0, 0) (0, 0) of
                 (st, n) \<Rightarrow>
                   if 1 < n then show_segs (take st gs) @ ''::'' @ show_segs (drop (st + n) gs)
                   else show_segs gs))"

definition show_ip :: "IpAddr \<Rightarrow> string" where
  "show_ip ip = (case ip of V4 a \<Rightarrow> show_ipv4 a | V6 a \<Rightarrow> show_ipv6 a)"

section \<open>Subnet arithmetic, \<^verbatim>\<open>ip/ipv4.rs\<close>\<close>

text \<open>\<open>32 - prefixlen\<close> wraps and the shift amount is taken modulo 32, as in a release build; for
  \<open>prefixlen \<le> 32\<close> neither happens.\<close>

definition subnet_mask :: "u8 \<Rightarrow> Ipv4Addr" where
  "subnet_mask prefixlen =
     (if prefixlen = 0 then ipv4_new 0 0 0 0
      else push_bit (unat (32 - (ucast prefixlen :: u32)) mod 32) (- 1))"

definition broadcast_address :: "Ipv4Addr \<Rightarrow> u8 \<Rightarrow> Ipv4Addr" where
  "broadcast_address addr prefixlen = addr OR NOT (subnet_mask prefixlen)"

definition network_address :: "Ipv4Addr \<Rightarrow> u8 \<Rightarrow> Ipv4Addr" where
  "network_address addr prefixlen = addr AND subnet_mask prefixlen"

definition same_subnet :: "Ipv4Addr \<Rightarrow> Ipv4Addr \<Rightarrow> u8 \<Rightarrow> bool" where
  "same_subnet a b prefixlen = (network_address a prefixlen = network_address b prefixlen)"

lemma unat_prefix_shift:
  assumes "0 < p" "p \<le> (32 :: u8)"
  shows "unat (32 - (ucast p :: u32)) mod 32 = 32 - unat p"
proof -
  have p: "unat p \<le> 32" using assms(2) by (simp add: word_le_nat_alt)
  have p0: "0 < unat p" using assms(1) by (simp add: word_less_nat_alt)
  have "(ucast p :: u32) \<le> 32"
    using p by (simp add: word_le_nat_alt unsigned_ucast_eq take_bit_nat_eq_self)
  then have "unat (32 - (ucast p :: u32)) = 32 - unat p"
    using p by (simp add: unat_sub unsigned_ucast_eq take_bit_nat_eq_self)
  then show ?thesis using p0 by simp
qed

lemma subnet_mask_eq:
  assumes "p \<le> (32 :: u8)"
  shows "subnet_mask p = NOT (mask (32 - unat p))"
proof (cases "p = 0")
  case True
  have "(mask 32 :: u32) = - 1" by (simp add: mask_eq_exp_minus_1)
  with True show ?thesis by (simp add: subnet_mask_def ipv4_new_def from_be32_def)
next
  case False
  then have p: "0 < p" by (simp add: word_gt_0)
  have "subnet_mask p = push_bit (32 - unat p) (- 1)"
    using False unat_prefix_shift [OF p assms] by (simp add: subnet_mask_def)
  then show ?thesis by (simp add: minus_exp_eq_not_mask push_bit_minus_one)
qed


text \<open>A prefix splits an address into its network number and its host bits.\<close>

lemma prefix_parts:
  "a AND NOT (mask k) = push_bit k (drop_bit k a)"
  "a OR mask k = push_bit k (drop_bit k a) OR mask k"
  for a :: "'a::len word"
  by (rule bit_eqI; auto simp: bit_simps)+

lemma unat_push_drop: "unat (push_bit k (drop_bit k a)) = unat a div 2 ^ k * 2 ^ k"
  for a :: "'a::len word"
proof -
  have "unat a < 2 ^ LENGTH('a)" by simp
  then have "unat a div 2 ^ k * 2 ^ k < 2 ^ LENGTH('a)"
    by (meson div_times_less_eq_dividend le_less_trans)
  moreover have "unat (push_bit k (drop_bit k a)) = take_bit LENGTH('a) (unat a div 2 ^ k * 2 ^ k)"
    by (simp only: unsigned_push_bit_eq unat_drop_bit_eq drop_bit_eq_div [where 'a = nat]
        push_bit_eq_mult [where 'a = nat])
  ultimately show ?thesis by (simp add: take_bit_nat_eq_self)
qed

lemma unat_network:
  assumes "p \<le> 32"
  shows "unat (network_address a p) = unat a div 2 ^ (32 - unat p) * 2 ^ (32 - unat p)"
  by (simp add: network_address_def subnet_mask_eq [OF assms] prefix_parts unat_push_drop)

lemma unat_mask32: "k \<le> 32 \<Longrightarrow> unat (mask k :: u32) = 2 ^ k - 1"
proof -
  assume "k \<le> 32"
  then have "unat (mask k :: u32) = (mask k :: nat)" by (auto simp: bit_eq_iff bit_simps)
  then show ?thesis by (simp add: mask_eq_exp_minus_1)
qed

lemma unat_broadcast:
  assumes "p \<le> 32"
  shows "unat (broadcast_address a p)
       = unat a div 2 ^ (32 - unat p) * 2 ^ (32 - unat p) + (2 ^ (32 - unat p) - 1)"
proof -
  let ?k = "32 - unat p"
  have "unat (broadcast_address a p) = unat (push_bit ?k (drop_bit ?k a)) OR unat (mask ?k :: u32)"
    using prefix_parts(2) [of a ?k]
    by (simp add: broadcast_address_def subnet_mask_eq [OF assms] unsigned_or_eq)
  also have "\<dots> = unat (push_bit ?k (drop_bit ?k a)) + unat (mask ?k :: u32)"
    by (rule disjunctive_add_eq_or [symmetric], rule bit_eqI) (simp add: bit_simps)
  also have "unat (mask ?k :: u32) = 2 ^ ?k - 1" by (rule unat_mask32) simp
  finally show ?thesis by (simp add: unat_push_drop)
qed

lemma same_subnet_div:
  assumes "p \<le> 32"
  shows "same_subnet a b p \<longleftrightarrow> unat a div 2 ^ (32 - unat p) = unat b div 2 ^ (32 - unat p)"
  by (simp add: same_subnet_def unat_network [OF assms] word_unat_eq_iff [of "network_address a p"])

section \<open>IPv6 helpers, \<^verbatim>\<open>ip/ipv6.rs\<close>\<close>

text \<open>A MAC address is its list of octets; \<open>mac[i]\<close> is only used on the six of a \<open>[u8; 6]\<close>.\<close>

definition link_local_from_mac :: "bytes \<Rightarrow> Ipv6Addr" where
  "link_local_from_mac mac =
     ipv6_new [0xfe80, 0, 0, 0,
       from_be16 (mac ! 0 XOR 0x02) (mac ! 1), from_be16 (mac ! 2) 0xff,
       from_be16 0xfe (mac ! 3), from_be16 (mac ! 4) (mac ! 5)]"

definition is_link_local :: "Ipv6Addr \<Rightarrow> bool" where
  "is_link_local addr = (segments addr ! 0 AND 0xffc0 = 0xfe80)"

definition is_unique_local :: "Ipv6Addr \<Rightarrow> bool" where
  "is_unique_local addr = (segments addr ! 0 AND 0xfe00 = 0xfc00)"

lemma segments_link_local:
  "segments (link_local_from_mac mac) =
     [0xfe80, 0, 0, 0,
       from_be16 (mac ! 0 XOR 0x02) (mac ! 1), from_be16 (mac ! 2) 0xff,
       from_be16 0xfe (mac ! 3), from_be16 (mac ! 4) (mac ! 5)]"
  unfolding link_local_from_mac_def by (rule segments_ipv6_new) simp

lemma from_be16_inject: "from_be16 a b = from_be16 c d \<longleftrightarrow> a = c \<and> b = d"
proof
  assume eq: "from_be16 a b = from_be16 c d"
  have "be16 (from_be16 x y) = [x, y]" for x y
    by (auto simp: be16_def from_be16_def bit_eq_iff bit_simps)
  with eq show "a = c \<and> b = d" by (metis list.inject)
qed simp

lemma byte_xor_cancel: "a XOR c = b XOR c \<longleftrightarrow> a = b" for a b c :: byte
  by (metis xor.assoc xor_self_eq xor.right_neutral)

lemma link_local_inject:
  assumes "length m = 6" "length m' = 6"
    and "link_local_from_mac m = link_local_from_mac m'"
  shows "m = m'"
proof (rule nth_equalityI)
  show "length m = length m'" using assms by simp
  fix i
  assume "i < length m"
  then have "i < 6" using assms by simp
  moreover have "segments (link_local_from_mac m) = segments (link_local_from_mac m')"
    using assms(3) by simp
  ultimately show "m ! i = m' ! i"
    by (auto simp: segments_link_local from_be16_inject byte_xor_cancel less_Suc_eq numeral_eq_Suc)
qed

section \<open>Address families, \<^verbatim>\<open>ip/mod.rs\<close>\<close>

datatype Family = FamV4 | FamV6

definition AF_INET :: u8 where "AF_INET = 2"
definition AF_INET6 :: u8 where "AF_INET6 = 10"

definition family_raw :: "Family \<Rightarrow> u8" where
  "family_raw f = (case f of FamV4 \<Rightarrow> AF_INET | FamV6 \<Rightarrow> AF_INET6)"

definition family_of_ip :: "IpAddr \<Rightarrow> Family" where
  "family_of_ip addr = (case addr of V4 _ \<Rightarrow> FamV4 | V6 _ \<Rightarrow> FamV6)"

section \<open>CIDR strings and wire form, \<^verbatim>\<open>ip/address.rs\<close>\<close>

definition parse_cidr :: "string \<Rightarrow> (IpAddr \<times> u8) result" where
  "parse_cidr s =
     bind_r (ok_or (Parse (quoted s @ '' is not in CIDR form (addr/prefix)'')) (split_once (CHR ''/'') s))
       (\<lambda>(ip_part, len_part).
     bind_r (ok_or (Parse (quoted ip_part @ '' is not a valid IP address'')) (parse_ip ip_part)) (\<lambda>ip.
     bind_r (ok_or (Parse (quoted len_part @ '' is not a valid prefix length'')) (parse_u8 len_part))
       (\<lambda>prefixlen.
     let mx = (if is_ipv4 ip then 32 else 128)
     in if prefixlen > mx then
          Inl (Parse (''prefix length '' @ show_nat (unat prefixlen) @ '' out of range for '' @ show_ip ip))
        else Inr (ip, prefixlen))))"

definition ip_bytes :: "IpAddr \<Rightarrow> bytes" where
  "ip_bytes ip = (case ip of V4 v4 \<Rightarrow> octets4 v4 | V6 v6 \<Rightarrow> octets6 v6)"

definition bytes_to_ip :: "u8 \<Rightarrow> bytes \<Rightarrow> IpAddr option" where
  "bytes_to_ip family b =
     (if family = AF_INET \<and> length b = 4 then Some (V4 (ipv4_new (b ! 0) (b ! 1) (b ! 2) (b ! 3)))
      else if family = AF_INET6 \<and> length b = 16 then Some (V6 (from_octets6 b))
      else None)"

lemma ipv4_new_octets: "ipv4_new (octets4 a ! 0) (octets4 a ! Suc 0) (octets4 a ! 2) (octets4 a ! 3) = a"
  by (simp add: ipv4_new_def octets4_def be32_def from_be32_inverse [unfolded be32_def])

lemma bytes_to_ip_ip_bytes:
  "bytes_to_ip (family_raw (family_of_ip ip)) (ip_bytes ip) = Some ip"
  by (cases ip)
    (simp_all add: bytes_to_ip_def family_raw_def family_of_ip_def ip_bytes_def AF_INET_def
      AF_INET6_def ipv4_new_octets)

subsection \<open>What the parser accepts\<close>

lemma show_radix_hd:
  "2 \<le> r \<Longrightarrow> r \<le> 16 \<Longrightarrow> 0 < n \<Longrightarrow> hd (show_radix r n) \<noteq> CHR ''0''"
proof (induction r n rule: show_radix.induct)
  case (1 r n)
  show ?case
  proof (cases "n < r")
    case True
    with 1 have "to_digit r (digit_char n) = Some n" by (simp add: to_digit_digit_char)
    then have "digit_char n \<noteq> CHR ''0''" using 1 by (auto simp: to_digit_def is_digit_def)
    with True show ?thesis by (simp add: show_radix.simps [of r n])
  next
    case False
    with 1 have "hd (show_radix r (n div r)) \<noteq> CHR ''0''" by (simp add: div_greater_zero_iff)
    with False 1 show ?thesis by (simp add: show_radix.simps [of r n])
  qed
qed

lemma show_radix_length:
  "2 \<le> r \<Longrightarrow> n < r ^ Suc k \<Longrightarrow> length (show_radix r n) \<le> Suc k"
proof (induction k arbitrary: n)
  case 0
  then show ?case by (simp add: show_radix.simps [of r n])
next
  case (Suc k)
  show ?case
  proof (cases "n < r")
    case True
    then show ?thesis by (simp add: show_radix.simps [of r n])
  next
    case False
    have "n div r < r ^ Suc k" using Suc.prems by (simp add: less_mult_imp_div_less mult.commute)
    then have "length (show_radix r (n div r)) \<le> Suc k" using Suc by blast
    with False Suc.prems show ?thesis by (simp add: show_radix.simps [of r n])
  qed
qed

lemma show_radix_single: "1 < length (show_radix r n) \<Longrightarrow> 0 < n"
  by (rule ccontr) (auto simp: show_radix.simps [of r n] split: if_splits)

lemma read_number_show:
  assumes r: "2 \<le> r" "r \<le> 16" and n: "n \<le> mx" "length (show_radix r n) \<le> k"
    and rest: "rest = [] \<or> to_digit r (hd rest) = None"
  shows "read_number r mx k z (show_radix r n @ rest) = Some (n, rest)"
proof -
  let ?p = "\<lambda>c. to_digit r c \<noteq> None"
  have all: "\<forall>c \<in> set (show_radix r n). ?p c" using show_radix_chars r by blast
  have tw: "takeWhile ?p (show_radix r n @ rest) = show_radix r n"
    using all rest by (cases rest) (auto simp: takeWhile_append)
  have dw: "dropWhile ?p (show_radix r n @ rest) = rest"
    using all rest by (cases rest) (auto simp: dropWhile_append)
  have "\<not> (hd (show_radix r n) = CHR ''0'' \<and> 1 < length (show_radix r n))"
    using show_radix_hd [OF r] show_radix_single by blast
  then show ?thesis
    using n digits_val_show [OF r, of n] unfolding read_number_def Let_def tw dw by simp
qed

lemma unat_byte_less: "unat b \<le> 255" "length (show_nat (unat b)) \<le> 3" for b :: byte
proof -
  have "unat b < 256" using unsigned_less [of b, where 'a = nat] by simp
  then show "unat b \<le> 255" "length (show_nat (unat b)) \<le> 3"
    using show_radix_length [of 10 "unat b" 2] by simp_all
qed

lemma read_octet_show:
  assumes "rest = [] \<or> to_digit 10 (hd rest) = None"
  shows "read_octet 0 (show_nat (unat (b :: byte)) @ rest) = Some (unat b, rest)"
    and "0 < i \<Longrightarrow> read_octet i (CHR ''.'' # show_nat (unat b) @ rest) = Some (unat b, rest)"
  using assms unat_byte_less [of b]
  by (simp_all add: read_octet_def read_separator_def read_given_char_def read_number_show)

lemma octets4_list: "octets4 a = [octets4 a ! 0, octets4 a ! Suc 0, octets4 a ! 2, octets4 a ! 3]"
  by (simp add: octets4_def be32_def)

lemma show_ipv4_expand:
  "show_ipv4 a = show_nat (unat (octets4 a ! 0)) @ CHR ''.'' # show_nat (unat (octets4 a ! Suc 0))
     @ CHR ''.'' # show_nat (unat (octets4 a ! 2)) @ CHR ''.'' # show_nat (unat (octets4 a ! 3))"
  unfolding show_ipv4_def by (subst octets4_list) simp

lemma read_ipv4_show:
  assumes "rest = [] \<or> to_digit 10 (hd rest) = None"
  shows "read_ipv4_addr (show_ipv4 a @ rest) = Some (a, rest)"
  using assms
  by (simp add: show_ipv4_expand read_ipv4_addr_def read_octet_show to_digit_not_sign ipv4_new_octets)

lemma parse_ip_show_ipv4: "parse_ip (show_ipv4 a) = Some (V4 a)"
  using read_ipv4_show [of "[]" a] by (simp add: parse_ip_def)

lemma show_nat_chars: "c \<in> set (show_nat n) \<Longrightarrow> is_digit c"
  using show_radix_chars [of 10 c n] by (auto simp: to_digit_def is_digit_def split: if_splits)

lemma show_ipv4_chars: "c \<in> set (show_ipv4 a) \<Longrightarrow> is_digit c \<or> c = CHR ''.''"
  by (auto simp: show_ipv4_expand dest: show_nat_chars)

lemma parse_u8_show: "parse_u8 (show_nat (unat p)) = Some p"
  using unat_byte_less(1) [of p] by (simp add: parse_u8_def parse_uint_show)

lemma parse_cidr_bounds:
  "parse_cidr s = Inr (ip, p) \<Longrightarrow>
     p \<le> (if is_ipv4 ip then 32 else 128) \<and>
     (\<exists>a l. s = a @ CHR ''/'' # l \<and> CHR ''/'' \<notin> set a \<and> parse_ip a = Some ip \<and> parse_u8 l = Some p)"
  by (auto simp: parse_cidr_def bind_r_eq_Inr Let_def split_once_Some not_less split: if_splits)

section \<open>Properties\<close>

lemma div_interval:
  fixes a b q :: nat
  assumes "0 < q"
  shows "a div q = b div q \<longleftrightarrow> a div q * q \<le> b \<and> b \<le> a div q * q + (q - 1)"
proof
  assume eq: "a div q = b div q"
  have "b mod q < q" using assms by simp
  then have "b div q * q \<le> b \<and> b \<le> b div q * q + (q - 1)"
    using div_mult_mod_eq [of b q] by linarith
  with eq show "a div q * q \<le> b \<and> b \<le> a div q * q + (q - 1)" by simp
next
  assume "a div q * q \<le> b \<and> b \<le> a div q * q + (q - 1)"
  then obtain r where "b = a div q * q + r" "r < q"
    using assms by (metis add_le_cancel_left diff_less le_add_diff_inverse le_less_trans less_one)
  then show "a div q = b div q" by simp
qed



text \<open>
  The CIDR parser reads back every printed IPv4 address and prefix length: it returns the pair
  when the length is at most 32 and the out-of-range error otherwise.
\<close>

theorem parse_cidr_show:
  "parse_cidr (show_ipv4 a @ ''/'' @ show_nat (unat p)) =
     (if p \<le> 32 then Inr (V4 a, p)
      else Inl (Parse (''prefix length '' @ show_nat (unat p) @ '' out of range for '' @ show_ipv4 a)))"
proof -
  have "CHR ''/'' \<notin> set (show_ipv4 a)"
    by (auto dest: show_ipv4_chars simp: is_digit_def)
  then have "split_once (CHR ''/'') (show_ipv4 a @ ''/'' @ show_nat (unat p))
      = Some (show_ipv4 a, show_nat (unat p))" by (simp add: split_once_Some)
  then show ?thesis
    by (simp add: parse_cidr_def parse_ip_show_ipv4 parse_u8_show is_ipv4_def show_ip_def not_le
        Let_def)
qed

text \<open>Every modified-EUI-64 address is link-local (\<open>fe80::/10\<close>), and distinct six-octet hardware
  addresses give distinct link-local addresses.
\<close>

theorem link_local_from_mac_ok:
  "is_link_local (link_local_from_mac mac) \<and> inj_on link_local_from_mac {m. length m = 6}"
proof
  show "is_link_local (link_local_from_mac mac)"
    by (simp add: is_link_local_def segments_link_local)
  show "inj_on link_local_from_mac {m. length m = 6}"
    by (rule inj_onI) (use link_local_inject in auto)
qed

end
