(* ===== verification/Netlink.thy ===== *)
theory Netlink
  imports Rust_Io Ip_Addr
begin

text \<open>
  The netlink client of \<^verbatim>\<open>src/src/ip/netlink.rs\<close>: the attribute chain, message framing, the
  request/dump/query exchanges and the message parsers. The byte order is little-endian, the
  native order of the machines the daemon targets. The kernel is a parameter: a record of the
  system calls on an arbitrary kernel state.
\<close>

section \<open>Constants\<close>

abbreviation (input) NLMSG_ALIGNTO :: nat where "NLMSG_ALIGNTO \<equiv> 4"
abbreviation (input) NLMSG_HDRLEN :: nat where "NLMSG_HDRLEN \<equiv> 16"
abbreviation (input) NETLINK_ROUTE :: nat where "NETLINK_ROUTE \<equiv> 0"
abbreviation (input) NETLINK_GENERIC :: nat where "NETLINK_GENERIC \<equiv> 16"

abbreviation (input) NLMSG_ERROR :: u16 where "NLMSG_ERROR \<equiv> 2"
abbreviation (input) NLMSG_DONE :: u16 where "NLMSG_DONE \<equiv> 3"

abbreviation (input) NLM_F_REQUEST :: u16 where "NLM_F_REQUEST \<equiv> 0x01"
abbreviation (input) NLM_F_ACK :: u16 where "NLM_F_ACK \<equiv> 0x04"
abbreviation (input) NLM_F_DUMP :: u16 where "NLM_F_DUMP \<equiv> 0x300"
abbreviation (input) NLM_F_CREATE :: u16 where "NLM_F_CREATE \<equiv> 0x400"
abbreviation (input) NLM_F_EXCL :: u16 where "NLM_F_EXCL \<equiv> 0x200"
abbreviation (input) NLM_F_REPLACE :: u16 where "NLM_F_REPLACE \<equiv> 0x100"

abbreviation (input) RTM_NEWLINK :: u16 where "RTM_NEWLINK \<equiv> 16"
abbreviation (input) RTM_DELLINK :: u16 where "RTM_DELLINK \<equiv> 17"
abbreviation (input) RTM_GETLINK :: u16 where "RTM_GETLINK \<equiv> 18"
abbreviation (input) RTM_NEWADDR :: u16 where "RTM_NEWADDR \<equiv> 20"
abbreviation (input) RTM_DELADDR :: u16 where "RTM_DELADDR \<equiv> 21"
abbreviation (input) RTM_GETADDR :: u16 where "RTM_GETADDR \<equiv> 22"
abbreviation (input) RTM_NEWROUTE :: u16 where "RTM_NEWROUTE \<equiv> 24"
abbreviation (input) RTM_DELROUTE :: u16 where "RTM_DELROUTE \<equiv> 25"
abbreviation (input) RTM_GETROUTE :: u16 where "RTM_GETROUTE \<equiv> 26"
abbreviation (input) RTM_NEWRULE :: u16 where "RTM_NEWRULE \<equiv> 32"
abbreviation (input) RTM_DELRULE :: u16 where "RTM_DELRULE \<equiv> 33"

abbreviation (input) IFLA_ADDRESS :: u16 where "IFLA_ADDRESS \<equiv> 1"
abbreviation (input) IFLA_IFNAME :: u16 where "IFLA_IFNAME \<equiv> 3"
abbreviation (input) IFLA_MTU :: u16 where "IFLA_MTU \<equiv> 4"
abbreviation (input) IFLA_OPERSTATE :: u16 where "IFLA_OPERSTATE \<equiv> 16"
abbreviation (input) IFLA_LINKINFO :: u16 where "IFLA_LINKINFO \<equiv> 18"
abbreviation (input) IFLA_INFO_KIND :: u16 where "IFLA_INFO_KIND \<equiv> 1"
abbreviation (input) IFA_ADDRESS :: u16 where "IFA_ADDRESS \<equiv> 1"
abbreviation (input) IFA_LOCAL :: u16 where "IFA_LOCAL \<equiv> 2"
abbreviation (input) IFA_LABEL :: u16 where "IFA_LABEL \<equiv> 3"
abbreviation (input) IFA_BROADCAST :: u16 where "IFA_BROADCAST \<equiv> 4"
abbreviation (input) RTA_DST :: u16 where "RTA_DST \<equiv> 1"
abbreviation (input) RTA_OIF :: u16 where "RTA_OIF \<equiv> 4"
abbreviation (input) RTA_GATEWAY :: u16 where "RTA_GATEWAY \<equiv> 5"
abbreviation (input) RTA_PRIORITY :: u16 where "RTA_PRIORITY \<equiv> 6"
abbreviation (input) FRA_SRC :: u16 where "FRA_SRC \<equiv> 2"
abbreviation (input) FRA_PRIORITY :: u16 where "FRA_PRIORITY \<equiv> 6"
abbreviation (input) FR_ACT_TO_TBL :: u8 where "FR_ACT_TO_TBL \<equiv> 1"

abbreviation (input) IFF_UP :: u32 where "IFF_UP \<equiv> 0x1"
abbreviation (input) IFF_LOOPBACK :: u32 where "IFF_LOOPBACK \<equiv> 0x8"
abbreviation (input) IFF_RUNNING :: u32 where "IFF_RUNNING \<equiv> 0x40"

abbreviation (input) RT_TABLE_MAIN :: u8 where "RT_TABLE_MAIN \<equiv> 254"
abbreviation (input) RTPROT_STATIC :: u8 where "RTPROT_STATIC \<equiv> 4"
abbreviation (input) RTPROT_DHCP :: u8 where "RTPROT_DHCP \<equiv> 16"
abbreviation (input) RT_SCOPE_UNIVERSE :: u8 where "RT_SCOPE_UNIVERSE \<equiv> 0"
abbreviation (input) RT_SCOPE_LINK :: u8 where "RT_SCOPE_LINK \<equiv> 253"
abbreviation (input) RTN_UNICAST :: u8 where "RTN_UNICAST \<equiv> 1"

section \<open>Attributes\<close>

text \<open>\<open>(len + 3) & !3\<close>: the next multiple of four.\<close>

definition align :: "nat \<Rightarrow> nat" where
  "align len = (len + NLMSG_ALIGNTO - 1) div NLMSG_ALIGNTO * NLMSG_ALIGNTO"

record AttrBuilder =
  ab_buf :: bytes

definition ab_new :: AttrBuilder where
  "ab_new = \<lparr>ab_buf = []\<rparr>"

definition push_raw :: "u16 \<Rightarrow> bytes \<Rightarrow> AttrBuilder \<Rightarrow> AttrBuilder" where
  "push_raw rta_type payload b =
     (let rta_len = 4 + length payload;
          buf1 = ab_buf b @ le16 (word_of_nat rta_len) @ le16 rta_type @ payload;
          padded = align rta_len
      in b\<lparr>ab_buf := buf1 @ replicate (padded - rta_len) 0\<rparr>)"

definition ab_u8 :: "u16 \<Rightarrow> u8 \<Rightarrow> AttrBuilder \<Rightarrow> AttrBuilder" where
  "ab_u8 t v = push_raw t [v]"

definition ab_u16 :: "u16 \<Rightarrow> u16 \<Rightarrow> AttrBuilder \<Rightarrow> AttrBuilder" where
  "ab_u16 t v = push_raw t (le16 v)"

definition ab_u32 :: "u16 \<Rightarrow> u32 \<Rightarrow> AttrBuilder \<Rightarrow> AttrBuilder" where
  "ab_u32 t v = push_raw t (le32 v)"

definition ab_bytes :: "u16 \<Rightarrow> bytes \<Rightarrow> AttrBuilder \<Rightarrow> AttrBuilder" where
  "ab_bytes t v = push_raw t v"

definition ab_nul_str :: "u16 \<Rightarrow> string \<Rightarrow> AttrBuilder \<Rightarrow> AttrBuilder" where
  "ab_nul_str t v = push_raw t (as_bytes v @ [0])"

definition ab_nested :: "u16 \<Rightarrow> AttrBuilder \<Rightarrow> AttrBuilder \<Rightarrow> AttrBuilder" where
  "ab_nested t inner = push_raw t (ab_buf inner)"

definition into_bytes :: "AttrBuilder \<Rightarrow> bytes" where
  "into_bytes b = ab_buf b"

type_synonym attr_map = "u16 \<rightharpoonup> bytes"

function parse_attrs_loop :: "bytes \<Rightarrow> attr_map \<Rightarrow> attr_map" where
  "parse_attrs_loop b out =
     (if length b < 4 then out
      else
        let rta_len = unat (from_le16 (b ! 0) (b ! 1));
            rta_type = from_le16 (b ! 2) (b ! 3)
        in if rta_len < 4 \<or> length b < rta_len then out
           else
             let out' = out(rta_type \<mapsto> take (rta_len - 4) (drop 4 b));
                 padded = align rta_len
             in if length b \<le> padded then out' else parse_attrs_loop (drop padded b) out')"
  by pat_completeness auto
termination
proof (relation "measure (\<lambda>(b, out). length b)")
  fix b :: bytes and out n t m p
  assume "\<not> length b < 4" "n = unat (from_le16 (b ! 0) (b ! 1))"
    "\<not> (n < 4 \<or> length b < n)" "p = align n"
  then have "0 < p" "0 < length b" by (auto simp: align_def)
  then show "((drop p b, m), b, out) \<in> measure (\<lambda>(b, out). length b)" by simp
qed simp

declare parse_attrs_loop.simps [simp del]

definition parse_attrs :: "bytes \<Rightarrow> attr_map" where
  "parse_attrs b = parse_attrs_loop b Map.empty"

section \<open>The socket\<close>

text \<open>The system calls; a failing call returns the text of \<open>last_os_error\<close>.\<close>

record 'k Kernel =
  k_socket :: "nat \<Rightarrow> 'k \<Rightarrow> (string + nat) \<times> 'k"
  k_bind :: "nat \<Rightarrow> u32 \<Rightarrow> 'k \<Rightarrow> (string + unit) \<times> 'k"
  k_send :: "nat \<Rightarrow> bytes \<Rightarrow> 'k \<Rightarrow> (string + unit) \<times> 'k"
  k_recv :: "nat \<Rightarrow> 'k \<Rightarrow> (string + bytes) \<times> 'k"
  k_close :: "nat \<Rightarrow> 'k \<Rightarrow> 'k"
  k_strerror :: "i32 \<Rightarrow> string"

record NlSocket =
  nl_fd :: nat
  nl_seq :: u32

type_synonym nlmsg = "u16 \<times> u16 \<times> bytes"

definition with_protocol :: "'k Kernel \<Rightarrow> nat \<Rightarrow> u32 \<Rightarrow> ('k, NlSocket) io" where
  "with_protocol K protocol groups k =
     (case k_socket K protocol k of
        (Inl e, k1) \<Rightarrow> Ret (Inl (Netlink (''socket(AF_NETLINK) failed: '' @ e)), k1)
      | (Inr fd, k1) \<Rightarrow>
          (case k_bind K fd groups k1 of
             (Inl e, k2) \<Rightarrow> Ret (Inl (Netlink (''bind(AF_NETLINK) failed: '' @ e)), k_close K fd k2)
           | (Inr _, k2) \<Rightarrow> Ret (Inr \<lparr>nl_fd = fd, nl_seq = 1\<rparr>, k2)))"

definition with_groups :: "'k Kernel \<Rightarrow> u32 \<Rightarrow> ('k, NlSocket) io" where
  "with_groups K groups = with_protocol K NETLINK_ROUTE groups"

definition nl_new :: "'k Kernel \<Rightarrow> ('k, NlSocket) io" where
  "nl_new K = with_groups K 0"

text \<open>A block that owns a socket: \<open>Drop\<close> closes it when the block ends.\<close>

definition using_socket ::
    "'k Kernel \<Rightarrow> ('k, NlSocket) io \<Rightarrow> (NlSocket \<times> 'k, 'a) io \<Rightarrow> ('k, 'a) io" where
  "using_socket K open_it body =
     bind_io open_it (\<lambda>sock k.
       case body (sock, k) of
         Ret (r, (sock', k')) \<Rightarrow> Ret (r, k_close K (nl_fd sock') k')
       | Panic \<Rightarrow> Panic
       | NoFuel \<Rightarrow> NoFuel)"

definition encode_msg :: "u32 \<Rightarrow> u16 \<Rightarrow> u16 \<Rightarrow> bytes \<Rightarrow> bytes" where
  "encode_msg seq msg_type flags payload =
     (let total_len = NLMSG_HDRLEN + length payload;
          b = le32 (word_of_nat total_len) @ le16 msg_type @ le16 flags @ le32 seq @ le32 0 @ payload
      in b @ replicate (align (length b) - length b) 0)"

definition nl_send :: "'k Kernel \<Rightarrow> u16 \<Rightarrow> u16 \<Rightarrow> bytes \<Rightarrow> (NlSocket \<times> 'k, u32) io" where
  "nl_send K msg_type flags payload = (\<lambda>(sock, k).
     (let seq = nl_seq sock;
          sock' = sock\<lparr>nl_seq := seq + 1\<rparr>
      in case k_send K (nl_fd sock) (encode_msg seq msg_type flags payload) k of
           (Inl e, k') \<Rightarrow> Ret (Inl (Netlink (''send() failed: '' @ e)), (sock', k'))
         | (Inr _, k') \<Rightarrow> Ret (Inr seq, (sock', k'))))"

text \<open>The messages of one datagram. \<open>None\<close> is the panic of \<open>&rest[align(len)..]\<close> on a last message
  whose padding is cut off.\<close>

function scan_msgs :: "u32 \<Rightarrow> bytes \<Rightarrow> nlmsg list \<Rightarrow> bool \<Rightarrow> (nlmsg list \<times> bool) option" where
  "scan_msgs seq rest out fin =
     (if length rest < NLMSG_HDRLEN then Some (out, fin)
      else
        let len = unat (from_le32 (rest ! 0) (rest ! 1) (rest ! 2) (rest ! 3));
            msg_type = from_le16 (rest ! 4) (rest ! 5);
            flags = from_le16 (rest ! 6) (rest ! 7);
            msg_seq = from_le32 (rest ! 8) (rest ! 9) (rest ! 10) (rest ! 11)
        in if len < NLMSG_HDRLEN \<or> length rest < len then Some (out, fin)
           else
             let body = take (len - NLMSG_HDRLEN) (drop NLMSG_HDRLEN rest);
                 is_multi = (flags AND 0x02 \<noteq> 0);
                 ours = (msg_seq = seq \<or> msg_type = NLMSG_ERROR);
                 fin1 = (if ours \<and> msg_type = NLMSG_DONE then True else fin);
                 out1 = (if ours \<and> msg_type \<noteq> NLMSG_DONE then out @ [(msg_type, flags, body)] else out);
                 fin2 = (if \<not> is_multi \<and> msg_type \<noteq> NLMSG_DONE
                         then fin1 \<or> msg_type = NLMSG_ERROR \<or> msg_seq = seq else fin1)
             in if length rest < align len then None
                else scan_msgs seq (drop (align len) rest) out1 fin2)"
  by pat_completeness auto
termination
proof (relation "measure (\<lambda>(seq, rest, out, fin). length rest)", goal_cases)
  case (2 seq rest out fin)
  then show ?case by (auto simp: align_def)
qed simp

declare scan_msgs.simps [simp del]

definition any_error :: "nlmsg list \<Rightarrow> bool" where
  "any_error out = list_ex (\<lambda>(t, _, _). t = NLMSG_ERROR) out"

text \<open>The receive loop; each \<open>recv\<close> fills a buffer of 32 KiB, and fuel bounds the number of
  datagrams read.\<close>

fun recv_loop :: "'k Kernel \<Rightarrow> nat \<Rightarrow> u32 \<Rightarrow> nlmsg list \<Rightarrow> (NlSocket \<times> 'k, nlmsg list) io" where
  "recv_loop K 0 seq out w = NoFuel"
| "recv_loop K (Suc fuel) seq out (sock, k) =
     (case k_recv K (nl_fd sock) k of
        (Inl e, k') \<Rightarrow> Ret (Inl (Netlink (''recv() failed: '' @ e)), (sock, k'))
      | (Inr d, k') \<Rightarrow>
          (let datagram = take (32 * 1024) d
           in case scan_msgs seq datagram out False of
                None \<Rightarrow> Panic
              | Some (out', fin) \<Rightarrow>
                  if fin \<or> any_error out' then Ret (Inr out', (sock, k'))
                  else if length datagram = 0 then Ret (Inr out', (sock, k'))
                  else recv_loop K fuel seq out' (sock, k')))"

definition recv_until_done :: "'k Kernel \<Rightarrow> nat \<Rightarrow> u32 \<Rightarrow> (NlSocket \<times> 'k, nlmsg list) io" where
  "recv_until_done K fuel seq = recv_loop K fuel seq []"

definition check_ack :: "'k Kernel \<Rightarrow> bytes \<Rightarrow> unit result" where
  "check_ack K body =
     (if length body < 4 then Inl (Netlink ''truncated ack'')
      else
        let errno = from_le32 (body ! 0) (body ! 1) (body ! 2) (body ! 3)
        in if errno = 0 then Inr () else Inl (Netlink (k_strerror K (- errno))))"

fun check_replies :: "'k Kernel \<Rightarrow> nlmsg list \<Rightarrow> unit result" where
  "check_replies K [] = Inr ()"
| "check_replies K ((t, _, body) # ms) =
     (if t = NLMSG_ERROR then bind_r (check_ack K body) (\<lambda>_. check_replies K ms)
      else check_replies K ms)"

fun collect_replies :: "'k Kernel \<Rightarrow> nlmsg list \<Rightarrow> bytes list \<Rightarrow> bytes list result" where
  "collect_replies K [] out = Inr out"
| "collect_replies K ((t, _, body) # ms) out =
     (if t = NLMSG_ERROR then bind_r (check_ack K body) (\<lambda>_. collect_replies K ms out)
      else if t \<noteq> NLMSG_DONE then collect_replies K ms (out @ [body])
      else collect_replies K ms out)"

definition request ::
    "'k Kernel \<Rightarrow> nat \<Rightarrow> u16 \<Rightarrow> u16 \<Rightarrow> bytes \<Rightarrow> (NlSocket \<times> 'k, unit) io" where
  "request K fuel msg_type flags payload =
     bind_io (nl_send K msg_type (flags OR NLM_F_REQUEST OR NLM_F_ACK) payload) (\<lambda>seq.
     bind_io (recv_until_done K fuel seq) (\<lambda>ms. lift_io (check_replies K ms)))"

definition dump :: "'k Kernel \<Rightarrow> nat \<Rightarrow> u16 \<Rightarrow> bytes \<Rightarrow> (NlSocket \<times> 'k, bytes list) io" where
  "dump K fuel msg_type payload =
     bind_io (nl_send K msg_type (NLM_F_REQUEST OR NLM_F_DUMP) payload) (\<lambda>seq.
     bind_io (recv_until_done K fuel seq) (\<lambda>ms. lift_io (collect_replies K ms [])))"

definition query ::
    "'k Kernel \<Rightarrow> nat \<Rightarrow> u16 \<Rightarrow> u16 \<Rightarrow> bytes \<Rightarrow> (NlSocket \<times> 'k, bytes list) io" where
  "query K fuel msg_type flags payload =
     bind_io (nl_send K msg_type (NLM_F_REQUEST OR flags) payload) (\<lambda>seq.
     bind_io (recv_until_done K fuel seq) (\<lambda>ms. lift_io (collect_replies K ms [])))"

function scan_multicast ::
    "(u16 \<Rightarrow> bytes \<Rightarrow> 'a option) \<Rightarrow> bytes \<Rightarrow> 'a list \<Rightarrow> 'a list option" where
  "scan_multicast f rest out =
     (if length rest < NLMSG_HDRLEN then Some out
      else
        let len = unat (from_le32 (rest ! 0) (rest ! 1) (rest ! 2) (rest ! 3));
            msg_type = from_le16 (rest ! 4) (rest ! 5)
        in if len < NLMSG_HDRLEN \<or> length rest < len then Some out
           else
             let out1 = (case f msg_type (take (len - NLMSG_HDRLEN) (drop NLMSG_HDRLEN rest)) of
                           Some v \<Rightarrow> out @ [v] | None \<Rightarrow> out)
             in if length rest < align len then None
                else scan_multicast f (drop (align len) rest) out1)"
  by pat_completeness auto
termination
proof (relation "measure (\<lambda>(f, rest, out). length rest)", goal_cases)
  case (2 f rest out)
  then show ?case by (auto simp: align_def)
qed simp

declare scan_multicast.simps [simp del]

definition recv_multicast ::
    "'k Kernel \<Rightarrow> (u16 \<Rightarrow> bytes \<Rightarrow> 'a option) \<Rightarrow> (NlSocket \<times> 'k, 'a list) io" where
  "recv_multicast K f = (\<lambda>(sock, k).
     case k_recv K (nl_fd sock) k of
       (Inl e, k') \<Rightarrow> Ret (Inl (Netlink (''recv() failed: '' @ e)), (sock, k'))
     | (Inr d, k') \<Rightarrow>
         (case scan_multicast f (take (32 * 1024) d) [] of
            None \<Rightarrow> Panic
          | Some out \<Rightarrow> Ret (Inr out, (sock, k'))))"

section \<open>Message headers and parsers\<close>

definition build_ifinfomsg :: "i32 \<Rightarrow> u32 \<Rightarrow> u32 \<Rightarrow> bytes" where
  "build_ifinfomsg index flags change = [0, 0] @ le16 0 @ le32 index @ le32 flags @ le32 change"

definition build_ifaddrmsg :: "u8 \<Rightarrow> u8 \<Rightarrow> i32 \<Rightarrow> bytes" where
  "build_ifaddrmsg family prefixlen index = [family, prefixlen, 0, RT_SCOPE_UNIVERSE] @ le32 index"

definition build_rtmsg :: "u8 \<Rightarrow> u8 \<Rightarrow> u8 \<Rightarrow> u8 \<Rightarrow> u8 \<Rightarrow> u8 \<Rightarrow> bytes" where
  "build_rtmsg family dst_len table protocol scope rtype =
     [family, dst_len, 0, 0, table, protocol, scope, rtype, 0, 0, 0, 0]"

definition build_fib_rule_hdr :: "u8 \<Rightarrow> u8 \<Rightarrow> u8 \<Rightarrow> u8 \<Rightarrow> bytes" where
  "build_fib_rule_hdr family src_len table action =
     [family, 0, src_len, 0, table, 0, 0, action, 0, 0, 0, 0]"

text \<open>\<open>String::from_utf8_lossy(b).trim_end_matches('\0').to_string()\<close>.\<close>

definition attr_string :: "bytes \<Rightarrow> string" where
  "attr_string b = rev (dropWhile (\<lambda>c. c = nul) (rev (from_utf8_lossy b)))"

text \<open>\<open>b.get(0..4)\<close> read as a native-endian 32-bit integer.\<close>

definition attr_u32 :: "bytes \<Rightarrow> u32 option" where
  "attr_u32 b = (if 4 \<le> length b then Some (from_le32 (b ! 0) (b ! 1) (b ! 2) (b ! 3)) else None)"

record LinkInfo =
  li_index :: i32
  li_flags :: u32
  li_name :: string
  li_mtu :: u32
  li_hwaddr :: "bytes option"
  li_operstate :: "u8 option"
  li_kind :: "string option"

definition parse_link :: "bytes \<Rightarrow> LinkInfo option" where
  "parse_link body =
     (if length body < 16 then None
      else
        let attrs = parse_attrs (drop 16 body)
        in Some \<lparr>
          li_index = from_le32 (body ! 4) (body ! 5) (body ! 6) (body ! 7),
          li_flags = from_le32 (body ! 8) (body ! 9) (body ! 10) (body ! 11),
          li_name = (case attrs IFLA_IFNAME of Some b \<Rightarrow> attr_string b | None \<Rightarrow> []),
          li_mtu = (case Option.bind (attrs IFLA_MTU) attr_u32 of Some v \<Rightarrow> v | None \<Rightarrow> 0),
          li_hwaddr = Option.bind (attrs IFLA_ADDRESS)
            (\<lambda>b. if 6 \<le> length b then Some (take 6 b) else None),
          li_operstate = Option.bind (attrs IFLA_OPERSTATE)
            (\<lambda>b. case b of x # _ \<Rightarrow> Some x | [] \<Rightarrow> None),
          li_kind = Option.bind (attrs IFLA_LINKINFO)
            (\<lambda>linkinfo. map_option attr_string (parse_attrs linkinfo IFLA_INFO_KIND)) \<rparr>)"

record AddrInfo =
  ai_index :: i32
  ai_family :: u8
  ai_prefixlen :: u8
  ai_address :: bytes
  ai_label :: "string option"

definition parse_addr :: "bytes \<Rightarrow> AddrInfo option" where
  "parse_addr body =
     (if length body < 8 then None
      else
        let attrs = parse_attrs (drop 8 body)
        in Some \<lparr>
          ai_index = from_le32 (body ! 4) (body ! 5) (body ! 6) (body ! 7),
          ai_family = body ! 0,
          ai_prefixlen = body ! 1,
          ai_address = (case attrs IFA_LOCAL of
                          Some b \<Rightarrow> b
                        | None \<Rightarrow> (case attrs IFA_ADDRESS of Some b \<Rightarrow> b | None \<Rightarrow> [])),
          ai_label = map_option attr_string (attrs IFA_LABEL) \<rparr>)"

record RouteInfo =
  ri_family :: u8
  ri_dst_len :: u8
  ri_table :: u8
  ri_dst :: "bytes option"
  ri_gateway :: "bytes option"
  ri_oif :: "i32 option"
  ri_priority :: "u32 option"

definition parse_route :: "bytes \<Rightarrow> RouteInfo option" where
  "parse_route body =
     (if length body < 12 then None
      else
        let attrs = parse_attrs (drop 12 body)
        in Some \<lparr>
          ri_family = body ! 0,
          ri_dst_len = body ! 1,
          ri_table = body ! 4,
          ri_dst = attrs RTA_DST,
          ri_gateway = attrs RTA_GATEWAY,
          ri_oif = Option.bind (attrs RTA_OIF) attr_u32,
          ri_priority = Option.bind (attrs RTA_PRIORITY) attr_u32 \<rparr>)"

section \<open>The attribute codec\<close>

lemma align_bounds: "n \<le> align n" "align n < n + 4" "align n mod 4 = 0"
  unfolding align_def by simp_all

lemma align_mult: "align (4 * n) = 4 * n"
  by (simp add: align_def)

text \<open>On 64-bit machine words, the bit mask of the source is this rounding.\<close>

lemma align_word:
  fixes x :: u64
  assumes "unat x + 3 < 2 ^ 64"
  shows "unat ((x + 4 - 1) AND NOT (4 - 1)) = align (unat x)"
proof -
  let ?y = "x + 3"
  have y: "unat ?y = unat x + 3" using assms by (simp add: unat_word_ariths)
  have "(3 :: u64) = mask 2" by (simp add: mask_eq_exp_minus_1)
  then have "(?y AND NOT 3) = push_bit 2 (drop_bit 2 ?y)" using prefix_parts(1) [of ?y 2] by metis
  then have "unat (?y AND NOT 3) = unat ?y div 4 * 4" using unat_push_drop [of 2 ?y] by simp
  then show ?thesis using y by (simp add: align_def add.commute)
qed

text \<open>One attribute in wire form, and a chain of them.\<close>

definition enc_attr :: "u16 \<times> bytes \<Rightarrow> bytes" where
  "enc_attr a = into_bytes (push_raw (fst a) (snd a) ab_new)"

definition enc_attrs :: "(u16 \<times> bytes) list \<Rightarrow> bytes" where
  "enc_attrs as = concat (map enc_attr as)"

definition attr_fits :: "u16 \<times> bytes \<Rightarrow> bool" where
  "attr_fits a = (4 + length (snd a) < 2 ^ 16)"

lemma push_raw_enc: "ab_buf (push_raw t v b) = ab_buf b @ enc_attr (t, v)"
  by (simp add: push_raw_def enc_attr_def into_bytes_def ab_new_def Let_def)

lemma fold_push_raw:
  "ab_buf (fold (\<lambda>(t, v). push_raw t v) as b) = ab_buf b @ enc_attrs as"
  by (induction as arbitrary: b) (auto simp: enc_attrs_def push_raw_enc)

lemma enc_attrs_simps [simp]:
  "enc_attrs [] = []" "enc_attrs (a # as) = enc_attr a @ enc_attrs as"
  "enc_attrs (as @ bs) = enc_attrs as @ enc_attrs bs"
  by (simp_all add: enc_attrs_def)

lemma enc_attr_eq:
  "enc_attr (t, v) = le16 (word_of_nat (4 + length v)) @ le16 t @ v
     @ replicate (align (4 + length v) - (4 + length v)) 0"
  by (simp add: enc_attr_def push_raw_def into_bytes_def ab_new_def Let_def)

lemma length_enc_attr: "length (enc_attr (t, v)) = align (4 + length v)"
  using align_bounds(1) [of "4 + length v"] by (simp add: enc_attr_eq length_wire)

lemma length_enc_attrs_mod: "length (enc_attrs as) mod 4 = 0"
  by (induction as) (auto simp: length_enc_attr align_bounds mod_add_eq [symmetric])

lemma parse_attrs_loop_enc:
  assumes "attr_fits (t, v)"
  shows "parse_attrs_loop (enc_attr (t, v) @ rest) out = parse_attrs_loop rest (out(t \<mapsto> v))"
proof -
  let ?n = "4 + length v" and ?b = "enc_attr (t, v) @ rest"
  have n: "unat (word_of_nat ?n :: u16) = ?n"
    using assms by (simp only: unat_of_nat attr_fits_def) simp
  have hd: "?b ! 0 = le16 (word_of_nat ?n) ! 0" "?b ! 1 = le16 (word_of_nat ?n) ! Suc 0"
    "?b ! 2 = le16 t ! 0" "?b ! 3 = le16 t ! Suc 0" "take (length v) (drop 4 ?b) = v"
    by (simp_all add: enc_attr_eq le16_def)
  have l: "length ?b = align ?n + length rest" by (simp add: length_enc_attr)
  have al: "?n \<le> align ?n" and n4: "?n - 4 = length v" by (simp_all add: align_bounds)
  have dr: "drop (align ?n) ?b = rest" by (simp add: length_enc_attr)
  have nil: "rest = [] \<Longrightarrow> parse_attrs_loop rest m = m" for m
    by (simp add: parse_attrs_loop.simps [of "[]"])
  show ?thesis
    unfolding parse_attrs_loop.simps [of ?b] hd(1-4) from_wire n n4 hd(5) l dr Let_def
    using al nil by auto
qed

lemma parse_attrs_loop_chain:
  "\<forall>a \<in> set as. attr_fits a \<Longrightarrow>
     parse_attrs_loop (enc_attrs as) out = out ++ map_of (rev as)"
proof (induction as arbitrary: out)
  case Nil
  then show ?case by (simp add: parse_attrs_loop.simps)
next
  case (Cons a as)
  then show ?case
    by (cases a) (simp add: parse_attrs_loop_enc map_add_upd_left)
qed

lemma parse_attrs_enc: "\<forall>a \<in> set as. attr_fits a \<Longrightarrow> parse_attrs (enc_attrs as) = map_of (rev as)"
  by (simp add: parse_attrs_def parse_attrs_loop_chain)

section \<open>Framing and exchanges\<close>

text \<open>A message on the wire with its header fields: (sequence number, type, flags, payload).\<close>

type_synonym frame = "u32 \<times> u16 \<times> u16 \<times> bytes"

definition enc_frame :: "frame \<Rightarrow> bytes" where
  "enc_frame = (\<lambda>(seq, t, f, p). encode_msg seq t f p)"

definition frame_fits :: "frame \<Rightarrow> bool" where
  "frame_fits = (\<lambda>(seq, t, f, p). NLMSG_HDRLEN + length p < 2 ^ 32)"

lemma enc_frame_eq:
  "enc_frame (sq, t, f, p) = le32 (word_of_nat (16 + length p)) @ le16 t @ le16 f @ le32 sq @ le32 0 @ p
     @ replicate (align (16 + length p) - (16 + length p)) 0"
  by (simp add: enc_frame_def encode_msg_def Let_def length_wire add.commute)

lemma length_enc_frame: "length (enc_frame (sq, t, f, p)) = align (16 + length p)"
  using align_bounds(1) [of "16 + length p"] by (simp add: enc_frame_eq length_wire)

definition scan_out :: "u32 \<Rightarrow> frame \<Rightarrow> nlmsg list" where
  "scan_out seq = (\<lambda>(sq, t, f, p).
     if (sq = seq \<or> t = NLMSG_ERROR) \<and> t \<noteq> NLMSG_DONE then [(t, f, p)] else [])"

definition scan_fin :: "u32 \<Rightarrow> frame \<Rightarrow> bool" where
  "scan_fin seq = (\<lambda>(sq, t, f, p).
     (sq = seq \<and> t = NLMSG_DONE) \<or>
     (f AND 0x02 = 0 \<and> t \<noteq> NLMSG_DONE \<and> (t = NLMSG_ERROR \<or> sq = seq)))"

lemma scan_msgs_enc:
  assumes "frame_fits fr"
  shows "scan_msgs seq (enc_frame fr @ rest) out fin
       = scan_msgs seq rest (out @ scan_out seq fr) (fin \<or> scan_fin seq fr)"
proof -
  obtain sq t f p where fr: "fr = (sq, t, f, p)" by (cases fr)
  let ?n = "16 + length p" and ?b = "enc_frame (sq, t, f, p) @ rest"
  have n: "unat (word_of_nat ?n :: u32) = ?n"
    using assms by (simp only: unat_of_nat frame_fits_def fr prod.case) simp
  have hd: "?b ! 0 = le32 (word_of_nat ?n) ! 0" "?b ! 1 = le32 (word_of_nat ?n) ! 1"
    "?b ! 2 = le32 (word_of_nat ?n) ! 2" "?b ! 3 = le32 (word_of_nat ?n) ! 3"
    "?b ! 4 = le16 t ! 0" "?b ! 5 = le16 t ! Suc 0" "?b ! 6 = le16 f ! 0" "?b ! 7 = le16 f ! Suc 0"
    "?b ! 8 = le32 sq ! 0" "?b ! 9 = le32 sq ! 1" "?b ! 10 = le32 sq ! 2" "?b ! 11 = le32 sq ! 3"
    by (simp_all add: enc_frame_eq le16_def le32_def)
  have body: "take (length p) (drop 16 ?b) = p"
    by (simp add: enc_frame_eq le16_def le32_def)
  have l: "length ?b = align ?n + length rest" by (simp add: length_enc_frame)
  have al: "?n \<le> align ?n" and n16: "?n - 16 = length p" by (simp_all add: align_bounds)
  have dr: "drop (align ?n) ?b = rest" by (simp add: length_enc_frame)
  show ?thesis
    unfolding fr scan_msgs.simps [of seq ?b] hd from_wire n n16 body l dr Let_def
    using al by (auto simp: scan_out_def scan_fin_def)
qed

lemma scan_msgs_frames:
  "\<forall>fr \<in> set frs. frame_fits fr \<Longrightarrow>
     scan_msgs seq (concat (map enc_frame frs)) out fin
     = Some (out @ concat (map (scan_out seq) frs), fin \<or> list_ex (scan_fin seq) frs)"
proof (induction frs arbitrary: out fin)
  case Nil
  then show ?case by (simp add: scan_msgs.simps)
next
  case (Cons fr frs)
  then show ?case by (simp add: scan_msgs_enc)
qed

text \<open>What the kernel queues on a descriptor, as the datagrams the next reads return.\<close>

fun delivers :: "'k Kernel \<Rightarrow> nat \<Rightarrow> bytes list \<Rightarrow> 'k \<Rightarrow> 'k \<Rightarrow> bool" where
  "delivers K fd [] k k' = (k' = k)"
| "delivers K fd (d # ds) k k' =
     (case k_recv K fd k of (Inr d', k1) \<Rightarrow> d' = d \<and> delivers K fd ds k1 k' | _ \<Rightarrow> False)"

definition datagram :: "frame list \<Rightarrow> bytes" where
  "datagram frs = concat (map enc_frame frs)"

definition dg_ok :: "frame list \<Rightarrow> bool" where
  "dg_ok frs = (frs \<noteq> [] \<and> list_all frame_fits frs \<and> length (datagram frs) \<le> 32 * 1024)"

lemma enc_frame_not_Nil: "enc_frame fr \<noteq> []"
  by (cases fr) (simp add: enc_frame_eq le32_def)

lemma datagram_length: "frs \<noteq> [] \<Longrightarrow> datagram frs \<noteq> []"
  by (cases frs) (simp_all add: datagram_def enc_frame_not_Nil)

text \<open>A datagram that neither ends the exchange nor carries an error.\<close>

definition continues :: "u32 \<Rightarrow> frame list \<Rightarrow> bool" where
  "continues seq frs =
     (\<not> list_ex (scan_fin seq) frs \<and> \<not> any_error (concat (map (scan_out seq) frs)))"

lemma recv_loop_datagrams:
  assumes "list_all dg_ok dgs" "list_all (continues seq) dgs" "dg_ok lst" "\<not> continues seq lst"
    and "delivers K (nl_fd sock) (map datagram dgs @ [datagram lst]) k k'"
    and "length dgs < fuel" "\<not> any_error out"
  shows "recv_loop K fuel seq out (sock, k) =
     Ret (Inr (out @ concat (map (scan_out seq) (concat dgs @ lst))), (sock, k'))"
  using assms
proof (induction dgs arbitrary: fuel out k)
  case Nil
  then obtain n where n: "fuel = Suc n" by (cases fuel) auto
  from Nil have r: "k_recv K (nl_fd sock) k = (Inr (datagram lst), k')"
    by (auto split: prod.splits sum.splits)
  have "scan_msgs seq (datagram lst) out False
      = Some (out @ concat (map (scan_out seq) lst), list_ex (scan_fin seq) lst)"
    using Nil(3) scan_msgs_frames [of lst seq out False]
    by (simp add: datagram_def dg_ok_def list_all_iff)
  with n r Nil show ?case
    by (auto simp: dg_ok_def continues_def any_error_def Let_def)
next
  case (Cons dg dgs)
  then obtain n where n: "fuel = Suc n" by (cases fuel) auto
  from Cons.prems obtain k1 where r: "k_recv K (nl_fd sock) k = (Inr (datagram dg), k1)"
    and d: "delivers K (nl_fd sock) (map datagram dgs @ [datagram lst]) k1 k'"
    by (auto split: prod.splits sum.splits)
  let ?o = "out @ concat (map (scan_out seq) dg)"
  have sc: "scan_msgs seq (datagram dg) out False = Some (?o, list_ex (scan_fin seq) dg)"
    using Cons.prems scan_msgs_frames [of dg seq out False]
    by (simp add: datagram_def dg_ok_def list_all_iff)
  have c: "continues seq dg" "dg \<noteq> []" "length (datagram dg) \<le> 32 * 1024"
    using Cons.prems by (auto simp: dg_ok_def)
  have o: "\<not> any_error ?o" using c(1) Cons.prems(7) by (auto simp: continues_def any_error_def)
  have "recv_loop K fuel seq out (sock, k) = recv_loop K n seq ?o (sock, k1)"
    using n r sc c o datagram_length [of dg] by (simp add: Let_def continues_def)
  also have "\<dots> = Ret (Inr (?o @ concat (map (scan_out seq) (concat dgs @ lst))), (sock, k'))"
    using Cons.prems n d o by (intro Cons.IH) auto
  finally show ?case by simp
qed

text \<open>The parts of a dump: a \<open>NLM_F_MULTI\<close> message answering \<open>seq\<close>, and the closing one.\<close>

definition multi :: "u32 \<Rightarrow> u16 \<times> bytes \<Rightarrow> frame" where
  "multi seq = (\<lambda>(t, b). (seq, t, 0x02, b))"

definition dump_type :: "u16 \<times> bytes \<Rightarrow> bool" where
  "dump_type = (\<lambda>(t, b). t \<noteq> NLMSG_ERROR \<and> t \<noteq> NLMSG_DONE)"

lemma multi_scan:
  assumes "dump_type m"
  shows "scan_out seq (multi seq m) = [(fst m, 0x02, snd m)]" "\<not> scan_fin seq (multi seq m)"
  using assms by (auto simp: scan_out_def scan_fin_def multi_def dump_type_def split: prod.splits)

lemma multi_continues: "list_all dump_type ms \<Longrightarrow> continues seq (map (multi seq) ms)"
  by (induction ms)
    (auto simp: continues_def any_error_def multi_scan dump_type_def)

lemma multi_out:
  "list_all dump_type ms \<Longrightarrow>
     concat (map (scan_out seq) (map (multi seq) ms)) = map (\<lambda>m. (fst m, 0x02, snd m)) ms"
  by (induction ms) (auto simp: multi_scan)

text \<open>A message of another exchange: another sequence number, and not an error.\<close>

definition stale :: "u32 \<Rightarrow> frame \<Rightarrow> bool" where
  "stale seq = (\<lambda>(sq, t, f, p). sq \<noteq> seq \<and> t \<noteq> NLMSG_ERROR)"

lemma stale_continues:
  "list_all (stale seq) frs \<Longrightarrow> continues seq frs \<and> concat (map (scan_out seq) frs) = []"
  by (induction frs)
    (auto simp: stale_def continues_def any_error_def scan_out_def scan_fin_def split: prod.splits)

lemma collect_multi:
  "list_all dump_type ms \<Longrightarrow>
     collect_replies K (map (\<lambda>m. (fst m, f, snd m)) ms) out = Inr (out @ map snd ms)"
  by (induction ms arbitrary: out) (auto simp: dump_type_def)

lemma nl_send_ok:
  assumes "k_send K (nl_fd sock) (encode_msg (nl_seq sock) t f payload) k = (Inr (), k0)"
  shows "nl_send K t f payload (sock, k) = Ret (Inr (nl_seq sock), (sock\<lparr>nl_seq := nl_seq sock + 1\<rparr>, k0))"
  using assms by (simp add: nl_send_def Let_def)

text \<open>A kernel that answers from a script: the queue of datagrams still to be read.\<close>

definition script_kernel :: "bytes list Kernel" where
  "script_kernel = \<lparr>
     k_socket = (\<lambda>_ k. (Inr 3, k)),
     k_bind = (\<lambda>_ _ k. (Inr (), k)),
     k_send = (\<lambda>_ _ k. (Inr (), k)),
     k_recv = (\<lambda>_ k. case k of [] \<Rightarrow> (Inl ''would block'', []) | d # ds \<Rightarrow> (Inr d, ds)),
     k_close = (\<lambda>_ k. k),
     k_strerror = (\<lambda>_. ''os error'') \<rparr>"

lemma script_kernel_simps [simp]:
  "k_send script_kernel fd b k = (Inr (), k)"
  "k_recv script_kernel fd (d # ds) = (Inr d, ds)"
  "k_close script_kernel fd k = k"
  by (simp_all add: script_kernel_def)

section \<open>Properties\<close>

text \<open>C5. Every attribute chain built with \<open>AttrBuilder\<close> from payloads of at most 65531 bytes is parsed
  back to the map of its attributes; a type that occurs twice keeps its last payload.
\<close>

theorem attr_chain_roundtrip:
  assumes "\<forall>a \<in> set attrs. length (snd a) \<le> 65531"
  shows "parse_attrs (into_bytes (fold (\<lambda>(t, v). push_raw t v) attrs ab_new)) = map_of (rev attrs)"
proof -
  have "\<forall>a \<in> set attrs. attr_fits a" using assms by (auto simp: attr_fits_def)
  then show ?thesis by (simp add: into_bytes_def fold_push_raw parse_attrs_enc ab_new_def)
qed

theorem attr_chain_roundtrip_witness:
  "parse_attrs (into_bytes (fold (\<lambda>(t, v). push_raw t v) [(3, [101, 0]), (4, [220, 5, 0, 0])] ab_new)) 3
     = Some [101, 0]"
  using attr_chain_roundtrip [of "[(3, [101, 0]), (4, [220, 5, 0, 0])]"] by simp

text \<open>C6. A dump is complete and exact. If the kernel accepts the request and then delivers non-empty
  datagrams of multi-part messages carrying the request's sequence number, the last of them closed
  by \<open>NLMSG_DONE\<close>, then with fuel for each datagram \<open>dump\<close> returns the payload of every message, in
  order, and nothing else.
\<close>

theorem dump_complete:
  assumes "k_send K (nl_fd sock) (encode_msg (nl_seq sock) t (NLM_F_REQUEST OR NLM_F_DUMP) payload) k
      = (Inr (), k0)"
    and "dgs = map (map (multi (nl_seq sock))) groups"
    and "lst = map (multi (nl_seq sock)) final @ [(nl_seq sock, NLMSG_DONE, 0x02, status)]"
    and "delivers K (nl_fd sock) (map datagram dgs @ [datagram lst]) k0 k'"
    and "list_all dg_ok dgs" "dg_ok lst" "list_all dump_type (concat groups @ final)"
    and "length groups < fuel"
  shows "dump K fuel t payload (sock, k) =
     Ret (Inr (map snd (concat groups @ final)), (sock\<lparr>nl_seq := nl_seq sock + 1\<rparr>, k'))"
proof -
  let ?sq = "nl_seq sock" and ?sock = "sock\<lparr>nl_seq := nl_seq sock + 1\<rparr>"
  have "list_all (list_all dump_type) groups" using assms(7) by (auto simp: list_all_iff)
  then have cont: "list_all (continues ?sq) dgs"
    unfolding assms(2) by (auto simp: list_all_iff intro!: multi_continues)
  have "\<not> continues ?sq lst" by (simp add: assms(3) continues_def scan_fin_def)
  then have "recv_loop K fuel ?sq [] (?sock, k0) =
      Ret (Inr ([] @ concat (map (scan_out ?sq) (concat dgs @ lst))), (?sock, k'))"
    using assms cont by (intro recv_loop_datagrams) (auto simp: any_error_def)
  moreover have "concat (map (scan_out ?sq) (concat dgs @ lst))
      = map (\<lambda>m. (fst m, 0x02, snd m)) (concat groups @ final)"
  proof -
    have "concat dgs @ lst = map (multi ?sq) (concat groups @ final) @ [(?sq, NLMSG_DONE, 0x02, status)]"
      by (simp add: assms(2,3) map_concat)
    then show ?thesis using multi_out [OF assms(7), of ?sq] by (simp add: scan_out_def)
  qed
  moreover have "collect_replies K (map (\<lambda>m. (fst m, 0x02, snd m)) (concat groups @ final)) []
      = Inr (map snd (concat groups @ final))"
    using collect_multi [OF assms(7), where out = "[]"] by simp
  ultimately show ?thesis
    using nl_send_ok [OF assms(1)] by (simp add: dump_def recv_until_done_def lift_io_def)
qed

theorem dump_complete_witness:
  "dump script_kernel 2 18 [] (\<lparr>nl_fd = 3, nl_seq = 1\<rparr>,
       [datagram [(1, 16, 2, [7])], datagram [(1, 16, 2, [8, 9]), (1, 3, 2, [])]])
     = Ret (Inr [[7], [8, 9]], (\<lparr>nl_fd = 3, nl_seq = 2\<rparr>, []))"
proof -
  have "dg_ok [(1, 16, 2, [7])]" "dg_ok [(1, 16, 2, [8, 9]), (1, 3, 2, [])]"
    by (simp_all add: dg_ok_def frame_fits_def datagram_def length_enc_frame align_def)
  then have "dump script_kernel 2 18 [] (\<lparr>nl_fd = 3, nl_seq = 1\<rparr>,
       [datagram [(1, 16, 2, [7])], datagram [(1, 16, 2, [8, 9]), (1, 3, 2, [])]])
     = Ret (Inr (map snd (concat [[(16 :: u16, [7])]] @ [(16, [8, 9])])),
         (\<lparr>nl_fd = 3, nl_seq = 1\<rparr>\<lparr>nl_seq := nl_seq \<lparr>nl_fd = 3, nl_seq = 1\<rparr> + 1\<rparr>, []))"
    by (intro dump_complete [where dgs = "[[(1, 16, 2, [7])]]"
          and lst = "[(1, 16, 2, [8, 9]), (1, 3, 2, [])]" and status = "[]"
          and ?k0.0 = "[datagram [(1, 16, 2, [7])], datagram [(1, 16, 2, [8, 9]), (1, 3, 2, [])]]"])
      (simp_all add: multi_def dump_type_def)
  then show ?thesis by simp
qed



end
