(* ===== verification/Ip_Ops.thy ===== *)
theory Ip_Ops
  imports Netlink
begin

text \<open>
  Links, addresses, routes, neighbours, generic netlink and the multicast monitor, on top of the
  netlink client: \<^verbatim>\<open>src/src/ip/interface.rs\<close>, \<^verbatim>\<open>address.rs\<close>, \<^verbatim>\<open>route.rs\<close>, \<^verbatim>\<open>neighbor.rs\<close>,
  \<^verbatim>\<open>genetlink.rs\<close>, \<^verbatim>\<open>monitor.rs\<close>. Every call opens a socket, exchanges
  messages with the kernel and closes the socket; \<open>fuel\<close> bounds the datagrams one exchange reads.
\<close>

definition nl_call :: "'k Kernel \<Rightarrow> (NlSocket \<times> 'k, 'a) io \<Rightarrow> ('k, 'a) io" where
  "nl_call K body = using_socket K (nl_new K) body"

lemma nl_call_eq:
  assumes "k_socket K NETLINK_ROUTE k = (Inr fd, k1)" "k_bind K fd 0 k1 = (Inr (), k2)"
    and "body (\<lparr>nl_fd = fd, nl_seq = 1\<rparr>, k2) = Ret (r, (sock, k3))"
  shows "nl_call K body k = Ret (r, k_close K (nl_fd sock) k3)"
proof -
  have "nl_new K k = Ret (Inr \<lparr>nl_fd = fd, nl_seq = 1\<rparr>, k2)"
    using assms by (simp add: nl_new_def with_groups_def with_protocol_def)
  then show ?thesis using assms by (simp add: nl_call_def using_socket_def)
qed

section \<open>Interfaces, \<^verbatim>\<open>ip/interface.rs\<close>\<close>

record Interface =
  if_index :: i32
  if_name :: string
  if_flags :: u32
  if_mtu :: u32
  if_hwaddr :: "bytes option"
  if_operstate :: "u8 option"
  if_kind :: "string option"

definition if_is_up :: "Interface \<Rightarrow> bool" where
  "if_is_up i = (if_flags i AND IFF_UP \<noteq> 0)"

definition if_has_carrier :: "Interface \<Rightarrow> bool" where
  "if_has_carrier i = (if_flags i AND IFF_RUNNING \<noteq> 0)"

definition if_is_loopback :: "Interface \<Rightarrow> bool" where
  "if_is_loopback i = (if_flags i AND IFF_LOOPBACK \<noteq> 0)"

definition interface_of_link :: "LinkInfo \<Rightarrow> Interface" where
  "interface_of_link l =
     \<lparr>if_index = li_index l, if_name = li_name l, if_flags = li_flags l, if_mtu = li_mtu l,
      if_hwaddr = li_hwaddr l, if_operstate = li_operstate l, if_kind = li_kind l\<rparr>"

definition interface_list :: "'k Kernel \<Rightarrow> nat \<Rightarrow> ('k, Interface list) io" where
  "interface_list K fuel =
     nl_call K
       (bind_io (dump K fuel RTM_GETLINK (build_ifinfomsg 0 0 0)) (\<lambda>replies.
        return_io (map interface_of_link (List.map_filter parse_link replies))))"

definition get_by_name :: "'k Kernel \<Rightarrow> nat \<Rightarrow> string \<Rightarrow> ('k, Interface) io" where
  "get_by_name K fuel name =
     bind_io (interface_list K fuel) (\<lambda>is.
       lift_io (ok_or (NotFound (''interface '' @ quoted name)) (find (\<lambda>i. if_name i = name) is)))"

definition get_by_index :: "'k Kernel \<Rightarrow> nat \<Rightarrow> i32 \<Rightarrow> ('k, Interface) io" where
  "get_by_index K fuel index =
     bind_io (interface_list K fuel) (\<lambda>is.
       lift_io (ok_or (NotFound (''interface index '' @ show_int (sint index)))
         (find (\<lambda>i. if_index i = index) is)))"

definition set_flags :: "'k Kernel \<Rightarrow> nat \<Rightarrow> i32 \<Rightarrow> u32 \<Rightarrow> u32 \<Rightarrow> ('k, unit) io" where
  "set_flags K fuel index flags change =
     nl_call K (request K fuel RTM_NEWLINK 0 (build_ifinfomsg index flags change))"

definition set_up :: "'k Kernel \<Rightarrow> nat \<Rightarrow> i32 \<Rightarrow> ('k, unit) io" where
  "set_up K fuel index = set_flags K fuel index IFF_UP IFF_UP"

definition set_down :: "'k Kernel \<Rightarrow> nat \<Rightarrow> i32 \<Rightarrow> ('k, unit) io" where
  "set_down K fuel index = set_flags K fuel index 0 IFF_UP"

definition set_hwaddr :: "'k Kernel \<Rightarrow> nat \<Rightarrow> i32 \<Rightarrow> bytes \<Rightarrow> ('k, unit) io" where
  "set_hwaddr K fuel index mac =
     nl_call K (request K fuel RTM_NEWLINK 0
       (build_ifinfomsg index 0 0 @ into_bytes (ab_bytes IFLA_ADDRESS mac ab_new)))"

definition set_mtu :: "'k Kernel \<Rightarrow> nat \<Rightarrow> i32 \<Rightarrow> u32 \<Rightarrow> ('k, unit) io" where
  "set_mtu K fuel index mtu =
     nl_call K (request K fuel RTM_NEWLINK 0
       (build_ifinfomsg index 0 0 @ into_bytes (ab_u32 IFLA_MTU mtu ab_new)))"

definition interface_delete :: "'k Kernel \<Rightarrow> nat \<Rightarrow> i32 \<Rightarrow> ('k, unit) io" where
  "interface_delete K fuel index =
     nl_call K (request K fuel RTM_DELLINK 0 (build_ifinfomsg index 0 0))"

definition create_virtual_payload :: "string \<Rightarrow> string \<Rightarrow> bytes" where
  "create_virtual_payload name kind =
     (let link_info = ab_nul_str IFLA_INFO_KIND kind ab_new;
          attrs = ab_nested IFLA_LINKINFO link_info (ab_nul_str IFLA_IFNAME name ab_new)
      in build_ifinfomsg 0 0 0 @ into_bytes attrs)"

definition create_virtual :: "'k Kernel \<Rightarrow> nat \<Rightarrow> string \<Rightarrow> string \<Rightarrow> ('k, unit) io" where
  "create_virtual K fuel name kind =
     nl_call K (request K fuel RTM_NEWLINK (NLM_F_CREATE OR NLM_F_EXCL)
       (create_virtual_payload name kind))"

section \<open>Addresses, \<^verbatim>\<open>ip/address.rs\<close>\<close>

record Address =
  ad_index :: i32
  ad_ip :: IpAddr
  ad_prefixlen :: u8
  ad_label :: "string option"

definition address_add_payload :: "i32 \<Rightarrow> IpAddr \<Rightarrow> u8 \<Rightarrow> bytes" where
  "address_add_payload index ip prefixlen =
     (let family = family_raw (family_of_ip ip);
          bs = ip_bytes ip;
          attrs = ab_bytes IFA_ADDRESS bs (ab_bytes IFA_LOCAL bs ab_new);
          attrs' = (case ip of
                      V4 v4 \<Rightarrow> ab_bytes IFA_BROADCAST (octets4 (broadcast_address v4 prefixlen)) attrs
                    | V6 _ \<Rightarrow> attrs)
      in build_ifaddrmsg family prefixlen index @ into_bytes attrs')"

definition address_add :: "'k Kernel \<Rightarrow> nat \<Rightarrow> i32 \<Rightarrow> IpAddr \<Rightarrow> u8 \<Rightarrow> ('k, unit) io" where
  "address_add K fuel index ip prefixlen =
     nl_call K (request K fuel RTM_NEWADDR (NLM_F_CREATE OR NLM_F_REPLACE)
       (address_add_payload index ip prefixlen))"

definition address_del :: "'k Kernel \<Rightarrow> nat \<Rightarrow> i32 \<Rightarrow> IpAddr \<Rightarrow> u8 \<Rightarrow> ('k, unit) io" where
  "address_del K fuel index ip prefixlen =
     nl_call K (request K fuel RTM_DELADDR 0
       (build_ifaddrmsg (family_raw (family_of_ip ip)) prefixlen index
         @ into_bytes (ab_bytes IFA_LOCAL (ip_bytes ip) ab_new)))"

definition address_of_body :: "u8 \<Rightarrow> i32 option \<Rightarrow> bytes \<Rightarrow> Address option" where
  "address_of_body family index body =
     (case parse_addr body of
        None \<Rightarrow> None
      | Some a \<Rightarrow>
          if (case index of Some idx \<Rightarrow> ai_index a \<noteq> idx | None \<Rightarrow> False) then None
          else (case bytes_to_ip family (ai_address a) of
                  None \<Rightarrow> None
                | Some ip \<Rightarrow> Some \<lparr>ad_index = ai_index a, ad_ip = ip,
                    ad_prefixlen = ai_prefixlen a, ad_label = ai_label a\<rparr>))"

definition address_list_family :: "'k Kernel \<Rightarrow> nat \<Rightarrow> i32 option \<Rightarrow> u8 \<Rightarrow> ('k, Address list) io" where
  "address_list_family K fuel index family =
     nl_call K
       (bind_io (dump K fuel RTM_GETADDR
           (build_ifaddrmsg family 0 (case index of Some i \<Rightarrow> i | None \<Rightarrow> 0))) (\<lambda>replies.
        return_io (List.map_filter (address_of_body family index) replies)))"

definition address_list :: "'k Kernel \<Rightarrow> nat \<Rightarrow> i32 option \<Rightarrow> ('k, Address list) io" where
  "address_list K fuel index =
     bind_io (map_io [AF_INET, AF_INET6] (address_list_family K fuel index)) (\<lambda>xss.
       return_io (concat xss))"

definition address_flush :: "'k Kernel \<Rightarrow> nat \<Rightarrow> i32 \<Rightarrow> ('k, unit) io" where
  "address_flush K fuel index =
     bind_io (address_list K fuel (Some index)) (\<lambda>as.
       for_io as (\<lambda>a. address_del K fuel index (ad_ip a) (ad_prefixlen a)))"

section \<open>Routes, \<^verbatim>\<open>ip/route.rs\<close>\<close>

datatype RouteProtocol = Static | DhcpProto | KernelProto

definition route_protocol_raw :: "RouteProtocol \<Rightarrow> u8" where
  "route_protocol_raw p =
     (case p of Static \<Rightarrow> RTPROT_STATIC | DhcpProto \<Rightarrow> RTPROT_DHCP | KernelProto \<Rightarrow> 2)"

record Route =
  rt_destination :: "(IpAddr \<times> u8) option"
  rt_gateway :: "IpAddr option"
  rt_oif_index :: i32
  rt_metric :: "u32 option"
  rt_protocol :: RouteProtocol

definition family_of :: "Route \<Rightarrow> Family" where
  "family_of route =
     (case rt_destination route of
        Some (dst, _) \<Rightarrow> family_of_ip dst
      | None \<Rightarrow> (case rt_gateway route of Some gw \<Rightarrow> family_of_ip gw | None \<Rightarrow> FamV4))"

definition opt_bytes :: "u16 \<Rightarrow> bytes option \<Rightarrow> AttrBuilder \<Rightarrow> AttrBuilder" where
  "opt_bytes t v b = (case v of Some x \<Rightarrow> ab_bytes t x b | None \<Rightarrow> b)"

definition route_payload :: "Route \<Rightarrow> bytes" where
  "route_payload route =
     (let hdr = build_rtmsg (family_raw (family_of route))
                  (case rt_destination route of Some (_, l) \<Rightarrow> l | None \<Rightarrow> 0)
                  RT_TABLE_MAIN (route_protocol_raw (rt_protocol route))
                  (if rt_gateway route \<noteq> None then RT_SCOPE_UNIVERSE else RT_SCOPE_LINK)
                  RTN_UNICAST;
          a1 = opt_bytes RTA_DST (map_option (\<lambda>(dst, _). ip_bytes dst) (rt_destination route)) ab_new;
          a2 = opt_bytes RTA_GATEWAY (map_option ip_bytes (rt_gateway route)) a1;
          a3 = ab_u32 RTA_OIF (rt_oif_index route) a2;
          a4 = (case rt_metric route of Some m \<Rightarrow> ab_u32 RTA_PRIORITY m a3 | None \<Rightarrow> a3)
      in hdr @ into_bytes a4)"

definition route_build :: "'k Kernel \<Rightarrow> nat \<Rightarrow> Route \<Rightarrow> u16 \<Rightarrow> u16 \<Rightarrow> ('k, unit) io" where
  "route_build K fuel route msg_type extra_flags =
     nl_call K (request K fuel msg_type extra_flags (route_payload route))"

definition route_add :: "'k Kernel \<Rightarrow> nat \<Rightarrow> Route \<Rightarrow> ('k, unit) io" where
  "route_add K fuel route = route_build K fuel route RTM_NEWROUTE (NLM_F_CREATE OR NLM_F_REPLACE)"

definition route_del :: "'k Kernel \<Rightarrow> nat \<Rightarrow> Route \<Rightarrow> ('k, unit) io" where
  "route_del K fuel route = route_build K fuel route RTM_DELROUTE 0"

definition set_default :: "'k Kernel \<Rightarrow> nat \<Rightarrow> i32 \<Rightarrow> IpAddr \<Rightarrow> u32 \<Rightarrow> RouteProtocol \<Rightarrow> ('k, unit) io" where
  "set_default K fuel oif_index gateway metric protocol =
     route_add K fuel \<lparr>rt_destination = None, rt_gateway = Some gateway, rt_oif_index = oif_index,
       rt_metric = Some metric, rt_protocol = protocol\<rparr>"

definition route_of_body :: "bytes \<Rightarrow> Route option" where
  "route_of_body body =
     (case parse_route body of
        None \<Rightarrow> None
      | Some r \<Rightarrow>
          if ri_table r \<noteq> RT_TABLE_MAIN then None
          else Some \<lparr>
            rt_destination = map_option (\<lambda>ip. (ip, ri_dst_len r))
              (Option.bind (ri_dst r) (bytes_to_ip (ri_family r))),
            rt_gateway = Option.bind (ri_gateway r) (bytes_to_ip (ri_family r)),
            rt_oif_index = (case ri_oif r of Some i \<Rightarrow> i | None \<Rightarrow> 0),
            rt_metric = ri_priority r,
            rt_protocol = KernelProto\<rparr>)"

definition route_list :: "'k Kernel \<Rightarrow> nat \<Rightarrow> Family \<Rightarrow> ('k, Route list) io" where
  "route_list K fuel family =
     nl_call K
       (bind_io (dump K fuel RTM_GETROUTE (build_rtmsg (family_raw family) 0 0 0 0 0)) (\<lambda>replies.
        return_io (List.map_filter route_of_body replies)))"

definition source_rule_payload :: "IpAddr \<Rightarrow> u8 \<Rightarrow> u8 \<Rightarrow> u32 \<Rightarrow> bytes" where
  "source_rule_payload src prefixlen table priority =
     build_fib_rule_hdr (family_raw (family_of_ip src)) prefixlen table FR_ACT_TO_TBL
       @ into_bytes (ab_u32 FRA_PRIORITY priority (ab_bytes FRA_SRC (ip_bytes src) ab_new))"

definition add_source_rule :: "'k Kernel \<Rightarrow> nat \<Rightarrow> IpAddr \<Rightarrow> u8 \<Rightarrow> u8 \<Rightarrow> u32 \<Rightarrow> ('k, unit) io" where
  "add_source_rule K fuel src prefixlen table priority =
     nl_call K (request K fuel RTM_NEWRULE NLM_F_CREATE
       (source_rule_payload src prefixlen table priority))"

definition del_source_rule :: "'k Kernel \<Rightarrow> nat \<Rightarrow> IpAddr \<Rightarrow> u8 \<Rightarrow> u8 \<Rightarrow> u32 \<Rightarrow> ('k, unit) io" where
  "del_source_rule K fuel src prefixlen table priority =
     nl_call K (request K fuel RTM_DELRULE 0
       (source_rule_payload src prefixlen table priority))"

definition table_route_payload :: "Route \<Rightarrow> u8 \<Rightarrow> bytes" where
  "table_route_payload route table =
     (let hdr = build_rtmsg (family_raw (family_of route))
                  (case rt_destination route of Some (_, l) \<Rightarrow> l | None \<Rightarrow> 0)
                  table (route_protocol_raw (rt_protocol route)) RT_SCOPE_UNIVERSE RTN_UNICAST;
          a1 = opt_bytes RTA_DST (map_option (\<lambda>(dst, _). ip_bytes dst) (rt_destination route)) ab_new;
          a2 = opt_bytes RTA_GATEWAY (map_option ip_bytes (rt_gateway route)) a1
      in hdr @ into_bytes (ab_u32 RTA_OIF (rt_oif_index route) a2))"

definition add_to_table :: "'k Kernel \<Rightarrow> nat \<Rightarrow> Route \<Rightarrow> u8 \<Rightarrow> ('k, unit) io" where
  "add_to_table K fuel route table =
     nl_call K (request K fuel RTM_NEWROUTE (NLM_F_CREATE OR NLM_F_REPLACE)
       (table_route_payload route table))"

section \<open>Neighbours, \<^verbatim>\<open>ip/neighbor.rs\<close>\<close>

datatype NeighborState =
  NsIncomplete | NsReachable | NsStale | NsDelay | NsProbe | NsFailed | NsPermanent | NsUnknown

definition neighbor_state_from_raw :: "u16 \<Rightarrow> NeighborState" where
  "neighbor_state_from_raw state =
     (if state = 0x01 then NsIncomplete else if state = 0x02 then NsReachable
      else if state = 0x04 then NsStale else if state = 0x08 then NsDelay
      else if state = 0x10 then NsProbe else if state = 0x20 then NsFailed
      else if state = 0x80 then NsPermanent else NsUnknown)"

record Neighbor =
  ne_ifindex :: i32
  ne_ip :: IpAddr
  ne_mac :: "bytes option"
  ne_state :: NeighborState

definition neighbor_of_body :: "u8 \<Rightarrow> i32 option \<Rightarrow> bytes \<Rightarrow> Neighbor option" where
  "neighbor_of_body family ifindex body =
     (if length body < 12 then None
      else
        let idx = from_le32 (body ! 4) (body ! 5) (body ! 6) (body ! 7);
            attrs = parse_attrs (drop 12 body)
        in if (case ifindex of Some want \<Rightarrow> idx \<noteq> want | None \<Rightarrow> False) then None
           else (case Option.bind (attrs 1) (bytes_to_ip family) of
                   None \<Rightarrow> None
                 | Some ip \<Rightarrow> Some \<lparr>ne_ifindex = idx, ne_ip = ip,
                     ne_mac = Option.bind (attrs 2) (\<lambda>b. if 6 \<le> length b then Some (take 6 b) else None),
                     ne_state = neighbor_state_from_raw (from_le16 (body ! 8) (body ! 9))\<rparr>))"

definition neighbor_list_family :: "'k Kernel \<Rightarrow> nat \<Rightarrow> i32 option \<Rightarrow> u8 \<Rightarrow> ('k, Neighbor list) io" where
  "neighbor_list_family K fuel ifindex family =
     nl_call K
       (bind_io (dump K fuel 30 [family, 0, 0, 0, 0, 0, 0, 0, 0, 0, 0, 0]) (\<lambda>replies.
        return_io (List.map_filter (neighbor_of_body family ifindex) replies)))"

definition neighbor_list :: "'k Kernel \<Rightarrow> nat \<Rightarrow> i32 option \<Rightarrow> ('k, Neighbor list) io" where
  "neighbor_list K fuel ifindex =
     bind_io (map_io [AF_INET, AF_INET6] (neighbor_list_family K fuel ifindex)) (\<lambda>xss.
       return_io (concat xss))"

section \<open>Generic netlink, \<^verbatim>\<open>ip/genetlink.rs\<close>\<close>

definition GENL_ID_CTRL :: u16 where "GENL_ID_CTRL = 0x10"

definition build_genlmsghdr :: "u8 \<Rightarrow> u8 \<Rightarrow> bytes" where
  "build_genlmsghdr cmd version = [cmd, version, 0, 0]"

definition family_id_of_body :: "bytes \<Rightarrow> u16 option" where
  "family_id_of_body body =
     (if length body < 4 then None
      else Option.bind (parse_attrs (drop 4 body) 1)
             (\<lambda>b. if 2 \<le> length b then Some (from_le16 (b ! 0) (b ! 1)) else None))"

definition genl_not_found :: "string \<Rightarrow> NetworkError" where
  "genl_not_found name = Netlink (''generic netlink family '' @ quoted name
     @ '' not found -- is its kernel module loaded?'')"

definition resolve_family :: "'k Kernel \<Rightarrow> nat \<Rightarrow> string \<Rightarrow> (NlSocket \<times> 'k, u16) io" where
  "resolve_family K fuel family_name =
     bind_io (map_err_io (\<lambda>_. genl_not_found family_name)
       (query K fuel GENL_ID_CTRL 0
         (build_genlmsghdr 3 1 @ into_bytes (ab_nul_str 2 family_name ab_new)))) (\<lambda>replies.
     lift_io (case List.map_filter family_id_of_body replies of
                fid # _ \<Rightarrow> Inr fid
              | [] \<Rightarrow> Inl (genl_not_found family_name)))"

definition genl_resolve :: "'k Kernel \<Rightarrow> nat \<Rightarrow> string \<Rightarrow> ('k, u16) io" where
  "genl_resolve K fuel family_name =
     using_socket K (with_protocol K NETLINK_GENERIC 0) (resolve_family K fuel family_name)"

section \<open>The monitor, \<^verbatim>\<open>ip/monitor.rs\<close>\<close>

datatype RawEvent = LinkNew string | LinkDel string | AddrNew i32 | AddrDel i32

definition monitor_event :: "u16 \<Rightarrow> bytes \<Rightarrow> RawEvent option" where
  "monitor_event msg_type body =
     (if msg_type = RTM_NEWLINK then map_option (\<lambda>l. LinkNew (li_name l)) (parse_link body)
      else if msg_type = RTM_DELLINK then map_option (\<lambda>l. LinkDel (li_name l)) (parse_link body)
      else if msg_type = RTM_NEWADDR then map_option (\<lambda>a. AddrNew (ai_index a)) (parse_addr body)
      else if msg_type = RTM_DELADDR then map_option (\<lambda>a. AddrDel (ai_index a)) (parse_addr body)
      else None)"

definition monitor_recv :: "'k Kernel \<Rightarrow> (NlSocket \<times> 'k, RawEvent list) io" where
  "monitor_recv K = recv_multicast K monitor_event"

section \<open>What the kernel reads back\<close>

lemma ab_buf_simps:
  "ab_buf ab_new = []"
  "ab_buf (ab_u32 t v b) = ab_buf b @ enc_attr (t, le32 v)"
  "ab_buf (ab_bytes t w b) = ab_buf b @ enc_attr (t, w)"
  "ab_buf (ab_nul_str t s b) = ab_buf b @ enc_attr (t, as_bytes s @ [0])"
  "ab_buf (ab_nested t c b) = ab_buf b @ enc_attr (t, ab_buf c)"
  "ab_buf (opt_bytes t q b) = ab_buf b @ (case q of Some x \<Rightarrow> enc_attr (t, x) | None \<Rightarrow> [])"
  by (simp_all add: ab_new_def ab_u32_def ab_bytes_def ab_nul_str_def ab_nested_def opt_bytes_def
      push_raw_enc split: option.splits)

lemma parse_attr_list:
  "\<forall>a \<in> set as. attr_fits a \<Longrightarrow> b = enc_attrs as \<Longrightarrow> parse_attrs b = map_of (rev as)"
  by (simp add: parse_attrs_enc)

lemma as_bytes_nul: "as_bytes s @ [0] = as_bytes (s @ [nul])"
  by (simp add: as_bytes_def byte_of_char_def)

definition plain_text :: "string \<Rightarrow> bool" where
  "plain_text s = list_all (\<lambda>c. is_ascii c \<and> c \<noteq> nul) s"

lemma attr_string_nul_str:
  assumes "plain_text s"
  shows "attr_string (as_bytes s @ [0]) = s"
proof -
  have a: "\<forall>c \<in> set (s @ [nul]). is_ascii c"
    using assms by (auto simp: plain_text_def list_all_iff is_ascii_def)
  have "dropWhile (\<lambda>c. c = nul) (rev s) = rev s"
    using assms by (cases s rule: rev_cases) (auto simp: plain_text_def)
  then show ?thesis
    unfolding attr_string_def as_bytes_nul from_utf8_lossy_ascii [OF a] by simp
qed

lemma attr_u32_le32: "attr_u32 (le32 v) = Some v"
  using from_wire(4) [of v] by (simp add: attr_u32_def length_wire)

lemma bind_le32: "Option.bind (map_option le32 v) attr_u32 = v"
  by (cases v) (simp_all add: attr_u32_le32)

lemma length_ip_bytes: "length (ip_bytes ip) \<le> 16"
  by (cases ip) (simp_all add: ip_bytes_def)

lemma attr_fits_small: "length v \<le> 65531 \<Longrightarrow> attr_fits (t, v)"
  by (simp add: attr_fits_def)

lemma le32_nths:
  "from_le32 (le32 v ! 0) (le32 v ! Suc 0) (le32 v ! 2) (le32 v ! 3) = v"
  using from_wire(4) [of v] by simp

lemma link_header:
  assumes "body = build_ifinfomsg i f c @ rest"
  shows "(length body < 16) = False" "drop 16 body = rest"
    "from_le32 (body ! 4) (body ! 5) (body ! 6) (body ! 7) = i"
    "from_le32 (body ! 8) (body ! 9) (body ! 10) (body ! 11) = f"
  unfolding assms
  by (simp_all add: build_ifinfomsg_def le16_def le32_def from_le32_def from_be32_inverse)

lemma addr_header:
  assumes "body = build_ifaddrmsg f p i @ rest"
  shows "(length body < 8) = False" "drop 8 body = rest" "body ! 0 = f" "body ! 1 = p"
    "from_le32 (body ! 4) (body ! 5) (body ! 6) (body ! 7) = i"
  unfolding assms
  by (simp_all add: build_ifaddrmsg_def le32_def from_le32_def from_be32_inverse)

lemma route_header:
  assumes "body = build_rtmsg f l t p sc ty @ rest"
  shows "(length body < 12) = False" "drop 12 body = rest" "body ! 0 = f" "body ! 1 = l" "body ! 4 = t"
  unfolding assms by (simp_all add: build_rtmsg_def)

text \<open>The attributes of a route message, as a list.\<close>

definition route_attrs :: "Route \<Rightarrow> (u16 \<times> bytes) list" where
  "route_attrs r =
     (case rt_destination r of Some (d, _) \<Rightarrow> [(RTA_DST, ip_bytes d)] | None \<Rightarrow> []) @
     (case rt_gateway r of Some g \<Rightarrow> [(RTA_GATEWAY, ip_bytes g)] | None \<Rightarrow> []) @
     [(RTA_OIF, le32 (rt_oif_index r))] @
     (case rt_metric r of Some m \<Rightarrow> [(RTA_PRIORITY, le32 m)] | None \<Rightarrow> [])"

lemma route_attrs_fit: "\<forall>a \<in> set (route_attrs r). attr_fits a"
  using length_ip_bytes le_trans [OF length_ip_bytes]
  by (auto simp: route_attrs_def length_wire intro!: attr_fits_small split: option.splits)

lemma route_attrs_lookup:
  "map_of (rev (route_attrs r)) RTA_DST = map_option (\<lambda>(d, _). ip_bytes d) (rt_destination r)"
  "map_of (rev (route_attrs r)) RTA_GATEWAY = map_option ip_bytes (rt_gateway r)"
  "map_of (rev (route_attrs r)) RTA_OIF = Some (le32 (rt_oif_index r))"
  "map_of (rev (route_attrs r)) RTA_PRIORITY = map_option le32 (rt_metric r)"
  by (simp_all add: route_attrs_def split: option.splits)

definition same_family :: "Route \<Rightarrow> bool" where
  "same_family r =
     (case rt_destination r of
        Some (d, _) \<Rightarrow> (case rt_gateway r of Some g \<Rightarrow> family_of_ip g = family_of_ip d | None \<Rightarrow> True)
      | None \<Rightarrow> True)"

lemma same_family_ips:
  assumes "same_family r"
  shows "rt_destination r = Some (d, l) \<Longrightarrow> family_of r = family_of_ip d"
    "rt_gateway r = Some g \<Longrightarrow> family_of r = family_of_ip g"
  using assms by (auto simp: same_family_def family_of_def split: option.splits)

section \<open>Properties\<close>

text \<open>
  The message \<open>create_virtual\<close> sends describes exactly the requested link: read back with
  \<open>parse_link\<close> it has the given name and kind, index and flags 0, and no MTU, hardware address or
  operational state, for printable names and kinds that fit an attribute.
\<close>

theorem create_virtual_parse_link:
  assumes "plain_text name" "plain_text kind" "length name \<le> 65530" "length kind \<le> 65520"
  shows "parse_link (create_virtual_payload name kind) =
     Some \<lparr>li_index = 0, li_flags = 0, li_name = name, li_mtu = 0, li_hwaddr = None,
           li_operstate = None, li_kind = Some kind\<rparr>"
proof -
  let ?inner = "enc_attrs [(IFLA_INFO_KIND, as_bytes kind @ [0])]"
  let ?as = "[(IFLA_IFNAME, as_bytes name @ [0]), (IFLA_LINKINFO, ?inner)]"
  have body: "create_virtual_payload name kind = build_ifinfomsg 0 0 0 @ enc_attrs ?as"
    by (simp add: create_virtual_payload_def into_bytes_def ab_buf_simps Let_def)
  have "align (4 + (length kind + 1)) < 4 + (length kind + 1) + 4" by (rule align_bounds)
  then have inner: "length ?inner \<le> 65531" using assms by (simp add: length_enc_attr)
  have fit: "\<forall>a \<in> set ?as. attr_fits a" "\<forall>a \<in> set [(IFLA_INFO_KIND, as_bytes kind @ [0])]. attr_fits a"
    using assms inner by (auto intro!: attr_fits_small)
  show ?thesis
    unfolding parse_link_def Let_def link_header [OF body] parse_attrs_enc [OF fit(1)]
    using assms fit(2) by (simp add: parse_attrs_enc attr_string_nul_str del: enc_attrs_simps)
qed

theorem create_virtual_parse_link_witness:
  "map_option li_kind (parse_link (create_virtual_payload ''wg0'' ''wireguard'')) = Some (Some ''wireguard'')"
  using create_virtual_parse_link [of "''wg0''" "''wireguard''"] by (simp add: plain_text_def is_ascii_def)

text \<open>
  An address the daemon adds is the address it lists: the payload of \<open>add\<close>, read back as a dump
  reply of its family, gives the same index, address and prefix length, with no label.
\<close>

theorem address_add_listed:
  "address_of_body (family_raw (family_of_ip ip)) (Some index) (address_add_payload index ip prefixlen)
     = Some \<lparr>ad_index = index, ad_ip = ip, ad_prefixlen = prefixlen, ad_label = None\<rparr>"
proof -
  let ?bc = "case ip of V4 v4 \<Rightarrow> [(IFA_BROADCAST, octets4 (broadcast_address v4 prefixlen))] | V6 _ \<Rightarrow> []"
  let ?as = "[(IFA_LOCAL, ip_bytes ip), (IFA_ADDRESS, ip_bytes ip)] @ ?bc"
  have body: "address_add_payload index ip prefixlen
      = build_ifaddrmsg (family_raw (family_of_ip ip)) prefixlen index @ enc_attrs ?as"
    by (cases ip) (simp_all add: address_add_payload_def into_bytes_def ab_buf_simps Let_def)
  have fit: "\<forall>a \<in> set ?as. attr_fits a"
    using length_ip_bytes [of ip] by (auto intro!: attr_fits_small split: IpAddr.splits)
  have at: "map_of (rev ?as) IFA_LOCAL = Some (ip_bytes ip)" "map_of (rev ?as) IFA_LABEL = None"
    by (cases ip; simp)+
  show ?thesis
    unfolding address_of_body_def parse_addr_def Let_def addr_header [OF body] parse_attrs_enc [OF fit] at
    by (simp add: bytes_to_ip_ip_bytes)
qed

text \<open>C37. A route the daemon installs in the main table is the route it lists back, up to the protocol,
  which a listing always reports as the kernel's: destination with prefix length, gateway, output
  interface and metric survive, whenever destination and gateway are of one family.
\<close>

theorem route_payload_listed:
  assumes "same_family r"
  shows "route_of_body (route_payload r) = Some (r\<lparr>rt_protocol := KernelProto\<rparr>)"
proof -
  have body: "route_payload r = build_rtmsg (family_raw (family_of r))
      (case rt_destination r of Some (_, l) \<Rightarrow> l | None \<Rightarrow> 0) RT_TABLE_MAIN
      (route_protocol_raw (rt_protocol r))
      (if rt_gateway r \<noteq> None then RT_SCOPE_UNIVERSE else RT_SCOPE_LINK) RTN_UNICAST
      @ enc_attrs (route_attrs r)"
    by (simp add: route_payload_def into_bytes_def ab_buf_simps route_attrs_def Let_def
        split: option.splits)
  have dst: "Option.bind (map_option (\<lambda>(d, _). ip_bytes d) (rt_destination r))
      (bytes_to_ip (family_raw (family_of r))) = map_option fst (rt_destination r)"
    using same_family_ips(1) [OF assms]
    by (cases "rt_destination r") (auto simp: bytes_to_ip_ip_bytes)
  have gw: "Option.bind (map_option ip_bytes (rt_gateway r))
      (bytes_to_ip (family_raw (family_of r))) = rt_gateway r"
    using same_family_ips(2) [OF assms]
    by (cases "rt_gateway r") (auto simp: bytes_to_ip_ip_bytes)
  show ?thesis
    unfolding route_of_body_def parse_route_def Let_def route_header [OF body]
      parse_attrs_enc [OF route_attrs_fit] route_attrs_lookup
    using dst gw bind_le32 [of "rt_metric r"]
    by (cases r) (auto simp: attr_u32_le32 comp_def split: option.splits)
qed

theorem route_payload_listed_witness:
  "route_of_body (route_payload \<lparr>rt_destination = None, rt_gateway = Some (V4 3232235777),
       rt_oif_index = 2, rt_metric = Some 100, rt_protocol = DhcpProto\<rparr>)
   = Some \<lparr>rt_destination = None, rt_gateway = Some (V4 3232235777),
       rt_oif_index = 2, rt_metric = Some 100, rt_protocol = KernelProto\<rparr>"
  using route_payload_listed [of "\<lparr>rt_destination = None, rt_gateway = Some (V4 3232235777),
       rt_oif_index = 2, rt_metric = Some 100, rt_protocol = DhcpProto\<rparr>"]
  by (simp add: same_family_def)

end
