(* ===== verification/Device.thy ===== *)
theory Device
  imports Ip_Ops Hash_Map
begin

text \<open>
  Devices: \<^verbatim>\<open>src/src/device/\<close>. Classification of kernel interfaces, the scan, the registry that merges
  a scan with the daemon's own state, hardware-address text, capabilities, counters and the wait for
  carrier. The sysfs tree and the clock are parameters.
\<close>

section \<open>Types, \<^verbatim>\<open>device/device.rs\<close>\<close>

datatype DeviceType =
  Ethernet | WiFi | Loopback | Bridge | Bond | Vlan | Tunnel | VpnType | Bluetooth | Virtual | UnknownType

definition device_type_name :: "DeviceType \<Rightarrow> string" where
  "device_type_name t =
     (case t of
        Ethernet \<Rightarrow> ''ethernet'' | WiFi \<Rightarrow> ''wifi'' | Loopback \<Rightarrow> ''loopback'' | Bridge \<Rightarrow> ''bridge''
      | Bond \<Rightarrow> ''bond'' | Vlan \<Rightarrow> ''vlan'' | Tunnel \<Rightarrow> ''tunnel'' | VpnType \<Rightarrow> ''vpn''
      | Bluetooth \<Rightarrow> ''bluetooth'' | Virtual \<Rightarrow> ''virtual'' | UnknownType \<Rightarrow> ''unknown'')"

datatype DeviceState =
  Unmanaged | Unavailable | Disconnected | Connecting | IpConfiguring | Activated | Deactivating | Failed

definition is_connected :: "DeviceState \<Rightarrow> bool" where
  "is_connected s = (s = Activated)"

record NetworkDevice =
  nd_name :: string
  nd_index :: u32
  nd_device_type :: DeviceType
  nd_state :: DeviceState
  nd_mac_address :: "string option"
  nd_mtu :: u32
  nd_ipv4_addresses :: "string list"
  nd_ipv6_addresses :: "string list"
  nd_carrier :: bool
  nd_driver :: "string option"
  nd_active_connection :: "string option"

definition is_wireless :: "NetworkDevice \<Rightarrow> bool" where
  "is_wireless d = (nd_device_type d = WiFi)"

section \<open>Discovery, \<^verbatim>\<open>device/discovery.rs\<close>\<close>

text \<open>The sysfs tree: whether a path exists, the last component of a link's target, and the text of
  a file.\<close>

record Sysfs =
  sf_exists :: "string \<Rightarrow> bool"
  sf_link_name :: "string \<Rightarrow> string option"
  sf_read :: "string \<Rightarrow> string option"

definition sys_path :: "string \<Rightarrow> string \<Rightarrow> string" where
  "sys_path name leaf = ''/sys/class/net/'' @ name @ ''/'' @ leaf"

definition classify :: "Sysfs \<Rightarrow> Interface \<Rightarrow> DeviceType" where
  "classify S iface =
     (if if_is_loopback iface then Loopback
      else (case if_kind iface of
              Some kind \<Rightarrow>
                if kind = ''bridge'' then Bridge
                else if kind = ''bond'' then Bond
                else if kind = ''vlan'' then Vlan
                else if kind \<in> set [''wireguard'', ''gre'', ''gretap'', ''ipip'', ''sit'', ''vxlan''] then
                  (if kind = ''wireguard'' then VpnType else Tunnel)
                else if kind = ''tun'' \<or> kind = ''tap'' then Tunnel
                else Virtual
            | None \<Rightarrow>
                if sf_exists S (sys_path (if_name iface) ''wireless'')
                   \<or> sf_exists S (sys_path (if_name iface) ''phy80211'') then WiFi
                else if starts_with (if_name iface) ''bnep'' then Bluetooth
                else if sf_exists S (sys_path (if_name iface) ''device'') then Ethernet
                else UnknownType))"

definition driver_of :: "Sysfs \<Rightarrow> string \<Rightarrow> string option" where
  "driver_of S name = sf_link_name S (sys_path name ''device/driver'')"

definition format_mac :: "bytes \<Rightarrow> string" where
  "format_mac mac = str_join '':'' (map hex2 mac)"

definition show_address :: "Address \<Rightarrow> string" where
  "show_address a = show_ip (ad_ip a) @ ''/'' @ show_nat (unat (ad_prefixlen a))"

definition device_of_interface :: "Sysfs \<Rightarrow> Address list \<Rightarrow> Interface \<Rightarrow> NetworkDevice" where
  "device_of_interface S addrs iface =
     \<lparr>nd_name = if_name iface,
      nd_index = if_index iface,
      nd_device_type = classify S iface,
      nd_state = (if if_is_up iface then (if if_has_carrier iface then Disconnected else Unavailable)
                  else Unavailable),
      nd_mac_address = map_option format_mac (if_hwaddr iface),
      nd_mtu = if_mtu iface,
      nd_ipv4_addresses = map show_address
        (filter (\<lambda>a. ad_index a = if_index iface \<and> is_ipv4 (ad_ip a)) addrs),
      nd_ipv6_addresses = map show_address
        (filter (\<lambda>a. ad_index a = if_index iface \<and> \<not> is_ipv4 (ad_ip a)) addrs),
      nd_carrier = if_has_carrier iface,
      nd_driver = driver_of S (if_name iface),
      nd_active_connection = None\<rparr>"

definition scan :: "'k Kernel \<Rightarrow> Sysfs \<Rightarrow> nat \<Rightarrow> ('k, NetworkDevice list) io" where
  "scan K S fuel =
     bind_io (interface_list K fuel) (\<lambda>ifaces.
     bind_io (try_io (address_list K fuel None)) (\<lambda>addrs.
       return_io (map (device_of_interface S (case addrs of Inr as \<Rightarrow> as | Inl _ \<Rightarrow> [])) ifaces)))"

datatype HotplugEvent =
  LinkAdded string | LinkRemoved string | LinkChanged string | AddressChanged string

definition hotplug_of_raw :: "RawEvent \<Rightarrow> HotplugEvent" where
  "hotplug_of_raw ev =
     (case ev of
        LinkNew name \<Rightarrow> LinkAdded name
      | LinkDel name \<Rightarrow> LinkRemoved name
      | AddrNew index \<Rightarrow> AddressChanged (show_int (sint index))
      | AddrDel index \<Rightarrow> AddressChanged (show_int (sint index)))"

section \<open>The registry, \<^verbatim>\<open>device/manager.rs\<close>\<close>

type_synonym DeviceRegistry = "(string \<times> NetworkDevice) list"

definition merge_device :: "string list \<Rightarrow> DeviceRegistry \<Rightarrow> NetworkDevice \<Rightarrow> NetworkDevice" where
  "merge_device unmanaged reg dev =
     (if nd_name dev \<in> set unmanaged then dev\<lparr>nd_state := Unmanaged\<rparr>
      else (case hm_get reg (nd_name dev) of
              Some existing \<Rightarrow> dev\<lparr>nd_state := nd_state existing,
                                   nd_active_connection := nd_active_connection existing\<rparr>
            | None \<Rightarrow> dev))"

definition rebuild :: "string list \<Rightarrow> NetworkDevice list \<Rightarrow> DeviceRegistry \<Rightarrow> DeviceRegistry" where
  "rebuild unmanaged scanned reg =
     fold (\<lambda>(k, v). hm_insert k v)
       (map (\<lambda>dev. (nd_name dev, merge_device unmanaged reg dev)) scanned) []"

definition refresh ::
    "'k Kernel \<Rightarrow> Sysfs \<Rightarrow> nat \<Rightarrow> string list \<Rightarrow> (DeviceRegistry \<times> 'k, unit) io" where
  "refresh K S fuel unmanaged = (\<lambda>(reg, k).
     case scan K S fuel k of
       Ret (Inr scanned, k') \<Rightarrow> Ret (Inr (), (rebuild unmanaged scanned reg, k'))
     | Ret (Inl e, k') \<Rightarrow> Ret (Inl e, (reg, k'))
     | Panic \<Rightarrow> Panic
     | NoFuel \<Rightarrow> NoFuel)"

definition set_state :: "string \<Rightarrow> DeviceState \<Rightarrow> DeviceRegistry \<Rightarrow> DeviceRegistry" where
  "set_state name st reg = hm_modify name (\<lambda>d. d\<lparr>nd_state := st\<rparr>) reg"

section \<open>Hardware addresses, \<^verbatim>\<open>device/mac.rs\<close>\<close>

definition mac_format :: "bytes \<Rightarrow> string" where
  "mac_format mac = str_join '':'' (map hex2 mac)"

definition mac_parse :: "string \<Rightarrow> bytes result" where
  "mac_parse s =
     (let parts = split_by (\<lambda>c. c = CHR '':'' \<or> c = CHR ''-'') s;
          bad = Parse (quoted s @ '' is not a MAC address'')
      in if length parts \<noteq> 6 then Inl bad
         else map_r (\<lambda>p. ok_or bad (parse_hex_u8 p)) parts)"

definition mac_set :: "'k Kernel \<Rightarrow> nat \<Rightarrow> i32 \<Rightarrow> bytes \<Rightarrow> ('k, unit) io" where
  "mac_set K fuel index mac = set_hwaddr K fuel index mac"

section \<open>Capabilities, counters, carrier\<close>

record DeviceCapabilities =
  dc_can_scan :: bool
  dc_can_hotspot :: bool
  dc_supports_carrier_detect :: bool
  dc_is_virtual :: bool

definition detect :: "DeviceType \<Rightarrow> DeviceCapabilities" where
  "detect t =
     (case t of
        WiFi \<Rightarrow> \<lparr>dc_can_scan = True, dc_can_hotspot = True, dc_supports_carrier_detect = True, dc_is_virtual = False\<rparr>
      | Ethernet \<Rightarrow> \<lparr>dc_can_scan = False, dc_can_hotspot = False, dc_supports_carrier_detect = True, dc_is_virtual = False\<rparr>
      | Bluetooth \<Rightarrow> \<lparr>dc_can_scan = True, dc_can_hotspot = False, dc_supports_carrier_detect = False, dc_is_virtual = False\<rparr>
      | Loopback \<Rightarrow> \<lparr>dc_can_scan = False, dc_can_hotspot = False, dc_supports_carrier_detect = False, dc_is_virtual = False\<rparr>
      | UnknownType \<Rightarrow> \<lparr>dc_can_scan = False, dc_can_hotspot = False, dc_supports_carrier_detect = False, dc_is_virtual = False\<rparr>
      | _ \<Rightarrow> \<lparr>dc_can_scan = False, dc_can_hotspot = False, dc_supports_carrier_detect = False, dc_is_virtual = True\<rparr>)"

record DeviceStatistics =
  ds_rx_bytes :: u64
  ds_tx_bytes :: u64
  ds_rx_packets :: u64
  ds_tx_packets :: u64
  ds_rx_errors :: u64
  ds_tx_errors :: u64
  ds_rx_dropped :: u64
  ds_tx_dropped :: u64

definition read_counter :: "Sysfs \<Rightarrow> string \<Rightarrow> string \<Rightarrow> u64" where
  "read_counter S name counter =
     (case Option.bind (sf_read S (sys_path name (''statistics/'' @ counter)))
             (\<lambda>s. parse_uint 18446744073709551615 10 (trim s)) of
        Some n \<Rightarrow> word_of_nat n | None \<Rightarrow> 0)"

definition statistics_read :: "Sysfs \<Rightarrow> string \<Rightarrow> DeviceStatistics" where
  "statistics_read S name =
     \<lparr>ds_rx_bytes = read_counter S name ''rx_bytes'', ds_tx_bytes = read_counter S name ''tx_bytes'',
      ds_rx_packets = read_counter S name ''rx_packets'', ds_tx_packets = read_counter S name ''tx_packets'',
      ds_rx_errors = read_counter S name ''rx_errors'', ds_tx_errors = read_counter S name ''tx_errors'',
      ds_rx_dropped = read_counter S name ''rx_dropped'', ds_tx_dropped = read_counter S name ''tx_dropped''\<rparr>"

definition saturating_sub :: "u64 \<Rightarrow> u64 \<Rightarrow> u64" where
  "saturating_sub a b = (if b \<le> a then a - b else 0)"

definition delta :: "DeviceStatistics \<Rightarrow> DeviceStatistics \<Rightarrow> DeviceStatistics" where
  "delta prev cur =
     \<lparr>ds_rx_bytes = saturating_sub (ds_rx_bytes cur) (ds_rx_bytes prev),
      ds_tx_bytes = saturating_sub (ds_tx_bytes cur) (ds_tx_bytes prev),
      ds_rx_packets = saturating_sub (ds_rx_packets cur) (ds_rx_packets prev),
      ds_tx_packets = saturating_sub (ds_tx_packets cur) (ds_tx_packets prev),
      ds_rx_errors = saturating_sub (ds_rx_errors cur) (ds_rx_errors prev),
      ds_tx_errors = saturating_sub (ds_tx_errors cur) (ds_tx_errors prev),
      ds_rx_dropped = saturating_sub (ds_rx_dropped cur) (ds_rx_dropped prev),
      ds_tx_dropped = saturating_sub (ds_tx_dropped cur) (ds_tx_dropped prev)\<rparr>"

text \<open>The clock of the wait for carrier, in milliseconds: reading it, and sleeping.\<close>

record 'k Clock =
  ck_now :: "'k \<Rightarrow> nat \<times> 'k"
  ck_sleep :: "nat \<Rightarrow> 'k \<Rightarrow> 'k"

fun carrier_loop :: "'k Kernel \<Rightarrow> 'k Clock \<Rightarrow> nat \<Rightarrow> nat \<Rightarrow> i32 \<Rightarrow> nat \<Rightarrow> nat \<Rightarrow> ('k, unit) io" where
  "carrier_loop K C 0 fuel index start timeout k = NoFuel"
| "carrier_loop K C (Suc n) fuel index start timeout k =
     (case get_by_index K fuel index k of
        Ret (Inr iface, k1) \<Rightarrow>
          if if_has_carrier iface then Ret (Inr (), k1)
          else (case ck_now C k1 of (now, k2) \<Rightarrow>
            if timeout \<le> now - start then
              Ret (Inl (Timeout (''no carrier on interface index '' @ show_int (sint index) @ '' after ''
                 @ show_nat (timeout div 1000) @ ''s'')), k2)
            else carrier_loop K C n fuel index start timeout (ck_sleep C 200 k2))
      | Ret (Inl e, k1) \<Rightarrow> Ret (Inl e, k1)
      | Panic \<Rightarrow> Panic
      | NoFuel \<Rightarrow> NoFuel)"

definition wait_for_carrier :: "'k Kernel \<Rightarrow> 'k Clock \<Rightarrow> nat \<Rightarrow> i32 \<Rightarrow> nat \<Rightarrow> ('k, unit) io" where
  "wait_for_carrier K C fuel index timeout =
     (\<lambda>k. case ck_now C k of (start, k1) \<Rightarrow> carrier_loop K C fuel fuel index start timeout k1)"

definition bring_up :: "'k Kernel \<Rightarrow> nat \<Rightarrow> i32 \<Rightarrow> ('k, unit) io" where
  "bring_up K fuel index = set_up K fuel index"

definition bring_down :: "'k Kernel \<Rightarrow> nat \<Rightarrow> i32 \<Rightarrow> ('k, unit) io" where
  "bring_down K fuel index = set_down K fuel index"

section \<open>Hardware addresses: the text form is read back\<close>

lemma hex2_no_sep: "\<forall>c \<in> set (hex2 b). \<not> (c = CHR '':'' \<or> c = CHR ''-'')"
proof -
  have "digit_char d \<noteq> CHR '':'' \<and> digit_char d \<noteq> CHR ''-''" if "d < 16" for d
    using to_digit_digit_char [of d 16] that by (auto simp: to_digit_def is_digit_def)
  then show ?thesis using unsigned_less [of b, where 'a = nat]
    by (auto simp: hex2_def less_mult_imp_div_less)
qed

lemma split_macs:
  "xs \<noteq> [] \<Longrightarrow> split_by (\<lambda>c. c = CHR '':'' \<or> c = CHR ''-'') (str_join '':'' (map hex2 xs)) = map hex2 xs"
proof (induction xs rule: list_nonempty_induct)
  case (single x)
  then show ?case using hex2_no_sep [of x] by (simp add: split_by_none)
next
  case (cons x xs)
  then obtain y ys where "xs = y # ys" by (cases xs) auto
  with cons.IH show ?case using hex2_no_sep [of x] by (simp add: split_by_append)
qed

text \<open>Hardware addresses: the printed form of a six-byte address parses back to that address, and
  whatever parses has six bytes.\<close>

theorem mac_roundtrip:
  "(\<forall>mac. length mac = 6 \<longrightarrow> mac_parse (mac_format mac) = Inr mac) \<and>
   (\<forall>s mac. mac_parse s = Inr mac \<longrightarrow> length mac = 6)"
proof (intro conjI allI impI)
  fix mac :: bytes assume len: "length mac = 6"
  then have "mac \<noteq> []" by auto
  from split_macs [OF this] len
  have "mac_parse (mac_format mac) =
      map_r (\<lambda>p. ok_or (Parse (quoted (mac_format mac) @ '' is not a MAC address'')) (parse_hex_u8 p)) (map hex2 mac)"
    by (simp add: mac_parse_def mac_format_def Let_def)
  also have "\<dots> = Inr (map (\<lambda>x. the (parse_hex_u8 x)) (map hex2 mac))"
    by (rule map_r_all) (auto simp: parse_hex2)
  also have "\<dots> = Inr mac" by (simp add: parse_hex2 comp_def)
  finally show "mac_parse (mac_format mac) = Inr mac" .
next
  fix s mac assume "mac_parse s = Inr mac"
  then show "length mac = 6"
    by (auto simp: mac_parse_def Let_def dest: map_r_length split: if_splits)
qed

theorem mac_roundtrip_witness:
  "length [0x02, 0xab, 0, 0x1f, 0xff, 9 :: u8] = 6 \<and>
   mac_parse (mac_format [0x02, 0xab, 0, 0x1f, 0xff, 9]) = Inr [0x02, 0xab, 0, 0x1f, 0xff, 9]"
  using mac_roundtrip by simp

section \<open>The registry across a scan\<close>

definition registry_ok :: "DeviceRegistry \<Rightarrow> bool" where
  "registry_ok reg = (hm_ok reg \<and> (\<forall>(k, d) \<in> set reg. nd_name d = k))"

lemma registry_ok_get: "registry_ok reg \<Longrightarrow> hm_get reg k = Some d \<Longrightarrow> nd_name d = k"
  by (auto simp: registry_ok_def hm_get_def dest: map_of_SomeD)

lemma merge_device_name [simp]: "nd_name (merge_device un reg d) = nd_name d"
  by (simp add: merge_device_def split: option.splits)

lemma registry_ok_insert: "registry_ok reg \<Longrightarrow> nd_name d = k \<Longrightarrow> registry_ok (hm_insert k d reg)"
  unfolding registry_ok_def by (auto simp: hm_insert_def hm_remove_def hm_ok_def distinct_map_filter)

lemma registry_ok_rebuild [simp]: "registry_ok (rebuild un scanned reg)"
proof -
  have "registry_ok (fold (\<lambda>(k, v). hm_insert k v) (map (\<lambda>d. (nd_name d, merge_device un reg d)) ds) r)"
    if "registry_ok r" for ds r
    using that by (induction ds arbitrary: r) (simp_all add: registry_ok_insert)
  from this [of "[]" scanned] show ?thesis by (simp add: rebuild_def registry_ok_def [of "[]"])
qed

lemma rebuild_get:
  assumes "distinct (map nd_name scanned)"
  shows "hm_get (rebuild un scanned reg) n =
    map_option (merge_device un reg) (find (\<lambda>d. nd_name d = n) scanned)"
proof -
  have eq: "map_of (map (\<lambda>d. (nd_name d, f d)) ds) n = map_option f (find (\<lambda>d. nd_name d = n) ds)"
    for f :: "NetworkDevice \<Rightarrow> NetworkDevice" and ds
    by (induction ds) auto
  have "map_of (rev (map (\<lambda>d. (nd_name d, merge_device un reg d)) scanned)) =
      map_of (map (\<lambda>d. (nd_name d, merge_device un reg d)) scanned)"
    using assms by (intro map_of_inject_set [THEN iffD2]) (simp_all add: rev_map [symmetric] comp_def distinct_map)
  then show ?thesis
    by (simp add: rebuild_def hm.get_fold_ins eq hm.get_emp split: option.splits)
qed

text \<open>C39. Re-scanning: the registry holds exactly the scanned interfaces under their names; a listed
  interface is unmanaged; any other keeps the state and the active connection the daemon had given
  it, and a new one starts as the scan classified it; everything the kernel reports is taken from
  the scan.\<close>

theorem rebuild_merges:
  assumes "distinct (map nd_name scanned)"
  shows "(\<forall>n. hm_get (rebuild un scanned reg) n \<noteq> None \<longleftrightarrow> n \<in> nd_name ` set scanned) \<and>
    (\<forall>d \<in> set scanned. \<exists>d'. hm_get (rebuild un scanned reg) (nd_name d) = Some d' \<and>
      d'\<lparr>nd_state := nd_state d, nd_active_connection := nd_active_connection d\<rparr> = d \<and>
      (if nd_name d \<in> set un then nd_state d' = Unmanaged \<and> nd_active_connection d' = nd_active_connection d
       else case hm_get reg (nd_name d) of
              Some old \<Rightarrow> nd_state d' = nd_state old \<and> nd_active_connection d' = nd_active_connection old
            | None \<Rightarrow> d' = d))"
proof (intro conjI allI ballI)
  fix d assume "d \<in> set scanned"
  with assms have "find (\<lambda>x. nd_name x = nd_name d) scanned = Some d"
    by (induction scanned) (auto simp: image_iff)
  then show "\<exists>d'. hm_get (rebuild un scanned reg) (nd_name d) = Some d' \<and>
    d'\<lparr>nd_state := nd_state d, nd_active_connection := nd_active_connection d\<rparr> = d \<and>
    (if nd_name d \<in> set un then nd_state d' = Unmanaged \<and> nd_active_connection d' = nd_active_connection d
     else case hm_get reg (nd_name d) of
            Some old \<Rightarrow> nd_state d' = nd_state old \<and> nd_active_connection d' = nd_active_connection old
          | None \<Rightarrow> d' = d)"
    by (simp add: rebuild_get [OF assms] merge_device_def split: option.splits)
qed (auto simp: rebuild_get [OF assms] find_None_iff)

definition sample_device :: "string \<Rightarrow> DeviceState \<Rightarrow> string option \<Rightarrow> NetworkDevice" where
  "sample_device name st active =
     \<lparr>nd_name = name, nd_index = 2, nd_device_type = Ethernet, nd_state = st, nd_mac_address = None,
      nd_mtu = 1500, nd_ipv4_addresses = [], nd_ipv6_addresses = [], nd_carrier = True,
      nd_driver = None, nd_active_connection = active\<rparr>"

theorem rebuild_merges_witness:
  "map_option nd_state (hm_get (rebuild [''eth1'']
      [sample_device ''eth0'' Disconnected None, sample_device ''eth1'' Disconnected None]
      [(''eth0'', sample_device ''eth0'' Activated (Some ''home''))]) ''eth0'') = Some Activated"
proof -
  let ?sc = "[sample_device ''eth0'' Disconnected None, sample_device ''eth1'' Disconnected None]"
  let ?reg = "[(''eth0'', sample_device ''eth0'' Activated (Some ''home''))]"
  have "distinct (map nd_name ?sc)" "sample_device ''eth0'' Disconnected None \<in> set ?sc"
    by (simp_all add: sample_device_def)
  from rebuild_merges [OF this(1), THEN conjunct2, rule_format, OF this(2), of "[''eth1'']" ?reg] show ?thesis
    by (auto simp: sample_device_def hm_get_def)
qed

section \<open>The wait for carrier ends\<close>

text \<open>Waiting for carrier ends: when looking the interface up returns and takes no negative time,
  and sleeping lasts at least as long as asked, the wait returns after at most one look-up per 200
  milliseconds of the timeout.\<close>

lemma wait_for_carrier_ends:
  assumes look: "\<And>k. \<exists>r k'. get_by_index K fuel index k = Ret (r, k') \<and> tm k \<le> tm k'"
    and now: "\<And>k. ck_now C k = (tm k, k)"
    and sleep: "\<And>d k. tm k + d \<le> tm (ck_sleep C d k)"
    and enough: "timeout div 200 + 2 \<le> fuel"
  shows "\<exists>r k'. wait_for_carrier K C fuel index timeout k = Ret (r, k')"
proof -
  have loop: "\<exists>r k'. carrier_loop K C n fuel index start timeout k = Ret (r, k')"
    if "start + timeout + 200 \<le> tm k + 200 * n" "0 < n" for start n k
    using that
  proof (induction n arbitrary: k)
    case (Suc n)
    obtain r k1 where l: "get_by_index K fuel index k = Ret (r, k1)" "tm k \<le> tm k1"
      using look by blast
    show ?case
    proof (cases "timeout \<le> tm k1 - start")
      case True
      with l now show ?thesis by (cases r) auto
    next
      case False
      with l sleep [of k1 200] Suc.prems
      have "start + timeout + 200 \<le> tm (ck_sleep C 200 k1) + 200 * n" "0 < n"
        by (auto intro: gr0I)
      from Suc.IH [OF this] l now show ?thesis by (cases r) auto
    qed
  qed simp
  have "timeout + 200 \<le> 200 * fuel" "0 < fuel" using enough by auto
  with loop [of "tm k" k fuel] now show ?thesis by (simp add: wait_for_carrier_def)
qed

end
