(* ===== verification/Wireguard.thy ===== *)
theory Wireguard
  imports Device Security
begin

text \<open>
  The WireGuard client, \<^verbatim>\<open>vpn/wireguard.rs\<close>: the base64 decoder for keys, the generic-netlink message
  that hands keys, endpoint and allowed addresses to the kernel, and connecting and disconnecting.
\<close>

section \<open>Keys\<close>

text \<open>The value of a digit of the standard alphabet.\<close>

definition b64_val :: "char \<Rightarrow> u8 option" where
  "b64_val c =
     (let n = code_of c in
      if 65 \<le> n \<and> n \<le> 90 then Some (word_of_nat (n - 65))
      else if 97 \<le> n \<and> n \<le> 122 then Some (word_of_nat (n - 97 + 26))
      else if 48 \<le> n \<and> n \<le> 57 then Some (word_of_nat (n - 48 + 52))
      else if c = CHR ''+'' then Some 62
      else if c = CHR ''/'' then Some 63
      else None)"

fun b64_loop :: "string \<Rightarrow> u32 \<Rightarrow> nat \<Rightarrow> bytes \<Rightarrow> bytes option" where
  "b64_loop [] buf bits out = Some out"
| "b64_loop (c # cs) buf bits out =
     (case b64_val c of
        None \<Rightarrow> None
      | Some v \<Rightarrow>
          let buf' = push_bit 6 buf OR ucast v; bits' = bits + 6
          in if 8 \<le> bits' then b64_loop cs buf' (bits' - 8) (out @ [ucast (drop_bit (bits' - 8) buf')])
             else b64_loop cs buf' bits' out)"

definition trim_end_eq :: "string \<Rightarrow> string" where
  "trim_end_eq s = rev (dropWhile (\<lambda>c. c = CHR ''='') (rev s))"

definition base64_decode :: "string \<Rightarrow> bytes option" where
  "base64_decode input = b64_loop (trim_end_eq input) 0 0 []"

abbreviation (input) WG_KEY_LEN :: nat where "WG_KEY_LEN \<equiv> 32"

definition decode_key :: "string \<Rightarrow> string \<Rightarrow> bytes result" where
  "decode_key field b64 =
     bind_r (ok_or (Vpn (field @ '' is not valid base64'')) (base64_decode (trim b64))) (\<lambda>key.
       if length key = WG_KEY_LEN then Inr key
       else Inl (Vpn (field @ '' must decode to 32 bytes'')))"

section \<open>The device message\<close>

record WireGuardConfig =
  wg_interface :: string
  wg_address :: string
  wg_peer_public_key :: string
  wg_peer_endpoint :: string
  wg_peer_allowed_ips :: string
  wg_listen_port :: "u16 option"
  wg_persistent_keepalive_secs :: u16

definition default_allowed_ips :: string where
  "default_allowed_ips = ''0.0.0.0/0, ::/0''"

definition default_keepalive :: u16 where
  "default_keepalive = 25"

datatype SocketAddr = SockV4 Ipv4Addr u16 | SockV6 Ipv6Addr u16

abbreviation (input) WG_CMD_SET_DEVICE :: u8 where "WG_CMD_SET_DEVICE \<equiv> 1"
abbreviation (input) WGDEVICE_A_IFNAME :: u16 where "WGDEVICE_A_IFNAME \<equiv> 2"
abbreviation (input) WGDEVICE_A_PRIVATE_KEY :: u16 where "WGDEVICE_A_PRIVATE_KEY \<equiv> 3"
abbreviation (input) WGDEVICE_A_FLAGS :: u16 where "WGDEVICE_A_FLAGS \<equiv> 5"
abbreviation (input) WGDEVICE_A_LISTEN_PORT :: u16 where "WGDEVICE_A_LISTEN_PORT \<equiv> 6"
abbreviation (input) WGDEVICE_A_PEERS :: u16 where "WGDEVICE_A_PEERS \<equiv> 8"
abbreviation (input) WGDEVICE_F_REPLACE_PEERS :: u32 where "WGDEVICE_F_REPLACE_PEERS \<equiv> 1"
abbreviation (input) WGPEER_A_PUBLIC_KEY :: u16 where "WGPEER_A_PUBLIC_KEY \<equiv> 1"
abbreviation (input) WGPEER_A_FLAGS :: u16 where "WGPEER_A_FLAGS \<equiv> 3"
abbreviation (input) WGPEER_A_ENDPOINT :: u16 where "WGPEER_A_ENDPOINT \<equiv> 4"
abbreviation (input) WGPEER_A_KEEPALIVE :: u16 where "WGPEER_A_KEEPALIVE \<equiv> 5"
abbreviation (input) WGPEER_A_ALLOWEDIPS :: u16 where "WGPEER_A_ALLOWEDIPS \<equiv> 9"
abbreviation (input) WGPEER_F_REPLACE_ALLOWEDIPS :: u32 where "WGPEER_F_REPLACE_ALLOWEDIPS \<equiv> 2"
abbreviation (input) WGALLOWEDIP_A_FAMILY :: u16 where "WGALLOWEDIP_A_FAMILY \<equiv> 1"
abbreviation (input) WGALLOWEDIP_A_IPADDR :: u16 where "WGALLOWEDIP_A_IPADDR \<equiv> 2"
abbreviation (input) WGALLOWEDIP_A_CIDR_MASK :: u16 where "WGALLOWEDIP_A_CIDR_MASK \<equiv> 3"

definition split_list :: "string \<Rightarrow> string list" where
  "split_list s = filter (\<lambda>x. x \<noteq> []) (map trim (split_on (CHR '','') s))"

text \<open>The C structures \<open>sockaddr_in\<close> and \<open>sockaddr_in6\<close>: native family, port and address in network
  order.\<close>

fun encode_sockaddr :: "SocketAddr \<Rightarrow> bytes" where
  "encode_sockaddr (SockV4 ip port) = le16 2 @ be16 port @ octets4 ip @ replicate 8 0"
| "encode_sockaddr (SockV6 ip port) = le16 10 @ be16 port @ le32 0 @ octets6 ip @ le32 0"

definition allowed_ip_entry :: "IpAddr \<Rightarrow> u8 \<Rightarrow> AttrBuilder" where
  "allowed_ip_entry addr prefixlen =
     ab_u8 WGALLOWEDIP_A_CIDR_MASK prefixlen
       (case addr of
          V4 v4 \<Rightarrow> ab_bytes WGALLOWEDIP_A_IPADDR (octets4 v4) (ab_u16 WGALLOWEDIP_A_FAMILY 2 ab_new)
        | V6 v6 \<Rightarrow> ab_bytes WGALLOWEDIP_A_IPADDR (octets6 v6) (ab_u16 WGALLOWEDIP_A_FAMILY 10 ab_new))"

fun allowed_ips_from :: "nat \<Rightarrow> string list \<Rightarrow> AttrBuilder \<Rightarrow> AttrBuilder result" where
  "allowed_ips_from i [] b = Inr b"
| "allowed_ips_from i (cidr # cidrs) b =
     bind_r (map_err (\<lambda>_. Vpn (''invalid allowed-ips entry '' @ quoted cidr)) (parse_cidr cidr)) (\<lambda>(addr, prefixlen).
       allowed_ips_from (i + 1) cidrs (ab_nested (as_u16 i) (allowed_ip_entry addr prefixlen) b))"

definition peer_attrs :: "WireGuardConfig \<Rightarrow> bytes \<Rightarrow> SocketAddr \<Rightarrow> AttrBuilder" where
  "peer_attrs cfg public_key endpoint =
     ab_u16 WGPEER_A_KEEPALIVE (wg_persistent_keepalive_secs cfg)
    (ab_bytes WGPEER_A_ENDPOINT (encode_sockaddr endpoint)
    (ab_u32 WGPEER_A_FLAGS WGPEER_F_REPLACE_ALLOWEDIPS
    (ab_bytes WGPEER_A_PUBLIC_KEY public_key ab_new)))"

definition device_attrs :: "WireGuardConfig \<Rightarrow> bytes \<Rightarrow> AttrBuilder \<Rightarrow> AttrBuilder" where
  "device_attrs cfg private_key peer =
     (let attrs1 = ab_bytes WGDEVICE_A_PRIVATE_KEY private_key
            (ab_nul_str WGDEVICE_A_IFNAME (wg_interface cfg) ab_new);
          attrs2 = (case wg_listen_port cfg of Some p \<Rightarrow> ab_u16 WGDEVICE_A_LISTEN_PORT p attrs1 | None \<Rightarrow> attrs1)
      in ab_nested WGDEVICE_A_PEERS (ab_nested 0 peer ab_new)
           (ab_u32 WGDEVICE_A_FLAGS WGDEVICE_F_REPLACE_PEERS attrs2))"

text \<open>The payload of the message, once keys and endpoint are known.\<close>

definition set_device_payload ::
    "WireGuardConfig \<Rightarrow> bytes \<Rightarrow> bytes \<Rightarrow> SocketAddr \<Rightarrow> bytes result" where
  "set_device_payload cfg private_key public_key endpoint =
     bind_r (allowed_ips_from 0 (split_list (wg_peer_allowed_ips cfg)) ab_new) (\<lambda>allowedips.
       let peer = ab_nested WGPEER_A_ALLOWEDIPS allowedips (peer_attrs cfg public_key endpoint)
       in Inr (build_genlmsghdr WG_CMD_SET_DEVICE 1 @ into_bytes (device_attrs cfg private_key peer)))"

section \<open>Connecting\<close>

text \<open>The TOML reader of the configuration, the system resolver and the secrets store.\<close>

record 'k VpnEnv =
  ve_toml :: "string \<Rightarrow> string + WireGuardConfig"
  ve_lookup :: "string \<Rightarrow> 'k \<Rightarrow> (string + SocketAddr list) \<times> 'k"
  ve_secret :: "string \<Rightarrow> string \<Rightarrow> 'k \<Rightarrow> string option result \<times> 'k"

definition resolve_endpoint :: "'k VpnEnv \<Rightarrow> string \<Rightarrow> ('k, SocketAddr) io" where
  "resolve_endpoint E endpoint =
     bind_io (sys_call (\<lambda>e. Vpn (''cannot resolve peer endpoint '' @ quoted endpoint @ '': '' @ e)) (ve_lookup E endpoint))
       (\<lambda>addrs. case addrs of
          a # _ \<Rightarrow> return_io a
        | [] \<Rightarrow> fail_io (Vpn (''peer endpoint '' @ quoted endpoint @ '' resolved to nothing'')))"

definition set_crypto_params ::
    "'k Kernel \<Rightarrow> 'k VpnEnv \<Rightarrow> nat \<Rightarrow> WireGuardConfig \<Rightarrow> string \<Rightarrow> ('k, unit) io" where
  "set_crypto_params K E fuel cfg private_key_b64 =
     bind_io (lift_io (decode_key ''private key'' private_key_b64)) (\<lambda>private_key.
     bind_io (lift_io (decode_key ''peer public key'' (wg_peer_public_key cfg))) (\<lambda>public_key.
     bind_io (resolve_endpoint E (wg_peer_endpoint cfg)) (\<lambda>endpoint.
     bind_io (lift_io (set_device_payload cfg private_key public_key endpoint)) (\<lambda>payload.
     bind_io (map_err_io (\<lambda>e. Vpn (''WireGuard kernel module not available: '' @ error_to_string e
         @ '' (try `modprobe wireguard`)'')) (genl_resolve K fuel ''wireguard'')) (\<lambda>family.
       using_socket K (with_protocol K NETLINK_GENERIC 0)
         (map_err_io (\<lambda>e. Vpn (''WG_CMD_SET_DEVICE failed: '' @ error_to_string e))
           (request K fuel family 0 payload)))))))"

definition allowed_route :: "i32 \<Rightarrow> IpAddr \<times> u8 \<Rightarrow> Route" where
  "allowed_route index dst =
     \<lparr>rt_destination = Some dst, rt_gateway = None, rt_oif_index = index, rt_metric = None, rt_protocol = Static\<rparr>"

definition wireguard_connect ::
    "'k Kernel \<Rightarrow> 'k VpnEnv \<Rightarrow> nat \<Rightarrow> string \<Rightarrow> string \<Rightarrow> ('k, string) io" where
  "wireguard_connect K E fuel config profile_id =
     bind_io (lift_io (map_err (\<lambda>e. Vpn (''invalid WireGuard config: '' @ e)) (ve_toml E config))) (\<lambda>cfg.
     then_io (lift_io (validate_interface_name (wg_interface cfg)))
    (bind_io (ask_result (ve_secret E profile_id ''wg-private-key'')) (\<lambda>stored.
     bind_io (lift_io (ok_or (Vpn (''no private key stored for '' @ quoted profile_id)) stored)) (\<lambda>private_key_b64.
     bind_io (try_io (get_by_name K fuel (wg_interface cfg))) (\<lambda>existing.
     then_io (if is_ok existing then return_io () else create_virtual K fuel (wg_interface cfg) ''wireguard'')
    (bind_io (get_by_name K fuel (wg_interface cfg)) (\<lambda>iface.
     bind_io (lift_io (parse_cidr (wg_address cfg))) (\<lambda>(addr, prefixlen).
     then_io (address_add K fuel (if_index iface) addr prefixlen)
    (then_io (set_crypto_params K E fuel cfg private_key_b64)
    (then_io (bring_up K fuel (if_index iface))
    (then_io (for_io (split_list (wg_peer_allowed_ips cfg)) (\<lambda>cidr.
                case parse_cidr cidr of
                  Inr dst \<Rightarrow> ignore_io (route_add K fuel (allowed_route (if_index iface) dst))
                | Inl _ \<Rightarrow> return_io ()))
             (return_io (wg_interface cfg)))))))))))))"

definition wireguard_disconnect :: "'k Kernel \<Rightarrow> nat \<Rightarrow> string \<Rightarrow> ('k, unit) io" where
  "wireguard_disconnect K fuel ifname =
     bind_io (get_by_name K fuel ifname) (\<lambda>iface. interface_delete K fuel (if_index iface))"

section \<open>The decoder inverts RFC 4648 encoding\<close>

definition b64_alphabet :: string where
  "b64_alphabet = ''ABCDEFGHIJKLMNOPQRSTUVWXYZabcdefghijklmnopqrstuvwxyz0123456789+/''"

definition b64_digit :: "u8 \<Rightarrow> char" where
  "b64_digit v = b64_alphabet ! unat v"

text \<open>The encoding of RFC 4648, section 4: the digits, and the padding to a multiple of four.\<close>

fun b64_digits :: "bytes \<Rightarrow> string" where
  "b64_digits [] = []"
| "b64_digits [a] = [b64_digit (drop_bit 2 a), b64_digit (push_bit 4 (a AND 3))]"
| "b64_digits [a, b] = [b64_digit (drop_bit 2 a), b64_digit (push_bit 4 (a AND 3) OR drop_bit 4 b),
     b64_digit (push_bit 2 (b AND 15))]"
| "b64_digits (a # b # c # bs) = [b64_digit (drop_bit 2 a), b64_digit (push_bit 4 (a AND 3) OR drop_bit 4 b),
     b64_digit (push_bit 2 (b AND 15) OR drop_bit 6 c), b64_digit (c AND 63)] @ b64_digits bs"

definition b64_padding :: "bytes \<Rightarrow> string" where
  "b64_padding bs = replicate ((3 - length bs mod 3) mod 3) (CHR ''='')"

definition b64_encode :: "bytes \<Rightarrow> string" where
  "b64_encode bs = b64_digits bs @ b64_padding bs"

lemma b64_val_alphabet: "n < 64 \<Longrightarrow> b64_val (b64_alphabet ! n) = Some (word_of_nat n)"
proof -
  have "\<forall>n \<in> set [0..<64]. b64_val (b64_alphabet ! n) = Some (word_of_nat n)"
    by (simp add: upt_rec b64_alphabet_def b64_val_def)
  then show "n < 64 \<Longrightarrow> b64_val (b64_alphabet ! n) = Some (word_of_nat n)" by simp
qed

lemma b64_val_digit: "v < 64 \<Longrightarrow> b64_val (b64_digit v) = Some v"
  using b64_val_alphabet [of "unat v"] by (simp add: b64_digit_def word_less_nat_alt)

lemma below_8: "n < 8 \<Longrightarrow> n = 0 \<or> n = 1 \<or> n = 2 \<or> n = 3 \<or> n = 4 \<or> n = 5 \<or> n = 6 \<or> n = (7 :: nat)"
  by auto

lemma byte_eqI: "(\<And>n. n < 8 \<Longrightarrow> bit a n = bit b n) \<Longrightarrow> a = b" for a b :: byte
  by (rule bit_word_eqI) simp

text \<open>The three output bytes of a group of four digits, whatever the buffer held before.\<close>

lemma b64_group:
  fixes a b c :: byte and buf :: u32
  defines "b1 \<equiv> push_bit 6 buf OR ucast (drop_bit 2 a)"
  defines "b2 \<equiv> push_bit 6 b1 OR ucast (push_bit 4 (a AND 3) OR drop_bit 4 b)"
  defines "b3 \<equiv> push_bit 6 b2 OR ucast (push_bit 2 (b AND 15) OR drop_bit 6 c)"
  defines "b4 \<equiv> push_bit 6 b3 OR ucast (c AND 63)"
  shows "ucast (drop_bit 4 b2) = a" "ucast (drop_bit 2 b3) = b" "ucast b4 = c"
proof -
  have bits: "bit (3 :: byte) n \<longleftrightarrow> n < 2" "bit (15 :: byte) n \<longleftrightarrow> n < 4" "bit (63 :: byte) n \<longleftrightarrow> n < 6" if "n < 8" for n
    using below_8 [OF that] by (elim disjE; simp)+
  have hi: "8 \<le> k \<Longrightarrow> \<not> bit x k" for x :: byte and k using bit_imp_le_length [of x k] by auto
  show "ucast (drop_bit 4 b2) = a"
  proof (rule byte_eqI)
    fix n :: nat assume "n < 8"
    from below_8 [OF this] show "bit (ucast (drop_bit 4 b2) :: byte) n = bit a n"
      by (elim disjE; simp add: b1_def b2_def bit_simps bits hi)
  qed
  show "ucast (drop_bit 2 b3) = b"
  proof (rule byte_eqI)
    fix n :: nat assume "n < 8"
    from below_8 [OF this] show "bit (ucast (drop_bit 2 b3) :: byte) n = bit b n"
      by (elim disjE; simp add: b2_def b3_def bit_simps bits hi)
  qed
  show "ucast b4 = c"
  proof (rule byte_eqI)
    fix n :: nat assume "n < 8"
    from below_8 [OF this] show "bit (ucast b4 :: byte) n = bit c n"
      by (elim disjE; simp add: b3_def b4_def bit_simps bits hi)
  qed
qed

lemma b64_small:
  fixes a b c :: byte
  shows "drop_bit 2 a < 64" "push_bit 4 (a AND 3) < 64" "push_bit 4 (a AND 3) OR drop_bit 4 b < 64"
    "push_bit 2 (b AND 15) < 64" "push_bit 2 (b AND 15) OR drop_bit 6 c < 64" "c AND 63 < 64"
proof -
  have bits: "bit (3 :: byte) n \<longleftrightarrow> n < 2" "bit (15 :: byte) n \<longleftrightarrow> n < 4" "bit (63 :: byte) n \<longleftrightarrow> n < 6" if "n < 8" for n
    using below_8 [OF that] by (elim disjE; simp)+
  have hi: "8 \<le> k \<Longrightarrow> \<not> bit x k" for x :: byte and k using bit_imp_le_length [of x k] by auto
  have six: "v < 64" if "\<not> bit v 6" "\<not> bit v 7" for v :: byte
  proof -
    have "n < 6" if "bit v n" for n
      using that \<open>\<not> bit v 6\<close> \<open>\<not> bit v 7\<close> below_8 [of n] bit_imp_le_length [of v n] by auto
    then have "take_bit 6 v = v" by (intro bit_word_eqI) (auto simp: bit_simps)
    moreover have "unat (take_bit 6 v) < 2 ^ 6" by (simp only: unsigned_take_bit_eq take_bit_nat_less_exp)
    ultimately show ?thesis by (simp add: word_less_nat_alt)
  qed
  show "drop_bit 2 a < 64" "push_bit 4 (a AND 3) < 64" "push_bit 4 (a AND 3) OR drop_bit 4 b < 64"
    "push_bit 2 (b AND 15) < 64" "push_bit 2 (b AND 15) OR drop_bit 6 c < 64" "c AND 63 < 64"
    by (rule six; simp add: bit_simps bits hi)+
qed

lemma b64_steps:
  assumes "v < 64"
  shows "b64_loop (b64_digit v # cs) buf 0 out = b64_loop cs (push_bit 6 buf OR ucast v) 6 out"
    and "b64_loop (b64_digit v # cs) buf 6 out =
      b64_loop cs (push_bit 6 buf OR ucast v) 4 (out @ [ucast (drop_bit 4 (push_bit 6 buf OR ucast v))])"
    and "b64_loop (b64_digit v # cs) buf 4 out =
      b64_loop cs (push_bit 6 buf OR ucast v) 2 (out @ [ucast (drop_bit 2 (push_bit 6 buf OR ucast v))])"
    and "b64_loop (b64_digit v # cs) buf 2 out =
      b64_loop cs (push_bit 6 buf OR ucast v) 0 (out @ [ucast (push_bit 6 buf OR ucast v)])"
  by (simp_all add: b64_val_digit [OF assms] Let_def)

lemma b64_loop_digits: "b64_loop (b64_digits bs) buf 0 out = Some (out @ bs)"
proof (induction bs arbitrary: buf out rule: b64_digits.induct)
  case (2 a)
  have z: "push_bit 4 (a AND 3) OR drop_bit 4 (0 :: byte) = push_bit 4 (a AND 3)" by simp
  show ?case
    by (simp only: b64_digits.simps b64_steps b64_small b64_group(1) [of buf a 0, unfolded z] b64_loop.simps(1))
next
  case (3 a b)
  have z: "push_bit 2 (b AND 15) OR drop_bit 6 (0 :: byte) = push_bit 2 (b AND 15)" by simp
  show ?case
    by (simp only: b64_digits.simps b64_steps b64_small b64_group(1) b64_group(2) [of buf a b 0, unfolded z]
        b64_loop.simps(1) append.simps append_assoc)
next
  case (4 a b c bs)
  show ?case
    by (simp only: b64_digits.simps append.simps append_assoc b64_steps b64_small b64_group 4)
qed simp

definition b64_char :: "char \<Rightarrow> bool" where
  "b64_char c = (33 \<le> code_of c \<and> code_of c < 128 \<and> c \<noteq> CHR ''='')"

lemma b64_digit_char: "v < 64 \<Longrightarrow> b64_char (b64_digit v)"
proof -
  have "list_all b64_char b64_alphabet" by (simp add: b64_alphabet_def b64_char_def)
  moreover assume "v < 64"
  then have "unat v < length b64_alphabet" by (simp add: b64_alphabet_def word_less_nat_alt)
  ultimately show ?thesis unfolding b64_digit_def list_all_length by blast
qed

lemma b64_digits_chars: "list_all b64_char (b64_digits bs)"
  by (induction bs rule: b64_digits.induct)
     (simp_all only: b64_digits.simps append.simps list.pred_inject b64_digit_char b64_small simp_thms)

lemma b64_digits_visible:
  "c \<in> set (b64_digits bs) \<Longrightarrow> 33 \<le> code_of c \<and> code_of c < 128 \<and> c \<noteq> CHR ''=''"
  using b64_digits_chars [of bs] by (simp add: list_all_iff b64_char_def)

lemma trim_padding: "\<forall>c \<in> set ds. c \<noteq> CHR ''='' \<Longrightarrow> trim_end_eq (ds @ replicate n (CHR ''='')) = ds"
  by (cases ds rule: rev_cases) (simp_all add: trim_end_eq_def dropWhile_append)

lemma base64_decode_encode: "base64_decode (b64_encode bs) = Some bs"
  using trim_padding [of "b64_digits bs"] b64_digits_visible [of _ bs]
  by (simp add: base64_decode_def b64_encode_def b64_padding_def b64_loop_digits)

text \<open>C32. Keys: the decoder inverts RFC 4648 encoding, so a key of 32 bytes is recovered from its base64 form
  and data of any other length is rejected.\<close>

theorem decode_key_encode:
  "decode_key field (b64_encode key) =
    (if length key = 32 then Inr key else Inl (Vpn (field @ '' must decode to 32 bytes'')))"
proof -
  have "trim (b64_encode key) = b64_encode key"
    using b64_digits_visible [of _ key]
    by (intro trim_plain) (auto simp: b64_encode_def b64_padding_def)
  then show ?thesis by (simp add: decode_key_def base64_decode_encode)
qed

section \<open>The device message says what the configuration says\<close>

definition entry_attrs :: "IpAddr \<times> u8 \<Rightarrow> (u16 \<times> bytes) list" where
  "entry_attrs = (\<lambda>(addr, p). [(WGALLOWEDIP_A_FAMILY, le16 (if is_ipv4 addr then 2 else 10)),
     (WGALLOWEDIP_A_IPADDR, ip_bytes addr), (WGALLOWEDIP_A_CIDR_MASK, [p])])"

definition allowed_attrs :: "nat \<Rightarrow> (IpAddr \<times> u8) list \<Rightarrow> (u16 \<times> bytes) list" where
  "allowed_attrs i dsts = map (\<lambda>(k, d). (as_u16 k, enc_attrs (entry_attrs d))) (enumerate i dsts)"

lemma allowed_ip_entry_enc: "ab_buf (allowed_ip_entry addr p) = enc_attrs (entry_attrs (addr, p))"
  by (cases addr) (simp_all add: allowed_ip_entry_def entry_attrs_def ab_u8_def ab_u16_def ab_bytes_def
      push_raw_enc ab_new_def is_ipv4_def ip_bytes_def)

lemma allowed_ips_enc:
  "allowed_ips_from i cidrs b = Inr b' \<Longrightarrow>
    \<exists>dsts. map parse_cidr cidrs = map Inr dsts \<and> ab_buf b' = ab_buf b @ enc_attrs (allowed_attrs i dsts)"
proof (induction cidrs arbitrary: i b)
  case Nil
  then show ?case by (simp add: allowed_attrs_def)
next
  case (Cons c cs)
  obtain addr p where p: "parse_cidr c = Inr (addr, p)"
    and r: "allowed_ips_from (i + 1) cs (ab_nested (as_u16 i) (allowed_ip_entry addr p) b) = Inr b'"
    using Cons.prems by (auto simp: bind_r_eq_Inr)
  from Cons.IH [OF r] obtain dsts where d: "map parse_cidr cs = map Inr dsts"
    "ab_buf b' = ab_buf (ab_nested (as_u16 i) (allowed_ip_entry addr p) b) @ enc_attrs (allowed_attrs (i + 1) dsts)"
    by blast
  have "map parse_cidr (c # cs) = map Inr ((addr, p) # dsts) \<and>
      ab_buf b' = ab_buf b @ enc_attrs (allowed_attrs i ((addr, p) # dsts))"
    using p d by (simp add: ab_nested_def push_raw_enc allowed_ip_entry_enc allowed_attrs_def)
  then show ?case by blast
qed

lemma entry_attrs_fit: "\<forall>a \<in> set (entry_attrs d). attr_fits a"
  using length_ip_bytes [of "fst d"]
  by (cases d) (auto simp: entry_attrs_def attr_fits_def)

lemma entry_attrs_length: "length (enc_attrs (entry_attrs d)) \<le> 36"
  using length_ip_bytes [of "fst d"]
  by (cases d) (auto simp: entry_attrs_def length_enc_attr align_def)

lemma allowed_attrs_fit: "\<forall>a \<in> set (allowed_attrs i dsts). attr_fits a"
proof -
  have "attr_fits (t, enc_attrs (entry_attrs d))" for t d
    using entry_attrs_length [of d] by (simp add: attr_fits_def)
  then show ?thesis by (auto simp: allowed_attrs_def)
qed

lemma allowed_attrs_length: "length (enc_attrs (allowed_attrs i dsts)) \<le> 40 * length dsts"
proof (induction dsts arbitrary: i)
  case (Cons d dsts)
  have "align (4 + length (enc_attrs (entry_attrs d))) \<le> 40"
    using entry_attrs_length [of d] by (simp add: align_def)
  then show ?case using Cons [of "Suc i"] by (simp add: allowed_attrs_def length_enc_attr)
qed (simp add: allowed_attrs_def)

lemma as_u16_inj: "a < 65536 \<Longrightarrow> b < 65536 \<Longrightarrow> as_u16 a = as_u16 b \<Longrightarrow> a = b"
  using unat_as(2) by (metis mod_less)

lemma allowed_attrs_keys: "map fst (allowed_attrs i dsts) = map as_u16 [i..<i + length dsts]"
proof (induction dsts arbitrary: i)
  case (Cons d dsts)
  have "[i..<i + length (d # dsts)] = i # [Suc i..<Suc i + length dsts]"
    using upt_conv_Cons [of i "i + length (d # dsts)"] by simp
  then show ?case using Cons [of "Suc i"] by (simp only:) (simp add: allowed_attrs_def)
qed (simp add: allowed_attrs_def)

lemma allowed_attrs_lookup:
  assumes "length dsts \<le> 65536" "k < length dsts"
  shows "map_of (rev (allowed_attrs 0 dsts)) (as_u16 k) = Some (enc_attrs (entry_attrs (dsts ! k)))"
proof (rule map_of_is_SomeI)
  have "map fst (allowed_attrs 0 dsts) = map as_u16 [0..<length dsts]"
    using allowed_attrs_keys [of 0 dsts] by simp
  moreover have "inj_on as_u16 (set [0..<length dsts])"
    using assms(1) by (intro inj_onI as_u16_inj) auto
  ultimately show "distinct (map fst (rev (allowed_attrs 0 dsts)))"
    by (simp add: distinct_map flip: rev_map)
  show "(as_u16 k, enc_attrs (entry_attrs (dsts ! k))) \<in> set (rev (allowed_attrs 0 dsts))"
    using assms(2) by (force simp: allowed_attrs_def in_set_enumerate_eq)
qed

definition peer_list :: "WireGuardConfig \<Rightarrow> bytes \<Rightarrow> SocketAddr \<Rightarrow> bytes \<Rightarrow> (u16 \<times> bytes) list" where
  "peer_list cfg pub ep allowed = [(WGPEER_A_PUBLIC_KEY, pub), (WGPEER_A_FLAGS, le32 WGPEER_F_REPLACE_ALLOWEDIPS),
     (WGPEER_A_ENDPOINT, encode_sockaddr ep), (WGPEER_A_KEEPALIVE, le16 (wg_persistent_keepalive_secs cfg)),
     (WGPEER_A_ALLOWEDIPS, allowed)]"

definition device_list :: "WireGuardConfig \<Rightarrow> bytes \<Rightarrow> bytes \<Rightarrow> (u16 \<times> bytes) list" where
  "device_list cfg priv peers = [(WGDEVICE_A_IFNAME, as_bytes (wg_interface cfg) @ [0]), (WGDEVICE_A_PRIVATE_KEY, priv)] @
     (case wg_listen_port cfg of Some p \<Rightarrow> [(WGDEVICE_A_LISTEN_PORT, le16 p)] | None \<Rightarrow> []) @
     [(WGDEVICE_A_FLAGS, le32 WGDEVICE_F_REPLACE_PEERS), (WGDEVICE_A_PEERS, peers)]"

lemma peer_attrs_enc:
  "ab_buf (ab_nested WGPEER_A_ALLOWEDIPS b (peer_attrs cfg pub ep)) = enc_attrs (peer_list cfg pub ep (ab_buf b))"
  by (simp add: peer_attrs_def peer_list_def ab_nested_def ab_u16_def ab_u32_def ab_bytes_def push_raw_enc ab_new_def)

lemma device_attrs_enc:
  "into_bytes (device_attrs cfg priv peer) = enc_attrs (device_list cfg priv (enc_attrs [(0, ab_buf peer)]))"
  by (simp add: device_attrs_def device_list_def into_bytes_def ab_nested_def ab_u16_def ab_u32_def ab_bytes_def
      ab_nul_str_def push_raw_enc ab_new_def split: option.splits)

lemma length_sockaddr: "length (encode_sockaddr ep) \<le> 28"
  by (cases ep) simp_all

lemma peer_list_size:
  assumes "length pub = 32" "length allowed \<le> 40000"
  shows "length (enc_attrs (peer_list cfg pub ep allowed)) \<le> 40200"
    and "\<forall>a \<in> set (peer_list cfg pub ep allowed). attr_fits a"
  using assms length_sockaddr [of ep]
  by (auto simp: peer_list_def length_enc_attr align_def attr_fits_def)

lemma device_list_fit:
  assumes "length (wg_interface cfg) \<le> 15" "length priv = 32" "length peers \<le> 50000"
  shows "\<forall>a \<in> set (device_list cfg priv peers). attr_fits a"
  using assms by (auto simp: device_list_def attr_fits_def split: option.splits)

lemma device_list_lookup:
  "map_of (rev (device_list cfg priv peers)) = [WGDEVICE_A_PEERS \<mapsto> peers, WGDEVICE_A_FLAGS \<mapsto> le32 1,
     WGDEVICE_A_PRIVATE_KEY \<mapsto> priv, WGDEVICE_A_IFNAME \<mapsto> as_bytes (wg_interface cfg) @ [0]] ++
     (case wg_listen_port cfg of Some p \<Rightarrow> [WGDEVICE_A_LISTEN_PORT \<mapsto> le16 p] | None \<Rightarrow> Map.empty)"
  by (auto simp: device_list_def fun_eq_iff map_add_def split: option.splits)

definition peer_view :: "WireGuardConfig \<Rightarrow> bytes \<Rightarrow> SocketAddr \<Rightarrow> bytes \<Rightarrow> u16 \<Rightarrow> bytes option" where
  "peer_view cfg pub ep allowed = [WGPEER_A_PUBLIC_KEY \<mapsto> pub, WGPEER_A_FLAGS \<mapsto> le32 2,
     WGPEER_A_ENDPOINT \<mapsto> encode_sockaddr ep, WGPEER_A_KEEPALIVE \<mapsto> le16 (wg_persistent_keepalive_secs cfg),
     WGPEER_A_ALLOWEDIPS \<mapsto> allowed]"

lemma peer_list_lookup: "map_of (rev (peer_list cfg pub ep allowed)) = peer_view cfg pub ep allowed"
  by (auto simp: peer_list_def peer_view_def fun_eq_iff)

text \<open>C33. The kernel message: reading the generic-netlink message back, attribute by attribute and level by
  level, gives exactly the interface, keys, endpoint, keepalive and listening port of the
  configuration, and under the allowed addresses one entry per listed network, in order.\<close>

theorem set_device_says_config:
  assumes "set_device_payload cfg priv pub ep = Inr payload"
    and "length (wg_interface cfg) \<le> 15" "length priv = 32" "length pub = 32"
    and "length (split_list (wg_peer_allowed_ips cfg)) \<le> 1000"
  shows "\<exists>peer allowed dsts. take 4 payload = [WG_CMD_SET_DEVICE, 1, 0, 0] \<and>
    parse_attrs (drop 4 payload) = [WGDEVICE_A_PEERS \<mapsto> enc_attrs [(0, peer)], WGDEVICE_A_FLAGS \<mapsto> le32 1,
       WGDEVICE_A_PRIVATE_KEY \<mapsto> priv, WGDEVICE_A_IFNAME \<mapsto> as_bytes (wg_interface cfg) @ [0]] ++
       (case wg_listen_port cfg of Some p \<Rightarrow> [WGDEVICE_A_LISTEN_PORT \<mapsto> le16 p] | None \<Rightarrow> Map.empty) \<and>
    parse_attrs (enc_attrs [(0, peer)]) = [0 \<mapsto> peer] \<and>
    parse_attrs peer = peer_view cfg pub ep allowed \<and>
    map parse_cidr (split_list (wg_peer_allowed_ips cfg)) = map Inr dsts \<and>
    (\<forall>k < length dsts. \<exists>e. parse_attrs allowed (as_u16 k) = Some e \<and>
       parse_attrs e = map_of (rev (entry_attrs (dsts ! k))))"
proof -
  obtain b where b: "allowed_ips_from 0 (split_list (wg_peer_allowed_ips cfg)) ab_new = Inr b"
    and pay: "payload = build_genlmsghdr WG_CMD_SET_DEVICE 1 @ into_bytes
      (device_attrs cfg priv (ab_nested WGPEER_A_ALLOWEDIPS b (peer_attrs cfg pub ep)))"
    using assms(1) by (auto simp: set_device_payload_def bind_r_eq_Inr Let_def)
  from allowed_ips_enc [OF b] obtain dsts where
    d: "map parse_cidr (split_list (wg_peer_allowed_ips cfg)) = map Inr dsts"
      and buf: "ab_buf b = enc_attrs (allowed_attrs 0 dsts)"
    by (auto simp: ab_new_def)
  have n: "length dsts \<le> 1000" using assms(5) map_eq_imp_length_eq [OF d] by simp
  define allowed peer where "allowed = ab_buf b" and "peer = enc_attrs (peer_list cfg pub ep allowed)"
  have al: "length allowed \<le> 40000"
    using allowed_attrs_length [of 0 dsts] n by (simp add: allowed_def buf)
  note ps = peer_list_size [OF assms(4) al, of cfg ep, folded peer_def]
  have fit0: "\<forall>a \<in> set [(0 :: u16, peer)]. attr_fits a" using ps(1) by (simp add: attr_fits_def)
  have "length (enc_attrs [(0, peer)]) \<le> 50000"
    using ps(1) align_bounds(2) [of "4 + length peer"] by (simp add: length_enc_attr)
  note fit = device_list_fit [OF assms(2,3) this]
  have "drop 4 payload = enc_attrs (device_list cfg priv (enc_attrs [(0, peer)]))"
    "take 4 payload = [WG_CMD_SET_DEVICE, 1, 0, 0]"
    by (simp_all add: pay build_genlmsghdr_def device_attrs_enc peer_attrs_enc peer_def allowed_def)
  moreover have "\<exists>e. parse_attrs allowed (as_u16 k) = Some e \<and> parse_attrs e = map_of (rev (entry_attrs (dsts ! k)))"
    if "k < length dsts" for k
    using allowed_attrs_lookup [of dsts k] that n
    by (simp add: allowed_def buf parse_attrs_enc allowed_attrs_fit entry_attrs_fit)
  ultimately show ?thesis
    using d ps(2) parse_attrs_enc [OF fit] parse_attrs_enc [OF fit0] parse_attrs_enc [OF ps(2)]
    by (intro exI [of _ peer] exI [of _ allowed] exI [of _ dsts])
       (simp add: device_list_lookup peer_list_lookup peer_def)
qed

definition office_tunnel :: WireGuardConfig where
  "office_tunnel = \<lparr>wg_interface = ''wg0'', wg_address = ''10.0.0.2/32'', wg_peer_public_key = [],
     wg_peer_endpoint = ''vpn:51820'', wg_peer_allowed_ips = ''10.0.0.0/8'', wg_listen_port = None,
     wg_persistent_keepalive_secs = 25\<rparr>"

lemma office_networks:
  "split_list (wg_peer_allowed_ips office_tunnel) = [''10.0.0.0/8'']"
  "\<exists>d. parse_cidr ''10.0.0.0/8'' = Inr d"
proof -
  show "split_list (wg_peer_allowed_ips office_tunnel) = [''10.0.0.0/8'']" by code_simp
  have "is_ok (parse_cidr ''10.0.0.0/8'')" by code_simp
  then show "\<exists>d. parse_cidr ''10.0.0.0/8'' = Inr d" by (cases "parse_cidr ''10.0.0.0/8''") auto
qed

theorem set_device_says_config_witness:
  "\<exists>payload peer. set_device_payload office_tunnel (replicate 32 1) (replicate 32 2) (SockV4 7 51820) = Inr payload \<and>
     parse_attrs (drop 4 payload) WGDEVICE_A_PEERS = Some (enc_attrs [(0, peer)]) \<and>
     parse_attrs peer WGPEER_A_PUBLIC_KEY = Some (replicate 32 2)"
proof -
  obtain d where d: "parse_cidr ''10.0.0.0/8'' = Inr d" using office_networks(2) by blast
  then obtain payload where p: "set_device_payload office_tunnel (replicate 32 1) (replicate 32 2) (SockV4 7 51820) = Inr payload"
    by (cases d) (simp add: set_device_payload_def office_networks Let_def)
  have port: "wg_listen_port office_tunnel = None" "length (wg_interface office_tunnel) \<le> 15"
    by (simp_all add: office_tunnel_def)
  obtain peer allowed where "parse_attrs (drop 4 payload) = [WGDEVICE_A_PEERS \<mapsto> enc_attrs [(0, peer)],
      WGDEVICE_A_FLAGS \<mapsto> le32 1, WGDEVICE_A_PRIVATE_KEY \<mapsto> replicate 32 1,
      WGDEVICE_A_IFNAME \<mapsto> as_bytes (wg_interface office_tunnel) @ [0]]"
      "parse_attrs peer = peer_view office_tunnel (replicate 32 2) (SockV4 7 51820) allowed"
    using set_device_says_config [OF p port(2)] port(1) office_networks(1) by auto
  then show ?thesis using p by (intro exI [of _ payload] exI [of _ peer]) (simp add: peer_view_def)
qed

end
