(* ===== verification/Openvpn.thy ===== *)
theory Openvpn
  imports Wifi Wireguard
begin

text \<open>
  The OpenVPN client, \<^verbatim>\<open>vpn/openvpn.rs\<close>, tunnels, \<^verbatim>\<open>vpn/tunnel.rs\<close>, and the dispatch between the VPN
  kinds with the table of active sessions, \<^verbatim>\<open>vpn/vpn.rs\<close>. The openvpn process, its management socket
  and the files it shares with the daemon are the environment.
\<close>

section \<open>The environment\<close>

datatype accept_result = Accepted nat | AcceptWouldBlock | AcceptFailed string

record 'w OvpnEnv = "'w TempEnv" +
  ov_is_file :: "string \<Rightarrow> 'w \<Rightarrow> bool \<times> 'w"
  ov_write_new :: "string \<Rightarrow> string \<Rightarrow> 'w \<Rightarrow> (string + unit) \<times> 'w"
  ov_append :: "string \<Rightarrow> string \<Rightarrow> 'w \<Rightarrow> (string + unit) \<times> 'w"
  ov_bind :: "string \<Rightarrow> 'w \<Rightarrow> (string + unit) \<times> 'w"
  ov_spawn :: "string list \<Rightarrow> 'w \<Rightarrow> (string + nat) \<times> 'w"
  ov_listen_nonblocking :: "'w \<Rightarrow> (string + unit) \<times> 'w"
  ov_accept :: "'w \<Rightarrow> accept_result \<times> 'w"
  ov_stream_blocking :: "nat \<Rightarrow> 'w \<Rightarrow> (string + unit) \<times> 'w"
  ov_send_line :: "nat \<Rightarrow> string \<Rightarrow> 'w \<Rightarrow> (string + unit) \<times> 'w"
  ov_try_clone :: "nat \<Rightarrow> 'w \<Rightarrow> (string + unit) \<times> 'w"
  ov_mgmt_lines :: "nat \<Rightarrow> nat \<Rightarrow> 'w \<Rightarrow> (string list \<times> bool) \<times> 'w"
  ov_read_file :: "string \<Rightarrow> 'w \<Rightarrow> string option \<times> 'w"
  ov_kill_wait :: "nat \<Rightarrow> 'w \<Rightarrow> 'w"
  ov_remove_dir_all :: "string \<Rightarrow> 'w \<Rightarrow> 'w"
  ov_remove_file :: "string \<Rightarrow> 'w \<Rightarrow> 'w"
  ov_remove_later :: "string \<Rightarrow> 'w \<Rightarrow> 'w"
  ov_now :: "'w \<Rightarrow> nat \<times> 'w"
  ov_sleep :: "nat \<Rightarrow> 'w \<Rightarrow> 'w"

text \<open>
  \<open>ov_mgmt_lines s t\<close> gives the lines the reader thread gets from stream \<open>s\<close> and handles within \<open>t\<close>
  milliseconds, and whether the stream has ended by then; \<open>ov_remove_later\<close> is the thread that removes
  a file after five seconds.
\<close>

definition do_io :: "('w \<Rightarrow> 'w) \<Rightarrow> ('w, unit) io" where
  "do_io f = (\<lambda>w. Ret (Inr (), f w))"

text \<open>Running \<open>d\<close> when \<open>m\<close> returns an error.\<close>

definition on_error :: "('w \<Rightarrow> 'w) \<Rightarrow> ('w, 'a) io \<Rightarrow> ('w, 'a) io" where
  "on_error d m = (\<lambda>w. case m w of Ret (Inl e, w') \<Rightarrow> Ret (Inl e, d w') | r \<Rightarrow> r)"

section \<open>Waiting for openvpn\<close>

fun accept_loop :: "'w OvpnEnv \<Rightarrow> nat \<Rightarrow> nat \<Rightarrow> ('w, nat) io" where
  "accept_loop E 0 deadline w = NoFuel"
| "accept_loop E (Suc fuel) deadline w =
     (case ov_accept E w of
        (Accepted s, w1) \<Rightarrow>
          bind_io (sys_call (\<lambda>e. Vpn (''management socket setup: '' @ e)) (ov_stream_blocking E s)) (\<lambda>_. return_io s) w1
      | (AcceptWouldBlock, w1) \<Rightarrow>
          (case ov_now E w1 of (now, w2) \<Rightarrow>
             if deadline \<le> now then
               Ret (Inl (Vpn ''openvpn did not connect to the management socket in time''), w2)
             else accept_loop E fuel deadline (ov_sleep E 50 w2))
      | (AcceptFailed e, w1) \<Rightarrow> Ret (Inl (Io e), w1))"

definition accept_with_timeout :: "'w OvpnEnv \<Rightarrow> nat \<Rightarrow> nat \<Rightarrow> ('w, nat) io" where
  "accept_with_timeout E fuel timeout =
     then_io (sys_call (\<lambda>e. Vpn (''management socket setup: '' @ e)) (ov_listen_nonblocking E))
    (bind_io (ask (ov_now E)) (\<lambda>now. accept_loop E fuel (now + timeout)))"

fun ifname_loop :: "'w OvpnEnv \<Rightarrow> nat \<Rightarrow> string \<Rightarrow> nat \<Rightarrow> ('w, string option) io" where
  "ifname_loop E 0 path deadline w = NoFuel"
| "ifname_loop E (Suc fuel) path deadline w =
     (case ov_read_file E path w of (contents, w1) \<Rightarrow>
        let name = (case contents of Some c \<Rightarrow> trim c | None \<Rightarrow> [])
        in if name \<noteq> [] then Ret (Inr (Some name), w1)
           else (case ov_now E w1 of (now, w2) \<Rightarrow>
             if deadline \<le> now then Ret (Inr None, w2)
             else ifname_loop E fuel path deadline (ov_sleep E 100 w2)))"

definition read_ifname_with_retry :: "'w OvpnEnv \<Rightarrow> nat \<Rightarrow> string \<Rightarrow> nat \<Rightarrow> ('w, string option) io" where
  "read_ifname_with_retry E fuel path timeout =
     bind_io (ask (ov_now E)) (\<lambda>now. ifname_loop E fuel path (now + timeout))"

section \<open>The management feed\<close>

record SessionStatus =
  ss_state :: string
  ss_ifname :: "string option"

datatype MgmtEvent = MgmtConnected "string option" | MgmtFailed string

text \<open>The state a line reports, if it is a state line.\<close>

definition state_of_line :: "string \<Rightarrow> string option" where
  "state_of_line line =
     Option.bind (strip_prefix ''>STATE:'' (trim_end line)) (\<lambda>rest.
       case split_on (CHR '','') rest of _ # s # _ \<Rightarrow> Some s | _ \<Rightarrow> None)"

text \<open>The reader's state: the shared status and the first event, once it has been sent.\<close>

type_synonym reader = "SessionStatus \<times> MgmtEvent option"

definition send_once :: "MgmtEvent \<Rightarrow> reader \<Rightarrow> reader" where
  "send_once ev r = (fst r, case snd r of None \<Rightarrow> Some ev | Some e \<Rightarrow> Some e)"

definition reader_line :: "'w OvpnEnv \<Rightarrow> nat \<Rightarrow> string \<Rightarrow> string \<Rightarrow> reader \<Rightarrow> ('w, reader) io" where
  "reader_line E fuel ifname_file line r =
     (case state_of_line line of
        None \<Rightarrow> return_io r
      | Some state \<Rightarrow>
          let r1 = ((fst r)\<lparr>ss_state := state\<rparr>, snd r)
          in if state = ''CONNECTED'' then
               bind_io (read_ifname_with_retry E fuel ifname_file 2000) (\<lambda>ifname.
                 let r2 = (case ifname of Some n \<Rightarrow> ((fst r1)\<lparr>ss_ifname := Some n\<rparr>, snd r1) | None \<Rightarrow> r1)
                 in return_io (send_once (MgmtConnected ifname) r2))
             else if state = ''AUTH_FAILED'' \<or> state = ''FATAL'' then
               return_io (send_once (MgmtFailed (''openvpn reported state '' @ state)) r1)
             else return_io r1)"

fun reader_lines :: "'w OvpnEnv \<Rightarrow> nat \<Rightarrow> string \<Rightarrow> string list \<Rightarrow> reader \<Rightarrow> ('w, reader) io" where
  "reader_lines E fuel ifname_file [] r = return_io r"
| "reader_lines E fuel ifname_file (l # ls) r =
     bind_io (reader_line E fuel ifname_file l r) (reader_lines E fuel ifname_file ls)"

definition background_reader :: "'w OvpnEnv \<Rightarrow> nat \<Rightarrow> string \<Rightarrow> string list \<Rightarrow> bool \<Rightarrow> ('w, reader) io" where
  "background_reader E fuel ifname_file ls closed =
     bind_io (reader_lines E fuel ifname_file ls (\<lparr>ss_state = [], ss_ifname = None\<rparr>, None)) (\<lambda>r.
       return_io (if closed
         then send_once (MgmtFailed ''management connection closed before reaching CONNECTED'') r else r))"

section \<open>Connecting and disconnecting\<close>

record OvpnSession =
  os_child :: nat
  os_management :: nat
  os_workdir :: string
  os_status :: SessionStatus

datatype VpnKind = WireGuardVpn | OpenVpnKind

record VpnSession =
  vs_interface_name :: string
  vs_kind :: VpnKind

definition squote :: string where "squote = [CHR 0x27]"

definition up_script :: "string \<Rightarrow> string" where
  "up_script ifname_file = ''#!/bin/sh'' @ [nl] @ ''umask 077'' @ [nl] @ ''printf '' @ squote @ ''%s'' @ squote @
     [CHR '' '', dquote] @ ''$dev'' @ [dquote] @ '' > '' @ squote @ ifname_file @ squote @ [nl]"

definition down_script :: "string \<Rightarrow> string" where
  "down_script ifname_file = ''#!/bin/sh'' @ [nl] @ '': > '' @ squote @ ifname_file @ squote @ [nl]"

definition write_script :: "'w OvpnEnv \<Rightarrow> string \<Rightarrow> string \<Rightarrow> ('w, unit) io" where
  "write_script E path content = sys_call Io (ov_write_new E path content)"

definition openvpn_args :: "string \<Rightarrow> string option \<Rightarrow> string \<Rightarrow> string \<Rightarrow> string list" where
  "openvpn_args conf userpass workdir profile_id =
     [''--config'', conf] @
     (case userpass of Some p \<Rightarrow> [''--auth-user-pass'', p] | None \<Rightarrow> []) @
     [''--management'', workdir @ ''/mgmt.sock'', ''unix'', ''--management-client'', ''--script-security'', ''2'',
      ''--up'', workdir @ ''/up.sh'', ''--up-restart'', ''--down'', workdir @ ''/down.sh'', ''--daemon'',
      ''mitos-openvpn-'' @ profile_id]"

definition write_userpass :: "'w OvpnEnv \<Rightarrow> string option \<Rightarrow> string option \<Rightarrow> ('w, string option) io" where
  "write_userpass E user pass =
     (case (user, pass) of
        (Some u, Some p) \<Rightarrow>
          bind_io (create_secret_temp_file E ''mitos-ovpn'' ''auth'') (\<lambda>path.
          then_io (sys_call Io (ov_append E path (u @ [nl])))
         (then_io (sys_call Io (ov_append E path (p @ [nl])))
                  (return_io (Some path))))
      | _ \<Rightarrow> return_io None)"

text \<open>From the running process to an established session.\<close>

definition await_connected ::
    "'w OvpnEnv \<Rightarrow> nat \<Rightarrow> string \<Rightarrow> string \<Rightarrow> nat \<Rightarrow> ('w, string \<times> OvpnSession) io" where
  "await_connected E fuel workdir profile_id child =
     on_error (ov_remove_dir_all E workdir \<circ> ov_kill_wait E child)
    (bind_io (accept_with_timeout E fuel 15000) (\<lambda>stream.
     then_io (do_io (ov_remove_file E (workdir @ ''/mgmt.sock'')))
    (then_io (sys_call Io (ov_send_line E stream ''state on''))
    (then_io (sys_call Io (ov_try_clone E stream))
    (bind_io (ask (ov_mgmt_lines E stream 60000)) (\<lambda>(ls, closed).
     bind_io (background_reader E fuel (workdir @ ''/ifname'') ls closed) (\<lambda>(status, ev).
       case ev of
         Some (MgmtConnected n) \<Rightarrow>
           return_io (case n of Some i \<Rightarrow> i | None \<Rightarrow> ''openvpn-'' @ profile_id,
             \<lparr>os_child = child, os_management = stream, os_workdir = workdir, os_status = status\<rparr>)
       | Some (MgmtFailed msg) \<Rightarrow> fail_io (Vpn (''openvpn failed to connect: '' @ msg))
       | None \<Rightarrow> fail_io (Vpn ''timed out waiting for openvpn to report CONNECTED'')))))))) "

definition openvpn_connect ::
    "'w OvpnEnv \<Rightarrow> (string \<Rightarrow> string \<Rightarrow> 'w \<Rightarrow> string option result \<times> 'w) \<Rightarrow> nat \<Rightarrow> string \<Rightarrow> string
      \<Rightarrow> ('w, string \<times> OvpnSession) io" where
  "openvpn_connect E secret fuel conf profile_id =
     bind_io (ask (ov_is_file E conf)) (\<lambda>is_file.
       if \<not> is_file then fail_io (Vpn (''OpenVPN config '' @ quoted conf @ '' not found''))
       else
         bind_io (create_secret_temp_dir E ''mitos-ovpn'') (\<lambda>workdir.
         then_io (on_error (ov_remove_dir_all E workdir)
           (then_io (write_script E (workdir @ ''/up.sh'') (up_script (workdir @ ''/ifname'')))
                    (write_script E (workdir @ ''/down.sh'') (down_script (workdir @ ''/ifname'')))))
        (then_io (on_error (ov_remove_dir_all E workdir)
           (sys_call (\<lambda>e. Vpn (''binding management socket: '' @ e)) (ov_bind E (workdir @ ''/mgmt.sock''))))
        (bind_io (ask_result (secret profile_id ''auth-username'')) (\<lambda>user.
         bind_io (ask_result (secret profile_id ''auth-password'')) (\<lambda>pass.
         bind_io (write_userpass E user pass) (\<lambda>userpass.
         bind_io (on_error (ov_remove_dir_all E workdir)
           (sys_call (\<lambda>e. Vpn (''failed to spawn openvpn: '' @ e))
             (ov_spawn E (openvpn_args conf userpass workdir profile_id)))) (\<lambda>child.
         then_io (if_some userpass (\<lambda>p. do_io (ov_remove_later E p)))
           (await_connected E fuel workdir profile_id child)))))))))"

definition openvpn_disconnect ::
    "'w OvpnEnv \<Rightarrow> OvpnSession \<Rightarrow> ('w, unit) io" where
  "openvpn_disconnect E session =
     then_io (ignore_io (sys_call Io (ov_send_line E (os_management session) ''signal SIGTERM'')))
    (then_io (do_io (ov_sleep E 300))
    (then_io (do_io (ov_kill_wait E (os_child session)))
             (do_io (ov_remove_dir_all E (os_workdir session)))))"

section \<open>The table of active sessions, \<^verbatim>\<open>vpn/vpn.rs\<close>\<close>

text \<open>The statics \<open>ACTIVE\<close> and \<open>SESSIONS\<close>.\<close>

record VpnTable =
  vt_active :: "(string \<times> VpnKind) list"
  vt_sessions :: "(string \<times> OvpnSession) list"

definition vpn_track :: "string \<Rightarrow> VpnKind \<Rightarrow> VpnTable \<Rightarrow> VpnTable" where
  "vpn_track ifname kind t = t\<lparr>vt_active := hm_insert ifname kind (vt_active t)\<rparr>"

definition vpn_untrack :: "string \<Rightarrow> VpnTable \<Rightarrow> VpnKind option \<times> VpnTable" where
  "vpn_untrack ifname t = (hm_get (vt_active t) ifname, t\<lparr>vt_active := hm_remove ifname (vt_active t)\<rparr>)"

definition openvpn_status :: "string \<Rightarrow> VpnTable \<Rightarrow> SessionStatus option" where
  "openvpn_status ifname t = map_option os_status (hm_get (vt_sessions t) ifname)"

definition vpn_connect ::
    "'w Kernel \<Rightarrow> 'w VpnEnv \<Rightarrow> 'w OvpnEnv \<Rightarrow> nat \<Rightarrow> VpnKind \<Rightarrow> string \<Rightarrow> string \<Rightarrow> VpnTable
      \<Rightarrow> ('w, VpnSession \<times> VpnTable) io" where
  "vpn_connect K V E fuel kind config profile_id t =
     (case kind of
        WireGuardVpn \<Rightarrow>
          bind_io (wireguard_connect K V fuel config profile_id) (\<lambda>ifname.
            return_io (\<lparr>vs_interface_name = ifname, vs_kind = kind\<rparr>, vpn_track ifname kind t))
      | OpenVpnKind \<Rightarrow>
          bind_io (openvpn_connect E (ve_secret V) fuel config profile_id) (\<lambda>(ifname, session).
            return_io (\<lparr>vs_interface_name = ifname, vs_kind = kind\<rparr>,
              vpn_track ifname kind (t\<lparr>vt_sessions := hm_insert ifname session (vt_sessions t)\<rparr>))))"

text \<open>The table changes whether or not disconnecting succeeds.\<close>

definition vpn_disconnect ::
    "'w Kernel \<Rightarrow> 'w OvpnEnv \<Rightarrow> nat \<Rightarrow> string \<Rightarrow> VpnTable \<Rightarrow> ('w, unit result \<times> VpnTable) io" where
  "vpn_disconnect K E fuel ifname t =
     (case vpn_untrack ifname t of
        (Some WireGuardVpn, t1) \<Rightarrow>
          bind_io (try_io (wireguard_disconnect K fuel ifname)) (\<lambda>r. return_io (r, t1))
      | (Some OpenVpnKind, t1) \<Rightarrow>
          (case hm_get (vt_sessions t1) ifname of
             None \<Rightarrow> return_io (Inl (NotFound (''no tracked openvpn session for '' @ quoted ifname)), t1)
           | Some session \<Rightarrow>
               bind_io (try_io (openvpn_disconnect E session)) (\<lambda>r.
                 return_io (r, t1\<lparr>vt_sessions := hm_remove ifname (vt_sessions t1)\<rparr>)))
      | (None, t1) \<Rightarrow> return_io (Inl (NotFound (''no active VPN session on '' @ quoted ifname)), t1))"

section \<open>Tunnels, \<^verbatim>\<open>vpn/tunnel.rs\<close>\<close>

datatype TunnelKind = Gre | Ipip | Sit | Vxlan

fun link_kind :: "TunnelKind \<Rightarrow> string" where
  "link_kind Gre = ''gre''"
| "link_kind Ipip = ''ipip''"
| "link_kind Sit = ''sit''"
| "link_kind Vxlan = ''vxlan''"

definition tunnel_create :: "'k Kernel \<Rightarrow> nat \<Rightarrow> string \<Rightarrow> TunnelKind \<Rightarrow> ('k, unit) io" where
  "tunnel_create K fuel name kind =
     then_io (lift_io (validate_interface_name name)) (create_virtual K fuel name (link_kind kind))"

definition tunnel_destroy :: "'k Kernel \<Rightarrow> nat \<Rightarrow> string \<Rightarrow> ('k, unit) io" where
  "tunnel_destroy K fuel name =
     bind_io (get_by_name K fuel name) (\<lambda>iface. interface_delete K fuel (if_index iface))"

section \<open>Waiting ends\<close>

text \<open>
  A loop that polls until a deadline: each round either returns or goes on with one unit of fuel less
  after a pause of at least \<open>step\<close>, which it does only before the deadline. \<open>tm\<close> is the time of a
  world.
\<close>

definition polling :: "(nat \<Rightarrow> 'w \<Rightarrow> 'r outcome) \<Rightarrow> ('w \<Rightarrow> nat) \<Rightarrow> nat \<Rightarrow> nat \<Rightarrow> bool" where
  "polling loop tm deadline step \<longleftrightarrow>
     (\<forall>n w. (\<exists>r. loop (Suc n) w = Ret r) \<or>
       (\<exists>w'. loop (Suc n) w = loop n w' \<and> tm w < deadline \<and> tm w + step \<le> tm w'))"

lemma polling_round:
  "polling loop tm deadline step \<Longrightarrow> (\<exists>r. loop (Suc n) w = Ret r) \<or>
      (\<exists>w'. loop (Suc n) w = loop n w' \<and> tm w < deadline \<and> tm w + step \<le> tm w')"
  unfolding polling_def by blast

lemma polling_ends:
  assumes p: "polling loop tm deadline step" and d: "deadline \<le> tm w + step * n" and n: "n < fuel"
  shows "\<exists>r. loop fuel w = Ret r"
  using d n
proof (induction n arbitrary: w fuel)
  case 0
  then obtain m where "fuel = Suc m" by (cases fuel) auto
  with 0 show ?case using polling_round [OF p, of m w] by auto
next
  case (Suc n)
  then obtain m where m: "fuel = Suc m" "n < m" by (cases fuel) auto
  from polling_round [OF p, of m w] show ?case
  proof
    assume "\<exists>w'. loop (Suc m) w = loop m w' \<and> tm w < deadline \<and> tm w + step \<le> tm w'"
    then obtain w' where w': "loop (Suc m) w = loop m w'" "tm w + step \<le> tm w'" by blast
    then have "deadline \<le> tm w' + step * n" using Suc.prems(1) by simp
    from Suc.IH [OF this m(2)] w'(1) m(1) show ?thesis by simp
  qed (simp add: m(1))
qed

text \<open>A clock that the calls of the environment do not turn back and that a sleep advances.\<close>

definition clocked :: "'w OvpnEnv \<Rightarrow> ('w \<Rightarrow> nat) \<Rightarrow> bool" where
  "clocked E tm \<longleftrightarrow>
     (\<forall>w. ov_now E w = (tm w, w)) \<and> (\<forall>w n. tm w + n \<le> tm (ov_sleep E n w)) \<and>
     (\<forall>w. tm w \<le> tm (snd (ov_accept E w))) \<and> (\<forall>p w. tm w \<le> tm (snd (ov_read_file E p w)))"

lemma clockedD:
  assumes "clocked E tm"
  shows "ov_now E w = (tm w, w)" "tm w + n \<le> tm (ov_sleep E n w)"
    "ov_accept E w = (a, w') \<Longrightarrow> tm w \<le> tm w'" "ov_read_file E p w = (c, w') \<Longrightarrow> tm w \<le> tm w'"
  using assms unfolding clocked_def by (metis snd_conv)+

lemma accept_polling:
  assumes "clocked E tm"
  shows "polling (\<lambda>n. accept_loop E n deadline) tm deadline 50"
  unfolding polling_def
proof (intro allI)
  fix n w
  obtain a w1 where a: "ov_accept E w = (a, w1)" by (cases "ov_accept E w")
  have le: "tm w \<le> tm w1" using clockedD(3) [OF assms a] .
  show "(\<exists>r. accept_loop E (Suc n) deadline w = Ret r) \<or>
      (\<exists>w'. accept_loop E (Suc n) deadline w = accept_loop E n deadline w' \<and> tm w < deadline \<and> tm w + 50 \<le> tm w')"
  proof (cases a)
    case (Accepted s)
    have "returns_io (bind_io (sys_call (\<lambda>e. Vpn (''management socket setup: '' @ e)) (ov_stream_blocking E s)) (\<lambda>_. return_io s))"
      by (intro returns_intros) simp_all
    then show ?thesis using a Accepted unfolding returns_io_def by auto
  next
    case AcceptWouldBlock
    then show ?thesis
      using a le clockedD(1) [OF assms, of w1] clockedD(2) [OF assms, of w1 50]
      by (cases "deadline \<le> tm w1") (auto intro!: exI [of _ "ov_sleep E 50 w1"])
  qed (use a in auto)
qed

lemma ifname_polling:
  assumes "clocked E tm"
  shows "polling (\<lambda>n. ifname_loop E n p deadline) tm deadline 100"
  unfolding polling_def
proof (intro allI)
  fix n w
  obtain c w1 where c: "ov_read_file E p w = (c, w1)" by (cases "ov_read_file E p w")
  have le: "tm w \<le> tm w1" using clockedD(4) [OF assms c] .
  show "(\<exists>r. ifname_loop E (Suc n) p deadline w = Ret r) \<or>
      (\<exists>w'. ifname_loop E (Suc n) p deadline w = ifname_loop E n p deadline w' \<and> tm w < deadline \<and> tm w + 100 \<le> tm w')"
    using c le clockedD(1) [OF assms, of w1] clockedD(2) [OF assms, of w1 100]
    by (cases "deadline \<le> tm w1") (auto simp: Let_def intro!: exI [of _ "ov_sleep E 100 w1"])
qed

text \<open>C34. Waiting for openvpn always ends: with fuel for the 15 seconds of 50 ms rounds, and for the 2 seconds
  of 100 ms rounds, both waits return, whatever openvpn does.\<close>

theorem openvpn_waits_end:
  assumes clock: "clocked E tm" and fuel: "300 < fuel"
  shows "(\<exists>r. accept_with_timeout E fuel 15000 w = Ret r) \<and>
    (\<exists>r. read_ifname_with_retry E fuel p 2000 w = Ret r)"
proof
  obtain r w1 where l: "ov_listen_nonblocking E w = (r, w1)" by (cases "ov_listen_nonblocking E w")
  have "\<exists>r. accept_loop E fuel (tm w1 + 15000) w1 = Ret r"
    using polling_ends [OF accept_polling [OF clock], where n = 300] fuel by simp
  then show "\<exists>r. accept_with_timeout E fuel 15000 w = Ret r"
    using l clockedD(1) [OF clock, of w1]
    by (cases r) (auto simp: accept_with_timeout_def then_io_def sys_call_def ask_def bind_io_def)
  have "\<exists>r. ifname_loop E fuel p (tm w + 2000) w = Ret r"
    using polling_ends [OF ifname_polling [OF clock], where n = 20] fuel by simp
  then show "\<exists>r. read_ifname_with_retry E fuel p 2000 w = Ret r"
    using clockedD(1) [OF clock, of w] by (simp add: read_ifname_with_retry_def ask_def bind_io_def)
qed

text \<open>An openvpn that never answers, in a world that is its time.\<close>

definition silent_ovpn :: "nat OvpnEnv" where
  "silent_ovpn = \<lparr>te_urandom = (\<lambda>w. (Inr [1, 2], w)), te_temp_dir = ''/tmp'',
     te_create_dir = (\<lambda>_ w. (Created, w)), te_create_new = (\<lambda>_ w. (Created, w)),
     ov_is_file = (\<lambda>_ w. (True, w)), ov_write_new = (\<lambda>_ _ w. (Inr (), w)), ov_append = (\<lambda>_ _ w. (Inr (), w)),
     ov_bind = (\<lambda>_ w. (Inr (), w)), ov_spawn = (\<lambda>_ w. (Inr 1, w)), ov_listen_nonblocking = (\<lambda>w. (Inr (), w)),
     ov_accept = (\<lambda>w. (AcceptWouldBlock, w)), ov_stream_blocking = (\<lambda>_ w. (Inr (), w)),
     ov_send_line = (\<lambda>_ _ w. (Inr (), w)), ov_try_clone = (\<lambda>_ w. (Inr (), w)),
     ov_mgmt_lines = (\<lambda>_ _ w. (([], False), w)), ov_read_file = (\<lambda>_ w. (None, w)), ov_kill_wait = (\<lambda>_ w. w),
     ov_remove_dir_all = (\<lambda>_ w. w), ov_remove_file = (\<lambda>_ w. w), ov_remove_later = (\<lambda>_ w. w),
     ov_now = (\<lambda>w. (w, w)), ov_sleep = (\<lambda>n w. w + n)\<rparr>"

theorem openvpn_waits_end_witness:
  "(\<exists>r. accept_with_timeout silent_ovpn 400 15000 0 = Ret r) \<and>
   (\<exists>r. read_ifname_with_retry silent_ovpn 400 ''/tmp/x'' 2000 0 = Ret r)"
proof (rule openvpn_waits_end)
  show "clocked silent_ovpn (\<lambda>w. w)" by (simp add: clocked_def silent_ovpn_def)
qed simp

section \<open>The first verdict counts\<close>

text \<open>The first state line that decides: connected or failed.\<close>

fun first_verdict :: "string list \<Rightarrow> string option" where
  "first_verdict [] = None"
| "first_verdict (l # ls) =
     (case state_of_line l of
        Some s \<Rightarrow> if s = ''CONNECTED'' \<or> s = ''AUTH_FAILED'' \<or> s = ''FATAL'' then Some s else first_verdict ls
      | None \<Rightarrow> first_verdict ls)"

lemma reader_keeps_event:
  "reader_lines E fuel f ls (st, Some ev) w = Ret (Inr (st', ev'), w') \<Longrightarrow> ev' = Some ev"
  by (induction ls arbitrary: st w)
     (auto simp: reader_line_def io_Ok Let_def send_once_def split: option.splits if_splits)

lemma reader_first_verdict:
  assumes "reader_lines E fuel f ls (st, None) w = Ret (Inr (st', ev), w')"
  shows "case first_verdict ls of
      None \<Rightarrow> ev = None
    | Some s \<Rightarrow> if s = ''CONNECTED'' then \<exists>n. ev = Some (MgmtConnected n)
        else ev = Some (MgmtFailed (''openvpn reported state '' @ s))"
  using assms
proof (induction ls arbitrary: st w)
  case (Cons l ls)
  then obtain st1 ev1 w1 where r: "reader_line E fuel f l (st, None) w = Ret (Inr (st1, ev1), w1)"
    and rest: "reader_lines E fuel f ls (st1, ev1) w1 = Ret (Inr (st', ev), w')"
    by (auto simp: io_Ok)
  show ?case
  proof (cases ev1)
    case None
    then have "first_verdict (l # ls) = first_verdict ls"
      using r by (auto simp: reader_line_def io_Ok Let_def send_once_def split: option.splits if_splits)
    then show ?thesis using Cons.IH rest None by simp
  next
    case (Some e)
    then have "ev = Some e" using reader_keeps_event rest by metis
    then show ?thesis
      using r Some by (auto simp: reader_line_def io_Ok Let_def send_once_def split: option.splits if_splits)
  qed
qed simp

text \<open>A failed disconnect of a WireGuard session still drops it from the table: a second attempt is told
  there is no session, although the interface is still up.\<close>

lemma failed_disconnect_forgets:
  assumes "hm_get (vt_active t) i = Some WireGuardVpn"
    and "wireguard_disconnect K fuel i w = Ret (Inl e, w')"
  shows "\<exists>t'. vpn_disconnect K E fuel i t w = Ret (Inr (Inl e, t'), w') \<and>
    vpn_disconnect K E fuel i t' w' =
      Ret (Inr (Inl (NotFound (''no active VPN session on '' @ quoted i)), t'), w')"
proof -
  let ?t = "t\<lparr>vt_active := hm_remove i (vt_active t)\<rparr>"
  have "hm_remove i (hm_remove i (vt_active t)) = hm_remove i (vt_active t)" by (simp add: hm_remove_def)
  then show ?thesis
    using assms by (intro exI [of _ ?t]) (simp add: vpn_disconnect_def vpn_untrack_def hm.get_del return_io_def)
qed

end
