(* ===== verification/Dhcp4.thy ===== *)
theory Dhcp4
  imports Rust_Io Ip_Addr
begin

text \<open>
  The DHCPv4 wire format of \<^verbatim>\<open>src/src/dhcp/dhcp4.rs\<close> and the lease of \<^verbatim>\<open>src/src/dhcp/lease.rs\<close>.
  A hardware address is the list of its six octets.
\<close>

section \<open>Packets\<close>

definition MAGIC_COOKIE :: bytes where "MAGIC_COOKIE = [99, 130, 83, 99]"

abbreviation (input) OP_BOOTREQUEST :: u8 where "OP_BOOTREQUEST \<equiv> 1"
abbreviation (input) OP_BOOTREPLY :: u8 where "OP_BOOTREPLY \<equiv> 2"
abbreviation (input) HTYPE_ETHER :: u8 where "HTYPE_ETHER \<equiv> 1"

abbreviation (input) OPT_SUBNET_MASK :: u8 where "OPT_SUBNET_MASK \<equiv> 1"
abbreviation (input) OPT_ROUTER :: u8 where "OPT_ROUTER \<equiv> 3"
abbreviation (input) OPT_DNS :: u8 where "OPT_DNS \<equiv> 6"
abbreviation (input) OPT_HOSTNAME :: u8 where "OPT_HOSTNAME \<equiv> 12"
abbreviation (input) OPT_DOMAIN_NAME :: u8 where "OPT_DOMAIN_NAME \<equiv> 15"
abbreviation (input) OPT_REQUESTED_IP :: u8 where "OPT_REQUESTED_IP \<equiv> 50"
abbreviation (input) OPT_LEASE_TIME :: u8 where "OPT_LEASE_TIME \<equiv> 51"
abbreviation (input) OPT_MSG_TYPE :: u8 where "OPT_MSG_TYPE \<equiv> 53"
abbreviation (input) OPT_SERVER_ID :: u8 where "OPT_SERVER_ID \<equiv> 54"
abbreviation (input) OPT_PARAM_REQUEST_LIST :: u8 where "OPT_PARAM_REQUEST_LIST \<equiv> 55"
abbreviation (input) OPT_CLIENT_ID :: u8 where "OPT_CLIENT_ID \<equiv> 61"
abbreviation (input) OPT_END :: u8 where "OPT_END \<equiv> 255"
abbreviation (input) OPT_PAD :: u8 where "OPT_PAD \<equiv> 0"

abbreviation (input) MSG_DISCOVER :: u8 where "MSG_DISCOVER \<equiv> 1"
abbreviation (input) MSG_OFFER :: u8 where "MSG_OFFER \<equiv> 2"
abbreviation (input) MSG_REQUEST :: u8 where "MSG_REQUEST \<equiv> 3"
abbreviation (input) MSG_ACK :: u8 where "MSG_ACK \<equiv> 5"
abbreviation (input) MSG_NAK :: u8 where "MSG_NAK \<equiv> 6"
abbreviation (input) MSG_RELEASE :: u8 where "MSG_RELEASE \<equiv> 7"

record Packet =
  p_op :: u8
  p_xid :: u32
  p_secs :: u16
  p_flags :: u16
  p_ciaddr :: Ipv4Addr
  p_yiaddr :: Ipv4Addr
  p_siaddr :: Ipv4Addr
  p_chaddr :: bytes
  p_options :: "(u8 \<times> bytes) list"

definition get_option :: "Packet \<Rightarrow> u8 \<Rightarrow> bytes option" where
  "get_option p code = map_option snd (find (\<lambda>(c, _). c = code) (p_options p))"

definition message_type :: "Packet \<Rightarrow> u8 option" where
  "message_type p =
     Option.bind (get_option p OPT_MSG_TYPE) (\<lambda>v. case v of x # _ \<Rightarrow> Some x | [] \<Rightarrow> None)"

definition base_request :: "u32 \<Rightarrow> bytes \<Rightarrow> u16 \<Rightarrow> Packet" where
  "base_request xid mac secs =
     \<lparr>p_op = OP_BOOTREQUEST, p_xid = xid, p_secs = secs, p_flags = 0x8000, p_ciaddr = 0,
      p_yiaddr = 0, p_siaddr = 0, p_chaddr = mac, p_options = []\<rparr>"

definition DEFAULT_PARAM_REQUEST_LIST :: bytes where
  "DEFAULT_PARAM_REQUEST_LIST = [OPT_SUBNET_MASK, OPT_ROUTER, OPT_DNS, OPT_DOMAIN_NAME]"

definition client_id :: "bytes \<Rightarrow> bytes" where
  "client_id mac = HTYPE_ETHER # mac"

definition enc_options :: "(u8 \<times> bytes) list \<Rightarrow> bytes" where
  "enc_options opts = concat (map (\<lambda>(code, data). code # word_of_nat (length data) # data) opts)"

definition serialize :: "Packet \<Rightarrow> bytes" where
  "serialize pkt =
     [p_op pkt, HTYPE_ETHER, 6, 0] @ be32 (p_xid pkt) @ be16 (p_secs pkt) @ be16 (p_flags pkt)
     @ octets4 (p_ciaddr pkt) @ octets4 (p_yiaddr pkt) @ octets4 (p_siaddr pkt) @ [0, 0, 0, 0]
     @ (p_chaddr pkt @ replicate 10 0) @ replicate 64 0 @ replicate 128 0 @ MAGIC_COOKIE
     @ enc_options (p_options pkt) @ [OPT_END]"

definition push_options :: "Packet \<Rightarrow> (u8 \<times> bytes) list \<Rightarrow> Packet" where
  "push_options pkt opts = pkt\<lparr>p_options := p_options pkt @ opts\<rparr>"

definition hostname_option :: "string option \<Rightarrow> (u8 \<times> bytes) list" where
  "hostname_option hostname = (case hostname of Some h \<Rightarrow> [(OPT_HOSTNAME, as_bytes h)] | None \<Rightarrow> [])"

definition discover_packet :: "u32 \<Rightarrow> bytes \<Rightarrow> string option \<Rightarrow> Packet" where
  "discover_packet xid mac hostname =
     push_options (base_request xid mac 0)
       ([(OPT_MSG_TYPE, [MSG_DISCOVER]), (OPT_CLIENT_ID, client_id mac),
         (OPT_PARAM_REQUEST_LIST, DEFAULT_PARAM_REQUEST_LIST)] @ hostname_option hostname)"

definition build_discover :: "u32 \<Rightarrow> bytes \<Rightarrow> string option \<Rightarrow> bytes" where
  "build_discover xid mac hostname = serialize (discover_packet xid mac hostname)"

definition request_packet :: "u32 \<Rightarrow> bytes \<Rightarrow> Ipv4Addr \<Rightarrow> Ipv4Addr \<Rightarrow> string option \<Rightarrow> Packet" where
  "request_packet xid mac requested_ip server_id hostname =
     push_options (base_request xid mac 0)
       ([(OPT_MSG_TYPE, [MSG_REQUEST]), (OPT_CLIENT_ID, client_id mac),
         (OPT_REQUESTED_IP, octets4 requested_ip), (OPT_SERVER_ID, octets4 server_id),
         (OPT_PARAM_REQUEST_LIST, DEFAULT_PARAM_REQUEST_LIST)] @ hostname_option hostname)"

definition build_request :: "u32 \<Rightarrow> bytes \<Rightarrow> Ipv4Addr \<Rightarrow> Ipv4Addr \<Rightarrow> string option \<Rightarrow> bytes" where
  "build_request xid mac requested_ip server_id hostname =
     serialize (request_packet xid mac requested_ip server_id hostname)"

definition build_renew_request :: "u32 \<Rightarrow> bytes \<Rightarrow> Ipv4Addr \<Rightarrow> bytes" where
  "build_renew_request xid mac client_ip =
     serialize (push_options ((base_request xid mac 0)\<lparr>p_ciaddr := client_ip, p_flags := 0\<rparr>)
       [(OPT_MSG_TYPE, [MSG_REQUEST]), (OPT_CLIENT_ID, client_id mac)])"

definition build_release :: "u32 \<Rightarrow> bytes \<Rightarrow> Ipv4Addr \<Rightarrow> Ipv4Addr \<Rightarrow> bytes" where
  "build_release xid mac client_ip server_id =
     serialize (push_options ((base_request xid mac 0)\<lparr>p_ciaddr := client_ip\<rparr>)
       [(OPT_MSG_TYPE, [MSG_RELEASE]), (OPT_CLIENT_ID, client_id mac),
        (OPT_SERVER_ID, octets4 server_id)])"

text \<open>The option loop of \<open>parse\<close>, on the bytes from index \<open>i\<close> on.\<close>

fun parse_options :: "bytes \<Rightarrow> (u8 \<times> bytes) list" where
  "parse_options [] = []"
| "parse_options (code # rest) =
     (if code = OPT_END then []
      else if code = OPT_PAD then parse_options rest
      else (case rest of
              [] \<Rightarrow> []
            | len # data \<Rightarrow>
                if length data < unat len then []
                else (code, take (unat len) data) # parse_options (drop (unat len) data)))"

definition ip_at :: "bytes \<Rightarrow> nat \<Rightarrow> Ipv4Addr" where
  "ip_at buf i = ipv4_new (buf ! i) (buf ! (i + 1)) (buf ! (i + 2)) (buf ! (i + 3))"

definition parse_packet :: "bytes \<Rightarrow> Packet option" where
  "parse_packet buf =
     (if length buf < 240 \<or> take 4 (drop 236 buf) \<noteq> MAGIC_COOKIE then None
      else Some \<lparr>
        p_op = buf ! 0,
        p_xid = from_be32 (buf ! 4) (buf ! 5) (buf ! 6) (buf ! 7),
        p_secs = from_be16 (buf ! 8) (buf ! 9),
        p_flags = from_be16 (buf ! 10) (buf ! 11),
        p_ciaddr = ip_at buf 12,
        p_yiaddr = ip_at buf 16,
        p_siaddr = ip_at buf 20,
        p_chaddr = take 6 (drop 28 buf),
        p_options = parse_options (drop 240 buf)\<rparr>)"

section \<open>Leases\<close>

record Lease =
  l_address :: Ipv4Addr
  l_prefixlen :: u8
  l_gateway :: "Ipv4Addr option"
  l_dns_servers :: "Ipv4Addr list"
  l_domain :: "string option"
  l_server_id :: Ipv4Addr
  l_lease_time_secs :: u32
  l_obtained_at_unix :: u64

text \<open>Times are seconds since the epoch.\<close>

definition obtained_at :: "Lease \<Rightarrow> nat" where
  "obtained_at l = unat (l_obtained_at_unix l)"

definition renewal_time :: "Lease \<Rightarrow> nat" where
  "renewal_time l = obtained_at l + unat (l_lease_time_secs l) div 2"

definition rebind_time :: "Lease \<Rightarrow> nat" where
  "rebind_time l = obtained_at l + unat (l_lease_time_secs l) * 7 div 8"

definition expires_at :: "Lease \<Rightarrow> nat" where
  "expires_at l = obtained_at l + unat (l_lease_time_secs l)"

definition is_expired :: "nat \<Rightarrow> Lease \<Rightarrow> bool" where
  "is_expired now l = (expires_at l \<le> now)"

section \<open>The packet codec\<close>

definition option_ok :: "u8 \<times> bytes \<Rightarrow> bool" where
  "option_ok = (\<lambda>(code, data). code \<noteq> OPT_END \<and> code \<noteq> OPT_PAD \<and> length data \<le> 255)"

definition packet_ok :: "Packet \<Rightarrow> bool" where
  "packet_ok p = (length (p_chaddr p) = 6 \<and> list_all option_ok (p_options p))"

lemma parse_enc_options:
  "list_all option_ok opts \<Longrightarrow> parse_options (enc_options opts @ [OPT_END]) = opts"
proof (induction opts)
  case Nil
  then show ?case by (simp add: enc_options_def)
next
  case (Cons o1 opts)
  obtain c d where o1: "o1 = (c, d)" by (cases o1)
  have "unat (word_of_nat (length d) :: u8) = length d"
    using Cons.prems by (simp add: o1 option_ok_def unat_of_nat)
  with Cons show ?case by (simp add: enc_options_def option_ok_def o1)
qed

lemma list6: "length xs = 6 \<Longrightarrow> \<exists>a b c d e f. xs = [a, b, c, d, e, f]"
  by (auto simp: numeral_eq_Suc length_Suc_conv)

lemma parse_serialize:
  assumes "packet_ok p"
  shows "parse_packet (serialize p) = Some p"
proof -
  obtain m0 m1 m2 m3 m4 m5 where ch: "p_chaddr p = [m0, m1, m2, m3, m4, m5]"
    using assms list6 by (metis packet_ok_def)
  let ?tail = "enc_options (p_options p) @ [OPT_END]"
  let ?pre = "[p_op p, HTYPE_ETHER, 6, 0] @ be32 (p_xid p) @ be16 (p_secs p) @ be16 (p_flags p)
     @ octets4 (p_ciaddr p) @ octets4 (p_yiaddr p) @ octets4 (p_siaddr p) @ [0, 0, 0, 0]
     @ (p_chaddr p @ replicate 10 0)"
  have s: "serialize p = ?pre @ replicate 192 0 @ MAGIC_COOKIE @ ?tail"
    by (simp add: serialize_def replicate_add [symmetric] flip: append_assoc)
  have lp: "length ?pre = 44" by (simp add: length_wire ch)
  have hd: "length (serialize p) \<ge> 240" "take 4 (drop 236 (serialize p)) = MAGIC_COOKIE"
    "drop 240 (serialize p) = ?tail"
    unfolding s using lp by (simp_all add: MAGIC_COOKIE_def)
  have nth: "serialize p ! i = ?pre ! i" if "i < 44" for i
    unfolding s nth_append lp using that by (simp only: if_True)
  have chs: "take 6 (drop 28 (serialize p)) = p_chaddr p"
    unfolding s by (simp add: length_wire ch)
  show ?thesis
    unfolding parse_packet_def hd(2,3) chs ip_at_def
    using hd(1) assms parse_enc_options [of "p_options p"]
    by (simp add: nth be32_def be16_def octets4_def ipv4_new_def from_be32_inverse from_be16_inverse
        packet_ok_def)
qed

lemma get_option_Cons:
  "get_option (p\<lparr>p_options := (c, v) # opts\<rparr>) k =
     (if c = k then Some v else get_option (p\<lparr>p_options := opts\<rparr>) k)"
  by (simp add: get_option_def)

lemma lease_times: "obtained_at l \<le> renewal_time l" "renewal_time l \<le> rebind_time l"
  "rebind_time l \<le> expires_at l"
  by (simp_all add: renewal_time_def rebind_time_def expires_at_def)

text \<open>\<open>u32::count_ones\<close>.\<close>

definition count_ones :: "u32 \<Rightarrow> nat" where
  "count_ones w = length (filter (bit w) [0..<32])"

lemma count_ones_le: "count_ones w \<le> 32"
  unfolding count_ones_def using length_filter_le [of "bit w" "[0..<32]"] by simp

lemma filter_ge_upt: "k \<le> n \<Longrightarrow> filter (\<lambda>i. k \<le> i) [0..<n] = [k..<n]"
proof (induction n)
  case (Suc n)
  then show ?case by (cases "k = Suc n") (auto simp: filter_empty_conv)
qed simp

lemma count_ones_subnet_mask:
  assumes "p \<le> 32"
  shows "count_ones (subnet_mask p) = unat p"
proof -
  have p: "unat p \<le> 32" using assms by (simp add: word_le_nat_alt)
  have "filter (bit (subnet_mask p)) [0..<32] = filter (\<lambda>i. 32 - unat p \<le> i) [0..<32]"
    by (rule filter_cong) (auto simp: subnet_mask_eq [OF assms] bit_simps)
  also have "\<dots> = [32 - unat p..<32]" by (rule filter_ge_upt) simp
  finally show ?thesis using p by (simp add: count_ones_def)
qed

section \<open>Properties\<close>

text \<open>C11. Every packet with a six-octet hardware address whose options have ordinary codes and at most
  255 bytes each is recovered exactly from its serialized form, so the client and the server of the
  crate read each other's packets.
\<close>

theorem packet_roundtrip:
  assumes "packet_ok p"
  shows "parse_packet (serialize p) = Some p"
  using assms by (rule parse_serialize)

theorem packet_roundtrip_witness:
  "parse_packet (serialize (discover_packet 0xdeadbeef [2, 17, 34, 51, 68, 85] (Some ''mitos'')))
     = Some (discover_packet 0xdeadbeef [2, 17, 34, 51, 68, 85] (Some ''mitos''))"
  by (rule packet_roundtrip)
    (simp add: packet_ok_def discover_packet_def push_options_def base_request_def option_ok_def
      client_id_def DEFAULT_PARAM_REQUEST_LIST_def hostname_option_def)

end
