(* ===== verification/Dhcp_Client.thy ===== *)
theory Dhcp_Client
  imports Dhcp4 Ip_Ops
begin

text \<open>
  The DHCPv4 client of \<^verbatim>\<open>src/src/dhcp/client.rs\<close>. The UDP socket, the clocks and the host name are
  operations on the outside world; the exchange itself, its retries and its error exits are
  modelled in full. \<open>fuel\<close> bounds the number of datagrams one loop sends.
\<close>

datatype udp_recv = Got bytes | WouldBlock | RecvErr string

record 'w UdpEnv =
  u_now :: "'w \<Rightarrow> nat \<times> 'w"
  u_unix :: "'w \<Rightarrow> u64 \<times> 'w"
  u_nanos :: "'w \<Rightarrow> u32 \<times> 'w"
  u_pid :: u32
  u_hostname :: "'w \<Rightarrow> string option \<times> 'w"
  u_socket :: "'w \<Rightarrow> (string + unit) \<times> 'w"
  u_bind :: "string \<Rightarrow> 'w \<Rightarrow> (string + unit) \<times> 'w"
  u_send :: "bytes \<Rightarrow> Ipv4Addr \<Rightarrow> 'w \<Rightarrow> (string + unit) \<times> 'w"
  u_recv :: "'w \<Rightarrow> udp_recv \<times> 'w"
  u_load_lease :: "string \<Rightarrow> 'w \<Rightarrow> Lease option result \<times> 'w"
  u_clear_lease :: "string \<Rightarrow> 'w \<Rightarrow> unit result \<times> 'w"

definition bound_broadcast_socket :: "'w UdpEnv \<Rightarrow> string \<Rightarrow> ('w, unit) io" where
  "bound_broadcast_socket E ifname =
     then_io (sys_call Io (u_socket E))
       (if nul \<in> set ifname then fail_io (Parse ''bad interface name'')
        else sys_call (\<lambda>e. Dhcp (''bind to udp/68 on '' @ ifname @ '' failed: '' @ e)) (u_bind E ifname))"

definition get_mac :: "'w Kernel \<Rightarrow> nat \<Rightarrow> string \<Rightarrow> ('w, bytes) io" where
  "get_mac K fuel ifname =
     bind_io (get_by_name K fuel ifname) (\<lambda>iface.
       lift_io (ok_or (Dhcp (ifname @ '' has no hardware address'')) (if_hwaddr iface)))"

definition random_xid :: "'w UdpEnv \<Rightarrow> ('w, u32) io" where
  "random_xid E = bind_io (ask (u_nanos E)) (\<lambda>nanos. return_io (nanos XOR push_bit 16 (u_pid E)))"

abbreviation (input) BROADCAST :: Ipv4Addr where "BROADCAST \<equiv> 0xFFFFFFFF"

text \<open>The discovery loop: until an offer of our transaction arrives or the deadline passes.\<close>

fun offer_loop ::
    "'w UdpEnv \<Rightarrow> nat \<Rightarrow> nat \<Rightarrow> u32 \<Rightarrow> bytes \<Rightarrow> string option \<Rightarrow> string \<Rightarrow> ('w, Packet) io" where
  "offer_loop E 0 deadline xid mac hostname ifname w = NoFuel"
| "offer_loop E (Suc fuel) deadline xid mac hostname ifname w =
     (case u_now E w of (now, w1) \<Rightarrow>
      if deadline \<le> now then Ret (Inl (Timeout (''no DHCPOFFER on '' @ ifname)), w1)
      else (case u_send E (build_discover xid mac hostname) BROADCAST w1 of
        (Inl e, w2) \<Rightarrow> Ret (Inl (Io e), w2)
      | (Inr _, w2) \<Rightarrow>
          (case u_recv E w2 of
             (Got d, w3) \<Rightarrow>
               (case parse_packet (take 1500 d) of
                  Some pkt \<Rightarrow>
                    if p_xid pkt = xid \<and> message_type pkt = Some MSG_OFFER then Ret (Inr pkt, w3)
                    else offer_loop E fuel deadline xid mac hostname ifname w3
                | None \<Rightarrow> offer_loop E fuel deadline xid mac hostname ifname w3)
           | (WouldBlock, w3) \<Rightarrow> offer_loop E fuel deadline xid mac hostname ifname w3
           | (RecvErr e, w3) \<Rightarrow> Ret (Inl (Io e), w3))))"

fun ack_loop ::
    "'w UdpEnv \<Rightarrow> nat \<Rightarrow> nat \<Rightarrow> u32 \<Rightarrow> bytes \<Rightarrow> Ipv4Addr \<Rightarrow> Ipv4Addr \<Rightarrow> string option \<Rightarrow> string
      \<Rightarrow> ('w, Packet) io" where
  "ack_loop E 0 deadline xid mac yiaddr server_id hostname ifname w = NoFuel"
| "ack_loop E (Suc fuel) deadline xid mac yiaddr server_id hostname ifname w =
     (case u_now E w of (now, w1) \<Rightarrow>
      if deadline \<le> now then Ret (Inl (Timeout (''no DHCPACK on '' @ ifname)), w1)
      else (case u_send E (build_request xid mac yiaddr server_id hostname) BROADCAST w1 of
        (Inl e, w2) \<Rightarrow> Ret (Inl (Io e), w2)
      | (Inr _, w2) \<Rightarrow>
          (case u_recv E w2 of
             (Got d, w3) \<Rightarrow>
               (case parse_packet (take 1500 d) of
                  Some pkt \<Rightarrow>
                    if p_xid pkt \<noteq> xid then
                      ack_loop E fuel deadline xid mac yiaddr server_id hostname ifname w3
                    else if message_type pkt = Some MSG_ACK then Ret (Inr pkt, w3)
                    else if message_type pkt = Some MSG_NAK then
                      Ret (Inl (Dhcp (''server '' @ show_ipv4 server_id @ '' sent DHCPNAK'')), w3)
                    else ack_loop E fuel deadline xid mac yiaddr server_id hostname ifname w3
                | None \<Rightarrow> ack_loop E fuel deadline xid mac yiaddr server_id hostname ifname w3)
           | (WouldBlock, w3) \<Rightarrow> ack_loop E fuel deadline xid mac yiaddr server_id hostname ifname w3
           | (RecvErr e, w3) \<Rightarrow> Ret (Inl (Io e), w3))))"

text \<open>\<open><[u8; 4]>::try_from(b).ok().map(Ipv4Addr::from)\<close>.\<close>

definition ip_of_bytes :: "bytes \<Rightarrow> Ipv4Addr option" where
  "ip_of_bytes b = try_be32 b"

definition lease_of_ack :: "Packet \<Rightarrow> Ipv4Addr \<Rightarrow> u64 \<Rightarrow> Lease" where
  "lease_of_ack ack server_id now =
     \<lparr>l_address = p_yiaddr ack,
      l_prefixlen = (case Option.bind (get_option ack OPT_SUBNET_MASK) try_be32 of
                       Some m \<Rightarrow> word_of_nat (count_ones m) | None \<Rightarrow> 24),
      l_gateway = Option.bind (get_option ack OPT_ROUTER)
        (\<lambda>b. if 4 \<le> length b then ip_of_bytes (take 4 b) else None),
      l_dns_servers = (case get_option ack OPT_DNS of
                         Some b \<Rightarrow> List.map_filter ip_of_bytes (chunks_exact 4 b) | None \<Rightarrow> []),
      l_domain = map_option from_utf8_lossy (get_option ack OPT_DOMAIN_NAME),
      l_server_id = server_id,
      l_lease_time_secs = (case Option.bind (get_option ack OPT_LEASE_TIME) try_be32 of
                             Some t \<Rightarrow> t | None \<Rightarrow> 3600),
      l_obtained_at_unix = now\<rparr>"

definition lease_from_ack :: "'w UdpEnv \<Rightarrow> Packet \<Rightarrow> Ipv4Addr \<Rightarrow> ('w, Lease) io" where
  "lease_from_ack E ack server_id =
     bind_io (ask (u_unix E)) (\<lambda>now. return_io (lease_of_ack ack server_id now))"

text \<open>The exchange of \<open>acquire\<close> after the set-up: offer, request, acknowledgement, lease.\<close>

definition exchange ::
    "'w UdpEnv \<Rightarrow> nat \<Rightarrow> nat \<Rightarrow> u32 \<Rightarrow> bytes \<Rightarrow> string option \<Rightarrow> string \<Rightarrow> ('w, Lease) io" where
  "exchange E fuel deadline xid mac hostname ifname =
     bind_io (offer_loop E fuel deadline xid mac hostname ifname) (\<lambda>offer.
     bind_io (lift_io (ok_or (Dhcp ''OFFER missing server identifier'')
       (Option.bind (get_option offer OPT_SERVER_ID) ip_of_bytes))) (\<lambda>server_id.
     bind_io (ack_loop E fuel deadline xid mac (p_yiaddr offer) server_id hostname ifname) (\<lambda>ack.
     lease_from_ack E ack server_id)))"

definition acquire ::
    "'w Kernel \<Rightarrow> 'w UdpEnv \<Rightarrow> nat \<Rightarrow> string \<Rightarrow> i32 \<Rightarrow> nat \<Rightarrow> ('w, Lease) io" where
  "acquire K E fuel ifname ifindex timeout =
     bind_io (get_mac K fuel ifname) (\<lambda>mac.
     bind_io (bound_broadcast_socket E ifname) (\<lambda>_.
     bind_io (ask (u_hostname E)) (\<lambda>hostname.
     bind_io (ask (u_now E)) (\<lambda>now.
     bind_io (random_xid E) (\<lambda>xid.
     exchange E fuel (now + timeout) xid mac hostname ifname)))))"

fun renew_loop :: "'w UdpEnv \<Rightarrow> nat \<Rightarrow> nat \<Rightarrow> u32 \<Rightarrow> Ipv4Addr \<Rightarrow> string \<Rightarrow> ('w, Lease) io" where
  "renew_loop E 0 deadline xid server_id ifname w = NoFuel"
| "renew_loop E (Suc fuel) deadline xid server_id ifname w =
     (case u_now E w of (now, w1) \<Rightarrow>
      if deadline \<le> now then Ret (Inl (Timeout (''no reply renewing lease on '' @ ifname)), w1)
      else (case u_recv E w1 of
              (Got d, w2) \<Rightarrow>
                (case parse_packet (take 1500 d) of
                   Some pkt \<Rightarrow>
                     if p_xid pkt = xid \<and> message_type pkt = Some MSG_ACK
                     then lease_from_ack E pkt server_id w2
                     else renew_loop E fuel deadline xid server_id ifname w2
                 | None \<Rightarrow> renew_loop E fuel deadline xid server_id ifname w2)
            | (WouldBlock, w2) \<Rightarrow> renew_loop E fuel deadline xid server_id ifname w2
            | (RecvErr e, w2) \<Rightarrow> Ret (Inl (Io e), w2)))"

definition renew :: "'w Kernel \<Rightarrow> 'w UdpEnv \<Rightarrow> nat \<Rightarrow> string \<Rightarrow> Lease \<Rightarrow> ('w, Lease) io" where
  "renew K E fuel ifname lease =
     bind_io (get_mac K fuel ifname) (\<lambda>mac.
     bind_io (bound_broadcast_socket E ifname) (\<lambda>_.
     bind_io (random_xid E) (\<lambda>xid.
     bind_io (sys_call Io (u_send E (build_renew_request xid mac (l_address lease)) (l_server_id lease))) (\<lambda>_.
     bind_io (ask (u_now E)) (\<lambda>now.
     renew_loop E fuel (now + 10) xid (l_server_id lease) ifname)))))"

definition release :: "'w Kernel \<Rightarrow> 'w UdpEnv \<Rightarrow> nat \<Rightarrow> string \<Rightarrow> ('w, unit) io" where
  "release K E fuel ifname =
     bind_io (ask_result (u_load_lease E ifname)) (\<lambda>stored.
       case stored of
         None \<Rightarrow> return_io ()
       | Some lease \<Rightarrow>
           bind_io (get_mac K fuel ifname) (\<lambda>mac.
           bind_io (bound_broadcast_socket E ifname) (\<lambda>_.
           bind_io (random_xid E) (\<lambda>xid.
           bind_io (sys_call Io
             (u_send E (build_release xid mac (l_address lease) (l_server_id lease)) (l_server_id lease))) (\<lambda>_.
           ask_result (u_clear_lease E ifname))))))"

end
