(* ===== verification/Dhcp6.thy ===== *)
theory Dhcp6
  imports Dhcp_Client
begin

text \<open>
  The DHCPv6 client: \<^verbatim>\<open>src/src/dhcp/dhcp6.rs\<close>. The option codec, IA_NA options, domain lists, the
  stateless and the stateful exchange, renewal and release. The UDP socket, the clocks and the lease
  file are parameters; times of day are seconds since the epoch.
\<close>

abbreviation (input) MSG6_SOLICIT :: u8 where "MSG6_SOLICIT \<equiv> 1"
abbreviation (input) MSG6_ADVERTISE :: u8 where "MSG6_ADVERTISE \<equiv> 2"
abbreviation (input) MSG6_REQUEST :: u8 where "MSG6_REQUEST \<equiv> 3"
abbreviation (input) MSG6_RENEW :: u8 where "MSG6_RENEW \<equiv> 5"
abbreviation (input) MSG6_REBIND :: u8 where "MSG6_REBIND \<equiv> 6"
abbreviation (input) MSG6_REPLY :: u8 where "MSG6_REPLY \<equiv> 7"
abbreviation (input) MSG6_RELEASE :: u8 where "MSG6_RELEASE \<equiv> 8"
abbreviation (input) MSG6_INFORMATION_REQUEST :: u8 where "MSG6_INFORMATION_REQUEST \<equiv> 11"

abbreviation (input) OPT6_CLIENTID :: u16 where "OPT6_CLIENTID \<equiv> 1"
abbreviation (input) OPT6_SERVERID :: u16 where "OPT6_SERVERID \<equiv> 2"
abbreviation (input) OPT6_IA_NA :: u16 where "OPT6_IA_NA \<equiv> 3"
abbreviation (input) OPT6_IA_ADDR :: u16 where "OPT6_IA_ADDR \<equiv> 5"
abbreviation (input) OPT6_ORO :: u16 where "OPT6_ORO \<equiv> 6"
abbreviation (input) OPT6_ELAPSED_TIME :: u16 where "OPT6_ELAPSED_TIME \<equiv> 8"
abbreviation (input) OPT6_STATUS_CODE :: u16 where "OPT6_STATUS_CODE \<equiv> 13"
abbreviation (input) OPT6_RAPID_COMMIT :: u16 where "OPT6_RAPID_COMMIT \<equiv> 14"
abbreviation (input) OPT6_DNS_SERVERS :: u16 where "OPT6_DNS_SERVERS \<equiv> 23"
abbreviation (input) OPT6_DOMAIN_LIST :: u16 where "OPT6_DOMAIN_LIST \<equiv> 24"

section \<open>Options\<close>

type_synonym options6 = "(u16 \<times> bytes) list"

definition duid_ll :: "bytes \<Rightarrow> bytes" where
  "duid_ll mac = [0x00, 0x03, 0x00, 0x01] @ mac"

text \<open>The bytes \<open>push_option\<close> appends; the length field is the low 16 bits of the length.\<close>

definition push_option :: "u16 \<Rightarrow> bytes \<Rightarrow> bytes" where
  "push_option code data = be16 code @ be16 (as_u16 (length data)) @ data"

function parse_options6 :: "bytes \<Rightarrow> options6" where
  "parse_options6 buf =
     (if length buf < 4 then []
      else let code = from_be16 (buf ! 0) (buf ! 1);
               len = unat (from_be16 (buf ! 2) (buf ! 3))
           in if length buf < 4 + len then []
              else (code, take len (drop 4 buf)) # parse_options6 (drop (4 + len) buf))"
  by pat_completeness auto
termination
  by (relation "measure length") auto

declare parse_options6.simps [simp del]

definition elapsed_cs :: "nat \<Rightarrow> nat \<Rightarrow> u16" where
  "elapsed_cs start now = as_u16 (min ((now - start) div 10) 65535)"

text \<open>One search name: the labels up to a zero byte, the end, or a label that is cut off. The result has
  the labels, and what is left after the byte that ended the name.\<close>

function decode_labels :: "bytes \<Rightarrow> string list \<times> bytes" where
  "decode_labels [] = ([], [])"
| "decode_labels (n # rest) =
     (if n = 0 then ([], rest)
      else if length rest < unat n then ([], drop 1 rest)
      else case decode_labels (drop (unat n) rest) of
             (labels, left) \<Rightarrow> (from_utf8_lossy (take (unat n) rest) # labels, left))"
  by pat_completeness auto
termination
  by (relation "measure length") auto

lemma decode_labels_shorter: "bs \<noteq> [] \<Longrightarrow> length (snd (decode_labels bs)) < length bs"
proof (induction bs rule: decode_labels.induct)
  case (2 n rest)
  show ?case
  proof (cases "n = 0 \<or> length rest < unat n")
    case False
    then show ?thesis
      using 2 by (cases "drop (unat n) rest = []") (auto split: prod.splits)
  qed auto
qed simp

function decode_domains :: "bytes \<Rightarrow> string list" where
  "decode_domains data =
     (if data = [] then []
      else case decode_labels data of
             (labels, left) \<Rightarrow>
               (if labels = [] then [] else [str_join ''.'' labels]) @ decode_domains left)"
  by pat_completeness auto
termination
  by (relation "measure length", simp) (metis decode_labels_shorter in_measure snd_conv)

declare decode_domains.simps [simp del]

definition dns_of_options :: "options6 \<Rightarrow> Ipv6Addr list" where
  "dns_of_options options =
     concat (map (\<lambda>(code, data). if code = OPT6_DNS_SERVERS then map from_octets6 (chunks_exact 16 data) else [])
       options)"

definition domains_of_options :: "options6 \<Rightarrow> string list" where
  "domains_of_options options =
     concat (map (\<lambda>(code, data). if code \<noteq> OPT6_DNS_SERVERS \<and> code = OPT6_DOMAIN_LIST then decode_domains data else [])
       options)"

definition parse_dns_and_domain :: "options6 \<Rightarrow> Ipv6Addr list \<times> string list" where
  "parse_dns_and_domain options = (dns_of_options options, domains_of_options options)"

section \<open>Messages\<close>

definition oro :: bytes where
  "oro = be16 OPT6_DNS_SERVERS @ be16 OPT6_DOMAIN_LIST"

definition build_information_request :: "bytes \<Rightarrow> bytes \<Rightarrow> bytes" where
  "build_information_request xid mac =
     [MSG6_INFORMATION_REQUEST] @ xid @ push_option OPT6_CLIENTID (duid_ll mac) @ push_option OPT6_ORO oro"

definition build_solicit :: "bytes \<Rightarrow> bytes \<Rightarrow> u32 \<Rightarrow> u16 \<Rightarrow> bytes" where
  "build_solicit xid mac iaid elapsed =
     [MSG6_SOLICIT] @ xid
     @ push_option OPT6_CLIENTID (duid_ll mac)
     @ push_option OPT6_ELAPSED_TIME (be16 elapsed)
     @ push_option OPT6_RAPID_COMMIT []
     @ push_option OPT6_ORO oro
     @ push_option OPT6_IA_NA (be32 iaid @ be32 0 @ be32 0)"

definition build_ia_request ::
    "u8 \<Rightarrow> bytes \<Rightarrow> bytes \<Rightarrow> bytes option \<Rightarrow> u32 \<Rightarrow> Ipv6Addr \<Rightarrow> u32 \<Rightarrow> u32 \<Rightarrow> u16 \<Rightarrow> bytes" where
  "build_ia_request msg_type xid mac server_id iaid addr preferred valid elapsed =
     [msg_type] @ xid
     @ push_option OPT6_CLIENTID (duid_ll mac)
     @ (case server_id of Some sid \<Rightarrow> push_option OPT6_SERVERID sid | None \<Rightarrow> [])
     @ push_option OPT6_ELAPSED_TIME (be16 elapsed)
     @ push_option OPT6_ORO oro
     @ push_option OPT6_IA_NA
         (be32 iaid @ be32 0 @ be32 0
          @ push_option OPT6_IA_ADDR (octets6 addr @ be32 preferred @ be32 valid))"

record StatelessInfo =
  sl_dns_servers :: "Ipv6Addr list"
  sl_domain_search :: "string list"

record Lease6 =
  l6_address :: Ipv6Addr
  l6_prefixlen :: u8
  l6_iaid :: u32
  l6_server_id :: bytes
  l6_dns_servers :: "Ipv6Addr list"
  l6_domain_search :: "string list"
  l6_preferred_lifetime_secs :: u32
  l6_valid_lifetime_secs :: u32
  l6_t1_secs :: u32
  l6_t2_secs :: u32
  l6_obtained_at_unix :: u64

definition obtained_at6 :: "Lease6 \<Rightarrow> nat" where
  "obtained_at6 l = unat (l6_obtained_at_unix l)"

definition renewal_time6 :: "Lease6 \<Rightarrow> nat" where
  "renewal_time6 l = obtained_at6 l +
     (if 0 < l6_t1_secs l then unat (l6_t1_secs l) else unat (l6_valid_lifetime_secs l) div 2)"

definition rebind_time6 :: "Lease6 \<Rightarrow> nat" where
  "rebind_time6 l = obtained_at6 l +
     (if 0 < l6_t2_secs l then unat (l6_t2_secs l) else unat (l6_valid_lifetime_secs l) * 7 div 8)"

definition expires_at6 :: "Lease6 \<Rightarrow> nat" where
  "expires_at6 l = obtained_at6 l + unat (l6_valid_lifetime_secs l)"

definition is_expired6 :: "nat \<Rightarrow> Lease6 \<Rightarrow> bool" where
  "is_expired6 now l = (expires_at6 l \<le> now)"

record IaNa =
  ia_iaid :: u32
  ia_t1 :: u32
  ia_t2 :: u32
  ia_address :: "Ipv6Addr option"
  ia_preferred_lifetime :: u32
  ia_valid_lifetime :: u32
  ia_status :: "(u16 \<times> string) option"

definition from_be32_at :: "bytes \<Rightarrow> nat \<Rightarrow> u32" where
  "from_be32_at b i = from_be32 (b ! i) (b ! (i + 1)) (b ! (i + 2)) (b ! (i + 3))"

definition ia_suboption :: "u16 \<times> bytes \<Rightarrow> IaNa \<Rightarrow> IaNa" where
  "ia_suboption = (\<lambda>(code, sub) ia.
     if code = OPT6_IA_ADDR \<and> 24 \<le> length sub then
       ia\<lparr>ia_address := Some (from_octets6 (take 16 sub)),
          ia_preferred_lifetime := from_be32_at sub 16,
          ia_valid_lifetime := from_be32_at sub 20\<rparr>
     else if code = OPT6_STATUS_CODE \<and> 2 \<le> length sub then
       ia\<lparr>ia_status := Some (from_be16 (sub ! 0) (sub ! 1), from_utf8_lossy (drop 2 sub))\<rparr>
     else ia)"

definition parse_ia_na :: "bytes \<Rightarrow> IaNa option" where
  "parse_ia_na data =
     (if length data < 12 then None
      else Some (fold ia_suboption (parse_options6 (drop 12 data))
        \<lparr>ia_iaid = from_be32_at data 0, ia_t1 = from_be32_at data 4, ia_t2 = from_be32_at data 8,
         ia_address = None, ia_preferred_lifetime = 0, ia_valid_lifetime = 0, ia_status = None\<rparr>))"

section \<open>Exchanges\<close>

datatype udp6_recv = Got6 bytes | Failed6 string

record 'w Udp6Env =
  d6_now :: "'w \<Rightarrow> nat \<times> 'w"
  d6_unix :: "'w \<Rightarrow> u64 \<times> 'w"
  d6_nanos :: "'w \<Rightarrow> u32 \<times> 'w"
  d6_pid :: u32
  d6_bind :: "'w \<Rightarrow> (string + unit) \<times> 'w"
  d6_set_timeout :: "nat \<Rightarrow> 'w \<Rightarrow> (string + unit) \<times> 'w"
  d6_send :: "bytes \<Rightarrow> Ipv6Addr \<Rightarrow> u16 \<Rightarrow> u32 \<Rightarrow> 'w \<Rightarrow> (string + unit) \<times> 'w"
  d6_recv :: "'w \<Rightarrow> udp6_recv \<times> 'w"
  d6_load_lease :: "string \<Rightarrow> 'w \<Rightarrow> Lease6 option result \<times> 'w"
  d6_clear_lease :: "string \<Rightarrow> 'w \<Rightarrow> unit result \<times> 'w"

definition xid3_of :: "u32 \<Rightarrow> u32 \<Rightarrow> bytes" where
  "xid3_of nanos pid =
     (let mixed = nanos XOR push_bit 8 pid
      in [ucast (drop_bit 16 mixed), ucast (drop_bit 8 mixed), ucast mixed])"

definition random_xid3 :: "'w Udp6Env \<Rightarrow> ('w, bytes) io" where
  "random_xid3 E = bind_io (ask (d6_nanos E)) (\<lambda>nanos. return_io (xid3_of nanos (d6_pid E)))"

text \<open>\<open>ff02::1:2\<close>.\<close>

abbreviation (input) ALL_DHCP_SERVERS :: Ipv6Addr where
  "ALL_DHCP_SERVERS \<equiv> 0xff020000000000000000000000010002"

definition send_multicast :: "'w Udp6Env \<Rightarrow> bytes \<Rightarrow> u32 \<Rightarrow> ('w, unit) io" where
  "send_multicast E msg scope_id = sys_call Io (d6_send E msg ALL_DHCP_SERVERS 547 scope_id)"

definition bind_client_socket :: "'w Udp6Env \<Rightarrow> nat \<Rightarrow> ('w, unit) io" where
  "bind_client_socket E timeout =
     then_io (sys_call (\<lambda>e. Dhcp (''bind udp/546 failed: '' @ e)) (d6_bind E))
       (sys_call Io (d6_set_timeout E timeout))"

definition recv_datagram :: "'w Udp6Env \<Rightarrow> ('w, bytes) io" where
  "recv_datagram E = (\<lambda>w. case d6_recv E w of
      (Got6 b, w') \<Rightarrow> Ret (Inr (take 1500 b), w')
    | (Failed6 e, w') \<Rightarrow> Ret (Inl (Io e), w'))"

definition request_stateless_info ::
    "'w Kernel \<Rightarrow> 'w Udp6Env \<Rightarrow> nat \<Rightarrow> string \<Rightarrow> bytes \<Rightarrow> nat \<Rightarrow> ('w, StatelessInfo) io" where
  "request_stateless_info K E fuel ifname mac timeout =
     bind_io (get_by_name K fuel ifname) (\<lambda>iface.
     bind_io (bind_client_socket E timeout) (\<lambda>_.
     bind_io (random_xid3 E) (\<lambda>xid.
     bind_io (send_multicast E (build_information_request xid mac) (if_index iface)) (\<lambda>_.
     bind_io (recv_datagram E) (\<lambda>buf.
       if length buf < 4 \<or> buf ! 0 \<noteq> MSG6_REPLY \<or> take 3 (drop 1 buf) \<noteq> xid then
         fail_io (Dhcp ''did not receive a matching DHCPv6 REPLY'')
       else
         let options = parse_options6 (drop 4 buf)
         in return_io \<lparr>sl_dns_servers = fst (parse_dns_and_domain options),
                       sl_domain_search = snd (parse_dns_and_domain options)\<rparr>)))))"

definition check_reply :: "bytes \<Rightarrow> bytes \<Rightarrow> (u8 \<times> options6) result" where
  "check_reply want_xid buf =
     (if length buf < 4 then Inl (Dhcp ''DHCPv6 response too short'')
      else if take 3 (drop 1 buf) \<noteq> want_xid then Inl (Dhcp ''DHCPv6 response transaction id mismatch'')
      else Inr (buf ! 0, parse_options6 (drop 4 buf)))"

definition recv_matching :: "'w Udp6Env \<Rightarrow> bytes \<Rightarrow> ('w, u8 \<times> options6) io" where
  "recv_matching E want_xid = bind_io (recv_datagram E) (\<lambda>buf. lift_io (check_reply want_xid buf))"

definition require_success :: "IaNa \<Rightarrow> unit result" where
  "require_success ia =
     (case ia_status ia of
        Some (code, msg) \<Rightarrow>
          if code \<noteq> 0 then
            Inl (Dhcp (''DHCPv6 server declined (status '' @ show_nat (unat code) @ ''): '' @ msg))
          else Inr ()
      | None \<Rightarrow> Inr ())"

definition lease_of_ia :: "IaNa \<Rightarrow> bytes \<Rightarrow> Ipv6Addr list \<Rightarrow> string list \<Rightarrow> u64 \<Rightarrow> Lease6 result" where
  "lease_of_ia ia server_id dns domains now =
     bind_r (require_success ia) (\<lambda>_.
     bind_r (ok_or (Dhcp ''DHCPv6 REPLY carried no address'') (ia_address ia)) (\<lambda>address.
       Inr \<lparr>l6_address = address, l6_prefixlen = 128, l6_iaid = ia_iaid ia, l6_server_id = server_id,
            l6_dns_servers = dns, l6_domain_search = domains,
            l6_preferred_lifetime_secs = ia_preferred_lifetime ia,
            l6_valid_lifetime_secs = ia_valid_lifetime ia,
            l6_t1_secs = ia_t1 ia, l6_t2_secs = ia_t2 ia, l6_obtained_at_unix = now\<rparr>))"

text \<open>The clock is read only once the lease has an address; reading it has no other effect.\<close>

definition lease_from_reply ::
    "'w Udp6Env \<Rightarrow> IaNa \<Rightarrow> bytes \<Rightarrow> options6 \<Rightarrow> ('w, Lease6) io" where
  "lease_from_reply E ia server_id options =
     (case lease_of_ia ia server_id [] [] 0 of
        Inl e \<Rightarrow> fail_io e
      | Inr _ \<Rightarrow> bind_io (ask (d6_unix E)) (\<lambda>now.
          lift_io (lease_of_ia ia server_id (dns_of_options options) (domains_of_options options) now)))"

definition find_option :: "u16 \<Rightarrow> options6 \<Rightarrow> bytes option" where
  "find_option code options = map_option snd (find (\<lambda>(c, _). c = code) options)"

definition find_ia :: "options6 \<Rightarrow> IaNa option" where
  "find_ia options = Option.bind (find_option OPT6_IA_NA options) parse_ia_na"

text \<open>The second half of the exchange, after an advertisement.\<close>

definition request_advertised ::
    "'w Udp6Env \<Rightarrow> bytes \<Rightarrow> u32 \<Rightarrow> u32 \<Rightarrow> nat \<Rightarrow> bytes \<Rightarrow> IaNa \<Rightarrow> ('w, Lease6) io" where
  "request_advertised E mac iaid scope_id start server_id ia =
     then_io (lift_io (require_success ia))
    (bind_io (lift_io (ok_or (Dhcp ''DHCPv6 ADVERTISE carried no address'') (ia_address ia))) (\<lambda>addr.
     bind_io (random_xid3 E) (\<lambda>xid.
     bind_io (ask (d6_now E)) (\<lambda>now.
     bind_io (send_multicast E (build_ia_request MSG6_REQUEST xid mac (Some server_id) iaid addr
        (ia_preferred_lifetime ia) (ia_valid_lifetime ia) (elapsed_cs start now)) scope_id) (\<lambda>_.
     bind_io (recv_matching E xid) (\<lambda>(msg_type, options).
       if msg_type \<noteq> MSG6_REPLY then
         fail_io (Dhcp (''unexpected DHCPv6 message type '' @ show_nat (unat msg_type) @ '' in response to Request''))
       else
         bind_io (lift_io (ok_or (Dhcp ''DHCPv6 REPLY carried no IA_NA'') (find_ia options))) (\<lambda>ia.
           lease_from_reply E ia
             (case find_option OPT6_SERVERID options of Some s \<Rightarrow> s | None \<Rightarrow> server_id) options)))))))"

text \<open>The exchange of \<open>request_stateful_lease\<close> once the interface is known.\<close>

definition stateful_exchange :: "'w Udp6Env \<Rightarrow> bytes \<Rightarrow> u32 \<Rightarrow> nat \<Rightarrow> ('w, Lease6) io" where
  "stateful_exchange E mac iaid timeout =
     bind_io (bind_client_socket E timeout) (\<lambda>_.
     bind_io (ask (d6_now E)) (\<lambda>start.
     bind_io (random_xid3 E) (\<lambda>xid.
     bind_io (ask (d6_now E)) (\<lambda>now.
     bind_io (send_multicast E (build_solicit xid mac iaid (elapsed_cs start now)) iaid) (\<lambda>_.
     bind_io (recv_matching E xid) (\<lambda>(msg_type, options).
     bind_io (lift_io (ok_or (Dhcp ''DHCPv6 response carried no Server ID'') (find_option OPT6_SERVERID options))) (\<lambda>server_id.
     bind_io (lift_io (ok_or (Dhcp ''DHCPv6 response carried no IA_NA'') (find_ia options))) (\<lambda>ia.
       if msg_type = MSG6_REPLY then lease_from_reply E ia server_id options
       else if msg_type \<noteq> MSG6_ADVERTISE then
         fail_io (Dhcp (''unexpected DHCPv6 message type '' @ show_nat (unat msg_type) @ '' in response to Solicit''))
       else request_advertised E mac iaid iaid start server_id ia))))))))"

definition request_stateful_lease ::
    "'w Kernel \<Rightarrow> 'w Udp6Env \<Rightarrow> nat \<Rightarrow> string \<Rightarrow> bytes \<Rightarrow> nat \<Rightarrow> ('w, Lease6) io" where
  "request_stateful_lease K E fuel ifname mac timeout =
     bind_io (get_by_name K fuel ifname) (\<lambda>iface. stateful_exchange E mac (if_index iface) timeout)"

definition renew_or_rebind ::
    "'w Kernel \<Rightarrow> 'w Udp6Env \<Rightarrow> nat \<Rightarrow> u8 \<Rightarrow> string \<Rightarrow> bytes \<Rightarrow> Lease6 \<Rightarrow> nat \<Rightarrow> bool \<Rightarrow> ('w, Lease6) io" where
  "renew_or_rebind K E fuel msg_type ifname mac lease timeout include_server_id =
     bind_io (get_by_name K fuel ifname) (\<lambda>iface.
     bind_io (bind_client_socket E timeout) (\<lambda>_.
     bind_io (ask (d6_now E)) (\<lambda>start.
     bind_io (random_xid3 E) (\<lambda>xid.
     bind_io (ask (d6_now E)) (\<lambda>now.
     bind_io (send_multicast E (build_ia_request msg_type xid mac
         (if include_server_id then Some (l6_server_id lease) else None) (l6_iaid lease) (l6_address lease)
         (l6_preferred_lifetime_secs lease) (l6_valid_lifetime_secs lease) (elapsed_cs start now))
         (if_index iface)) (\<lambda>_.
     bind_io (recv_matching E xid) (\<lambda>(got_type, options).
       if got_type \<noteq> MSG6_REPLY then
         fail_io (Dhcp (''unexpected DHCPv6 message type '' @ show_nat (unat got_type) @ '' in response to Renew/Rebind''))
       else
         bind_io (lift_io (ok_or (Dhcp ''DHCPv6 REPLY carried no IA_NA'') (find_ia options))) (\<lambda>ia.
           lease_from_reply E ia
             (case find_option OPT6_SERVERID options of Some s \<Rightarrow> s | None \<Rightarrow> l6_server_id lease) options))))))))"

definition renew6 :: "'w Kernel \<Rightarrow> 'w Udp6Env \<Rightarrow> nat \<Rightarrow> string \<Rightarrow> bytes \<Rightarrow> Lease6 \<Rightarrow> nat \<Rightarrow> ('w, Lease6) io" where
  "renew6 K E fuel ifname mac lease timeout = renew_or_rebind K E fuel MSG6_RENEW ifname mac lease timeout True"

definition rebind6 :: "'w Kernel \<Rightarrow> 'w Udp6Env \<Rightarrow> nat \<Rightarrow> string \<Rightarrow> bytes \<Rightarrow> Lease6 \<Rightarrow> nat \<Rightarrow> ('w, Lease6) io" where
  "rebind6 K E fuel ifname mac lease timeout = renew_or_rebind K E fuel MSG6_REBIND ifname mac lease timeout False"

definition release6 :: "'w Kernel \<Rightarrow> 'w Udp6Env \<Rightarrow> nat \<Rightarrow> string \<Rightarrow> bytes \<Rightarrow> Lease6 \<Rightarrow> nat \<Rightarrow> ('w, unit) io" where
  "release6 K E fuel ifname mac lease timeout =
     bind_io (get_by_name K fuel ifname) (\<lambda>iface.
     bind_io (bind_client_socket E timeout) (\<lambda>_.
     bind_io (random_xid3 E) (\<lambda>xid.
     bind_io (send_multicast E (build_ia_request MSG6_RELEASE xid mac (Some (l6_server_id lease)) (l6_iaid lease)
         (l6_address lease) (l6_preferred_lifetime_secs lease) (l6_valid_lifetime_secs lease) 0)
         (if_index iface)) (\<lambda>_.
     ignore_io (recv_matching E xid)))))"

definition release_persisted :: "'w Kernel \<Rightarrow> 'w Udp6Env \<Rightarrow> nat \<Rightarrow> string \<Rightarrow> ('w, unit) io" where
  "release_persisted K E fuel ifname =
     bind_io (ask_result (d6_load_lease E ifname)) (\<lambda>stored.
       case stored of
         None \<Rightarrow> return_io ()
       | Some lease \<Rightarrow>
           bind_io (get_mac K fuel ifname) (\<lambda>mac.
           then_io (ignore_io (release6 K E fuel ifname mac lease 2000))
             (ask_result (d6_clear_lease E ifname))))"

section \<open>The option codec\<close>

definition encode_options6 :: "options6 \<Rightarrow> bytes" where
  "encode_options6 opts = concat (map (\<lambda>(c, d). push_option c d) opts)"

lemma parse_push_option:
  assumes "length d < 65536"
  shows "parse_options6 (push_option c d @ rest) = (c, d) # parse_options6 rest"
  using assms by (subst parse_options6.simps) (simp add: push_option_def be16_def from_be16_inverse Let_def drop_Cons')

lemma parse_options6_Nil [simp]: "parse_options6 [] = []"
  by (simp add: parse_options6.simps)

lemma parse_options6_push:
  "\<forall>(c, d) \<in> set opts. length d < 65536 \<Longrightarrow> parse_options6 (encode_options6 opts) = opts"
  by (induction opts) (auto simp: encode_options6_def parse_push_option)

text \<open>DHCPv6 options: any list of options whose data fits the 16-bit length field is read back from
  the bytes it is written as.\<close>

theorem options6_roundtrip:
  assumes "\<forall>(c, d) \<in> set opts. length d < 65536"
  shows "parse_options6 (encode_options6 opts) = opts"
  by (rule parse_options6_push [OF assms])

theorem options6_roundtrip_witness:
  "parse_options6 (encode_options6 [(14, []), (8, [1, 2])]) = [(14, []), (8, [1, 2])]"
  using options6_roundtrip [of "[(14, []), (8, [1, 2])]"] by simp

section \<open>Search domains\<close>

definition encode_label :: "string \<Rightarrow> bytes" where
  "encode_label l = as_u8 (length l) # as_bytes l"

definition encode_name :: "string list \<Rightarrow> bytes" where
  "encode_name labels = concat (map encode_label labels) @ [0]"

definition label_ok :: "string \<Rightarrow> bool" where
  "label_ok l = (l \<noteq> [] \<and> length l < 256 \<and> list_all is_ascii l)"

lemma decode_encode_labels:
  "list_all label_ok labels \<Longrightarrow> decode_labels (encode_name labels @ rest) = (labels, rest)"
proof (induction labels)
  case (Cons l ls)
  then have l: "l \<noteq> []" "length l < 256" "from_utf8_lossy (as_bytes l) = l"
    by (auto simp: label_ok_def list_all_iff intro!: from_utf8_lossy_ascii)
  then have "as_u8 (length l) \<noteq> 0" by (metis length_0_conv unat_0 unat_as(1))
  with l Cons show ?case by (simp add: encode_name_def encode_label_def)
qed (simp add: encode_name_def)

lemma decode_domains_names:
  "\<forall>n \<in> set names. n \<noteq> [] \<and> list_all label_ok n \<Longrightarrow>
   decode_domains (concat (map encode_name names)) = map (str_join ''.'') names"
proof (induction names)
  case (Cons n ns)
  have "encode_name n @ concat (map encode_name ns) \<noteq> []" by (simp add: encode_name_def)
  with Cons show ?case
    by (simp add: decode_domains.simps [of "encode_name n @ x" for x] decode_encode_labels)
qed (simp add: decode_domains.simps)

section \<open>The exchange with a server\<close>

text \<open>What a server sends: its identifier, the address with its lifetimes, name servers and search
  domains.\<close>

definition ia_data :: "u32 \<Rightarrow> u32 \<Rightarrow> u32 \<Rightarrow> Ipv6Addr \<Rightarrow> u32 \<Rightarrow> u32 \<Rightarrow> bytes" where
  "ia_data iaid t1 t2 addr preferred valid =
     be32 iaid @ be32 t1 @ be32 t2 @ push_option OPT6_IA_ADDR (octets6 addr @ be32 preferred @ be32 valid)"

definition server_options :: "bytes \<Rightarrow> bytes \<Rightarrow> Ipv6Addr list \<Rightarrow> string list list \<Rightarrow> options6" where
  "server_options sid ia dns names =
     [(OPT6_SERVERID, sid), (OPT6_IA_NA, ia), (OPT6_DNS_SERVERS, concat (map octets6 dns)),
      (OPT6_DOMAIN_LIST, concat (map encode_name names))]"

definition message6 :: "u8 \<Rightarrow> bytes \<Rightarrow> options6 \<Rightarrow> bytes" where
  "message6 t xid opts = t # xid @ encode_options6 opts"

text \<open>A socket that delivers a fixed list of datagrams and records what is sent, with standing clocks.\<close>

definition script6 :: "u32 \<Rightarrow> u32 \<Rightarrow> u64 \<Rightarrow> (bytes list \<times> bytes list) Udp6Env" where
  "script6 nanos pid unix =
     \<lparr>d6_now = (\<lambda>w. (0, w)), d6_unix = (\<lambda>w. (unix, w)), d6_nanos = (\<lambda>w. (nanos, w)), d6_pid = pid,
      d6_bind = (\<lambda>w. (Inr (), w)), d6_set_timeout = (\<lambda>_ w. (Inr (), w)),
      d6_send = (\<lambda>b _ _ _ (q, sent). (Inr (), (q, sent @ [b]))),
      d6_recv = (\<lambda>(q, sent). case q of [] \<Rightarrow> (Failed6 ''timed out'', (q, sent)) | b # bs \<Rightarrow> (Got6 b, (bs, sent))),
      d6_load_lease = (\<lambda>_ w. (Inr None, w)), d6_clear_lease = (\<lambda>_ w. (Inr (), w))\<rparr>"

lemma from_be32_at_be32: "from_be32_at (xs @ be32 v @ ys) (length xs) = v"
  by (simp add: from_be32_at_def nth_append be32_def from_be32_inverse)

lemma parse_ia_data:
  "parse_ia_na (ia_data iaid t1 t2 addr preferred valid) =
     Some \<lparr>ia_iaid = iaid, ia_t1 = t1, ia_t2 = t2, ia_address = Some addr,
           ia_preferred_lifetime = preferred, ia_valid_lifetime = valid, ia_status = None\<rparr>"
proof -
  let ?o = "push_option OPT6_IA_ADDR (octets6 addr @ be32 preferred @ be32 valid)"
  let ?d = "ia_data iaid t1 t2 addr preferred valid"
  have o: "parse_options6 ?o = [(OPT6_IA_ADDR, octets6 addr @ be32 preferred @ be32 valid)]"
    using parse_push_option [of "octets6 addr @ be32 preferred @ be32 valid" OPT6_IA_ADDR "[]"] by simp
  have "from_be32_at ?d 0 = iaid" "from_be32_at ?d 4 = t1" "from_be32_at ?d 8 = t2"
    using from_be32_at_be32 [of "[]" iaid] from_be32_at_be32 [of "be32 iaid" t1]
      from_be32_at_be32 [of "be32 iaid @ be32 t1" t2]
    by (simp_all add: ia_data_def)
  moreover have "drop 12 ?d = ?o" "\<not> length ?d < 12" by (simp_all add: ia_data_def)
  moreover have "from_be32_at (octets6 addr @ be32 preferred @ be32 valid) 16 = preferred"
    "from_be32_at (octets6 addr @ be32 preferred @ be32 valid) 20 = valid"
    using from_be32_at_be32 [of "octets6 addr" preferred "be32 valid"]
      from_be32_at_be32 [of "octets6 addr @ be32 preferred" valid "[]"] by simp_all
  ultimately show ?thesis by (simp add: parse_ia_na_def o ia_suboption_def)
qed

lemma check_message6:
  assumes "length xid = 3" "\<forall>(c, d) \<in> set opts. length d < 65536"
  shows "check_reply xid (message6 t xid opts) = Inr (t, opts)"
  using assms parse_options6_push [OF assms(2)] by (simp add: check_reply_def message6_def)

definition granted_lease ::
    "bytes \<Rightarrow> u32 \<Rightarrow> u32 \<Rightarrow> u32 \<Rightarrow> Ipv6Addr \<Rightarrow> u32 \<Rightarrow> u32 \<Rightarrow> Ipv6Addr list \<Rightarrow> string list list \<Rightarrow> u64 \<Rightarrow> Lease6" where
  "granted_lease sid iaid t1 t2 addr preferred valid dns names now =
     \<lparr>l6_address = addr, l6_prefixlen = 128, l6_iaid = iaid, l6_server_id = sid, l6_dns_servers = dns,
      l6_domain_search = map (str_join ''.'') names, l6_preferred_lifetime_secs = preferred,
      l6_valid_lifetime_secs = valid, l6_t1_secs = t1, l6_t2_secs = t2, l6_obtained_at_unix = now\<rparr>"

definition server_fits :: "bytes \<Rightarrow> Ipv6Addr list \<Rightarrow> string list list \<Rightarrow> bool" where
  "server_fits sid dns names =
     (length sid + 16 * length dns + length (concat (map encode_name names)) \<le> 1400 \<and>
      list_all (\<lambda>n. n \<noteq> [] \<and> list_all label_ok n) names)"

lemma server_options_read:
  assumes "server_fits sid dns names"
  shows "find_option OPT6_SERVERID (server_options sid ia dns names) = Some sid"
    "find_ia (server_options sid ia dns names) = parse_ia_na ia"
    "dns_of_options (server_options sid ia dns names) = dns"
    "domains_of_options (server_options sid ia dns names) = map (str_join ''.'') names"
proof -
  have "chunks_exact 16 (concat (map octets6 dns)) = map octets6 dns"
    by (rule chunks_exact_concat_map) auto
  then show "dns_of_options (server_options sid ia dns names) = dns"
    by (simp add: dns_of_options_def server_options_def comp_def)
  show "domains_of_options (server_options sid ia dns names) = map (str_join ''.'') names"
    using assms decode_domains_names [of names]
    by (simp add: domains_of_options_def server_options_def server_fits_def list_all_iff)
qed (simp_all add: find_option_def find_ia_def server_options_def)

lemma length_concat_octets [simp]: "length (concat (map octets6 dns)) = 16 * length dns"
  by (induction dns) simp_all

lemma length_push_option [simp]: "length (push_option c d) = 4 + length d"
  by (simp add: push_option_def)

lemma length_ia_data [simp]: "length (ia_data iaid t1 t2 addr p v) = 40"
  by (simp add: ia_data_def)

lemma recv_server_message:
  assumes fits: "server_fits sid dns names" and x: "length xid = 3"
    and opts: "opts = server_options sid (ia_data iaid t1 t2 addr p v) dns names"
  shows "recv_matching (script6 nanos pid unix) xid (message6 t xid opts # q, sent) = Ret (Inr (t, opts), (q, sent))"
proof -
  have "length (message6 t xid opts) \<le> 1500" "\<forall>(c, d) \<in> set opts. length d < 65536"
    using fits x by (auto simp: opts server_options_def message6_def encode_options6_def server_fits_def)
  with check_message6 [OF x this(2), of t] show ?thesis
    by (simp add: recv_matching_def recv_datagram_def script6_def bind_io_def lift_io_def)
qed

lemma script6_simps:
  "ask (d6_now (script6 nanos pid unix)) w = Ret (Inr 0, w)"
  "ask (d6_unix (script6 nanos pid unix)) w = Ret (Inr unix, w)"
  "random_xid3 (script6 nanos pid unix) w = Ret (Inr (xid3_of nanos pid), w)"
  "bind_client_socket (script6 nanos pid unix) timeout w = Ret (Inr (), w)"
  "send_multicast (script6 nanos pid unix) b scope (q, sent) = Ret (Inr (), (q, sent @ [b]))"
  by (simp_all add: script6_def ask_def random_xid3_def bind_client_socket_def send_multicast_def
      sys_call_def io_defs)

lemma lease_from_server:
  assumes "server_fits sid dns names"
  shows "lease_from_reply (script6 nanos pid unix)
      \<lparr>ia_iaid = iaid, ia_t1 = t1, ia_t2 = t2, ia_address = Some addr, ia_preferred_lifetime = p,
       ia_valid_lifetime = v, ia_status = None\<rparr> sid (server_options sid ia dns names) w =
    Ret (Inr (granted_lease sid iaid t1 t2 addr p v dns names unix), w)"
  using server_options_read(3,4) [OF assms]
  by (simp add: lease_from_reply_def lease_of_ia_def require_success_def script6_simps
      granted_lease_def lift_io_def)


lemma home_lease_fits: "server_fits [0, 3, 0, 1, 2, 2, 2, 2, 2, 2] [1] [[''home'', ''arpa'']]"
  by (simp add: server_fits_def encode_name_def encode_label_def label_ok_def is_ascii_def)


text \<open>A refusal is an error: when the reply carries a status other than success in its address option,
  no lease results, whatever else the message holds.\<close>

theorem declined_lease_fails:
  assumes "ia_status ia = Some (st, msg)" and "st \<noteq> 0"
  shows "lease_from_reply E ia sid options w =
    Ret (Inl (Dhcp (''DHCPv6 server declined (status '' @ show_nat (unat st) @ ''): '' @ msg)), w)"
  using assms by (simp add: lease_from_reply_def lease_of_ia_def require_success_def fail_io_def)

definition no_addrs :: IaNa where
  "no_addrs = \<lparr>ia_iaid = 3, ia_t1 = 0, ia_t2 = 0, ia_address = Some 7, ia_preferred_lifetime = 10,
     ia_valid_lifetime = 20, ia_status = Some (2, ''full'')\<rparr>"

theorem declined_lease_fails_witness:
  "\<exists>e. lease_from_reply (script6 5 9 1000) no_addrs [1] [] ([], []) = Ret (Inl e, ([], []))"
  using declined_lease_fails [of no_addrs 2 "''full''" "script6 5 9 1000" "[1]" "[]" "([], [])"]
  by (simp add: no_addrs_def)

text \<open>Renewal times: renewing comes before rebinding and rebinding before expiry whenever the server's
  suggestions are in that order or absent; suggestions are not checked, so a server can make the
  renewal time fall after the lease has expired.\<close>

theorem lease6_times:
  "((l6_t1_secs l = 0 \<and> l6_t2_secs l = 0) \<or>
    (0 < l6_t1_secs l \<and> l6_t1_secs l \<le> l6_t2_secs l \<and> l6_t2_secs l \<le> l6_valid_lifetime_secs l) \<longrightarrow>
      renewal_time6 l \<le> rebind_time6 l \<and> rebind_time6 l \<le> expires_at6 l) \<and>
   expires_at6 (l\<lparr>l6_t1_secs := 2, l6_valid_lifetime_secs := 1\<rparr>) <
      renewal_time6 (l\<lparr>l6_t1_secs := 2, l6_valid_lifetime_secs := 1\<rparr>)"
  by (auto simp: renewal_time6_def rebind_time6_def expires_at6_def obtained_at6_def word_le_nat_alt
      word_less_nat_alt)

theorem lease6_times_witness:
  "renewal_time6 (granted_lease [1] 3 300 480 7 600 600 [] [] 1000) \<le>
   rebind_time6 (granted_lease [1] 3 300 480 7 600 600 [] [] 1000)"
  using lease6_times [of "granted_lease [1] 3 300 480 7 600 600 [] [] 1000"]
  by (simp add: granted_lease_def)

end
