(* ===== verification/File_Sys.thy ===== *)
theory File_Sys
  imports Rust_Io Rust_Str Hash_Map Dhcp_Client Dhcp6
begin

text \<open>
  Files under the data directory: the calls of \<open>std::fs\<close> the daemon makes as operations of a file
  system given by the caller, paths as strings, the atomic JSON and TOML files of
  \<^verbatim>\<open>persistence/database.rs\<close> and \<^verbatim>\<open>config/parser.rs\<close>, and the stored leases of
  \<^verbatim>\<open>persistence/state.rs\<close>. The text formats themselves belong to serde, so encoder and decoder are
  parameters.
\<close>

section \<open>The file system\<close>

datatype io_kind = NotFoundKind | OtherKind

type_synonym io_error = "io_kind \<times> string"

record 'w Fs =
  fs_read_to_string :: "string \<Rightarrow> 'w \<Rightarrow> (io_error + string) \<times> 'w"
  fs_write :: "string \<Rightarrow> string \<Rightarrow> 'w \<Rightarrow> (io_error + unit) \<times> 'w"
  fs_rename :: "string \<Rightarrow> string \<Rightarrow> 'w \<Rightarrow> (io_error + unit) \<times> 'w"
  fs_create_dir_all :: "string \<Rightarrow> 'w \<Rightarrow> (io_error + unit) \<times> 'w"
  fs_remove_file :: "string \<Rightarrow> 'w \<Rightarrow> (io_error + unit) \<times> 'w"
  fs_read_dir :: "string \<Rightarrow> 'w \<Rightarrow> (io_error + string list) \<times> 'w"
  fs_mtime :: "string \<Rightarrow> 'w \<Rightarrow> nat option \<times> 'w"
  fs_read :: "string \<Rightarrow> 'w \<Rightarrow> (io_error + string) \<times> 'w"

definition fs_call :: "('w \<Rightarrow> (io_error + 'a) \<times> 'w) \<Rightarrow> ('w, 'a) io" where
  "fs_call f = (\<lambda>w. case f w of
      (Inl (k, e), w') \<Rightarrow> Ret (Inl (Io e), w')
    | (Inr x, w') \<Rightarrow> Ret (Inr x, w'))"

text \<open>The arms \<open>Err(e) if e.kind() == NotFound\<close> of a \<open>match\<close> on such a call: a missing file gives
  the value \<open>missing\<close>.\<close>

definition unless_missing :: "'a result \<Rightarrow> ('w \<Rightarrow> (io_error + 'a) \<times> 'w) \<Rightarrow> ('w, 'a) io" where
  "unless_missing missing f = (\<lambda>w. case f w of
      (Inl (NotFoundKind, e), w') \<Rightarrow> Ret (missing, w')
    | (Inl (OtherKind, e), w') \<Rightarrow> Ret (Inl (Io e), w')
    | (Inr x, w') \<Rightarrow> Ret (Inr x, w'))"

section \<open>Paths\<close>

text \<open>Paths as the daemon writes them: components separated by single slashes, no trailing slash.\<close>

definition path_join :: "string \<Rightarrow> string \<Rightarrow> string" where
  "path_join d n =
     (if starts_with n ''/'' then n
      else if d = [] \<or> ends_with d ''/'' then d @ n
      else d @ ''/'' @ n)"

definition path_parent :: "string \<Rightarrow> string option" where
  "path_parent p =
     (case rsplit_once (CHR ''/'') p of
        Some (d, n) \<Rightarrow> if d = [] then (if n = [] then None else Some ''/'') else Some d
      | None \<Rightarrow> if p = [] then None else Some [])"

text \<open>The directory part with its slash, and the last component.\<close>

definition path_split :: "string \<Rightarrow> string \<times> string" where
  "path_split p = (case rsplit_once (CHR ''/'') p of Some (d, n) \<Rightarrow> (d @ ''/'', n) | None \<Rightarrow> ([], p))"

text \<open>\<open>Path::file_stem\<close> and \<open>Path::extension\<close> of a component: a leading dot starts no extension.\<close>

definition file_stem :: "string \<Rightarrow> string" where
  "file_stem n = (case rsplit_once (CHR ''.'') n of Some (s, e) \<Rightarrow> if s = [] then n else s | None \<Rightarrow> n)"

definition file_ext :: "string \<Rightarrow> string option" where
  "file_ext n = (case rsplit_once (CHR ''.'') n of Some (s, e) \<Rightarrow> if s = [] then None else Some e | None \<Rightarrow> None)"

definition with_extension :: "string \<Rightarrow> string \<Rightarrow> string" where
  "with_extension p ext =
     (case path_split p of (d, n) \<Rightarrow> if n = [] then p else d @ file_stem n @ ''.'' @ ext)"

lemma rsplit_once_None: "rsplit_once c s = None \<longleftrightarrow> c \<notin> set s"
  using split_once_None [of c "rev s"] by (auto simp: rsplit_once_def split: option.splits)

lemma path_split_append: "path_split p = (d, n) \<Longrightarrow> p = d @ n \<and> CHR ''/'' \<notin> set n"
  by (auto simp: path_split_def rsplit_once_Some rsplit_once_None split: option.splits)

lemma file_stem_ext:
  "file_stem n = n \<or> (\<exists>e. n = file_stem n @ CHR ''.'' # e \<and> CHR ''.'' \<notin> set e)"
  by (auto simp: file_stem_def rsplit_once_Some split: option.splits)

text \<open>A replacement extension that itself has a dot never gives the path back: the temporary file of
  an atomic write is another file.\<close>

lemma with_extension_neq:
  assumes "CHR ''.'' \<in> set ext" and "snd (path_split p) \<noteq> []"
  shows "with_extension p ext \<noteq> p"
proof
  assume eq: "with_extension p ext = p"
  obtain d n where dn: "path_split p = (d, n)" by (cases "path_split p")
  then have p: "p = d @ n" and n: "n \<noteq> []" using path_split_append assms(2) by auto
  from eq n have "d @ file_stem n @ CHR ''.'' # ext = d @ n"
    unfolding with_extension_def dn by (simp add: p)
  then have n': "n = file_stem n @ CHR ''.'' # ext" by simp
  from file_stem_ext [of n] show False
  proof
    assume "file_stem n = n"
    with n' show False by (metis append_self_conv list.distinct(1))
  next
    assume "\<exists>e. n = file_stem n @ CHR ''.'' # e \<and> CHR ''.'' \<notin> set e"
    then obtain e where "n = file_stem n @ CHR ''.'' # e" "CHR ''.'' \<notin> set e" by blast
    with n' have "ext = e" by (metis list.inject same_append_eq)
    with assms(1) \<open>CHR ''.'' \<notin> set e\<close> show False by simp
  qed
qed

lemma path_split_join:
  assumes "CHR ''/'' \<notin> set n" "d \<noteq> []" "\<not> ends_with d ''/''" "n \<noteq> []"
  shows "path_split (path_join d n) = (d @ ''/'', n)"
proof -
  have j: "path_join d n = d @ CHR ''/'' # n"
    using assms by (auto simp: path_join_def starts_with_iff)
  have "rsplit_once (CHR ''/'') (d @ CHR ''/'' # n) = Some (d, n)"
    by (simp add: rsplit_once_Some assms(1))
  then show ?thesis unfolding j path_split_def by simp
qed

section \<open>Atomic files, \<^verbatim>\<open>persistence/database.rs\<close> and \<^verbatim>\<open>config/parser.rs\<close>\<close>

text \<open>What serde provides for a type: its text, and the value read from a text.\<close>

record 'a Codec =
  enc :: "'a \<Rightarrow> string + string"
  dec :: "string \<Rightarrow> string + 'a"

definition serde :: "(string \<Rightarrow> NetworkError) \<Rightarrow> string + 'a \<Rightarrow> ('w, 'a) io" where
  "serde mk r = lift_io (map_err mk r)"

definition create_parent :: "'w Fs \<Rightarrow> string \<Rightarrow> ('w, unit) io" where
  "create_parent F p =
     (case path_parent p of None \<Rightarrow> return_io () | Some d \<Rightarrow> fs_call (fs_create_dir_all F d))"

definition write_rename :: "'w Fs \<Rightarrow> string \<Rightarrow> string \<Rightarrow> string \<Rightarrow> ('w, unit) io" where
  "write_rename F tmp p text =
     then_io (fs_call (fs_write F tmp text)) (fs_call (fs_rename F tmp p))"

definition read_optional ::
    "(string \<Rightarrow> NetworkError) \<Rightarrow> 'w Fs \<Rightarrow> 'a Codec \<Rightarrow> string \<Rightarrow> ('w, 'a option) io" where
  "read_optional mk F C p =
     bind_io (unless_missing (Inr None) (\<lambda>w. map_prod (map_sum id Some) id (fs_read_to_string F p w)))
       (\<lambda>r. case r of
          None \<Rightarrow> return_io None
        | Some text \<Rightarrow> bind_io (serde mk (dec C text)) (\<lambda>v. return_io (Some v)))"

definition read_json :: "'w Fs \<Rightarrow> 'a Codec \<Rightarrow> string \<Rightarrow> ('w, 'a option) io" where
  "read_json F C p = read_optional Parse F C p"

definition write_json :: "'w Fs \<Rightarrow> 'a Codec \<Rightarrow> string \<Rightarrow> 'a \<Rightarrow> ('w, unit) io" where
  "write_json F C p v =
     then_io (create_parent F p)
    (bind_io (serde Parse (enc C v)) (\<lambda>text.
       write_rename F (with_extension p ''json.tmp'') p text))"

definition db_remove :: "'w Fs \<Rightarrow> string \<Rightarrow> ('w, unit) io" where
  "db_remove F p = unless_missing (Inr ()) (fs_remove_file F p)"

definition has_extension :: "string \<Rightarrow> string \<Rightarrow> bool" where
  "has_extension ext p = (file_ext (snd (path_split p)) = Some ext)"

definition list_dir :: "'w Fs \<Rightarrow> string \<Rightarrow> string \<Rightarrow> ('w, string list) io" where
  "list_dir F dir ext =
     bind_io (unless_missing (Inr []) (fs_read_dir F dir)) (\<lambda>entries.
       return_io (filter (has_extension ext) entries))"

definition parse_optional :: "'w Fs \<Rightarrow> 'a Codec \<Rightarrow> string \<Rightarrow> ('w, 'a option) io" where
  "parse_optional F C p = read_optional Config F C p"

definition write_atomic :: "'w Fs \<Rightarrow> 'a Codec \<Rightarrow> string \<Rightarrow> 'a \<Rightarrow> ('w, unit) io" where
  "write_atomic F C p v =
     bind_io (serde Config (enc C v)) (\<lambda>text.
     then_io (create_parent F p)
       (write_rename F (with_extension p ''toml.tmp'') p text))"

lemma returns_fs [simp]:
  "returns_io (fs_call f)" "returns_io (unless_missing m g)" "returns_io (serde mk r)"
  by (auto simp: returns_io_def fs_call_def unless_missing_def serde_def lift_io_def
      split: prod.splits sum.splits io_kind.splits)

lemma write_json_returns: "returns_io (write_json F C p v)"
  unfolding write_json_def create_parent_def write_rename_def
  by (intro returns_bind returns_then) (auto split: option.split)

lemma read_json_returns: "returns_io (read_json F C p)"
  unfolding read_json_def read_optional_def
  by (intro returns_bind) (auto split: option.split intro!: returns_bind)

section \<open>Stored state, \<^verbatim>\<open>persistence/state.rs\<close>\<close>

text \<open>The data directory is set once: the first \<open>init\<close> wins.\<close>

definition init_data_dir :: "string \<Rightarrow> string option \<Rightarrow> string option" where
  "init_data_dir dir cell = (case cell of None \<Rightarrow> Some dir | Some d \<Rightarrow> Some d)"

definition base_dir :: "string option \<Rightarrow> string" where
  "base_dir cell = (case cell of Some d \<Rightarrow> d | None \<Rightarrow> ''/var/lib/mitos-network'')"

definition lease_path :: "string \<Rightarrow> string \<Rightarrow> string" where
  "lease_path base ifname = path_join (path_join base ''leases'') (ifname @ ''.json'')"

definition lease6_path :: "string \<Rightarrow> string \<Rightarrow> string" where
  "lease6_path base ifname = path_join (path_join base ''leases'') (ifname @ ''.v6.json'')"

definition save_lease :: "'w Fs \<Rightarrow> Lease Codec \<Rightarrow> string \<Rightarrow> string \<Rightarrow> Lease \<Rightarrow> ('w, unit) io" where
  "save_lease F C base ifname lease = write_json F C (lease_path base ifname) lease"

definition load_lease :: "'w Fs \<Rightarrow> Lease Codec \<Rightarrow> string \<Rightarrow> string \<Rightarrow> ('w, Lease option) io" where
  "load_lease F C base ifname = read_json F C (lease_path base ifname)"

definition clear_lease :: "'w Fs \<Rightarrow> string \<Rightarrow> string \<Rightarrow> ('w, unit) io" where
  "clear_lease F base ifname = db_remove F (lease_path base ifname)"

definition save_lease6 :: "'w Fs \<Rightarrow> Lease6 Codec \<Rightarrow> string \<Rightarrow> string \<Rightarrow> Lease6 \<Rightarrow> ('w, unit) io" where
  "save_lease6 F C base ifname lease = write_json F C (lease6_path base ifname) lease"

definition load_lease6 :: "'w Fs \<Rightarrow> Lease6 Codec \<Rightarrow> string \<Rightarrow> string \<Rightarrow> ('w, Lease6 option) io" where
  "load_lease6 F C base ifname = read_json F C (lease6_path base ifname)"

definition clear_lease6 :: "'w Fs \<Rightarrow> string \<Rightarrow> string \<Rightarrow> ('w, unit) io" where
  "clear_lease6 F base ifname = db_remove F (lease6_path base ifname)"

definition proxy_config_path :: "string \<Rightarrow> string" where
  "proxy_config_path base = path_join base ''proxy.json''"

section \<open>A disk\<close>

text \<open>
  A file system with faults: files with their modification times, a clock that advances with every
  write, and a list of faults, one per call. A faulty call fails; a faulty write leaves any text in
  its file, since a write that fails, or a machine that stops, can leave a file cut short. With no
  faults left the calls succeed.
\<close>

record Disk =
  dk_files :: "(string \<times> (string \<times> nat)) list"
  dk_clock :: nat
  dk_faults :: "string option list"

definition content :: "Disk \<Rightarrow> string \<Rightarrow> string option" where
  "content d p = map_option fst (hm_get (dk_files d) p)"

definition disk_put :: "string \<Rightarrow> string \<Rightarrow> Disk \<Rightarrow> Disk" where
  "disk_put p t d = d\<lparr>dk_files := hm_insert p (t, dk_clock d) (dk_files d), dk_clock := Suc (dk_clock d)\<rparr>"

definition disk_call :: "(string \<Rightarrow> Disk \<Rightarrow> Disk) \<Rightarrow> (Disk \<Rightarrow> (io_error + 'a) \<times> Disk) \<Rightarrow> Disk \<Rightarrow> (io_error + 'a) \<times> Disk" where
  "disk_call torn f d =
     (case dk_faults d of
        [] \<Rightarrow> f d
      | None # fs \<Rightarrow> f (d\<lparr>dk_faults := fs\<rparr>)
      | Some t # fs \<Rightarrow> (Inl (OtherKind, ''I/O error''), torn t (d\<lparr>dk_faults := fs\<rparr>)))"

definition missing_file :: io_error where
  "missing_file = (NotFoundKind, ''No such file or directory'')"

definition disk_fs :: "Disk Fs" where
  "disk_fs = \<lparr>
     fs_read_to_string = (\<lambda>p. disk_call (\<lambda>_ d. d) (\<lambda>d.
       (case content d p of None \<Rightarrow> Inl missing_file | Some t \<Rightarrow> Inr t, d))),
     fs_write = (\<lambda>p t. disk_call (disk_put p) (\<lambda>d. (Inr (), disk_put p t d))),
     fs_rename = (\<lambda>p q. disk_call (\<lambda>_ d. d) (\<lambda>d.
       case hm_get (dk_files d) p of
         None \<Rightarrow> (Inl missing_file, d)
       | Some v \<Rightarrow> (Inr (), d\<lparr>dk_files := hm_insert q v (hm_remove p (dk_files d))\<rparr>))),
     fs_create_dir_all = (\<lambda>p. disk_call (\<lambda>_ d. d) (\<lambda>d. (Inr (), d))),
     fs_remove_file = (\<lambda>p. disk_call (\<lambda>_ d. d) (\<lambda>d.
       case hm_get (dk_files d) p of
         None \<Rightarrow> (Inl missing_file, d)
       | Some v \<Rightarrow> (Inr (), d\<lparr>dk_files := hm_remove p (dk_files d)\<rparr>))),
     fs_read_dir = (\<lambda>p. disk_call (\<lambda>_ d. d) (\<lambda>d.
       (Inr (filter (\<lambda>q. path_parent q = Some p) (map fst (dk_files d))), d))),
     fs_mtime = (\<lambda>p d. (map_option snd (hm_get (dk_files d) p), d)),
     fs_read = (\<lambda>p. disk_call (\<lambda>_ d. d) (\<lambda>d.
       (case content d p of None \<Rightarrow> Inl missing_file | Some t \<Rightarrow> Inr t, d)))\<rparr>"

lemma content_simps [simp]:
  "content (disk_put p t d) q = (if q = p then Some t else content d q)"
  "content (d\<lparr>dk_faults := fs\<rparr>) q = content d q"
  "content (d\<lparr>dk_files := hm_remove p (dk_files d)\<rparr>) q = (if q = p then None else content d q)"
  by (simp_all add: content_def disk_put_def hm.get_ins hm.get_del)

text \<open>\<open>d'\<close> is \<open>d\<close> up to the files in \<open>ps\<close>.\<close>

definition same_but :: "string set \<Rightarrow> Disk \<Rightarrow> Disk \<Rightarrow> bool" where
  "same_but ps d d' = (\<forall>q. q \<notin> ps \<longrightarrow> content d' q = content d q)"

text \<open>What an atomic write of \<open>text\<close> to \<open>p\<close> may do: on success \<open>p\<close> holds the whole text, on failure
  what it held before, and no file but \<open>p\<close> and the temporary one is touched.\<close>

definition atomic_step :: "string \<Rightarrow> string \<Rightarrow> string option \<Rightarrow> unit result \<Rightarrow> Disk \<Rightarrow> Disk \<Rightarrow> bool" where
  "atomic_step tmp p text r d d' =
     (same_but {tmp, p} d d' \<and> content d' p = (case r of Inr _ \<Rightarrow> text | Inl _ \<Rightarrow> content d p))"

lemma write_disk:
  "\<exists>r d'. fs_call (fs_write disk_fs p t) d = Ret (r, d') \<and> same_but {p} d d' \<and>
     (r = Inr () \<longrightarrow> content d' p = Some t)"
  by (auto simp: fs_call_def disk_fs_def disk_call_def same_but_def split: list.splits option.splits)

lemma rename_disk:
  "\<exists>r d'. fs_call (fs_rename disk_fs p q) d = Ret (r, d') \<and>
     (if r = Inr () then (\<forall>x. content d' x = (if x = q then content d p else if x = p then None else content d x))
      else \<forall>x. content d' x = content d x)"
  by (auto simp: fs_call_def disk_fs_def disk_call_def content_def hm.get_ins hm.get_del missing_file_def
      split: list.splits option.splits)

lemma mkdir_disk:
  "\<exists>r d'. fs_call (fs_create_dir_all disk_fs p) d = Ret (r, d') \<and> content d' = content d"
  by (auto simp: fs_call_def disk_fs_def disk_call_def split: list.splits option.splits)

lemma create_parent_disk: "\<exists>r d'. create_parent disk_fs p d = Ret (r, d') \<and> content d' = content d"
  using mkdir_disk by (auto simp: create_parent_def return_io_def split: option.splits)

lemma write_rename_disk:
  assumes "tmp \<noteq> p"
  shows "\<exists>r d'. write_rename disk_fs tmp p text d = Ret (r, d') \<and> atomic_step tmp p (Some text) r d d'"
proof -
  obtain r1 d1 where w: "fs_call (fs_write disk_fs tmp text) d = Ret (r1, d1)" "same_but {tmp} d d1"
      "r1 = Inr () \<longrightarrow> content d1 tmp = Some text"
    using write_disk by blast
  obtain r2 d2 where n: "fs_call (fs_rename disk_fs tmp p) d1 = Ret (r2, d2)"
      "if r2 = Inr () then (\<forall>x. content d2 x = (if x = p then content d1 tmp else if x = tmp then None else content d1 x))
       else \<forall>x. content d2 x = content d1 x"
    using rename_disk by blast
  show ?thesis
    using assms w n
    by (cases r1; cases r2)
       (auto simp: write_rename_def then_io_def atomic_step_def same_but_def)
qed

lemma atomic_step_mono:
  "atomic_step tmp p text r d1 d' \<Longrightarrow> content d1 = content d \<Longrightarrow> atomic_step tmp p text r d d'"
  by (cases r) (simp_all add: atomic_step_def same_but_def)

lemma tmp_neq:
  "snd (path_split p) \<noteq> [] \<Longrightarrow> with_extension p ''json.tmp'' \<noteq> p"
  "snd (path_split p) \<noteq> [] \<Longrightarrow> with_extension p ''toml.tmp'' \<noteq> p"
  by (rule with_extension_neq; simp)+

lemma parent_then_write:
  assumes "tmp \<noteq> p"
  shows "\<exists>r d'. then_io (create_parent disk_fs p) (write_rename disk_fs tmp p text) d = Ret (r, d') \<and>
    atomic_step tmp p (Some text) r d d'"
proof -
  obtain r1 d1 where c: "create_parent disk_fs p d = Ret (r1, d1)" "content d1 = content d"
    using create_parent_disk by blast
  obtain r2 d2 where n: "write_rename disk_fs tmp p text d1 = Ret (r2, d2)"
      "atomic_step tmp p (Some text) r2 d1 d2"
    using write_rename_disk [OF assms] by blast
  show ?thesis
  proof (cases r1)
    case (Inl e)
    then show ?thesis using c by (simp add: then_io_def atomic_step_def same_but_def)
  next
    case (Inr u)
    then show ?thesis using c n atomic_step_mono [OF n(2) c(2)] by (simp add: then_io_def)
  qed
qed

lemma lift_io_unit: "bind_io (lift_io (Inr x)) f = f x"
  and lift_io_fail: "bind_io (lift_io (Inl e)) f = fail_io e"
  by (simp_all add: lift_io_def fail_io_def bind_io_def fun_eq_iff)

text \<open>C26. Atomic files: whatever calls fail, and whatever a failing write leaves behind, writing a JSON or
  TOML file ends with the whole new text in the file when it reports success and with the old content
  when it reports an error, and changes no other file but its temporary one.\<close>

theorem atomic_files:
  assumes "snd (path_split p) \<noteq> []"
  shows "(\<exists>r d'. write_json disk_fs C p v d = Ret (r, d') \<and>
      atomic_step (with_extension p ''json.tmp'') p (ok (enc C v)) r d d') \<and>
    (\<exists>r d'. write_atomic disk_fs C p v d = Ret (r, d') \<and>
      atomic_step (with_extension p ''toml.tmp'') p (ok (enc C v)) r d d')"
proof (cases "enc C v")
  case (Inl e)
  obtain r1 d1 where c: "create_parent disk_fs p d = Ret (r1, d1)" "content d1 = content d"
    using create_parent_disk by blast
  with Inl show ?thesis
    by (cases r1) (simp_all add: write_json_def write_atomic_def serde_def lift_io_fail then_io_def
        fail_io_def atomic_step_def same_but_def)
next
  case (Inr t)
  then show ?thesis
    using parent_then_write [OF tmp_neq(1) [OF assms], of t d]
      parent_then_write [OF tmp_neq(2) [OF assms], of t d]
    by (simp add: write_json_def write_atomic_def serde_def lift_io_unit)
qed

definition text_codec :: "string Codec" where
  "text_codec = \<lparr>enc = Inr, dec = Inr\<rparr>"

definition worn_disk :: Disk where
  "worn_disk = \<lparr>dk_files = [(''/d/a.json'', (''old'', 1))], dk_clock = 2, dk_faults = [None, Some ''ne'']\<rparr>"

theorem atomic_files_witness:
  "\<exists>r d'. write_json disk_fs text_codec ''/d/a.json'' ''new'' worn_disk = Ret (r, d') \<and>
     atomic_step (with_extension ''/d/a.json'' ''json.tmp'') ''/d/a.json'' (Some ''new'') r worn_disk d'"
proof -
  have "snd (path_split ''/d/a.json'') \<noteq> []" by code_simp
  from atomic_files [OF this, of text_codec "''new''" worn_disk] show ?thesis
    by (simp add: text_codec_def)
qed

section \<open>Stored leases\<close>

text \<open>On a disk without faults.\<close>

lemma healthy_calls:
  assumes "dk_faults d = []"
  shows "create_parent disk_fs p d = Ret (Inr (), d)"
    and "fs_call (fs_write disk_fs p t) d = Ret (Inr (), disk_put p t d)"
    and "content d p = Some t \<Longrightarrow> dec C t = Inr v \<Longrightarrow> read_optional mk disk_fs C p d = Ret (Inr (Some v), d)"
    and "content d p = None \<Longrightarrow> read_optional mk disk_fs C p d = Ret (Inr None, d)"
  using assms
  by (auto simp: create_parent_def fs_call_def disk_fs_def disk_call_def return_io_def read_optional_def
      unless_missing_def serde_def lift_io_unit missing_file_def split: option.splits)

lemma healthy_write_rename:
  assumes "dk_faults d = []" "tmp \<noteq> p"
  shows "\<exists>d'. write_rename disk_fs tmp p t d = Ret (Inr (), d') \<and> dk_faults d' = [] \<and>
    content d' = (content d)(tmp := None, p \<mapsto> t)"
proof -
  let ?d = "disk_put tmp t d"
  let ?e = "?d\<lparr>dk_files := hm_insert p (t, dk_clock d) (hm_remove tmp (dk_files ?d))\<rparr>"
  have "fs_call (fs_rename disk_fs tmp p) ?d = Ret (Inr (), ?e)"
    using assms by (simp add: fs_call_def disk_fs_def disk_call_def disk_put_def hm.get_ins)
  moreover have "content ?e = (content d)(tmp := None, p \<mapsto> t)"
    by (auto simp: content_def hm.get_ins hm.get_del disk_put_def fun_eq_iff)
  ultimately show ?thesis
    using assms healthy_calls(2) [OF assms(1), of tmp t]
    by (simp add: write_rename_def then_io_def) (simp add: disk_put_def)
qed

lemma healthy_write_json:
  assumes "dk_faults d = []" "enc C v = Inr t" "snd (path_split p) \<noteq> []"
  shows "\<exists>d'. write_json disk_fs C p v d = Ret (Inr (), d') \<and> dk_faults d' = [] \<and>
    content d' = (content d)(with_extension p ''json.tmp'' := None, p \<mapsto> t)"
  using healthy_write_rename [OF assms(1) tmp_neq(1) [OF assms(3)], of t] assms
  by (simp add: write_json_def serde_def lift_io_unit then_io_def healthy_calls)

definition plain_dir :: "string \<Rightarrow> bool" where
  "plain_dir d = (d \<noteq> [] \<and> \<not> ends_with d ''/'')"

lemma leases_dir:
  assumes "plain_dir base"
  shows "path_join base ''leases'' = base @ ''/leases''" and "plain_dir (base @ ''/leases'')"
  using assms by (auto simp: plain_dir_def path_join_def starts_with_iff ends_with_iff)

lemma lease_file:
  assumes "plain_dir base" "CHR ''/'' \<notin> set n" "n \<noteq> []"
  shows "path_join (path_join base ''leases'') n = base @ ''/leases/'' @ n"
    and "path_split (base @ ''/leases/'' @ n) = (base @ ''/leases/'', n)"
proof -
  show j: "path_join (path_join base ''leases'') n = base @ ''/leases/'' @ n"
    using assms leases_dir [OF assms(1)]
    by (auto simp: path_join_def plain_dir_def starts_with_iff)
  show "path_split (base @ ''/leases/'' @ n) = (base @ ''/leases/'', n)"
    using path_split_join [of n "base @ ''/leases''"] assms leases_dir [OF assms(1)]
      j [unfolded leases_dir(1) [OF assms(1)]]
    by (simp add: plain_dir_def)
qed

lemma lease_paths:
  assumes "plain_dir base" "CHR ''/'' \<notin> set i"
  shows "lease_path base i = base @ ''/leases/'' @ i @ ''.json''"
    and "lease6_path base i = base @ ''/leases/'' @ i @ ''.v6.json''"
    and "snd (path_split (lease_path base i)) \<noteq> []"
  using lease_file [OF assms(1), of "i @ ''.json''"] lease_file [OF assms(1), of "i @ ''.v6.json''"] assms
  by (simp_all add: lease_path_def lease6_path_def)

lemma ends_json_tmp: "with_extension p ''json.tmp'' \<noteq> q @ ''.json''" if "snd (path_split p) \<noteq> []"
proof -
  obtain d n where "path_split p = (d, n)" by (cases "path_split p")
  with that have "with_extension p ''json.tmp'' = (d @ file_stem n @ ''.json.tm'') @ ''p''"
    by (simp add: with_extension_def)
  then have "last (with_extension p ''json.tmp'') = CHR ''p''" by (simp del: append_assoc)
  moreover have "last (q @ ''.json'') = CHR ''n''" by simp
  ultimately show ?thesis by force
qed

text \<open>Stored leases: on a working disk a saved IPv4 lease is loaded back, and saving it changes the
  stored lease of no other interface, IPv4 or IPv6, with one exception: the IPv4 lease of an
  interface named \<open>n.v6\<close> overwrites the IPv6 lease of interface \<open>n\<close>.\<close>

theorem lease_files:
  assumes d: "dk_faults d = []" and base: "plain_dir base" and i: "CHR ''/'' \<notin> set i"
    and j: "CHR ''/'' \<notin> set j"
    and codec: "enc C l = Inr t" "dec C t = Inr l"
  shows "\<exists>d'. save_lease disk_fs C base i l d = Ret (Inr (), d') \<and>
    load_lease disk_fs C base i d' = Ret (Inr (Some l), d') \<and>
    content d' (lease_path base j) = (if i = j then Some t else content d (lease_path base j)) \<and>
    content d' (lease6_path base j) = (if i = j @ ''.v6'' then Some t else content d (lease6_path base j))"
proof -
  note paths = lease_paths [OF base i] lease_paths [OF base j]
  obtain d' where d': "save_lease disk_fs C base i l d = Ret (Inr (), d')" "dk_faults d' = []"
    "content d' = (content d)(with_extension (lease_path base i) ''json.tmp'' := None, lease_path base i \<mapsto> t)"
    using healthy_write_json [OF d codec(1) paths(3)] by (auto simp: save_lease_def)
  have tmp: "with_extension (lease_path base i) ''json.tmp'' \<noteq> lease_path base j"
    "with_extension (lease_path base i) ''json.tmp'' \<noteq> lease6_path base j"
    using ends_json_tmp [OF paths(3), of "base @ ''/leases/'' @ j"]
      ends_json_tmp [OF paths(3), of "base @ ''/leases/'' @ j @ ''.v6''"]
    by (simp_all add: paths)
  have same: "lease_path base i = lease_path base j \<longleftrightarrow> i = j"
    "lease_path base i = lease6_path base j \<longleftrightarrow> i = j @ ''.v6''"
    by (simp_all add: paths)
  have "load_lease disk_fs C base i d' = Ret (Inr (Some l), d')"
    unfolding load_lease_def read_json_def
    by (rule healthy_calls(3) [OF d'(2) _ codec(2)]) (simp add: d'(3))
  moreover have "content d' (lease_path base j) = (if i = j then Some t else content d (lease_path base j))"
    unfolding d'(3) fun_upd_apply same(1) [symmetric] using tmp(1) by (simp add: eq_commute)
  moreover have "content d' (lease6_path base j) =
      (if i = j @ ''.v6'' then Some t else content d (lease6_path base j))"
    unfolding d'(3) fun_upd_apply same(2) [symmetric] using tmp(2) by (simp add: eq_commute)
  ultimately show ?thesis using d'(1) by blast
qed

definition home_lease :: Lease where
  "home_lease = \<lparr>l_address = 7, l_prefixlen = 24, l_gateway = Some 1, l_dns_servers = [1], l_domain = None,
     l_server_id = 1, l_lease_time_secs = 3600, l_obtained_at_unix = 1000\<rparr>"

text \<open>An encoding good enough for one lease.\<close>

definition home_codec :: "Lease Codec" where
  "home_codec = \<lparr>enc = (\<lambda>_. Inr ''{}''), dec = (\<lambda>_. Inr home_lease)\<rparr>"

definition empty_disk :: Disk where
  "empty_disk = \<lparr>dk_files = [], dk_clock = 0, dk_faults = []\<rparr>"

theorem lease_files_witness:
  "\<exists>d'. load_lease disk_fs home_codec ''/d'' ''eth0.v6'' d' = Ret (Inr (Some home_lease), d') \<and>
     content d' (lease6_path ''/d'' ''eth0'') = Some ''{}''"
proof -
  have "plain_dir ''/d''" by code_simp
  from lease_files [of empty_disk, OF _ this, of "''eth0.v6''" "''eth0''" home_codec home_lease "''{}''"]
  show ?thesis by (auto simp: empty_disk_def home_codec_def)
qed

end
