(* ===== verification/Config.thy ===== *)
theory Config
  imports Ip_Addr File_Sys
begin

text \<open>
  The daemon's own configuration, \<^verbatim>\<open>config/\<close>: its sections, the compiled-in defaults, the check a
  loaded configuration has to pass and the loader that overlays the four files on the defaults.
\<close>

section \<open>Sections, \<^verbatim>\<open>config/mod.rs\<close>\<close>

record GeneralConfig =
  manage_all_devices :: bool
  unmanaged_devices :: "string list"
  ipv6_enabled :: bool
  connectivity_check_url :: string
  connectivity_check_interval_secs :: u64
  socket_path :: string
  data_dir :: string
  log_level :: string

datatype AddressMethod = MethodAuto | MethodManual | MethodDisabled | MethodLinkLocal

datatype Ipv6Method = Slaac | SlaacWithStatelessDhcp | Dhcp6Method

record InterfaceConfig =
  ifc_method :: AddressMethod
  ifc_addresses :: "string list"
  ifc_gateway :: "string option"
  ifc_dns :: "string list"
  ifc_mtu :: "u32 option"
  ifc_autoconnect :: bool

definition default_interface :: InterfaceConfig where
  "default_interface = \<lparr>ifc_method = MethodAuto, ifc_addresses = [], ifc_gateway = None, ifc_dns = [],
     ifc_mtu = None, ifc_autoconnect = True\<rparr>"

datatype DnsMode = DnsAuto | DnsManual | DnsNone

record DnsConfig =
  dns_mode :: DnsMode
  dns_servers :: "string list"
  dns_search_domains :: "string list"
  dns_resolv_conf_path :: string

record WirelessConfig =
  wl_enabled :: bool
  wl_country_code :: "string option"
  wl_scan_interval_secs :: u64
  wl_powersave :: bool
  wl_ctrl_interface_dir :: string

record NetworkConfig =
  cfg_general :: GeneralConfig
  cfg_interfaces :: "(string \<times> InterfaceConfig) list"
  cfg_dns :: DnsConfig
  cfg_wireless :: WirelessConfig

section \<open>Defaults, \<^verbatim>\<open>config/defaults.rs\<close>\<close>

abbreviation (input) DEFAULT_SOCKET_PATH :: string where "DEFAULT_SOCKET_PATH \<equiv> ''/run/mitos-network/network.sock''"
abbreviation (input) DEFAULT_DATA_DIR :: string where "DEFAULT_DATA_DIR \<equiv> ''/var/lib/mitos-network''"
abbreviation (input) DEFAULT_RESOLV_CONF :: string where "DEFAULT_RESOLV_CONF \<equiv> ''/etc/resolv.conf''"
abbreviation (input) DEFAULT_CONNECTIVITY_URL :: string where
  "DEFAULT_CONNECTIVITY_URL \<equiv> ''http://connectivity.mitos-os.org/check''"

definition default_config :: NetworkConfig where
  "default_config = \<lparr>
     cfg_general = \<lparr>manage_all_devices = True, unmanaged_devices = [''lo''], ipv6_enabled = True,
       connectivity_check_url = DEFAULT_CONNECTIVITY_URL, connectivity_check_interval_secs = 30,
       socket_path = DEFAULT_SOCKET_PATH, data_dir = DEFAULT_DATA_DIR, log_level = ''info''\<rparr>,
     cfg_interfaces = [],
     cfg_dns = \<lparr>dns_mode = DnsAuto, dns_servers = [''1.1.1.1'', ''9.9.9.9''], dns_search_domains = [],
       dns_resolv_conf_path = DEFAULT_RESOLV_CONF\<rparr>,
     cfg_wireless = \<lparr>wl_enabled = True, wl_country_code = None, wl_scan_interval_secs = 60,
       wl_powersave = False, wl_ctrl_interface_dir = ''/run/mitos-network/wpa''\<rparr>\<rparr>"

section \<open>Validation, \<^verbatim>\<open>config/validation.rs\<close>\<close>

definition validate_server :: "string \<Rightarrow> unit result" where
  "validate_server server =
     (if parse_ip server = None then Inl (Config (''invalid DNS server address: '' @ server)) else Inr ())"

definition validate_interface :: "string \<times> InterfaceConfig \<Rightarrow> unit result" where
  "validate_interface = (\<lambda>(name, iface).
     if name = [] then Inl (Config ''interface name must not be empty'')
     else if ifc_method iface = MethodManual \<and> ifc_addresses iface = [] then
       Inl (Config (''interface '' @ quoted name @ '' uses method = manual but lists no addresses''))
     else try_all (\<lambda>addr.
       map_err (\<lambda>_. Config (''interface '' @ quoted name @ '': invalid address ''
           @ quoted addr))
         (bind_r (parse_cidr addr) (\<lambda>_. Inr ()))) (ifc_addresses iface))"

definition validate :: "NetworkConfig \<Rightarrow> unit result" where
  "validate cfg =
     (if socket_path (cfg_general cfg) = [] then Inl (Config ''general.socket-path must not be empty'')
      else bind_r (try_all validate_server (dns_servers (cfg_dns cfg))) (\<lambda>_.
           bind_r (try_all validate_interface (cfg_interfaces cfg)) (\<lambda>_.
             if wl_scan_interval_secs (cfg_wireless cfg) = 0
             then Inl (Config ''wireless.scan-interval-secs must be > 0'')
             else Inr ())))"

section \<open>The loader, \<^verbatim>\<open>config/loader.rs\<close>\<close>

text \<open>The TOML readers of the four files, each of which nests its section under a top-level table.\<close>

record ConfigCodecs =
  toml_general :: "GeneralConfig Codec"
  toml_interfaces :: "(string \<times> InterfaceConfig) list Codec"
  toml_dns :: "DnsConfig Codec"
  toml_wireless :: "WirelessConfig Codec"

definition load_config :: "'w Fs \<Rightarrow> ConfigCodecs \<Rightarrow> string \<Rightarrow> ('w, NetworkConfig) io" where
  "load_config F T dir =
     (let cfg0 = default_config in
      bind_io (parse_optional F (toml_general T) (path_join dir ''network.toml'')) (\<lambda>general.
      let cfg1 = (case general of Some g \<Rightarrow> cfg0\<lparr>cfg_general := g\<rparr> | None \<Rightarrow> cfg0) in
      bind_io (parse_optional F (toml_interfaces T) (path_join dir ''interfaces.toml'')) (\<lambda>interfaces.
      let cfg2 = (case interfaces of Some i \<Rightarrow> cfg1\<lparr>cfg_interfaces := i\<rparr> | None \<Rightarrow> cfg1) in
      bind_io (parse_optional F (toml_dns T) (path_join dir ''dns.toml'')) (\<lambda>dns.
      let cfg3 = (case dns of Some s \<Rightarrow> cfg2\<lparr>cfg_dns := s\<rparr> | None \<Rightarrow> cfg2) in
      bind_io (parse_optional F (toml_wireless T) (path_join dir ''wireless.toml'')) (\<lambda>wireless.
      let cfg4 = (case wireless of Some s \<Rightarrow> cfg3\<lparr>cfg_wireless := s\<rparr> | None \<Rightarrow> cfg3) in
      bind_io (lift_io (validate cfg4)) (\<lambda>_. return_io cfg4))))))"

section \<open>What a loaded configuration guarantees\<close>

definition interface_valid :: "string \<times> InterfaceConfig \<Rightarrow> bool" where
  "interface_valid = (\<lambda>(name, iface). name \<noteq> [] \<and>
     (ifc_method iface = MethodManual \<longrightarrow> ifc_addresses iface \<noteq> []) \<and>
     list_all (\<lambda>a. is_ok (parse_cidr a)) (ifc_addresses iface))"

definition config_valid :: "NetworkConfig \<Rightarrow> bool" where
  "config_valid cfg = (socket_path (cfg_general cfg) \<noteq> [] \<and>
     list_all (\<lambda>s. parse_ip s \<noteq> None) (dns_servers (cfg_dns cfg)) \<and>
     list_all interface_valid (cfg_interfaces cfg) \<and>
     wl_scan_interval_secs (cfg_wireless cfg) \<noteq> 0)"

lemma validate_server_iff: "validate_server s = Inr () \<longleftrightarrow> parse_ip s \<noteq> None"
  by (simp add: validate_server_def)

lemma is_ok_iff: "is_ok r \<longleftrightarrow> (\<exists>x. r = Inr x)"
  by (cases r) simp_all

lemma validate_interface_iff: "validate_interface i = Inr () \<longleftrightarrow> interface_valid i"
  by (cases i) (auto simp: validate_interface_def interface_valid_def try_all_Inr list_all_iff is_ok_iff
      bind_r_eq_Inr)

lemma validate_iff: "validate cfg = Inr () \<longleftrightarrow> config_valid cfg"
  by (auto simp: validate_def config_valid_def bind_r_eq_Inr try_all_Inr list_all_iff
      validate_server_iff validate_interface_iff)

lemma default_servers_parse: "parse_ip ''1.1.1.1'' = Some (V4 0x01010101)" "parse_ip ''9.9.9.9'' = Some (V4 0x09090909)"
  by code_simp+

lemma default_config_valid: "config_valid default_config"
  by (simp add: config_valid_def default_config_def default_servers_parse)

definition config_files :: "string \<Rightarrow> string list" where
  "config_files dir = map (path_join dir) [''network.toml'', ''interfaces.toml'', ''dns.toml'', ''wireless.toml'']"

lemma load_config_validates:
  "load_config F T dir w = Ret (Inr cfg, w') \<Longrightarrow> validate cfg = Inr ()"
  by (auto simp: load_config_def Let_def bind_io_Ok lift_io_def)

lemma load_config_first_boot:
  assumes "dk_faults d = []" "\<forall>p \<in> set (config_files dir). content d p = None"
  shows "load_config disk_fs T dir d = Ret (Inr default_config, d)"
proof -
  have "validate default_config = Inr ()" by (simp add: validate_iff default_config_valid)
  then show ?thesis
    using assms by (simp add: load_config_def parse_optional_def healthy_calls config_files_def lift_io_unit
        return_io_def Let_def)
qed


definition no_toml :: ConfigCodecs where
  "no_toml = \<lparr>toml_general = \<lparr>enc = (\<lambda>_. Inl []), dec = (\<lambda>_. Inl [])\<rparr>,
     toml_interfaces = \<lparr>enc = (\<lambda>_. Inl []), dec = (\<lambda>_. Inl [])\<rparr>,
     toml_dns = \<lparr>enc = (\<lambda>_. Inl []), dec = (\<lambda>_. Inl [])\<rparr>,
     toml_wireless = \<lparr>enc = (\<lambda>_. Inl []), dec = (\<lambda>_. Inl [])\<rparr>\<rparr>"


end
