(* ===== verification/Profiles.thy ===== *)
theory Profiles
  imports Openvpn Config "HOL-Library.Product_Lexorder"
begin

text \<open>
  Connection profiles: their shape (\<^verbatim>\<open>connection/profile.rs\<close>), their files
  (\<^verbatim>\<open>persistence/profiles.rs\<close>) and the choice of one for a device (\<^verbatim>\<open>connection/autoconnect.rs\<close>).
  The TOML format is a codec given by the caller.
\<close>

section \<open>Profiles, \<^verbatim>\<open>connection/profile.rs\<close>\<close>

record WifiSettings =
  ws_ssid :: string
  ws_security :: SecurityType
  ws_hidden :: bool
  ws_has_secret :: bool
  ws_eap_identity :: "string option"
  ws_eap_ca_cert_path :: "string option"
  ws_eap_client_cert_path :: "string option"
  ws_eap_private_key_path :: "string option"
  ws_has_eap_secret :: bool
  ws_eap_method :: "string option"
  ws_eap_phase2 :: "string option"

record VpnSettings =
  vp_kind :: VpnKind
  vp_config :: string

record ConnectionProfile =
  cp_id :: string
  cp_name :: string
  cp_device_type :: DeviceType
  cp_interface_name :: "string option"
  cp_method :: AddressMethod
  cp_ipv6_method :: Ipv6Method
  cp_addresses :: "string list"
  cp_gateway :: "string option"
  cp_dns :: "string list"
  cp_autoconnect :: bool
  cp_autoconnect_priority :: i32
  cp_metered :: bool
  cp_wifi :: "WifiSettings option"
  cp_vpn :: "VpnSettings option"

definition new_wifi :: "string \<Rightarrow> string \<Rightarrow> SecurityType \<Rightarrow> ConnectionProfile" where
  "new_wifi ident ssid security =
     \<lparr>cp_id = ident, cp_name = ssid, cp_device_type = WiFi, cp_interface_name = None,
      cp_method = MethodAuto, cp_ipv6_method = Slaac, cp_addresses = [], cp_gateway = None, cp_dns = [],
      cp_autoconnect = True, cp_autoconnect_priority = 0, cp_metered = False,
      cp_wifi = Some \<lparr>ws_ssid = ssid, ws_security = security, ws_hidden = False,
        ws_has_secret = (security \<noteq> Open), ws_eap_identity = None, ws_eap_ca_cert_path = None,
        ws_eap_client_cert_path = None, ws_eap_private_key_path = None, ws_has_eap_secret = False,
        ws_eap_method = None, ws_eap_phase2 = None\<rparr>,
      cp_vpn = None\<rparr>"

section \<open>Profile files, \<^verbatim>\<open>persistence/profiles.rs\<close>\<close>

definition profile_path :: "string \<Rightarrow> string \<Rightarrow> string result" where
  "profile_path dir ident =
     bind_r (validate_identifier ident) (\<lambda>_. Inr (path_join dir (ident @ ''.toml'')))"

text \<open>A file that cannot be read ends the load; one that is no profile is skipped.\<close>

definition load_file :: "'w Fs \<Rightarrow> ConnectionProfile Codec \<Rightarrow> string \<Rightarrow> ('w, ConnectionProfile option) io" where
  "load_file F C p =
     bind_io (fs_call (fs_read_to_string F p)) (\<lambda>text. return_io (ok (dec C text)))"

definition load_all :: "'w Fs \<Rightarrow> ConnectionProfile Codec \<Rightarrow> string \<Rightarrow> ('w, ConnectionProfile list) io" where
  "load_all F C dir =
     then_io (fs_call (fs_create_dir_all F dir))
    (bind_io (list_dir F dir ''toml'') (\<lambda>paths.
     bind_io (map_io paths (load_file F C)) (\<lambda>found.
       return_io (List.map_filter id found))))"

definition save_profile :: "'w Fs \<Rightarrow> ConnectionProfile Codec \<Rightarrow> string \<Rightarrow> ConnectionProfile \<Rightarrow> ('w, unit) io" where
  "save_profile F C dir profile =
     bind_io (lift_io (profile_path dir (cp_id profile))) (\<lambda>path. write_atomic F C path profile)"

definition delete_profile :: "'w Fs \<Rightarrow> string \<Rightarrow> string \<Rightarrow> ('w, unit) io" where
  "delete_profile F dir ident =
     bind_io (lift_io (profile_path dir ident)) (\<lambda>path.
       unless_missing (Inl (NotFound (''connection profile '' @ quoted ident))) (fs_remove_file F path))"

text \<open>Rewriting the file with its own bytes, ignoring every failure.\<close>

definition filetime_set_mtime_best_effort :: "'w Fs \<Rightarrow> string \<Rightarrow> ('w, unit) io" where
  "filetime_set_mtime_best_effort F p =
     bind_io (try_io (fs_call (fs_read F p))) (\<lambda>r.
       case r of
         Inr contents \<Rightarrow> ignore_io (fs_call (fs_write F p contents))
       | Inl _ \<Rightarrow> return_io ())"

definition touch :: "'w Fs \<Rightarrow> string \<Rightarrow> string \<Rightarrow> ('w, unit) io" where
  "touch F dir ident =
     bind_io (lift_io (profile_path dir ident)) (filetime_set_mtime_best_effort F)"

definition profile_mtime :: "'w Fs \<Rightarrow> string \<Rightarrow> ConnectionProfile \<Rightarrow> ('w, nat \<times> ConnectionProfile) io" where
  "profile_mtime F dir p =
     (case profile_path dir (cp_id p) of
        Inl _ \<Rightarrow> return_io (0, p)
      | Inr path \<Rightarrow> bind_io (ask (fs_mtime F path)) (\<lambda>t.
          return_io (case t of Some n \<Rightarrow> n | None \<Rightarrow> 0, p)))"

definition newest_first :: "(nat \<times> ConnectionProfile) list \<Rightarrow> ConnectionProfile list" where
  "newest_first with_mtime = map snd (sort_key (\<lambda>(t, _). - int t) with_mtime)"

definition recently_used_first ::
    "'w Fs \<Rightarrow> string \<Rightarrow> ConnectionProfile list \<Rightarrow> ('w, ConnectionProfile list) io" where
  "recently_used_first F dir profiles =
     bind_io (map_io profiles (profile_mtime F dir)) (\<lambda>with_mtime. return_io (newest_first with_mtime))"

section \<open>The choice for a device, \<^verbatim>\<open>connection/autoconnect.rs\<close>\<close>

definition matches :: "ConnectionProfile \<Rightarrow> NetworkDevice \<Rightarrow> bool" where
  "matches profile device =
     (if cp_device_type profile \<noteq> nd_device_type device then False
      else (case cp_interface_name profile of Some name \<Rightarrow> name = nd_name device | None \<Rightarrow> True))"

definition pinned :: "NetworkDevice \<Rightarrow> ConnectionProfile \<Rightarrow> bool" where
  "pinned device p = (cp_interface_name p = Some (nd_name device))"

definition first_of :: "'a list \<Rightarrow> 'a option" where
  "first_of xs = (case xs of x # _ \<Rightarrow> Some x | [] \<Rightarrow> None)"

text \<open>\<open>sort_by\<close> with pinned profiles before others and higher priorities before lower ones, stable.\<close>

definition select_rank :: "NetworkDevice \<Rightarrow> ConnectionProfile \<Rightarrow> bool \<times> int" where
  "select_rank device p = (\<not> pinned device p, - sint (cp_autoconnect_priority p))"

definition select :: "NetworkDevice \<Rightarrow> ConnectionProfile list \<Rightarrow> ConnectionProfile option" where
  "select device candidates =
     first_of (sort_key (select_rank device) (filter (\<lambda>p. cp_autoconnect p \<and> matches p device) candidates))"

definition select_wifi ::
    "NetworkDevice \<Rightarrow> ConnectionProfile list \<Rightarrow> string list \<Rightarrow> ConnectionProfile option" where
  "select_wifi device candidates visible_ssids =
     (if nd_device_type device \<noteq> WiFi then None
      else first_of (sort_key (\<lambda>p. - sint (cp_autoconnect_priority p))
        (filter (\<lambda>p. cp_autoconnect p \<and>
            (case cp_wifi p of Some w \<Rightarrow> list_ex (\<lambda>s. s = ws_ssid w) visible_ssids | None \<Rightarrow> False))
          candidates)))"

section \<open>The choice is the best one\<close>

lemma sort_key_Nil_iff: "sort_key f xs = [] \<longleftrightarrow> xs = []"
  by (metis length_0_conv length_sort)

lemma first_of_insort:
  "first_of (insort_key f y zs) =
     Some (case first_of zs of None \<Rightarrow> y | Some z \<Rightarrow> if f y \<le> f z then y else z)"
  by (cases zs) (auto simp: first_of_def)

lemma first_of_sort_None: "first_of (sort_key f xs) = None \<longleftrightarrow> xs = []"
  by (auto simp: first_of_def sort_key_Nil_iff split: list.split)

text \<open>The head of a stable sort is the first of the least elements.\<close>

lemma first_of_sort:
  assumes "first_of (sort_key f xs) = Some x"
  shows "\<exists>us vs. xs = us @ x # vs \<and> (\<forall>u \<in> set us. f x < f u) \<and> (\<forall>v \<in> set vs. f x \<le> f v)"
  using assms
proof (induction xs arbitrary: x)
  case (Cons y ys)
  show ?case
  proof (cases "first_of (sort_key f ys)")
    case None
    with Cons.prems have "x = y" "ys = []" by (simp_all add: first_of_insort first_of_sort_None)
    then show ?thesis by (metis append_Nil empty_iff list.set(1))
  next
    case (Some z)
    obtain us vs where z: "ys = us @ z # vs" "\<forall>u \<in> set us. f z < f u" "\<forall>v \<in> set vs. f z \<le> f v"
      using Cons.IH [OF Some] by blast
    show ?thesis
    proof (cases "f y \<le> f z")
      case True
      with Cons.prems Some have "x = y" by (simp add: first_of_insort)
      moreover from True z have "\<forall>v \<in> set ys. f y \<le> f v" by fastforce
      ultimately show ?thesis by (metis append_Nil empty_iff list.set(1))
    next
      case False
      with Cons.prems Some have x: "x = z" by (simp add: first_of_insort)
      from False z have "\<forall>u \<in> set (y # us). f z < f u" by auto
      with x z show ?thesis by (metis append_Cons)
    qed
  qed
qed (simp add: first_of_def)

definition eligible :: "NetworkDevice \<Rightarrow> ConnectionProfile \<Rightarrow> bool" where
  "eligible device p = (cp_autoconnect p \<and> matches p device)"

lemma select_eligible: "select device cs = first_of (sort_key (select_rank device) (filter (eligible device) cs))"
  unfolding select_def eligible_def ..

lemma map_snd_split:
  assumes "map snd zs = us @ p # vs"
  shows "\<exists>us' t vs'. zs = us' @ (t, p) # vs' \<and> us = map snd us' \<and> vs = map snd vs'"
  using assms by (auto simp: map_eq_append_conv map_eq_Cons_conv) blast

lemma eligible_newest:
  "filter (eligible device) (newest_first wm) =
     map snd (sort_key (\<lambda>(t, _). - int t) (filter (\<lambda>(_, p). eligible device p) wm))"
proof -
  have "filter (eligible device) (map snd xs) = map snd (filter (\<lambda>(_, p). eligible device p) xs)"
    for xs :: "(nat \<times> ConnectionProfile) list"
    by (induction xs) auto
  then show ?thesis by (simp add: newest_first_def filter_sort)
qed

text \<open>C18. Autoconnect picks, among the eligible profiles and in this order, one pinned to the device, one of the
  highest priority and the most recently used one, and picks none only when none is eligible.\<close>

theorem autoconnect_choice:
  "(select device (newest_first wm) = None \<longleftrightarrow> (\<forall>(t, p) \<in> set wm. \<not> eligible device p)) \<and>
   (\<forall>p. select device (newest_first wm) = Some p \<longrightarrow>
      (\<exists>t. (t, p) \<in> set wm \<and> eligible device p \<and>
        (\<forall>(u, q) \<in> set wm. eligible device q \<longrightarrow>
           (pinned device q \<longrightarrow> pinned device p) \<and>
           (pinned device p = pinned device q \<longrightarrow>
              sint (cp_autoconnect_priority q) \<le> sint (cp_autoconnect_priority p) \<and>
              (cp_autoconnect_priority q = cp_autoconnect_priority p \<longrightarrow> u \<le> t)))))"
proof (intro conjI allI impI)
  show "select device (newest_first wm) = None \<longleftrightarrow> (\<forall>(t, p) \<in> set wm. \<not> eligible device p)"
    by (auto simp: select_eligible first_of_sort_None eligible_newest sort_key_Nil_iff filter_empty_conv)
next
  fix p
  let ?S = "sort_key (\<lambda>(t, _). - int t) (filter (\<lambda>(_, p). eligible device p) wm)"
  assume "select device (newest_first wm) = Some p"
  then obtain us vs where
    s: "map snd ?S = us @ p # vs" and u: "\<forall>q \<in> set us. select_rank device p < select_rank device q"
    and v: "\<forall>q \<in> set vs. select_rank device p \<le> select_rank device q"
    unfolding select_eligible eligible_newest by (blast dest: first_of_sort)
  obtain us' t vs' where S: "?S = us' @ (t, p) # vs'" "us = map snd us'" "vs = map snd vs'"
    using map_snd_split [OF s] by blast
  have mem: "x \<in> set ?S \<longleftrightarrow> x \<in> set wm \<and> eligible device (snd x)" for x by auto
  have tp: "(t, p) \<in> set wm" "eligible device p" using mem [of "(t, p)"] S(1) by auto
  have "sorted (map (\<lambda>(t, _). - int t) ?S)" by (rule sorted_sort_key)
  then have later: "\<forall>(x, q) \<in> set vs'. x \<le> t" unfolding S(1) by (auto simp: sorted_append)
  have best: "select_rank device p < select_rank device q \<or>
      select_rank device p \<le> select_rank device q \<and> x \<le> t"
    if q: "(x, q) \<in> set wm" "eligible device q" for x q
  proof -
    from q have "(x, q) \<in> set (us' @ (t, p) # vs')" using mem [of "(x, q)"] S(1) by simp
    with u v later S show ?thesis by force
  qed
  show "\<exists>t. (t, p) \<in> set wm \<and> eligible device p \<and>
        (\<forall>(u, q) \<in> set wm. eligible device q \<longrightarrow>
           (pinned device q \<longrightarrow> pinned device p) \<and>
           (pinned device p = pinned device q \<longrightarrow>
              sint (cp_autoconnect_priority q) \<le> sint (cp_autoconnect_priority p) \<and>
              (cp_autoconnect_priority q = cp_autoconnect_priority p \<longrightarrow> u \<le> t)))"
  proof (intro exI [of _ t] conjI tp ballI)
    fix x
    assume x: "x \<in> set wm"
    obtain u q where [simp]: "x = (u, q)" by (cases x)
    from x best [of u q] show "case x of (u, q) \<Rightarrow> eligible device q \<longrightarrow>
           (pinned device q \<longrightarrow> pinned device p) \<and>
           (pinned device p = pinned device q \<longrightarrow>
              sint (cp_autoconnect_priority q) \<le> sint (cp_autoconnect_priority p) \<and>
              (cp_autoconnect_priority q = cp_autoconnect_priority p \<longrightarrow> u \<le> t))"
      by (auto simp: select_rank_def less_prod_def less_eq_prod_def)
  qed
qed

definition sample_device :: NetworkDevice where
  "sample_device = \<lparr>nd_name = ''eth0'', nd_index = 2, nd_device_type = Ethernet, nd_state = Disconnected,
     nd_mac_address = None, nd_mtu = 1500, nd_ipv4_addresses = [], nd_ipv6_addresses = [], nd_carrier = True,
     nd_driver = None, nd_active_connection = None\<rparr>"

definition sample_profile :: "string \<Rightarrow> string option \<Rightarrow> i32 \<Rightarrow> ConnectionProfile" where
  "sample_profile ident pin priority = (new_wifi ident ident Open)\<lparr>cp_device_type := Ethernet,
     cp_interface_name := pin, cp_autoconnect_priority := priority, cp_wifi := None\<rparr>"

theorem autoconnect_choice_witness:
  "let a = sample_profile ''a'' None 5; b = sample_profile ''b'' (Some ''eth0'') 0;
       c = sample_profile ''c'' (Some ''eth0'') 0; wm = [(9, a), (3, b), (7, c)]
   in \<exists>p. select sample_device (newest_first wm) = Some p \<and> cp_interface_name p = Some ''eth0''"
proof -
  let ?wm = "[(9, sample_profile ''a'' None 5), (3, sample_profile ''b'' (Some ''eth0'') 0),
       (7, sample_profile ''c'' (Some ''eth0'') 0)]"
  have e: "eligible sample_device (sample_profile ''b'' (Some ''eth0'') 0)"
    by (simp add: eligible_def matches_def sample_device_def sample_profile_def new_wifi_def)
  note best = autoconnect_choice [of sample_device ?wm]
  from best e obtain p where p: "select sample_device (newest_first ?wm) = Some p"
    by (cases "select sample_device (newest_first ?wm)") auto
  have "pinned sample_device (sample_profile ''b'' (Some ''eth0'') 0)"
    by (simp add: pinned_def sample_device_def sample_profile_def)
  with best p e have "pinned sample_device p" by auto
  with p show ?thesis by (auto simp: Let_def pinned_def sample_device_def)
qed

section \<open>Profile files\<close>

lemma identifier_chars:
  "validate_identifier s = Inr () \<Longrightarrow> s \<noteq> [] \<and> CHR ''/'' \<notin> set s"
  by (auto simp: validate_identifier_def identifier_char_def is_alnum_def is_alpha_def is_digit_def list_all_iff
      split: if_splits)

lemma profile_path_ok:
  assumes "plain_dir dir" "validate_identifier i = Inr ()"
  shows "profile_path dir i = Inr (dir @ ''/'' @ i @ ''.toml'')"
    and "path_split (dir @ ''/'' @ i @ ''.toml'') = (dir @ ''/'', i @ ''.toml'')"
proof -
  have n: "CHR ''/'' \<notin> set (i @ ''.toml'')" "i @ ''.toml'' \<noteq> []" using identifier_chars [OF assms(2)] by auto
  have j: "path_join dir (i @ ''.toml'') = dir @ ''/'' @ i @ ''.toml''"
    using assms(1) identifier_chars [OF assms(2)]
    by (cases i) (auto simp: path_join_def plain_dir_def starts_with_iff)
  then show "profile_path dir i = Inr (dir @ ''/'' @ i @ ''.toml'')"
    by (simp add: profile_path_def assms(2))
  show "path_split (dir @ ''/'' @ i @ ''.toml'') = (dir @ ''/'', i @ ''.toml'')"
    using path_split_join [OF n(1), of dir] assms(1) n(2) j by (simp add: plain_dir_def)
qed

lemma profile_path_listed:
  assumes "plain_dir dir" "validate_identifier i = Inr ()"
  shows "path_parent (dir @ ''/'' @ i @ ''.toml'') = Some dir"
    and "has_extension ''toml'' (dir @ ''/'' @ i @ ''.toml'')"
proof -
  have "CHR ''/'' \<notin> set (i @ ''.toml'')" using identifier_chars [OF assms(2)] by auto
  then have "rsplit_once (CHR ''/'') (dir @ ''/'' @ i @ ''.toml'') = Some (dir, i @ ''.toml'')"
    by (simp add: rsplit_once_Some)
  then show "path_parent (dir @ ''/'' @ i @ ''.toml'') = Some dir"
    using assms(1) by (simp add: path_parent_def plain_dir_def)
  have "rsplit_once (CHR ''.'') (i @ ''.toml'') = Some (i, ''toml'')"
    by (simp add: rsplit_once_Some)
  then show "has_extension ''toml'' (dir @ ''/'' @ i @ ''.toml'')"
    using identifier_chars [OF assms(2)] profile_path_ok(2) [OF assms] by (simp add: has_extension_def file_ext_def)
qed

lemma toml_tmp_other:
  assumes "snd (path_split p) \<noteq> []"
  shows "with_extension p ''toml.tmp'' \<noteq> q @ ''.toml''"
proof -
  obtain d n where "path_split p = (d, n)" by (cases "path_split p")
  with assms have "with_extension p ''toml.tmp'' = (d @ file_stem n @ ''.toml.tm'') @ ''p''"
    by (simp add: with_extension_def)
  then have "last (with_extension p ''toml.tmp'') = CHR ''p''" by (simp del: append_assoc)
  moreover have "last (q @ ''.toml'') = CHR ''l''" by simp
  ultimately show ?thesis by force
qed

text \<open>What a working disk has under a directory.\<close>

definition profile_at :: "ConnectionProfile Codec \<Rightarrow> Disk \<Rightarrow> string \<Rightarrow> ConnectionProfile option" where
  "profile_at C d p = Option.bind (content d p) (\<lambda>t. ok (dec C t))"

lemma load_files_healthy:
  assumes "dk_faults d = []" "\<forall>p \<in> set ps. content d p \<noteq> None"
  shows "map_io ps (load_file disk_fs C) d = Ret (Inr (map (profile_at C d) ps), d)"
  using assms(2)
proof (induction ps)
  case (Cons p ps)
  then obtain t where t: "content d p = Some t" by auto
  then have "load_file disk_fs C p d = Ret (Inr (profile_at C d p), d)"
    using assms(1) by (simp add: load_file_def fs_call_def disk_fs_def disk_call_def profile_at_def return_io_apply)
  with Cons show ?case by (simp add: return_io_apply)
qed (simp add: return_io_apply)

definition listed :: "Disk \<Rightarrow> string \<Rightarrow> string list" where
  "listed d dir = filter (has_extension ''toml'') (filter (\<lambda>q. path_parent q = Some dir) (map fst (dk_files d)))"

lemma content_listed: "content d p \<noteq> None \<longleftrightarrow> p \<in> set (map fst (dk_files d))"
  by (auto simp: content_def hm_get_def map_of_eq_None_iff)

lemma load_all_healthy:
  assumes "dk_faults d = []"
  shows "load_all disk_fs C dir d = Ret (Inr (List.map_filter (profile_at C d) (listed d dir)), d)"
proof -
  have "\<forall>p \<in> set (listed d dir). content d p \<noteq> None" unfolding content_listed by (simp add: listed_def)
  from load_files_healthy [OF assms this]
  have m: "map_io (listed d dir) (load_file disk_fs C) d = Ret (Inr (map (profile_at C d) (listed d dir)), d)" .
  have "List.map_filter id (map f xs) = List.map_filter f xs"
    for f :: "string \<Rightarrow> ConnectionProfile option" and xs by (induction xs) (auto simp: List.map_filter_simps split: option.split)
  moreover have "list_dir disk_fs dir ''toml'' d = Ret (Inr (listed d dir), d)"
    using assms by (simp add: list_dir_def unless_missing_def disk_fs_def disk_call_def return_io_apply listed_def)
  moreover have "fs_call (fs_create_dir_all disk_fs dir) d = Ret (Inr (), d)"
    using assms by (simp add: fs_call_def disk_fs_def disk_call_def)
  ultimately show ?thesis
    unfolding load_all_def then_io_def by (simp add: m return_io_apply)
qed

lemma healthy_write_atomic:
  assumes "dk_faults d = []" "enc C v = Inr t" "snd (path_split p) \<noteq> []"
  shows "\<exists>d'. write_atomic disk_fs C p v d = Ret (Inr (), d') \<and> dk_faults d' = [] \<and>
    content d' = (content d)(with_extension p ''toml.tmp'' := None, p \<mapsto> t)"
  using healthy_write_rename [OF assms(1) tmp_neq(2) [OF assms(3)], of t] assms
  by (simp add: write_atomic_def serde_def lift_io_unit then_io_def healthy_calls)

lemma healthy_delete:
  assumes "dk_faults d = []" "profile_path dir i = Inr p" "content d p \<noteq> None"
  shows "\<exists>d'. delete_profile disk_fs dir i d = Ret (Inr (), d') \<and> dk_faults d' = [] \<and>
    content d' = (content d)(p := None)"
proof -
  obtain v where v: "hm_get (dk_files d) p = Some v" using assms(3) by (auto simp: content_def)
  have "delete_profile disk_fs dir i d = Ret (Inr (), d\<lparr>dk_files := hm_remove p (dk_files d)\<rparr>)"
    using assms(1) v unfolding delete_profile_def assms(2) lift_io_unit
    by (simp add: unless_missing_def disk_fs_def disk_call_def)
  then show ?thesis using assms(1) by (auto simp: fun_eq_iff)
qed

text \<open>C19. Profile files: on a working disk a saved profile is among those a later load returns, saving it changes no
  other profile's file, and deleting it removes exactly its file.\<close>

theorem profile_store:
  assumes d: "dk_faults d = []" and dir: "plain_dir dir" and i: "validate_identifier (cp_id p) = Inr ()"
    and codec: "enc C p = Inr t" "dec C t = Inr p"
  shows "\<exists>d1 ps d2. save_profile disk_fs C dir p d = Ret (Inr (), d1) \<and>
    load_all disk_fs C dir d1 = Ret (Inr ps, d1) \<and> p \<in> set ps \<and>
    (\<forall>q. q \<noteq> cp_id p \<longrightarrow> profile_at C d1 (dir @ ''/'' @ q @ ''.toml'') = profile_at C d (dir @ ''/'' @ q @ ''.toml'')) \<and>
    delete_profile disk_fs dir (cp_id p) d1 = Ret (Inr (), d2) \<and>
    (\<forall>q. profile_at C d2 q = (if q = dir @ ''/'' @ cp_id p @ ''.toml'' then None else profile_at C d1 q))"
proof -
  let ?p = "dir @ ''/'' @ cp_id p @ ''.toml''"
  note path = profile_path_ok [OF dir i] profile_path_listed [OF dir i]
  have ne: "snd (path_split ?p) \<noteq> []" unfolding path(2) by simp
  obtain d1 where d1: "write_atomic disk_fs C ?p p d = Ret (Inr (), d1)" "dk_faults d1 = []"
    "content d1 = (content d)(with_extension ?p ''toml.tmp'' := None, ?p \<mapsto> t)"
    using healthy_write_atomic [OF d codec(1) ne] by blast
  have save: "save_profile disk_fs C dir p d = Ret (Inr (), d1)"
    unfolding save_profile_def path(1) lift_io_unit by (rule d1(1))
  have at: "profile_at C d1 ?p = Some p" by (simp add: profile_at_def d1(3) codec(2))
  have "?p \<in> set (listed d1 dir)" using content_listed [of d1 ?p] path(3,4) by (simp add: d1(3) listed_def)
  then have mem: "p \<in> set (List.map_filter (profile_at C d1) (listed d1 dir))"
    using at by (force simp: List.map_filter_def)
  have other: "profile_at C d1 (dir @ ''/'' @ q @ ''.toml'') = profile_at C d (dir @ ''/'' @ q @ ''.toml'')"
    if "q \<noteq> cp_id p" for q
    using toml_tmp_other [OF ne, of "dir @ ''/'' @ q"] that by (simp add: profile_at_def d1(3))
  obtain d2 where "delete_profile disk_fs dir (cp_id p) d1 = Ret (Inr (), d2)" "content d2 = (content d1)(?p := None)"
    using healthy_delete [OF d1(2) path(1)] by (auto simp: d1(3))
  with save load_all_healthy [OF d1(2)] mem other show ?thesis by (auto simp: profile_at_def)
qed

definition sole_codec :: "ConnectionProfile \<Rightarrow> ConnectionProfile Codec" where
  "sole_codec p = \<lparr>enc = (\<lambda>_. Inr ''profile''), dec = (\<lambda>t. if t = ''profile'' then Inr p else Inl ''not a profile'')\<rparr>"

definition empty_disk :: Disk where
  "empty_disk = \<lparr>dk_files = [], dk_clock = 1, dk_faults = []\<rparr>"

theorem profile_store_witness:
  "let p = sample_profile ''lan'' None 0; C = sole_codec p in
   \<exists>d1 ps. save_profile disk_fs C ''/data/profiles'' p empty_disk = Ret (Inr (), d1) \<and>
     load_all disk_fs C ''/data/profiles'' d1 = Ret (Inr ps, d1) \<and> p \<in> set ps"
proof -
  have "validate_identifier ''lan'' = Inr ()" by code_simp
  then have i: "validate_identifier (cp_id (sample_profile ''lan'' None 0)) = Inr ()"
    by (simp add: sample_profile_def new_wifi_def)
  have dir: "plain_dir ''/data/profiles''" by code_simp
  have d: "dk_faults empty_disk = []" by (simp add: empty_disk_def)
  show ?thesis
    using profile_store [OF d dir i, of "sole_codec (sample_profile ''lan'' None 0)" "''profile''"]
    by (auto simp: Let_def sole_codec_def)
qed

text \<open>Marking a profile as used is not atomic: it rewrites the file in place, so a write that fails, or a
  machine that stops meanwhile, can leave any text in the profile's file while the call reports
  success.\<close>

theorem touch_not_atomic:
  assumes "plain_dir dir" "validate_identifier i = Inr ()" "content d (dir @ ''/'' @ i @ ''.toml'') \<noteq> None"
    and "dk_faults d = [None, Some torn]"
  shows "\<exists>d'. touch disk_fs dir i d = Ret (Inr (), d') \<and> content d' (dir @ ''/'' @ i @ ''.toml'') = Some torn"
  using assms(3,4) unfolding touch_def profile_path_ok(1) [OF assms(1,2)] lift_io_unit
  by (auto simp: filetime_set_mtime_best_effort_def fs_call_def disk_fs_def disk_call_def ignore_io_def try_io_def
      bind_io_def return_io_def content_def disk_put_def hm.get_ins)

theorem touch_not_atomic_witness:
  "\<exists>d'. touch disk_fs ''/data'' ''lan''
      \<lparr>dk_files = [(''/data/lan.toml'', (''id = 1'', 0))], dk_clock = 1, dk_faults = [None, Some []]\<rparr> = Ret (Inr (), d') \<and>
     content d' ''/data/lan.toml'' = Some []"
proof -
  have "validate_identifier ''lan'' = Inr ()" "plain_dir ''/data''" by code_simp+
  then show ?thesis
    using touch_not_atomic [of "''/data''" "''lan''"
        "\<lparr>dk_files = [(''/data/lan.toml'', (''id = 1'', 0))], dk_clock = 1, dk_faults = [None, Some []]\<rparr>" "[]"]
    by (simp add: content_def hm_get_def)
qed

end
