(* ===== verification/Routing.thy ===== *)
theory Routing
  imports Device
begin

text \<open>
  Routing policy: \<^verbatim>\<open>src/src/routing/\<close>. Route metrics per device type, the default route of a newly
  activated connection, policy tables, and the lowest-metric default gateway.
\<close>

section \<open>Metrics, \<^verbatim>\<open>routing/metrics.rs\<close>\<close>

definition base_metric :: "DeviceType \<Rightarrow> u32" where
  "base_metric t =
     (case t of
        VpnType \<Rightarrow> 50
      | Ethernet \<Rightarrow> 100
      | Bridge \<Rightarrow> 150 | Bond \<Rightarrow> 150
      | WiFi \<Rightarrow> 600
      | Bluetooth \<Rightarrow> 700
      | Vlan \<Rightarrow> 400 | Tunnel \<Rightarrow> 400
      | Virtual \<Rightarrow> 900 | Loopback \<Rightarrow> 900 | UnknownType \<Rightarrow> 900)"

definition clamp :: "int \<Rightarrow> int \<Rightarrow> int \<Rightarrow> int" where
  "clamp lo hi x = (if x < lo then lo else if hi < x then hi else x)"

definition effective_metric :: "DeviceType \<Rightarrow> i32 \<Rightarrow> u32" where
  "effective_metric t autoconnect_priority =
     (let base = uint (base_metric t);
          adjusted = base - clamp (-40) 40 (sint autoconnect_priority)
      in word_of_int (clamp 1 65535 adjusted))"

section \<open>The default route, \<^verbatim>\<open>routing/default_route.rs\<close>\<close>

definition is_default_on :: "i32 \<Rightarrow> Route \<Rightarrow> bool" where
  "is_default_on oif r = (rt_destination r = None \<and> rt_oif_index r = oif)"

definition default_route_apply ::
    "'k Kernel \<Rightarrow> nat \<Rightarrow> i32 \<Rightarrow> IpAddr \<Rightarrow> u32 \<Rightarrow> RouteProtocol \<Rightarrow> ('k, unit) io" where
  "default_route_apply K fuel oif_index gateway metric protocol =
     bind_io (route_list K fuel (family_of_ip gateway)) (\<lambda>routes.
     then_io (for_io routes (\<lambda>existing.
                if is_default_on oif_index existing
                then ignore_io (route_del K fuel existing) else return_io ()))
       (set_default K fuel oif_index gateway metric protocol))"

definition default_route_remove :: "'k Kernel \<Rightarrow> nat \<Rightarrow> i32 \<Rightarrow> Family \<Rightarrow> ('k, unit) io" where
  "default_route_remove K fuel oif_index family =
     bind_io (route_list K fuel family) (\<lambda>routes.
       for_io routes (\<lambda>existing.
         if is_default_on oif_index existing then route_del K fuel existing else return_io ()))"

section \<open>Policy tables, \<^verbatim>\<open>routing/policy.rs\<close>\<close>

abbreviation (input) TABLE_RANGE_START :: u8 where "TABLE_RANGE_START \<equiv> 100"

definition table_for :: "u8 \<Rightarrow> u8" where
  "table_for connection_index =
     (if 255 < unat TABLE_RANGE_START + unat connection_index then 255
      else TABLE_RANGE_START + connection_index)"

definition policy_install :: "'k Kernel \<Rightarrow> nat \<Rightarrow> IpAddr \<Rightarrow> u8 \<Rightarrow> u32 \<Rightarrow> Route list \<Rightarrow> ('k, unit) io" where
  "policy_install K fuel src table priority routes =
     then_io (for_io routes (\<lambda>r. add_to_table K fuel r table))
       (add_source_rule K fuel src (if is_ipv4 src then 32 else 128) table priority)"

definition policy_remove :: "'k Kernel \<Rightarrow> nat \<Rightarrow> IpAddr \<Rightarrow> u8 \<Rightarrow> u32 \<Rightarrow> Route list \<Rightarrow> ('k, unit) io" where
  "policy_remove K fuel src table priority routes =
     then_io (ignore_io (del_source_rule K fuel src (if is_ipv4 src then 32 else 128) table priority))
       (for_io routes (\<lambda>r. ignore_io (route_del K fuel r)))"

section \<open>The merged view, \<^verbatim>\<open>routing/router.rs\<close>\<close>

text \<open>\<open>Iterator::min_by_key\<close>: the first of the elements with the least key.\<close>

fun min_by_key :: "('a \<Rightarrow> 'b :: linorder) \<Rightarrow> 'a list \<Rightarrow> 'a option" where
  "min_by_key f [] = None"
| "min_by_key f (x # xs) =
     (case min_by_key f xs of None \<Rightarrow> Some x | Some y \<Rightarrow> Some (if f x \<le> f y then x else y))"

definition metric_key :: "Route \<Rightarrow> u32" where
  "metric_key r = (case rt_metric r of Some m \<Rightarrow> m | None \<Rightarrow> 0xffffffff)"

definition default_gateway_of :: "Route list \<Rightarrow> (IpAddr \<times> i32) option" where
  "default_gateway_of routes =
     map_option (\<lambda>r. (the (rt_gateway r), rt_oif_index r))
       (min_by_key metric_key (filter (\<lambda>r. rt_destination r = None \<and> rt_gateway r \<noteq> None) routes))"

definition active_default_gateway :: "'k Kernel \<Rightarrow> nat \<Rightarrow> Family \<Rightarrow> ('k, (IpAddr \<times> i32) option) io" where
  "active_default_gateway K fuel family =
     bind_io (route_list K fuel family) (\<lambda>routes. return_io (default_gateway_of routes))"

section \<open>Metric tiers\<close>

lemma clamp_bounds: "lo \<le> hi \<Longrightarrow> lo \<le> clamp lo hi x \<and> clamp lo hi x \<le> hi"
  by (simp add: clamp_def)

lemma clamp_id: "lo \<le> x \<Longrightarrow> x \<le> hi \<Longrightarrow> clamp lo hi x = x"
  by (simp add: clamp_def)

lemma clamp_mono: "x \<le> y \<Longrightarrow> lo \<le> hi \<Longrightarrow> clamp lo hi x \<le> clamp lo hi y"
  by (simp add: clamp_def)

lemma base_metric_range: "50 \<le> uint (base_metric t) \<and> uint (base_metric t) \<le> 900"
  by (cases t) (simp_all add: base_metric_def)

lemma effective_metric_int:
  "uint (effective_metric t p) = uint (base_metric t) - clamp (-40) 40 (sint p)"
proof -
  have b: "50 \<le> uint (base_metric t)" "uint (base_metric t) \<le> 900" using base_metric_range by auto
  have c: "-40 \<le> clamp (-40) 40 (sint p)" "clamp (-40) 40 (sint p) \<le> 40"
    using clamp_bounds [of "-40" 40 "sint p"] by auto
  from b c have "clamp 1 65535 (uint (base_metric t) - clamp (-40) 40 (sint p))
      = uint (base_metric t) - clamp (-40) 40 (sint p)" by (intro clamp_id) auto
  moreover from b c have "take_bit 32 (uint (base_metric t) - clamp (-40) 40 (sint p))
      = uint (base_metric t) - clamp (-40) 40 (sint p)" by (simp add: take_bit_int_eq_self)
  ultimately have "uint (effective_metric t p) = uint (base_metric t) - clamp (-40) 40 (sint p)"
    by (simp only: effective_metric_def Let_def unsigned_of_int) (use b c in simp)
  then show ?thesis .
qed

text \<open>Route metrics: a metric stays within 40 of its device type's base, a higher priority never
  gives a higher metric, and two types keep their order under every pair of priorities exactly when
  their bases are more than 80 apart. Wi-Fi therefore always loses to Ethernet, while an Ethernet
  connection can be preferred to a VPN and a bridge to an Ethernet connection.\<close>

theorem metric_tiers:
  "\<bar>uint (effective_metric t p) - uint (base_metric t)\<bar> \<le> 40 \<and>
   (sint p \<le> sint q \<longrightarrow> effective_metric t q \<le> effective_metric t p) \<and>
   ((\<forall>p q. effective_metric t p < effective_metric u q) \<longleftrightarrow> uint (base_metric t) + 80 < uint (base_metric u)) \<and>
   effective_metric Ethernet p < effective_metric WiFi q \<and>
   \<not> (\<forall>p q. effective_metric VpnType p < effective_metric Ethernet q) \<and>
   \<not> (\<forall>p q. effective_metric Ethernet p < effective_metric Bridge q)"
proof -
  have tier: "(\<forall>p q. effective_metric t p < effective_metric u q) \<longleftrightarrow>
      uint (base_metric t) + 80 < uint (base_metric u)" (is "?L \<longleftrightarrow> ?R") for t u
  proof
    assume ?L
    then have "uint (effective_metric t (-40)) < uint (effective_metric u 40)" by (simp add: word_less_def)
    then show ?R by (simp add: effective_metric_int clamp_def)
  next
    assume R: ?R
    show ?L
    proof (intro allI)
      fix p q :: i32
      show "effective_metric t p < effective_metric u q"
        using R clamp_bounds [of "-40" 40 "sint p"] clamp_bounds [of "-40" 40 "sint q"]
        by (simp add: word_less_def effective_metric_int)
    qed
  qed
  have "effective_metric Ethernet p < effective_metric WiFi q"
    using tier [of Ethernet WiFi] by (simp add: base_metric_def)
  moreover have "\<not> (\<forall>p q. effective_metric VpnType p < effective_metric Ethernet q)"
    "\<not> (\<forall>p q. effective_metric Ethernet p < effective_metric Bridge q)"
    unfolding tier by (simp_all add: base_metric_def)
  ultimately show ?thesis
    using clamp_bounds [of "-40" 40 "sint p"] clamp_mono [of "sint p" "sint q" "-40" 40] tier [of t u]
    by (simp add: effective_metric_int word_le_def abs_le_iff)
qed

theorem metric_tiers_witness:
  "sint (5 :: i32) \<le> sint (20 :: i32) \<and> effective_metric WiFi 20 \<le> effective_metric WiFi 5"
  using metric_tiers [of WiFi 5 20] by simp

section \<open>The reported gateway\<close>

lemma min_by_key_None [simp]: "min_by_key f xs = None \<longleftrightarrow> xs = []"
  by (cases xs) (auto split: option.splits)

lemma min_by_key_Some:
  "min_by_key f xs = Some x \<Longrightarrow>
   x \<in> set xs \<and> (\<forall>y \<in> set xs. f x \<le> f y)"
  by (induction xs arbitrary: x) (fastforce split: option.splits if_splits)+

text \<open>The active default gateway: none is reported exactly when no default route has a gateway;
  otherwise the reported pair is that of a default route whose metric is least among them, an absent
  metric counting as the largest.\<close>

theorem default_gateway_least:
  "(case default_gateway_of routes of
      None \<Rightarrow> \<not> (\<exists>r \<in> set routes. rt_destination r = None \<and> rt_gateway r \<noteq> None)
    | Some (gw, oif) \<Rightarrow>
        (\<exists>r \<in> set routes. rt_destination r = None \<and> rt_gateway r = Some gw \<and> rt_oif_index r = oif \<and>
          (\<forall>s \<in> set routes. rt_destination s = None \<and> rt_gateway s \<noteq> None \<longrightarrow> metric_key r \<le> metric_key s)))"
proof (cases "min_by_key metric_key (filter (\<lambda>r. rt_destination r = None \<and> rt_gateway r \<noteq> None) routes)")
  case None
  then show ?thesis by (auto simp: default_gateway_of_def filter_empty_conv)
next
  case (Some r)
  from min_by_key_Some [OF this] Some show ?thesis
    by (auto simp: default_gateway_of_def intro!: bexI [of _ r])
qed

theorem default_gateway_least_witness:
  "default_gateway_of
     [\<lparr>rt_destination = None, rt_gateway = Some (V4 1), rt_oif_index = 2, rt_metric = Some 600, rt_protocol = KernelProto\<rparr>,
      \<lparr>rt_destination = None, rt_gateway = Some (V4 9), rt_oif_index = 3, rt_metric = Some 100, rt_protocol = KernelProto\<rparr>]
   = Some (V4 9, 3)"
  using default_gateway_least [of
     "[\<lparr>rt_destination = None, rt_gateway = Some (V4 1), rt_oif_index = 2, rt_metric = Some 600, rt_protocol = KernelProto\<rparr>,
       \<lparr>rt_destination = None, rt_gateway = Some (V4 9), rt_oif_index = 3, rt_metric = Some 100, rt_protocol = KernelProto\<rparr>]"]
  by (simp add: default_gateway_of_def metric_key_def)

end
