(* ===== verification/Dns.thy ===== *)
theory Dns
  imports Config
begin

text \<open>
  DNS configuration, \<^verbatim>\<open>dns/\<close>: the resolver file written and read back (\<^verbatim>\<open>resolver.rs\<close>), the servers
  of the active connections merged by priority (\<^verbatim>\<open>servers.rs\<close>), the lookup cache (\<^verbatim>\<open>cache.rs\<close>), the
  fallback servers (\<^verbatim>\<open>fallback.rs\<close>) and the host name (\<^verbatim>\<open>hostname.rs\<close>).
\<close>

section \<open>The resolver file, \<^verbatim>\<open>dns/resolver.rs\<close>\<close>

definition resolv_header :: string where
  "resolv_header = ''# Managed by mitos-network -- changes here will be overwritten.'' @ [nl] @
     ''# Edit /etc/mitos-network/dns.toml instead.'' @ [nl]"

definition render_resolv :: "IpAddr list \<Rightarrow> string list \<Rightarrow> string" where
  "render_resolv servers search =
     resolv_header @
     (if search = [] then [] else ''search '' @ str_join '' '' search @ [nl]) @
     concat (map (\<lambda>s. ''nameserver '' @ show_ip s @ [nl]) servers)"

definition apply_to :: "'w Fs \<Rightarrow> string \<Rightarrow> IpAddr list \<Rightarrow> string list \<Rightarrow> ('w, unit) io" where
  "apply_to F p servers search =
     then_io (create_parent F p)
       (write_rename F (with_extension p ''mitos-tmp'') p (render_resolv servers search))"

definition dns_apply_static :: "'w Fs \<Rightarrow> IpAddr list \<Rightarrow> string list \<Rightarrow> ('w, unit) io" where
  "dns_apply_static F servers search = apply_to F DEFAULT_RESOLV_CONF servers search"

definition apply_from_config :: "'w Fs \<Rightarrow> DnsConfig \<Rightarrow> ('w, unit) io" where
  "apply_from_config F cfg =
     (case dns_mode cfg of
        DnsNone \<Rightarrow> return_io ()
      | DnsManual \<Rightarrow> apply_to F (dns_resolv_conf_path cfg) (List.map_filter parse_ip (dns_servers cfg))
                       (dns_search_domains cfg)
      | DnsAuto \<Rightarrow> return_io ())"

record ResolvConf =
  rc_nameservers :: "IpAddr list"
  rc_search :: "string list"

definition resolv_line :: "string \<Rightarrow> ResolvConf \<Rightarrow> ResolvConf" where
  "resolv_line raw out =
     (let line = trim raw in
      case strip_prefix ''nameserver '' line of
        Some rest \<Rightarrow>
          (case parse_ip (trim rest) of
             Some ip \<Rightarrow> out\<lparr>rc_nameservers := rc_nameservers out @ [ip]\<rparr>
           | None \<Rightarrow> out)
      | None \<Rightarrow>
          (case strip_prefix ''search '' line of
             Some rest \<Rightarrow> out\<lparr>rc_search := split_whitespace rest\<rparr>
           | None \<Rightarrow> out))"

definition parse_resolv :: "string \<Rightarrow> ResolvConf" where
  "parse_resolv text = fold resolv_line (lines text) \<lparr>rc_nameservers = [], rc_search = []\<rparr>"

definition read_current :: "'w Fs \<Rightarrow> ('w, ResolvConf) io" where
  "read_current F =
     bind_io (fs_call (fs_read_to_string F DEFAULT_RESOLV_CONF)) (\<lambda>text. return_io (parse_resolv text))"

section \<open>Servers of the active connections, \<^verbatim>\<open>dns/servers.rs\<close>\<close>

text \<open>Connection id to servers, search domains and priority.\<close>

type_synonym dns_entry = "IpAddr list \<times> string list \<times> int"
type_synonym DnsServerRegistry = "(string \<times> dns_entry) list"

definition registry_set ::
    "string \<Rightarrow> IpAddr list \<Rightarrow> string list \<Rightarrow> int \<Rightarrow> DnsServerRegistry \<Rightarrow> DnsServerRegistry" where
  "registry_set c servers search priority reg = hm_insert c (servers, search, priority) reg"

definition registry_clear :: "string \<Rightarrow> DnsServerRegistry \<Rightarrow> DnsServerRegistry" where
  "registry_clear c reg = hm_remove c reg"

definition push_new :: "'a \<Rightarrow> 'a list \<Rightarrow> 'a list" where
  "push_new x xs = (if x \<in> set xs then xs else xs @ [x])"

definition entry_priority :: "dns_entry \<Rightarrow> int" where
  "entry_priority = (\<lambda>(_, _, prio). prio)"

definition merged :: "DnsServerRegistry \<Rightarrow> IpAddr list \<times> string list" where
  "merged reg =
     (let entries = sort_key (\<lambda>e. - entry_priority e) (hm_values reg)
      in fold (\<lambda>(s, d, _) (servers, search). (fold push_new s servers, fold push_new d search)) entries ([], []))"

section \<open>The lookup cache, \<^verbatim>\<open>dns/cache.rs\<close>\<close>

type_synonym DnsCache = "(string \<times> (IpAddr list \<times> nat)) list"

definition cache_get :: "nat \<Rightarrow> string \<Rightarrow> DnsCache \<Rightarrow> IpAddr list option" where
  "cache_get now name entries =
     (case hm_get entries name of
        Some (addrs, expires) \<Rightarrow> if expires > now then Some addrs else None
      | None \<Rightarrow> None)"

definition cache_insert :: "nat \<Rightarrow> string \<Rightarrow> IpAddr list \<Rightarrow> nat \<Rightarrow> DnsCache \<Rightarrow> DnsCache" where
  "cache_insert now name addrs ttl entries = hm_insert name (addrs, now + ttl) entries"

text \<open>The clock, the system resolver and TCP connects as the caller's environment.\<close>

record 'w DnsEnv =
  de_now :: "'w \<Rightarrow> nat \<times> 'w"
  de_lookup :: "string \<Rightarrow> 'w \<Rightarrow> (string + IpAddr list) \<times> 'w"
  de_connect :: "IpAddr \<Rightarrow> nat \<Rightarrow> nat \<Rightarrow> 'w \<Rightarrow> bool \<times> 'w"
  de_gethostname :: "'w \<Rightarrow> bytes option \<times> 'w"
  de_sethostname :: "string \<Rightarrow> 'w \<Rightarrow> (string + unit) \<times> 'w"

definition cache_resolve ::
    "'w DnsEnv \<Rightarrow> string \<Rightarrow> nat \<Rightarrow> DnsCache \<Rightarrow> ('w, IpAddr list \<times> DnsCache) io" where
  "cache_resolve E host ttl entries =
     bind_io (ask (de_now E)) (\<lambda>now.
       case cache_get now host entries of
         Some cached \<Rightarrow> return_io (cached, entries)
       | None \<Rightarrow>
           bind_io (sys_call Io (de_lookup E host)) (\<lambda>addrs.
           bind_io (ask (de_now E)) (\<lambda>later.
             return_io (addrs, cache_insert later host addrs ttl entries))))"

section \<open>Fallback servers, \<^verbatim>\<open>dns/fallback.rs\<close>\<close>

definition default_servers :: "IpAddr list" where
  "default_servers = List.map_filter parse_ip [''1.1.1.1'', ''9.9.9.9'', ''8.8.8.8'']"

definition is_reachable :: "'w DnsEnv \<Rightarrow> IpAddr \<Rightarrow> nat \<Rightarrow> ('w, bool) io" where
  "is_reachable E server timeout = ask (de_connect E server 53 timeout)"

fun any_reachable :: "'w DnsEnv \<Rightarrow> IpAddr list \<Rightarrow> nat \<Rightarrow> ('w, bool) io" where
  "any_reachable E [] timeout = return_io False"
| "any_reachable E (s # ss) timeout =
     bind_io (is_reachable E s timeout) (\<lambda>up. if up then return_io True else any_reachable E ss timeout)"

definition servers_or_fallback :: "'w DnsEnv \<Rightarrow> IpAddr list \<Rightarrow> ('w, IpAddr list) io" where
  "servers_or_fallback E configured =
     bind_io (any_reachable E configured 800) (\<lambda>up.
       return_io (if up then configured else default_servers))"

section \<open>The host name, \<^verbatim>\<open>dns/hostname.rs\<close>\<close>

definition hostname_of_buf :: "bytes \<Rightarrow> string option" where
  "hostname_of_buf buf =
     (let s = from_utf8_lossy (takeWhile (\<lambda>b. b \<noteq> 0) buf) in if s = [] then None else Some s)"

definition hostname_current :: "'w DnsEnv \<Rightarrow> ('w, string option) io" where
  "hostname_current E =
     bind_io (ask (de_gethostname E)) (\<lambda>buf. return_io (Option.bind buf hostname_of_buf))"

definition hostname_set :: "'w DnsEnv \<Rightarrow> 'w Fs \<Rightarrow> string \<Rightarrow> ('w, unit) io" where
  "hostname_set E F name =
     (if name = [] \<or> 253 < length name then fail_io (Parse ''hostname must be 1-253 characters'')
      else then_io (sys_call Io (de_sethostname E name))
             (fs_call (fs_write F ''/etc/hostname'' (name @ [nl]))))"

section \<open>Merging keeps every connection's servers, by priority\<close>

text \<open>The first occurrences of a list's elements.\<close>

definition firsts :: "'a list \<Rightarrow> 'a list" where
  "firsts xs = rev (remdups (rev xs))"

lemma firsts_simps [simp]: "set (firsts xs) = set xs" "distinct (firsts xs)"
  by (simp_all add: firsts_def)

lemma firsts_snoc: "firsts (xs @ [x]) = push_new x (firsts xs)"
  by (simp add: firsts_def push_new_def)

lemma fold_push_new: "fold push_new ys (firsts xs) = firsts (xs @ ys)"
proof (induction ys arbitrary: xs)
  case (Cons y ys)
  then show ?case using Cons [of "xs @ [y]"] by (simp add: firsts_snoc)
qed simp

lemma firsts_append: "firsts (xs @ ys) = firsts xs @ filter (\<lambda>y. y \<notin> set xs) (firsts ys)"
proof (induction ys rule: rev_induct)
  case Nil
  then show ?case by (simp add: firsts_def)
next
  case (snoc y ys)
  have "firsts (xs @ ys @ [y]) = push_new y (firsts xs @ filter (\<lambda>y. y \<notin> set xs) (firsts ys))"
    using firsts_snoc [of "xs @ ys" y] snoc by simp
  also have "\<dots> = firsts xs @ filter (\<lambda>y. y \<notin> set xs) (push_new y (firsts ys))"
    by (auto simp: push_new_def)
  finally show ?case by (simp add: firsts_snoc)
qed

definition by_priority :: "DnsServerRegistry \<Rightarrow> dns_entry list" where
  "by_priority reg = sort_key (\<lambda>e. - entry_priority e) (hm_values reg)"

lemma merge_fold:
  "fold (\<lambda>(s, d, _) (servers, search). (fold push_new s servers, fold push_new d search)) es (firsts xs, firsts ys) =
    (firsts (xs @ concat (map fst es)), firsts (ys @ concat (map (fst \<circ> snd) es)))"
  by (induction es arbitrary: xs ys) (auto simp: fold_push_new)

lemma merged_firsts:
  "merged reg = (firsts (concat (map fst (by_priority reg))), firsts (concat (map (fst \<circ> snd) (by_priority reg))))"
  using merge_fold [of "by_priority reg" "[]" "[]"] by (simp add: merged_def by_priority_def firsts_def)

lemma sorted_filter_split:
  "sorted (map f xs) \<Longrightarrow> filter (\<lambda>x. f x \<le> t) xs @ filter (\<lambda>x. \<not> f x \<le> t) xs = xs" for f :: "'a \<Rightarrow> int"
proof (induction xs)
  case (Cons x xs)
  show ?case
  proof (cases "f x \<le> t")
    case True
    with Cons show ?thesis by simp
  next
    case False
    with Cons.prems have "\<forall>y \<in> set xs. \<not> f y \<le> t" by auto
    then have "filter (\<lambda>x. f x \<le> t) xs = []" "filter (\<lambda>x. \<not> f x \<le> t) xs = xs"
      by (simp_all add: filter_id_conv filter_empty_conv)
    with False show ?thesis by simp
  qed
qed simp

lemma by_priority_split:
  "by_priority reg = filter (\<lambda>e. p \<le> entry_priority e) (by_priority reg) @
     filter (\<lambda>e. \<not> p \<le> entry_priority e) (by_priority reg)"
  using sorted_filter_split [of "\<lambda>e. - entry_priority e" "by_priority reg" "- p"]
  by (simp add: by_priority_def sorted_sort_key)

text \<open>\<open>x\<close> comes before \<open>y\<close> in a list.\<close>

definition precedes :: "'a \<Rightarrow> 'a \<Rightarrow> 'a list \<Rightarrow> bool" where
  "precedes x y zs = (\<exists>a b c. zs = a @ x # b @ y # c)"

lemma precedes_append: "x \<in> set xs \<Longrightarrow> y \<in> set ys \<Longrightarrow> precedes x y (xs @ ys)"
proof -
  assume "x \<in> set xs" "y \<in> set ys"
  then obtain a b c d where "xs = a @ x # b" "ys = c @ y # d" by (meson split_list)
  then have "xs @ ys = a @ x # (b @ c) @ y # d" by simp
  then show ?thesis unfolding precedes_def by blast
qed

lemma in_concat_map: "e \<in> set es \<Longrightarrow> x \<in> set (f e) \<Longrightarrow> x \<in> set (concat (map f es))"
  by auto

lemma values_remove: "set (hm_values (hm_remove c reg)) = {e. \<exists>k. (k, e) \<in> set reg \<and> k \<noteq> c}"
  by (force simp: hm_remove_def hm_values_def)

lemma merged_order:
  assumes "e \<in> set (hm_values reg)" "e' \<in> set (hm_values reg)"
    "x \<in> set (fst e)" "y \<in> set (fst e')"
    "\<forall>e'' \<in> set (hm_values reg). y \<in> set (fst e'') \<longrightarrow> entry_priority e'' < entry_priority e"
  shows "precedes x y (fst (merged reg))"
proof -
  let ?A = "filter (\<lambda>e'. entry_priority e \<le> entry_priority e') (by_priority reg)"
  let ?B = "filter (\<lambda>e'. \<not> entry_priority e \<le> entry_priority e') (by_priority reg)"
  let ?C = "\<lambda>es. concat (map fst es)"
  have mem: "set (by_priority reg) = set (hm_values reg)" by (simp add: by_priority_def)
  have "?C (by_priority reg) = ?C ?A @ ?C ?B"
    using by_priority_split [of reg "entry_priority e"] by (metis concat_append map_append)
  then have eq: "fst (merged reg) = firsts (?C ?A) @ filter (\<lambda>y. y \<notin> set (?C ?A)) (firsts (?C ?B))"
    by (simp add: merged_firsts firsts_append)
  have "e \<in> set ?A" "e' \<in> set ?B" using assms mem by (auto simp: not_le)
  then have "x \<in> set (firsts (?C ?A))" "y \<in> set (?C ?B)"
    unfolding firsts_simps using assms(3,4) by (simp_all only: in_concat_map)
  moreover have "y \<notin> set (?C ?A)" using assms mem by (auto simp: not_le)
  ultimately show ?thesis unfolding eq by (intro precedes_append) auto
qed

text \<open>C36. Merged DNS servers: the merged list has every server of every connection once, a server only
  lower-priority connections have comes after all servers of a higher-priority one, and clearing a
  connection removes exactly the servers no other connection has.\<close>

theorem merged_servers:
  "distinct (fst (merged reg)) \<and> set (fst (merged reg)) = (\<Union>e \<in> set (hm_values reg). set (fst e)) \<and>
   (e \<in> set (hm_values reg) \<and> e' \<in> set (hm_values reg) \<and> x \<in> set (fst e) \<and> y \<in> set (fst e') \<and>
      (\<forall>e'' \<in> set (hm_values reg). y \<in> set (fst e'') \<longrightarrow> entry_priority e'' < entry_priority e) \<longrightarrow>
      precedes x y (fst (merged reg))) \<and>
   set (fst (merged (registry_clear c reg))) = (\<Union>(k, e) \<in> set reg. if k = c then {} else set (fst e))"
proof (intro conjI impI)
  show "distinct (fst (merged reg))" by (simp add: merged_firsts)
  show "set (fst (merged reg)) = (\<Union>e \<in> set (hm_values reg). set (fst e))"
    by (simp add: merged_firsts by_priority_def)
  show "set (fst (merged (registry_clear c reg))) = (\<Union>(k, e) \<in> set reg. if k = c then {} else set (fst e))"
    unfolding registry_clear_def merged_firsts fst_conv firsts_simps set_concat set_map
    by (auto simp: by_priority_def values_remove split: if_splits) blast
next
  assume "e \<in> set (hm_values reg) \<and> e' \<in> set (hm_values reg) \<and> x \<in> set (fst e) \<and> y \<in> set (fst e') \<and>
      (\<forall>e'' \<in> set (hm_values reg). y \<in> set (fst e'') \<longrightarrow> entry_priority e'' < entry_priority e)"
  then show "precedes x y (fst (merged reg))" by (intro merged_order [of e reg e']) simp_all
qed

definition home_and_vpn :: DnsServerRegistry where
  "home_and_vpn = registry_set ''vpn'' [V4 10, V4 1] [] 100 (registry_set ''home'' [V4 1, V4 2] [] 0 [])"

theorem merged_servers_witness:
  "precedes (V4 10) (V4 2) (fst (merged home_and_vpn))"
  using merged_servers [of home_and_vpn "([V4 10, V4 1], [], 100)" "([V4 1, V4 2], [], 0)" "V4 10" "V4 2" "''vpn''"]
  by (simp add: home_and_vpn_def registry_set_def hm_insert_def hm_remove_def hm_values_def entry_priority_def)

section \<open>The resolver file is read back\<close>

text \<open>Visible ASCII.\<close>

definition visible :: "char \<Rightarrow> bool" where
  "visible c = (33 \<le> code_of c \<and> code_of c < 127)"

definition token :: "string \<Rightarrow> bool" where
  "token t = (t \<noteq> [] \<and> list_all visible t)"

lemma trim_start_snoc:
  "list_all (\<lambda>c. code_of c < 128) s \<Longrightarrow> visible c \<Longrightarrow> trim_start (s @ [c]) \<noteq> []"
proof (induction s)
  case Nil
  then show ?case by (simp add: trim_start_plain visible_def)
next
  case (Cons a s)
  have "ws_len ((a # s) @ [c]) \<le> 1" using Cons.prems(1) by simp
  then show ?case using Cons by (subst trim_start.simps) (auto split: if_splits)
qed

lemma trim_end_snoc:
  "list_all (\<lambda>c. code_of c < 128) s \<Longrightarrow> visible c \<Longrightarrow> trim_end (s @ [c]) = s @ [c]"
proof (induction s)
  case Nil
  then show ?case by (simp add: trim_start_plain visible_def)
next
  case (Cons a s)
  then show ?case using trim_start_snoc [of "a # s" c] by simp
qed

lemma trim_between:
  assumes "list_all (\<lambda>c. code_of c < 128) s" "s \<noteq> []" "visible (hd s)" "visible (last s)"
  shows "trim s = s"
proof -
  have "trim_start s = s" using assms by (intro trim_start_plain) (simp add: visible_def)
  moreover have "list_all (\<lambda>c. code_of c < 128) (butlast s)"
    using assms(1) by (auto simp: list_all_iff dest: in_set_butlastD)
  then have "trim_end (butlast s @ [last s]) = butlast s @ [last s]" using assms(4) by (rule trim_end_snoc)
  ultimately show ?thesis using assms(2) by (simp add: trim_def)
qed

lemma split_ws_raw_token: "list_all visible t \<Longrightarrow> split_ws_raw (t @ CHR '' '' # s) = t # split_ws_raw s"
  by (induction t) (simp_all add: visible_def)

lemma split_ws_raw_last: "list_all visible t \<Longrightarrow> split_ws_raw t = [t]"
  by (induction t) (simp_all add: visible_def)

lemma split_ws_join:
  "ts \<noteq> [] \<Longrightarrow> list_all token ts \<Longrightarrow> split_whitespace (str_join '' '' ts) = ts"
proof (induction ts rule: induct_list012)
  case (3 t u ts)
  then show ?case by (simp add: split_whitespace_def split_ws_raw_token token_def)
qed (simp_all add: split_whitespace_def split_ws_raw_last token_def)

lemma show_radix16_visible: "list_all visible (show_radix 16 n)"
proof -
  have "c \<in> set (show_radix 16 n) \<Longrightarrow> to_digit 16 c \<noteq> None" for c by (intro show_radix_chars) auto
  then show ?thesis by (force simp: list_all_iff to_digit_def visible_def is_digit_def split: if_splits)
qed

lemma str_join_all: "list_all P sep \<Longrightarrow> list_all (list_all P) xs \<Longrightarrow> list_all P (str_join sep xs)"
  by (induction xs rule: induct_list012) simp_all

lemma show_segs_visible: "list_all visible (show_segs gs)"
  unfolding show_segs_def
  by (rule str_join_all) (simp add: visible_def, simp add: list_all_iff [of _ "map _ _"] show_radix16_visible)

lemma show_ipv4_token: "token (show_ipv4 a)"
  by (auto simp: token_def list_all_iff visible_def is_digit_def show_ipv4_expand dest!: show_nat_plain)

lemma length_chunks_exact: "0 < n \<Longrightarrow> length (chunks_exact n xs) = length xs div n"
  by (induction n xs rule: chunks_exact.induct) (subst chunks_exact.simps, auto simp: le_div_geq)

lemma show_ip_token: "token (show_ip ip)"
proof (cases ip)
  case (V4 a)
  then show ?thesis by (simp add: show_ip_def show_ipv4_token)
next
  case (V6 a)
  have "show_ipv6 a \<noteq> []"
  proof -
    have "length (segments a) = 8" by (simp add: segments_def length_chunks_exact)
    then show ?thesis
      by (cases "segments a"; cases "tl (segments a)")
         (auto simp: show_ipv6_def Let_def show_segs_def split: prod.splits)
  qed
  moreover have "list_all visible (show_ipv6 a)"
    using show_ipv4_token show_segs_visible
    by (auto simp: show_ipv6_def Let_def token_def visible_def split: prod.splits)
  ultimately show ?thesis using V6 by (simp add: show_ip_def token_def)
qed

definition resolv_h1 :: string where
  "resolv_h1 = ''# Managed by mitos-network -- changes here will be overwritten.''"

definition resolv_h2 :: string where
  "resolv_h2 = ''# Edit /etc/mitos-network/dns.toml instead.''"

definition resolv_lines :: "IpAddr list \<Rightarrow> string list \<Rightarrow> string list" where
  "resolv_lines servers search =
     [resolv_h1,
      resolv_h2] @
     (if search = [] then [] else [''search '' @ str_join '' '' search]) @
     map (\<lambda>s. ''nameserver '' @ show_ip s) servers"

lemma render_resolv_lines: "render_resolv servers search = unlines (resolv_lines servers search)"
  by (simp add: render_resolv_def resolv_lines_def unlines_def resolv_header_def resolv_h1_def resolv_h2_def comp_def)

lemma visible_last: "token t \<Longrightarrow> visible (last (s @ t)) \<and> list_all (\<lambda>c. code_of c < 128) t"
  by (auto simp: token_def list_all_iff visible_def)

lemma resolv_line_server: "resolv_line (''nameserver '' @ show_ip s) out =
    (case parse_ip (show_ip s) of Some ip \<Rightarrow> out\<lparr>rc_nameservers := rc_nameservers out @ [ip]\<rparr> | None \<Rightarrow> out)"
proof -
  have "trim (''nameserver '' @ show_ip s) = ''nameserver '' @ show_ip s"
    using visible_last [OF show_ip_token [of s], of "''nameserver ''"]
    by (intro trim_between) (auto simp: visible_def list_all_iff)
  moreover have "trim (show_ip s) = show_ip s"
    using show_ip_token [of s] by (intro trim_plain) (auto simp: token_def list_all_iff visible_def)
  ultimately show ?thesis by (simp add: resolv_line_def)
qed

definition line_char :: "char \<Rightarrow> bool" where
  "line_char c = (code_of c < 128 \<and> c \<noteq> nl)"

lemma line_char_visible: "visible c \<Longrightarrow> line_char c"
  by (auto simp: line_char_def visible_def)

lemma token_line: "token t \<Longrightarrow> list_all line_char t \<and> t \<noteq> [] \<and> visible (last t)"
  using line_char_visible by (auto simp: token_def list_all_iff)

lemma join_token:
  "ts \<noteq> [] \<Longrightarrow> list_all token ts \<Longrightarrow>
    list_all line_char (str_join '' '' ts) \<and> str_join '' '' ts \<noteq> [] \<and> visible (last (str_join '' '' ts))"
proof (induction ts rule: induct_list012)
  case (3 t u ts)
  moreover have "line_char (CHR '' '')" by (simp add: line_char_def)
  ultimately show ?case using token_line [of t] by simp
qed (simp_all add: token_line)

lemma plain_line:
  assumes "list_all line_char l" "visible (last l)"
  shows "nl \<notin> set l \<and> strip_cr l = l"
proof
  show "nl \<notin> set l" using assms(1) unfolding list_all_iff line_char_def by blast
  have "last l \<noteq> cr" using assms(2) by (auto simp: visible_def)
  then show "strip_cr l = l" by (simp add: strip_cr_def)
qed

lemma trim_line:
  assumes "list_all line_char s" "s \<noteq> []" "visible (hd s)" "visible (last s)"
  shows "trim s = s"
  using assms by (intro trim_between) (auto simp: list_all_iff line_char_def)

lemma resolv_line_search:
  assumes "search \<noteq> []" "list_all token search"
  shows "resolv_line (''search '' @ str_join '' '' search) out = out\<lparr>rc_search := search\<rparr>"
proof -
  have "trim (''search '' @ str_join '' '' search) = ''search '' @ str_join '' '' search"
    using join_token [OF assms] by (intro trim_line) (simp_all add: visible_def line_char_def)
  then show ?thesis using split_ws_join [OF assms] by (simp add: resolv_line_def)
qed

lemma resolv_line_header:
  "resolv_line resolv_h1 out = out"
  "resolv_line resolv_h2 out = out"
  by (simp_all add: resolv_line_def trim_between visible_def resolv_h1_def resolv_h2_def)

lemma fold_resolv_servers:
  "\<forall>s \<in> set servers. parse_ip (show_ip s) = Some s \<Longrightarrow>
    fold resolv_line (map (\<lambda>s. ''nameserver '' @ show_ip s) servers) out =
      out\<lparr>rc_nameservers := rc_nameservers out @ servers\<rparr>"
  by (induction servers arbitrary: out) (simp_all add: resolv_line_server [simplified])

lemma resolv_lines_plain:
  assumes "list_all token search" "l \<in> set (resolv_lines servers search)"
  shows "nl \<notin> set l \<and> strip_cr l = l"
proof -
  have h: "nl \<notin> set l \<and> strip_cr l = l" if "l = resolv_h1 \<or>
      l = resolv_h2"
    using that by (elim disjE) (simp_all add: strip_cr_def resolv_h1_def resolv_h2_def)
  have n: "nl \<notin> set l \<and> strip_cr l = l" if "l = ''nameserver '' @ show_ip s" for s
    unfolding that using token_line [OF show_ip_token [of s]]
    by (intro plain_line) (simp_all add: line_char_def)
  have r: "nl \<notin> set l \<and> strip_cr l = l" if "search \<noteq> []" "l = ''search '' @ str_join '' '' search"
    unfolding that(2) using join_token [OF that(1) assms(1)] by (intro plain_line) (simp_all add: line_char_def)
  have "(l = resolv_h1 \<or>
      l = resolv_h2) \<or>
      search \<noteq> [] \<and> l = ''search '' @ str_join '' '' search \<or> (\<exists>s. l = ''nameserver '' @ show_ip s)"
    using assms(2) by (cases "search = []") (auto simp: resolv_lines_def)
  then show ?thesis using h n r by blast
qed

text \<open>The resolver file: the daemon reads back exactly the name servers and search domains it wrote.\<close>

theorem resolv_roundtrip:
  assumes "list_all token search" and "\<forall>s \<in> set servers. parse_ip (show_ip s) = Some s"
  shows "parse_resolv (render_resolv servers search) = \<lparr>rc_nameservers = servers, rc_search = search\<rparr>"
proof -
  have "lines (render_resolv servers search) = resolv_lines servers search"
    unfolding render_resolv_lines using resolv_lines_plain [OF assms(1)] by (intro lines_unlines) blast
  then show ?thesis
    using assms(1) fold_resolv_servers [OF assms(2)]
    by (cases "search = []")
       (simp_all add: parse_resolv_def resolv_lines_def resolv_line_header resolv_line_search [simplified])
qed

theorem resolv_roundtrip_witness:
  "parse_resolv (render_resolv [V4 0x01010101, V4 0x09090909] [''lan'', ''home.arpa'']) =
    \<lparr>rc_nameservers = [V4 0x01010101, V4 0x09090909], rc_search = [''lan'', ''home.arpa'']\<rparr>"
proof (rule resolv_roundtrip)
  show "\<forall>s \<in> set [V4 0x01010101, V4 0x09090909]. parse_ip (show_ip s) = Some s"
    by (simp add: show_ip_def parse_ip_show_ipv4)
qed (simp add: token_def visible_def)

end
