(* ===== verification/Activation.thy ===== *)
theory Activation
  imports Profiles Dhcp_Client Dhcp6 Routing Dns
begin

text \<open>
  From a profile to a configured interface and back: \<^verbatim>\<open>connection/activation.rs\<close>,
  \<^verbatim>\<open>connection/deactivation.rs\<close> and the record of an active connection,
  \<^verbatim>\<open>connection/connection.rs\<close>. The device being configured and the table of VPN sessions are the state
  beside the world, so that what an early return leaves behind is visible.
\<close>

section \<open>Active connections, \<^verbatim>\<open>connection/connection.rs\<close>\<close>

datatype ActiveConnectionState = AcActivating | AcActivated | AcDeactivating | AcDeactivated | AcFailed

record ActiveConnection =
  ac_profile_id :: string
  ac_device_name :: string
  ac_state :: ActiveConnectionState
  ac_since :: nat
  ac_failure_reason :: "string option"

definition activating :: "string \<Rightarrow> string \<Rightarrow> nat \<Rightarrow> ActiveConnection" where
  "activating profile_id device_name now =
     \<lparr>ac_profile_id = profile_id, ac_device_name = device_name, ac_state = AcActivating, ac_since = now,
      ac_failure_reason = None\<rparr>"

section \<open>The services activation uses\<close>

text \<open>The trait \<open>SecretsBackend\<close> of \<^verbatim>\<open>security/secrets.rs\<close>.\<close>

record 'w SecretsBackend =
  sb_get :: "string \<Rightarrow> string \<Rightarrow> 'w \<Rightarrow> string option result \<times> 'w"
  sb_set :: "string \<Rightarrow> string \<Rightarrow> string \<Rightarrow> 'w \<Rightarrow> unit result \<times> 'w"
  sb_delete_all :: "string \<Rightarrow> 'w \<Rightarrow> unit result \<times> 'w"

text \<open>The file backend on the part of a world that is the secrets directory.\<close>

definition file_secrets ::
    "('w \<Rightarrow> FsFaults) \<Rightarrow> ('w \<Rightarrow> secrets_dir) \<Rightarrow> (secrets_dir \<Rightarrow> 'w \<Rightarrow> 'w) \<Rightarrow> 'w SecretsBackend" where
  "file_secrets faults dir put_dir =
     \<lparr>sb_get = (\<lambda>owner key w. (secret_get (faults w) owner key (dir w), w)),
      sb_set = (\<lambda>owner key val w.
        case secret_set (faults w) owner key val (dir w) of (r, d) \<Rightarrow> (r, put_dir d w)),
      sb_delete_all = (\<lambda>owner w.
        case secret_delete_all (faults w) owner (dir w) of (r, d) \<Rightarrow> (r, put_dir d w))\<rparr>"

text \<open>
  \<open>ln_data_dir\<close> and \<open>ln_ctrl_dir\<close> are the cells \<open>DATA_DIR\<close> and \<open>CTRL_DIR\<close> that start-up sets once;
  \<open>ln_system_time\<close> reads the wall clock in seconds.
\<close>

record 'w LinkEnv =
  ln_kernel :: "'w Kernel"
  ln_clock :: "'w Clock"
  ln_wpa :: "'w WpaEnv"
  ln_udp :: "'w UdpEnv"
  ln_udp6 :: "'w Udp6Env"
  ln_vpn :: "'w VpnEnv"
  ln_ovpn :: "'w OvpnEnv"
  ln_fs :: "'w Fs"
  ln_secrets :: "'w SecretsBackend"
  ln_lease_codec :: "Lease Codec"
  ln_lease6_codec :: "Lease6 Codec"
  ln_system_time :: "'w \<Rightarrow> nat \<times> 'w"
  ln_data_dir :: "string option"
  ln_ctrl_dir :: "string option"
  ln_fuel :: nat

definition ctrl_dir_of :: "string option \<Rightarrow> string" where
  "ctrl_dir_of cell = (case cell of Some d \<Rightarrow> d | None \<Rightarrow> ''/run/mitos-network/wpa'')"

text \<open>A call of the persistence layer where the client expects an answer; those calls always return.\<close>

definition answer_of :: "('w, 'a) io \<Rightarrow> 'w \<Rightarrow> 'a result \<times> 'w" where
  "answer_of m w = (case m w of Ret (r, w') \<Rightarrow> (r, w') | _ \<Rightarrow> (Inl (Other []), w))"

text \<open>The DHCP clients read and clear the leases that activation saves.\<close>

definition udp_of :: "'w LinkEnv \<Rightarrow> 'w UdpEnv" where
  "udp_of E = (ln_udp E)
     \<lparr>u_load_lease := (\<lambda>ifname. answer_of (load_lease (ln_fs E) (ln_lease_codec E) (base_dir (ln_data_dir E)) ifname)),
      u_clear_lease := (\<lambda>ifname. answer_of (clear_lease (ln_fs E) (base_dir (ln_data_dir E)) ifname))\<rparr>"

definition udp6_of :: "'w LinkEnv \<Rightarrow> 'w Udp6Env" where
  "udp6_of E = (ln_udp6 E)
     \<lparr>d6_load_lease := (\<lambda>ifname. answer_of (load_lease6 (ln_fs E) (ln_lease6_codec E) (base_dir (ln_data_dir E)) ifname)),
      d6_clear_lease := (\<lambda>ifname. answer_of (clear_lease6 (ln_fs E) (base_dir (ln_data_dir E)) ifname))\<rparr>"

definition vpn_of :: "'w LinkEnv \<Rightarrow> 'w VpnEnv" where
  "vpn_of E = (ln_vpn E)\<lparr>ve_secret := sb_get (ln_secrets E)\<rparr>"

section \<open>Addresses, \<^verbatim>\<open>connection/activation.rs\<close>\<close>

text \<open>30 and 10 seconds; the DHCPv4 client counts in seconds, the others in milliseconds.\<close>

abbreviation (input) DHCP_TIMEOUT_SECS :: nat where "DHCP_TIMEOUT_SECS \<equiv> 30"
abbreviation (input) DHCP_TIMEOUT_MS :: nat where "DHCP_TIMEOUT_MS \<equiv> 30000"
abbreviation (input) CARRIER_TIMEOUT_MS :: nat where "CARRIER_TIMEOUT_MS \<equiv> 10000"

type_synonym link_state = "NetworkDevice \<times> VpnTable"

abbreviation on_device :: "(NetworkDevice \<Rightarrow> NetworkDevice) \<Rightarrow> (link_state \<times> 'w, unit) io" where
  "on_device f \<equiv> modify_state (\<lambda>(d, t). (f d, t))"

definition apply_static :: "'w LinkEnv \<Rightarrow> ConnectionProfile \<Rightarrow> i32 \<Rightarrow> ('w, unit) io" where
  "apply_static E profile index =
     then_io (for_io (cp_addresses profile) (\<lambda>addr.
       bind_io (lift_io (parse_cidr addr)) (\<lambda>(ip, prefixlen).
         address_add (ln_kernel E) (ln_fuel E) index ip prefixlen)))
    (if_some (cp_gateway profile) (\<lambda>gw.
       bind_io (lift_io (ok_or (Config (''invalid gateway '' @ quoted gw)) (parse_ip gw))) (\<lambda>ip.
         default_route_apply (ln_kernel E) (ln_fuel E) index ip 100 Static)))"

text \<open>An address with its prefix length, as the device list shows it.\<close>

definition cidr_text :: "IpAddr \<Rightarrow> u8 \<Rightarrow> string" where
  "cidr_text ip len = show_ip ip @ ''/'' @ show_nat (unat len)"

definition apply_dhcp :: "'w LinkEnv \<Rightarrow> i32 \<Rightarrow> (link_state \<times> 'w, unit) io" where
  "apply_dhcp E index =
     bind_io (get_state (nd_name \<circ> fst)) (\<lambda>name.
     bind_io (on_world (acquire (ln_kernel E) (udp_of E) (ln_fuel E) name index DHCP_TIMEOUT_SECS)) (\<lambda>lease.
     then_io (on_world (address_add (ln_kernel E) (ln_fuel E) index (V4 (l_address lease)) (l_prefixlen lease)))
    (then_io (on_world (if_some (l_gateway lease) (\<lambda>gw.
       default_route_apply (ln_kernel E) (ln_fuel E) index (V4 gw) 100 DhcpProto)))
    (then_io (if l_dns_servers lease = [] then return_io ()
              else on_world (dns_apply_static (ln_fs E) (map V4 (l_dns_servers lease))
                (case l_domain lease of Some domain \<Rightarrow> [domain] | None \<Rightarrow> [])))
    (then_io (on_device (\<lambda>d. d\<lparr>nd_ipv4_addresses := [cidr_text (V4 (l_address lease)) (l_prefixlen lease)]\<rparr>))
       (on_world (save_lease (ln_fs E) (ln_lease_codec E) (base_dir (ln_data_dir E)) name lease)))))))"

definition apply_dhcp6 :: "'w LinkEnv \<Rightarrow> i32 \<Rightarrow> (link_state \<times> 'w, unit) io" where
  "apply_dhcp6 E index =
     bind_io (get_state (nd_name \<circ> fst)) (\<lambda>name.
     bind_io (on_world (get_mac (ln_kernel E) (ln_fuel E) name)) (\<lambda>mac.
     bind_io (on_world (request_stateful_lease (ln_kernel E) (udp6_of E) (ln_fuel E) name mac DHCP_TIMEOUT_MS)) (\<lambda>lease.
     then_io (on_world (address_add (ln_kernel E) (ln_fuel E) index (V6 (l6_address lease)) (l6_prefixlen lease)))
    (then_io (if l6_dns_servers lease = [] then return_io ()
              else on_world (dns_apply_static (ln_fs E) (map V6 (l6_dns_servers lease)) (l6_domain_search lease)))
    (then_io (on_device (\<lambda>d. d\<lparr>nd_ipv6_addresses := [cidr_text (V6 (l6_address lease)) (l6_prefixlen lease)]\<rparr>))
       (on_world (save_lease6 (ln_fs E) (ln_lease6_codec E) (base_dir (ln_data_dir E)) name lease)))))))"

text \<open>No failure of the stateless exchange is passed on.\<close>

definition apply_dhcp6_stateless :: "'w LinkEnv \<Rightarrow> string \<Rightarrow> ('w, unit) io" where
  "apply_dhcp6_stateless E name =
     bind_io (try_io (get_mac (ln_kernel E) (ln_fuel E) name)) (\<lambda>r.
       case r of
         Inl _ \<Rightarrow> return_io ()
       | Inr mac \<Rightarrow>
           bind_io (try_io (request_stateless_info (ln_kernel E) (udp6_of E) (ln_fuel E) name mac DHCP_TIMEOUT_MS))
             (\<lambda>info. case info of
                Inl _ \<Rightarrow> return_io ()
              | Inr i \<Rightarrow>
                  if sl_dns_servers i = [] then return_io ()
                  else ignore_io (dns_apply_static (ln_fs E) (map V6 (sl_dns_servers i)) (sl_domain_search i))))"

section \<open>Activation\<close>

definition eap_of :: "WifiSettings \<Rightarrow> string option \<Rightarrow> EapConfig option" where
  "eap_of wifi key_password =
     (if is_enterprise (ws_security wifi) then
        Some \<lparr>ec_identity = ws_eap_identity wifi, ec_ca_cert_path = ws_eap_ca_cert_path wifi,
          ec_client_cert_path = ws_eap_client_cert_path wifi,
          ec_private_key_path = ws_eap_private_key_path wifi, ec_private_key_password = key_password,
          ec_eap_method = ws_eap_method wifi, ec_eap_phase2 = ws_eap_phase2 wifi\<rparr>
      else None)"

definition associate :: "'w LinkEnv \<Rightarrow> ConnectionProfile \<Rightarrow> string \<Rightarrow> ('w, unit) io" where
  "associate E profile name =
     bind_io (lift_io (ok_or (Config (''profile '' @ quoted (cp_id profile) @ '' has no [wifi] section''))
       (cp_wifi profile))) (\<lambda>wifi.
     bind_io (if ws_has_secret wifi then ask_result (sb_get (ln_secrets E) (cp_id profile) ''psk'')
              else if ws_has_eap_secret wifi then ask_result (sb_get (ln_secrets E) (cp_id profile) ''eap-password'')
              else return_io None) (\<lambda>passphrase.
     bind_io (if ws_eap_private_key_path wifi \<noteq> None
              then ask_result (sb_get (ln_secrets E) (cp_id profile) ''eap-private-key-password'')
              else return_io None) (\<lambda>key_password.
       wifi_connect (ln_wpa E) (ln_fuel E) (ctrl_dir_of (ln_ctrl_dir E)) name (ws_ssid wifi) (ws_security wifi)
         passphrase (eap_of wifi key_password))))"

definition activated :: "'w LinkEnv \<Rightarrow> ConnectionProfile \<Rightarrow> string \<Rightarrow> (link_state \<times> 'w, ActiveConnection) io" where
  "activated E profile device_name =
     then_io (on_device (\<lambda>d. d\<lparr>nd_state := Activated, nd_active_connection := Some (cp_id profile)\<rparr>))
    (bind_io (on_world (ask (ln_system_time E))) (\<lambda>now.
       return_io \<lparr>ac_profile_id = cp_id profile, ac_device_name = device_name, ac_state = AcActivated,
         ac_since = now, ac_failure_reason = None\<rparr>))"

definition activate_vpn :: "'w LinkEnv \<Rightarrow> ConnectionProfile \<Rightarrow> (link_state \<times> 'w, ActiveConnection) io" where
  "activate_vpn E profile =
     bind_io (lift_io (ok_or (Config (''profile '' @ quoted (cp_id profile) @ '' has no [vpn] section''))
       (cp_vpn profile))) (\<lambda>vpn.
     bind_io (get_state snd) (\<lambda>t.
     bind_io (on_world (vpn_connect (ln_kernel E) (vpn_of E) (ln_ovpn E) (ln_fuel E) (vp_kind vpn) (vp_config vpn)
       (cp_id profile) t)) (\<lambda>(session, t').
     then_io (modify_state (\<lambda>(d, _). (d, t')))
       (activated E profile (vs_interface_name session)))))"

text \<open>Addresses, routes and DNS once the link is up.\<close>

definition configure_ip :: "'w LinkEnv \<Rightarrow> ConnectionProfile \<Rightarrow> i32 \<Rightarrow> (link_state \<times> 'w, unit) io" where
  "configure_ip E profile index =
     then_io (on_device (\<lambda>d. d\<lparr>nd_state := IpConfiguring\<rparr>))
    (then_io (on_world (address_flush (ln_kernel E) (ln_fuel E) index))
    (then_io (case cp_method profile of
                MethodManual \<Rightarrow> on_world (apply_static E profile index)
              | MethodAuto \<Rightarrow> apply_dhcp E index
              | MethodLinkLocal \<Rightarrow> return_io ()
              | MethodDisabled \<Rightarrow> return_io ())
    (then_io (case cp_ipv6_method profile of
                Slaac \<Rightarrow> return_io ()
              | SlaacWithStatelessDhcp \<Rightarrow>
                  bind_io (get_state (nd_name \<circ> fst)) (\<lambda>name. on_world (apply_dhcp6_stateless E name))
              | Dhcp6Method \<Rightarrow> apply_dhcp6 E index)
       (if cp_dns profile = [] then return_io ()
        else on_world (dns_apply_static (ln_fs E) (List.map_filter parse_ip (cp_dns profile)) [])))))"

definition activate :: "'w LinkEnv \<Rightarrow> ConnectionProfile \<Rightarrow> (link_state \<times> 'w, ActiveConnection) io" where
  "activate E profile =
     then_io (on_device (\<lambda>d. d\<lparr>nd_state := Connecting\<rparr>))
    (bind_io (get_state fst) (\<lambda>device.
     let index = nd_index device; name = nd_name device in
     if cp_device_type profile = VpnType then activate_vpn E profile
     else
       then_io (if cp_device_type profile = WiFi then on_world (associate E profile name)
                else on_world (then_io (bring_up (ln_kernel E) (ln_fuel E) index)
                  (wait_for_carrier (ln_kernel E) (ln_clock E) (ln_fuel E) index CARRIER_TIMEOUT_MS)))
      (then_io (configure_ip E profile index)
         (activated E profile name))))"

section \<open>Deactivation, \<^verbatim>\<open>connection/deactivation.rs\<close>\<close>

type_synonym down_state = "ActiveConnection \<times> link_state"

definition unlink :: "'w LinkEnv \<Rightarrow> NetworkDevice \<Rightarrow> (down_state \<times> 'w, unit) io" where
  "unlink E device =
     (if nd_device_type device = VpnType then
        bind_io (get_state (snd \<circ> snd)) (\<lambda>t.
        bind_io (on_world (vpn_disconnect (ln_kernel E) (ln_ovpn E) (ln_fuel E) (nd_name device) t)) (\<lambda>(r, t').
        then_io (modify_state (\<lambda>(a, d, _). (a, d, t'))) (lift_io r)))
      else
        on_world
         (then_io (ignore_io (release (ln_kernel E) (udp_of E) (ln_fuel E) (nd_name device)))
         (then_io (ignore_io (release_persisted (ln_kernel E) (udp6_of E) (ln_fuel E) (nd_name device)))
         (then_io (address_flush (ln_kernel E) (ln_fuel E) (nd_index device))
           (if nd_device_type device = WiFi
            then wifi_disconnect (ln_wpa E) (ctrl_dir_of (ln_ctrl_dir E)) (nd_name device)
            else return_io ())))))"

definition deactivate :: "'w LinkEnv \<Rightarrow> (down_state \<times> 'w, unit) io" where
  "deactivate E =
     then_io (modify_state (\<lambda>(a, d, t). (a\<lparr>ac_state := AcDeactivating\<rparr>, d\<lparr>nd_state := Deactivating\<rparr>, t)))
    (bind_io (get_state (fst \<circ> snd)) (\<lambda>device.
     then_io (unlink E device)
       (modify_state (\<lambda>(a, d, t). (a\<lparr>ac_state := AcDeactivated\<rparr>,
          d\<lparr>nd_state := Disconnected, nd_active_connection := None, nd_ipv4_addresses := [],
             nd_ipv6_addresses := []\<rparr>, t)))))"

section \<open>Calls beside a state\<close>

lemma then_io_cases:
  assumes "then_io m n w = Ret (r, w')"
  obtains (ok) w1 where "m w = Ret (Inr (), w1)" "n w1 = Ret (r, w')"
    | (err) e where "m w = Ret (Inl e, w')" "r = Inl e"
  using assms unfolding then_io_def by (cases rule: bind_io_cases) auto

lemma zoomed_Ok:
  assumes "zoom get put m (s, w) = Ret (r, s')"
  shows "\<exists>t w'. s' = (put t s, w') \<and> m (get s, w) = Ret (r, (t, w'))"
  using assms by (cases s') (auto elim: zoom_cases)

lemma on_world_Ok:
  assumes "on_world m (s, w) = Ret (r, s')"
  shows "\<exists>w'. s' = (s, w') \<and> m w = Ret (r, w')"
  using assms by (cases s') (auto dest: on_world_cases)

lemma world_bind_Ok:
  "bind_io (on_world m) f (s, w) = Ret (Inr y, z) \<longleftrightarrow>
     (\<exists>x w1. m w = Ret (Inr x, w1) \<and> f x (s, w1) = Ret (Inr y, z))"
  unfolding bind_io_Ok by (auto simp: on_world_Ret dest!: on_world_Ok)

lemma world_then_Ok:
  "then_io (on_world m) n (s, w) = Ret (Inr y, z) \<longleftrightarrow>
     (\<exists>w1. m w = Ret (Inr (), w1) \<and> n (s, w1) = Ret (Inr y, z))"
  unfolding then_io_def world_bind_Ok by simp

section \<open>What activation and deactivation leave behind\<close>

text \<open>The parts of a device neither of them changes.\<close>

definition same_link :: "NetworkDevice \<Rightarrow> NetworkDevice \<Rightarrow> bool" where
  "same_link d d' \<longleftrightarrow> nd_name d' = nd_name d \<and> nd_index d' = nd_index d \<and>
     nd_device_type d' = nd_device_type d \<and> nd_mac_address d' = nd_mac_address d \<and> nd_mtu d' = nd_mtu d \<and>
     nd_carrier d' = nd_carrier d \<and> nd_driver d' = nd_driver d"

text \<open>A device that is being activated.\<close>

definition in_progress :: "NetworkDevice \<Rightarrow> NetworkDevice \<Rightarrow> bool" where
  "in_progress d d' \<longleftrightarrow> same_link d d' \<and> nd_state d' \<in> {Connecting, IpConfiguring} \<and>
     nd_active_connection d' = nd_active_connection d"

abbreviation progress :: "NetworkDevice \<Rightarrow> VpnTable \<Rightarrow> link_state \<times> 'w \<Rightarrow> bool" where
  "progress d t \<equiv> \<lambda>(s, w). in_progress d (fst s) \<and> snd s = t"

lemma keeps_progress_world: "keeps_io (progress d t) (on_world m)"
  by (rule keeps_on_world)

lemma keeps_progress_device:
  "(\<And>x. in_progress d x \<Longrightarrow> in_progress d (f x)) \<Longrightarrow> keeps_io (progress d t) (on_device f)"
  unfolding keeps_io_def modify_state_def by auto

lemma keeps_if: "keeps_io P m \<Longrightarrow> keeps_io P n \<Longrightarrow> keeps_io P (if b then m else n)"
  by simp

lemmas progress_intros = keeps_bind keeps_then keeps_get_state keeps_basic keeps_progress_world
  keeps_progress_device keeps_if

lemma keeps_configure_ip: "keeps_io (progress d t) (configure_ip E profile index)"
  unfolding configure_ip_def apply_dhcp_def apply_dhcp6_def
  by (cases "cp_method profile"; cases "cp_ipv6_method profile")
     (simp only: AddressMethod.case Ipv6Method.case,
      intro progress_intros; simp add: in_progress_def same_link_def)+

text \<open>The outcome of an activation.\<close>

definition activation_outcome ::
    "ConnectionProfile \<Rightarrow> NetworkDevice \<Rightarrow> VpnTable \<Rightarrow> ActiveConnection result \<Rightarrow> NetworkDevice \<Rightarrow> VpnTable \<Rightarrow> bool" where
  "activation_outcome profile d t r d' t' \<longleftrightarrow> same_link d d' \<and>
     (case r of
        Inr a \<Rightarrow> nd_state d' = Activated \<and> nd_active_connection d' = Some (cp_id profile) \<and>
          ac_profile_id a = cp_id profile \<and> ac_state a = AcActivated \<and> ac_failure_reason a = None \<and>
          (cp_device_type profile \<noteq> VpnType \<longrightarrow> ac_device_name a = nd_name d \<and> t' = t)
      | Inl _ \<Rightarrow> in_progress d d' \<and> t' = t)"

lemma activated_result:
  assumes "activated E profile name ((d1, t1), w) = Ret (r, ((d', t'), w'))"
  shows "t' = t1 \<and> d' = d1\<lparr>nd_state := Activated, nd_active_connection := Some (cp_id profile)\<rparr> \<and>
    (\<exists>now. r = Inr \<lparr>ac_profile_id = cp_id profile, ac_device_name = name, ac_state = AcActivated,
       ac_since = now, ac_failure_reason = None\<rparr>)"
  using assms
  by (auto simp: activated_def then_io_def bind_io_def on_world_def ask_def return_io_def split: prod.splits)

lemma activated_outcome:
  assumes "activated E profile name ((d1, t1), w) = Ret (r, ((d', t'), w'))" "in_progress d d1"
    and "cp_device_type profile \<noteq> VpnType \<Longrightarrow> name = nd_name d \<and> t1 = t"
  shows "activation_outcome profile d t r d' t'"
  using activated_result [OF assms(1)] assms(2,3)
  by (auto simp: activation_outcome_def in_progress_def same_link_def)

lemma activate_vpn_outcome:
  assumes "activate_vpn E profile ((d1, t), w) = Ret (r, ((d', t'), w'))" "in_progress d d1"
    and "cp_device_type profile = VpnType"
  shows "activation_outcome profile d t r d' t'"
proof -
  have fail: "activation_outcome profile d t (Inl e) d1 t" for e
    using assms(2) by (simp add: activation_outcome_def in_progress_def)
  show ?thesis
  proof (cases "cp_vpn profile")
    case None
    with assms(1) fail show ?thesis by (auto simp: activate_vpn_def ok_or_def lift_io_def bind_io_def)
  next
    case (Some vpn)
    let ?m = "on_world (vpn_connect (ln_kernel E) (vpn_of E) (ln_ovpn E) (ln_fuel E) (vp_kind vpn) (vp_config vpn)
       (cp_id profile) t)"
    have "bind_io ?m (\<lambda>(session, t'). then_io (modify_state (\<lambda>(d, _). (d, t')))
       (activated E profile (vs_interface_name session))) ((d1, t), w) = Ret (r, ((d', t'), w'))"
      using assms(1) by (simp add: activate_vpn_def Some ok_or_def lift_io_unit)
    then show ?thesis
    proof (cases rule: bind_io_cases)
      case (ok x s)
      obtain session t1 where x: "x = (session, t1)" by (cases x)
      obtain w1 where s: "s = ((d1, t), w1)" using ok(1) by (cases s) (auto dest: on_world_cases)
      have "activated E profile (vs_interface_name session) ((d1, t1), w1) = Ret (r, ((d', t'), w'))"
        using ok(2) by (simp add: x s then_io_def)
      then show ?thesis by (rule activated_outcome) (simp_all add: assms)
    next
      case (err e)
      with fail show ?thesis by (auto dest: on_world_cases)
    qed
  qed
qed

lemma activate_outcome:
  assumes "activate E profile ((d, t), w) = Ret (r, ((d', t'), w'))"
  shows "activation_outcome profile d t r d' t'"
proof -
  let ?d = "d\<lparr>nd_state := Connecting\<rparr>"
  let ?link = "if cp_device_type profile = WiFi then on_world (associate E profile (nd_name d))
      else on_world (then_io (bring_up (ln_kernel E) (ln_fuel E) (nd_index d))
             (wait_for_carrier (ln_kernel E) (ln_clock E) (ln_fuel E) (nd_index d) 10000))"
  have start: "in_progress d ?d" by (simp add: in_progress_def same_link_def)
  show ?thesis
  proof (cases "cp_device_type profile = VpnType")
    case True
    with assms have "activate_vpn E profile ((?d, t), w) = Ret (r, ((d', t'), w'))"
      by (simp add: activate_def then_io_def)
    then show ?thesis by (rule activate_vpn_outcome [OF _ start True])
  next
    case False
    let ?prep = "then_io ?link (configure_ip E profile (nd_index d))"
    have k: "keeps_io (progress d t) ?prep"
      by (intro progress_intros keeps_configure_ip)
    from False assms have "then_io ?prep (activated E profile (nd_name d)) ((?d, t), w) = Ret (r, ((d', t'), w'))"
      by (simp add: activate_def then_io_def bind_io_assoc Let_def split del: if_split cong: if_cong)
    then show ?thesis
    proof (cases rule: then_io_cases)
      case (ok s)
      obtain d1 t1 w1 where s: "s = ((d1, t1), w1)" by (metis surj_pair)
      from keeps_ioD [OF k ok(1)] start s have "in_progress d d1" "t1 = t" by simp_all
      with ok(2) s show ?thesis by (intro activated_outcome [of E profile "nd_name d"]) simp_all
    next
      case (err e)
      from keeps_ioD [OF k err(1)] start err(2) show ?thesis
        by (simp add: activation_outcome_def in_progress_def)
    qed
  qed
qed

text \<open>The outcome of a deactivation.\<close>

definition deactivation_outcome :: "NetworkDevice \<Rightarrow> unit result \<Rightarrow> NetworkDevice \<Rightarrow> bool" where
  "deactivation_outcome d r d' \<longleftrightarrow> same_link d d' \<and>
     (case r of
        Inr _ \<Rightarrow> nd_state d' = Disconnected \<and> nd_active_connection d' = None \<and>
          nd_ipv4_addresses d' = [] \<and> nd_ipv6_addresses d' = []
      | Inl _ \<Rightarrow> nd_state d' = Deactivating \<and> nd_active_connection d' = nd_active_connection d)"

lemma keeps_unlink: "keeps_io (\<lambda>(s, w). P (fst s) (fst (snd s))) (unlink E device)"
proof -
  have m: "keeps_io (\<lambda>(s, w). P (fst s) (fst (snd s))) (modify_state (\<lambda>(a, d, _). (a, d, t')))" for t'
    unfolding keeps_io_def modify_state_def by auto
  show ?thesis
    unfolding unlink_def by (intro keeps_if keeps_bind keeps_get_state keeps_on_world)
      (auto intro!: keeps_then keeps_basic m split: prod.split)
qed

lemma deactivate_outcome:
  assumes "deactivate E ((a, d, t), w) = Ret (r, ((a', d', t'), w'))"
  shows "deactivation_outcome d r d'"
proof -
  let ?s = "((a\<lparr>ac_state := AcDeactivating\<rparr>, d\<lparr>nd_state := Deactivating\<rparr>, t), w)"
  let ?P = "\<lambda>x y. y = d\<lparr>nd_state := Deactivating\<rparr>"
  from assms have "then_io (unlink E (d\<lparr>nd_state := Deactivating\<rparr>))
       (modify_state (\<lambda>(a, d, t). (a\<lparr>ac_state := AcDeactivated\<rparr>,
          d\<lparr>nd_state := Disconnected, nd_active_connection := None, nd_ipv4_addresses := [],
             nd_ipv6_addresses := []\<rparr>, t))) ?s = Ret (r, ((a', d', t'), w'))"
    by (simp add: deactivate_def then_io_def)
  then show ?thesis
  proof (cases rule: then_io_cases)
    case (ok s)
    obtain a1 d1 t1 w1 where s: "s = ((a1, d1, t1), w1)" by (metis surj_pair)
    from keeps_ioD [OF keeps_unlink [of ?P] ok(1)] ok(2) s show ?thesis
      by (auto simp: deactivation_outcome_def same_link_def)
  next
    case (err e)
    from keeps_ioD [OF keeps_unlink [of ?P] err(1)] err(2) show ?thesis
      by (auto simp: deactivation_outcome_def same_link_def)
  qed
qed

section \<open>VPN profiles\<close>

text \<open>A connect tracks the session under the interface name it reports and leaves other entries alone.\<close>

lemma vpn_connect_tracks:
  assumes "vpn_connect K V Ov fuel kind config i t w = Ret (Inr (session, t'), w')"
  shows "hm_get (vt_active t') (vs_interface_name session) = Some kind \<and>
    (\<forall>j. j \<noteq> vs_interface_name session \<longrightarrow> hm_get (vt_active t') j = hm_get (vt_active t) j)"
  using assms
  by (cases kind)
     (auto simp: vpn_connect_def bind_io_Ok vpn_track_def hm.get_ins split: prod.splits)

lemma activate_vpn_session:
  assumes a: "activate E profile ((d, t), w) = Ret (Inr a, ((d1, t1), w1))" and v: "cp_device_type profile = VpnType"
  shows "(\<exists>kind. hm_get (vt_active t1) (ac_device_name a) = Some kind) \<and>
    (\<forall>j. j \<noteq> ac_device_name a \<longrightarrow> hm_get (vt_active t1) j = hm_get (vt_active t) j)"
proof -
  let ?d = "d\<lparr>nd_state := Connecting\<rparr>"
  from a v have m: "activate_vpn E profile ((?d, t), w) = Ret (Inr a, ((d1, t1), w1))"
    by (simp add: activate_def then_io_def)
  then obtain vpn where vpn: "cp_vpn profile = Some vpn"
    by (cases "cp_vpn profile") (auto simp: activate_vpn_def ok_or_def lift_io_def bind_io_def)
  let ?c = "vpn_connect (ln_kernel E) (vpn_of E) (ln_ovpn E) (ln_fuel E) (vp_kind vpn) (vp_config vpn) (cp_id profile) t"
  from m obtain session t2 s where c: "on_world ?c ((?d, t), w) = Ret (Inr (session, t2), s)"
    and r: "then_io (modify_state (\<lambda>(d, _). (d, t2))) (activated E profile (vs_interface_name session)) s
      = Ret (Inr a, ((d1, t1), w1))"
    by (auto simp: activate_vpn_def vpn ok_or_def lift_io_unit bind_io_Ok)
  obtain w2 where s: "s = ((?d, t), w2)" "?c w = Ret (Inr (session, t2), w2)"
    using c by (cases s) (auto dest: on_world_cases)
  from r have "activated E profile (vs_interface_name session) ((?d, t2), w2) = Ret (Inr a, ((d1, t1), w1))"
    by (simp add: s(1) then_io_def)
  from activated_result [OF this] have "t1 = t2" "ac_device_name a = vs_interface_name session" by auto
  with vpn_connect_tracks [OF s(2)] show ?thesis by auto
qed

lemma deactivate_untracked:
  assumes "nd_device_type d = VpnType" "hm_get (vt_active t) (nd_name d) = None"
  shows "\<exists>a' d' t'. deactivate E ((a, d, t), w) =
      Ret (Inl (NotFound (''no active VPN session on '' @ quoted (nd_name d))), ((a', d', t'), w)) \<and>
    nd_state d' = Deactivating \<and> nd_active_connection d' = nd_active_connection d \<and>
    hm_get (vt_active t') = hm_get (vt_active t)"
  using assms
  by (simp add: deactivate_def unlink_def then_io_def vpn_disconnect_def vpn_untrack_def on_world_Ret return_io_apply
      lift_io_def hm.get_del fun_eq_iff)

text \<open>C24. A VPN profile is activated on a device but its session is tracked under the interface the session
  reports, and deactivation looks for the device's name. Where the two differ, as they always do for
  OpenVPN, deactivating fails: the session stays, and the device stays in Deactivating with its connection
  set.\<close>

theorem vpn_deactivation_misses:
  assumes up: "activate E profile ((d, t), w) = Ret (Inr a, ((d1, t1), w1))"
    and vpn: "cp_device_type profile = VpnType" "nd_device_type d = VpnType"
    and other: "ac_device_name a \<noteq> nd_name d" and free: "hm_get (vt_active t) (nd_name d) = None"
  shows "\<exists>a' d' t' e. deactivate E ((a, d1, t1), w1) = Ret (Inl e, ((a', d', t'), w1)) \<and>
    hm_get (vt_active t') (ac_device_name a) \<noteq> None \<and>
    nd_state d' = Deactivating \<and> nd_active_connection d' = Some (cp_id profile)"
proof -
  have o: "same_link d d1" "nd_active_connection d1 = Some (cp_id profile)"
    using activate_outcome [OF up] by (simp_all add: activation_outcome_def)
  have s: "\<exists>kind. hm_get (vt_active t1) (ac_device_name a) = Some kind" "hm_get (vt_active t1) (nd_name d1) = None"
    using activate_vpn_session [OF up vpn(1)] other free o(1) by (auto simp: same_link_def)
  have "nd_device_type d1 = VpnType" using o(1) vpn(2) by (simp add: same_link_def)
  from deactivate_untracked [OF this s(2), of E a w1] o(2) s(1) show ?thesis by fastforce
qed

section \<open>A host for examples\<close>

text \<open>A host without network: every socket call fails, no file exists, and the clock stands still.\<close>

definition quiet_kernel :: "'w Kernel" where
  "quiet_kernel = \<lparr>k_socket = (\<lambda>_ w. (Inl ''no socket'', w)), k_bind = (\<lambda>_ _ w. (Inl ''no socket'', w)),
     k_send = (\<lambda>_ _ w. (Inl ''no socket'', w)), k_recv = (\<lambda>_ w. (Inl ''no socket'', w)), k_close = (\<lambda>_ w. w),
     k_strerror = (\<lambda>_. ''error'')\<rparr>"

definition quiet_fs :: "'w Fs" where
  "quiet_fs = \<lparr>fs_read_to_string = (\<lambda>_ w. (Inl missing_file, w)), fs_write = (\<lambda>_ _ w. (Inr (), w)),
     fs_rename = (\<lambda>_ _ w. (Inr (), w)), fs_create_dir_all = (\<lambda>_ w. (Inr (), w)),
     fs_remove_file = (\<lambda>_ w. (Inl missing_file, w)), fs_read_dir = (\<lambda>_ w. (Inr [], w)),
     fs_mtime = (\<lambda>_ w. (None, w)), fs_read = (\<lambda>_ w. (Inl missing_file, w))\<rparr>"

definition quiet_wpa :: "'w WpaEnv" where
  "quiet_wpa = \<lparr>te_urandom = (\<lambda>w. (Inr [1, 2], w)), te_temp_dir = ''/tmp'',
     te_create_dir = (\<lambda>_ w. (Created, w)), te_create_new = (\<lambda>_ w. (Created, w)),
     wp_bind = (\<lambda>_ w. (Inl ''no socket'', w)), wp_connect = (\<lambda>_ _ w. (Inl ''no socket'', w)),
     wp_set_timeout = (\<lambda>_ _ w. (Inr (), w)), wp_send = (\<lambda>_ _ w. (Inl ''no socket'', w)),
     wp_recv = (\<lambda>_ w. (RecvFailed ''no socket'', w)), wp_close = (\<lambda>_ w. w), wp_unlink = (\<lambda>_ w. w),
     wp_now = (\<lambda>w. (0, w)), wp_sleep = (\<lambda>_ w. w), wp_open = (\<lambda>_ w. (Inl ''no file'', w))\<rparr>"

text \<open>An openvpn that connects at once on \<open>tun0\<close>.\<close>

definition prompt_ovpn :: "'w OvpnEnv" where
  "prompt_ovpn = \<lparr>te_urandom = (\<lambda>w. (Inr [1, 2], w)), te_temp_dir = ''/tmp'',
     te_create_dir = (\<lambda>_ w. (Created, w)), te_create_new = (\<lambda>_ w. (Created, w)),
     ov_is_file = (\<lambda>_ w. (True, w)), ov_write_new = (\<lambda>_ _ w. (Inr (), w)), ov_append = (\<lambda>_ _ w. (Inr (), w)),
     ov_bind = (\<lambda>_ w. (Inr (), w)), ov_spawn = (\<lambda>_ w. (Inr 1, w)), ov_listen_nonblocking = (\<lambda>w. (Inr (), w)),
     ov_accept = (\<lambda>w. (Accepted 5, w)), ov_stream_blocking = (\<lambda>_ w. (Inr (), w)),
     ov_send_line = (\<lambda>_ _ w. (Inr (), w)), ov_try_clone = (\<lambda>_ w. (Inr (), w)),
     ov_mgmt_lines = (\<lambda>_ _ w. (([''>STATE:1,CONNECTED,SUCCESS''], False), w)),
     ov_read_file = (\<lambda>_ w. (Some ''tun0'', w)), ov_kill_wait = (\<lambda>_ w. w),
     ov_remove_dir_all = (\<lambda>_ w. w), ov_remove_file = (\<lambda>_ w. w), ov_remove_later = (\<lambda>_ w. w),
     ov_now = (\<lambda>w. (0, w)), ov_sleep = (\<lambda>_ w. w)\<rparr>"

definition quiet_link :: "'w LinkEnv" where
  "quiet_link = \<lparr>ln_kernel = quiet_kernel, ln_clock = \<lparr>ck_now = (\<lambda>w. (0, w)), ck_sleep = (\<lambda>_ w. w)\<rparr>,
     ln_wpa = quiet_wpa,
     ln_udp = \<lparr>u_now = (\<lambda>w. (0, w)), u_unix = (\<lambda>w. (0, w)), u_nanos = (\<lambda>w. (0, w)), u_pid = 1,
       u_hostname = (\<lambda>w. (None, w)), u_socket = (\<lambda>w. (Inl ''no socket'', w)), u_bind = (\<lambda>_ w. (Inl ''no socket'', w)),
       u_send = (\<lambda>_ _ w. (Inl ''no socket'', w)), u_recv = (\<lambda>w. (WouldBlock, w)),
       u_load_lease = (\<lambda>_ w. (Inr None, w)), u_clear_lease = (\<lambda>_ w. (Inr (), w))\<rparr>,
     ln_udp6 = \<lparr>d6_now = (\<lambda>w. (0, w)), d6_unix = (\<lambda>w. (0, w)), d6_nanos = (\<lambda>w. (0, w)), d6_pid = 1,
       d6_bind = (\<lambda>w. (Inl ''no socket'', w)), d6_set_timeout = (\<lambda>_ w. (Inr (), w)),
       d6_send = (\<lambda>_ _ _ _ w. (Inl ''no socket'', w)), d6_recv = (\<lambda>w. (Failed6 ''no socket'', w)),
       d6_load_lease = (\<lambda>_ w. (Inr None, w)), d6_clear_lease = (\<lambda>_ w. (Inr (), w))\<rparr>,
     ln_vpn = \<lparr>ve_toml = (\<lambda>_. Inl ''not toml''), ve_lookup = (\<lambda>_ w. (Inl ''no resolver'', w)),
       ve_secret = (\<lambda>_ _ w. (Inr None, w))\<rparr>,
     ln_ovpn = prompt_ovpn, ln_fs = quiet_fs,
     ln_secrets = \<lparr>sb_get = (\<lambda>_ _ w. (Inr None, w)), sb_set = (\<lambda>_ _ _ w. (Inr (), w)),
       sb_delete_all = (\<lambda>_ w. (Inr (), w))\<rparr>,
     ln_lease_codec = \<lparr>enc = (\<lambda>_. Inr []), dec = (\<lambda>_. Inl [])\<rparr>,
     ln_lease6_codec = \<lparr>enc = (\<lambda>_. Inr []), dec = (\<lambda>_. Inl [])\<rparr>,
     ln_system_time = (\<lambda>w. (0, w)), ln_data_dir = None, ln_ctrl_dir = None, ln_fuel = 1\<rparr>"

definition office_vpn :: ConnectionProfile where
  "office_vpn = (sample_profile ''office'' None 0)\<lparr>cp_device_type := VpnType,
     cp_vpn := Some \<lparr>vp_kind = OpenVpnKind, vp_config = ''/etc/office.ovpn''\<rparr>\<rparr>"

definition wg_device :: NetworkDevice where
  "wg_device = sample_device\<lparr>nd_name := ''wg0'', nd_device_type := VpnType\<rparr>"

lemma prompt_temp_dir: "\<exists>p. create_secret_temp_dir prompt_ovpn pre () = Ret (Inr p, ())"
  by (simp add: create_secret_temp_dir_def eval_nat_numeral random_temp_path_def random_suffix_def prompt_ovpn_def
      sys_call_def ask_def bind_io_def return_io_def)

lemma prompt_accept: "accept_with_timeout prompt_ovpn (Suc 0) t () = Ret (Inr 5, ())"
  by (simp add: accept_with_timeout_def then_io_def sys_call_def ask_def prompt_ovpn_def bind_io_def return_io_def)

lemma prompt_ifname: "read_ifname_with_retry prompt_ovpn (Suc 0) path t () = Ret (Inr (Some ''tun0''), ())"
proof -
  have "trim ''tun0'' = ''tun0''" by code_simp
  then show ?thesis by (simp add: read_ifname_with_retry_def ask_def prompt_ovpn_def bind_io_def Let_def)
qed

lemma prompt_reader:
  "\<exists>st. background_reader prompt_ovpn (Suc 0) path [''>STATE:1,CONNECTED,SUCCESS''] False () =
     Ret (Inr (st, Some (MgmtConnected (Some ''tun0''))), ())"
proof -
  have "state_of_line ''>STATE:1,CONNECTED,SUCCESS'' = Some ''CONNECTED''" by code_simp
  then show ?thesis
    by (simp add: background_reader_def reader_line_def Let_def prompt_ifname send_once_def return_io_apply)
qed

lemma office_session:
  "\<exists>session. openvpn_connect prompt_ovpn (\<lambda>_ _ w. (Inr None, w)) (Suc 0) conf ident () =
     Ret (Inr (''tun0'', session), ())"
proof -
  obtain p where p: "create_secret_temp_dir prompt_ovpn ''mitos-ovpn'' () = Ret (Inr p, ())"
    using prompt_temp_dir by blast
  obtain st where st: "background_reader prompt_ovpn (Suc 0) (p @ ''/ifname'') [''>STATE:1,CONNECTED,SUCCESS''] False () =
     Ret (Inr (st, Some (MgmtConnected (Some ''tun0''))), ())"
    using prompt_reader by blast
  have calls: "sys_call mk (ov_bind prompt_ovpn x) () = Ret (Inr (), ())"
    "sys_call mk (ov_write_new prompt_ovpn x y) () = Ret (Inr (), ())"
    "sys_call mk2 (ov_spawn prompt_ovpn z) () = Ret (Inr 1, ())"
    "sys_call mk (ov_send_line prompt_ovpn n x) () = Ret (Inr (), ())"
    "sys_call mk (ov_try_clone prompt_ovpn n) () = Ret (Inr (), ())"
    "ask (ov_is_file prompt_ovpn x) () = Ret (Inr True, ())"
    "ask (ov_mgmt_lines prompt_ovpn n m) () = Ret (Inr ([''>STATE:1,CONNECTED,SUCCESS''], False), ())"
    "ask_result (\<lambda>w. (Inr None, w)) () = Ret (Inr None, ())"
    for mk mk2 x y z n m
    by (simp_all add: sys_call_def ask_def ask_result_def prompt_ovpn_def)
  show ?thesis
    by (simp add: openvpn_connect_def then_io_def p on_error_def write_script_def calls write_userpass_def
        return_io_apply if_some_def await_connected_def prompt_accept do_io_def st)
qed

lemma office_up:
  "\<exists>a d1 t1. activate quiet_link office_vpn ((wg_device, \<lparr>vt_active = [], vt_sessions = []\<rparr>), ()) =
     Ret (Inr a, ((d1, t1), ())) \<and> ac_device_name a = ''tun0''"
proof -
  obtain session where "openvpn_connect prompt_ovpn (\<lambda>_ _ w. (Inr None, w)) (Suc 0) ''/etc/office.ovpn'' ''office'' () =
     Ret (Inr (''tun0'', session), ())"
    using office_session by blast
  then show ?thesis
    by (simp add: activate_def then_io_def activate_vpn_def office_vpn_def ok_or_def lift_io_unit sample_profile_def
        new_wifi_def vpn_connect_def vpn_of_def quiet_link_def on_world_def return_io_def activated_def ask_def)
qed

theorem vpn_deactivation_misses_witness:
  "\<exists>a d1 t1. activate quiet_link office_vpn ((wg_device, \<lparr>vt_active = [], vt_sessions = []\<rparr>), ()) =
       Ret (Inr a, ((d1, t1), ())) \<and>
     (\<exists>a' d' t' e. deactivate quiet_link ((a, d1, t1), ()) = Ret (Inl e, ((a', d', t'), ())) \<and>
        hm_get (vt_active t') (ac_device_name a) \<noteq> None \<and> nd_state d' = Deactivating)"
proof -
  obtain a d1 t1 where up: "activate quiet_link office_vpn ((wg_device, \<lparr>vt_active = [], vt_sessions = []\<rparr>), ()) =
     Ret (Inr a, ((d1, t1), ()))" "ac_device_name a = ''tun0''"
    using office_up by blast
  have "cp_device_type office_vpn = VpnType" "nd_device_type wg_device = VpnType"
    "ac_device_name a \<noteq> nd_name wg_device" "hm_get (vt_active \<lparr>vt_active = [], vt_sessions = []\<rparr>) (nd_name wg_device) = None"
    by (simp_all add: office_vpn_def wg_device_def up(2) hm_get_def)
  from vpn_deactivation_misses [OF up(1) this] up(1) show ?thesis by blast
qed

end
