(* ===== verification/Firewall.thy ===== *)
theory Firewall
  imports Rust_Io Security Ip_Addr
begin

text \<open>
  The firewall of \<^verbatim>\<open>src/src/firewall/\<close>: zones and rules, the rendering of the nftables ruleset, and
  the operations that change the state and load the new ruleset. The \<open>nft\<close> program is a parameter.
  The input chain is also given as a list of entries with nftables' first-match evaluation.
\<close>

section \<open>Rules and zones\<close>

datatype Direction = Inbound | Outbound
datatype Action = ActAccept | ActDrop | ActReject
datatype Protocol = Tcp | Udp | Icmp

definition nft_name :: "Protocol \<Rightarrow> string" where
  "nft_name p = (case p of Tcp \<Rightarrow> ''tcp'' | Udp \<Rightarrow> ''udp'' | Icmp \<Rightarrow> ''icmp'')"

record PortSpec =
  ps_start :: u16
  ps_end :: "u16 option"

definition single :: "u16 \<Rightarrow> PortSpec" where
  "single port = \<lparr>ps_start = port, ps_end = None\<rparr>"

definition nft_expr :: "PortSpec \<Rightarrow> string" where
  "nft_expr p =
     (case ps_end p of
        Some e \<Rightarrow> show_nat (unat (ps_start p)) @ ''-'' @ show_nat (unat e)
      | None \<Rightarrow> show_nat (unat (ps_start p)))"

record Rule =
  ru_id :: string
  ru_zone :: string
  ru_direction :: Direction
  ru_action :: Action
  ru_protocol :: "Protocol option"
  ru_port :: "PortSpec option"
  ru_source :: "string option"

definition allow_inbound_port :: "string \<Rightarrow> string \<Rightarrow> Protocol \<Rightarrow> u16 \<Rightarrow> Rule" where
  "allow_inbound_port ident zone protocol port =
     \<lparr>ru_id = ident, ru_zone = zone, ru_direction = Inbound, ru_action = ActAccept,
      ru_protocol = Some protocol, ru_port = Some (single port), ru_source = None\<rparr>"

datatype DefaultPolicy = PolicyAccept | PolicyDrop

record Zone =
  zo_name :: string
  zo_default_policy :: DefaultPolicy
  zo_interfaces :: "string list"

definition builtin_zones :: "Zone list" where
  "builtin_zones =
     [\<lparr>zo_name = ''public'', zo_default_policy = PolicyDrop, zo_interfaces = []\<rparr>,
      \<lparr>zo_name = ''home'', zo_default_policy = PolicyDrop, zo_interfaces = []\<rparr>,
      \<lparr>zo_name = ''trusted'', zo_default_policy = PolicyAccept, zo_interfaces = []\<rparr>,
      \<lparr>zo_name = ''block'', zo_default_policy = PolicyDrop, zo_interfaces = []\<rparr>]"

definition DEFAULT_ZONE :: string where "DEFAULT_ZONE = ''public''"

section \<open>Rendering\<close>

definition TABLE_NAME :: string where "TABLE_NAME = ''mitos_network''"

definition nft_action :: "Action \<Rightarrow> string" where
  "nft_action a = (case a of ActAccept \<Rightarrow> ''accept'' | ActDrop \<Rightarrow> ''drop'' | ActReject \<Rightarrow> ''reject'')"

definition render_rule :: "Rule \<Rightarrow> string" where
  "render_rule rule =
     (case ru_protocol rule of
        Some proto \<Rightarrow> nft_name proto @ (case ru_port rule of
                                          Some port \<Rightarrow> '' dport '' @ nft_expr port @ '' ''
                                        | None \<Rightarrow> '' '')
      | None \<Rightarrow> []) @
     (case ru_source rule of Some src \<Rightarrow> ''ip saddr '' @ src @ '' '' | None \<Rightarrow> []) @
     nft_action (ru_action rule)"

definition in_dquotes :: "string \<Rightarrow> string" where
  "in_dquotes s = dquote # s @ [dquote]"

definition line :: "string \<Rightarrow> string" where
  "line s = s @ [nl]"

definition iface_set :: "Zone \<Rightarrow> string" where
  "iface_set zone = str_join '', '' (map in_dquotes (zo_interfaces zone))"

definition zone_rules :: "Zone \<Rightarrow> Rule list \<Rightarrow> Rule list" where
  "zone_rules zone rules = filter (\<lambda>r. ru_zone r = zo_name zone \<and> ru_direction r = Inbound) rules"

definition render_zone :: "Rule list \<Rightarrow> Zone \<Rightarrow> string" where
  "render_zone rules zone =
     (if zo_interfaces zone = [] then []
      else
        (if zo_default_policy zone = PolicyAccept
         then line (''        iifname { '' @ iface_set zone @ '' } accept'') else []) @
        concat (map (\<lambda>rule. line (''        iifname { '' @ iface_set zone @ '' } '' @ render_rule rule))
          (zone_rules zone rules)))"

definition render_input :: "Zone list \<Rightarrow> Rule list \<Rightarrow> string" where
  "render_input zones rules =
     line ''    chain input {'' @
     line ''        type filter hook input priority 0; policy drop;'' @
     line ''        ct state established,related accept'' @
     line ''        ct state invalid drop'' @
     line (''        iifname '' @ in_dquotes ''lo'' @ '' accept'') @
     concat (map (render_zone rules) zones) @
     line ''    }'' @ [nl]"

definition render_forward :: "(string \<times> string) list \<Rightarrow> string" where
  "render_forward forward_pairs =
     line ''    chain forward {'' @
     line ''        type filter hook forward priority 0; policy drop;'' @
     line ''        ct state established,related accept'' @
     concat (map (\<lambda>(lan, wan). line (''        iifname '' @ in_dquotes lan @ '' oifname '' @ in_dquotes wan
       @ '' accept'')) forward_pairs) @
     line ''    }'' @ [nl]"

definition render_output :: "Rule list \<Rightarrow> string" where
  "render_output rules =
     line ''    chain output {'' @
     line ''        type filter hook output priority 0; policy accept;'' @
     concat (map (\<lambda>rule. line (''        '' @ render_rule rule))
       (filter (\<lambda>r. ru_direction r = Outbound) rules)) @
     line ''    }''"

definition render_postrouting :: "string list \<Rightarrow> string" where
  "render_postrouting masquerade_interfaces =
     (if masquerade_interfaces \<noteq> [] then
        [nl] @ line ''    chain postrouting {'' @
        line ''        type nat hook postrouting priority 100;'' @
        concat (map (\<lambda>iface. line (''        oifname '' @ in_dquotes iface @ '' masquerade''))
          masquerade_interfaces) @
        line ''    }''
      else [])"

definition render :: "Zone list \<Rightarrow> Rule list \<Rightarrow> string list \<Rightarrow> (string \<times> string) list \<Rightarrow> string" where
  "render zones rules masquerade_interfaces forward_pairs =
     line ''# Generated by mitos-network. Do not edit by hand --'' @
     line ''# changes here are overwritten on the next firewall reload.'' @
     line (''table inet '' @ TABLE_NAME @ '' {'') @
     render_input zones rules @
     render_forward forward_pairs @
     render_output rules @
     render_postrouting masquerade_interfaces @
     line ''}''"

section \<open>Operations\<close>

text \<open>What running \<open>nft -f -\<close> can end in: it could not be run, it exited with a failure, or it
  loaded the ruleset.\<close>

datatype nft_result = NftRunError string | NftExit string string | NftOk

record 'w Nft =
  nft_delete_table :: "'w \<Rightarrow> 'w"
  nft_load :: "string \<Rightarrow> 'w \<Rightarrow> nft_result \<times> 'w"

definition nft_apply :: "'w Nft \<Rightarrow> string \<Rightarrow> ('w, unit) io" where
  "nft_apply N ruleset w =
     (case nft_load N ruleset (nft_delete_table N w) of
        (NftRunError e, w') \<Rightarrow> Ret (Inl (FirewallErr (''failed to run nft: '' @ e)), w')
      | (NftExit status err, w') \<Rightarrow>
          Ret (Inl (FirewallErr (''nft -f exited with '' @ status @ '': '' @ trim err)), w')
      | (NftOk, w') \<Rightarrow> Ret (Inr (), w'))"

record Firewall =
  fw_zones :: "Zone list"
  fw_rules :: "Rule list"
  fw_masquerade_interfaces :: "string list"
  fw_forward_pairs :: "(string \<times> string) list"

definition fw_new :: Firewall where
  "fw_new = \<lparr>fw_zones = builtin_zones, fw_rules = [], fw_masquerade_interfaces = [], fw_forward_pairs = []\<rparr>"

definition fw_render :: "Firewall \<Rightarrow> string" where
  "fw_render fw = render (fw_zones fw) (fw_rules fw) (fw_masquerade_interfaces fw) (fw_forward_pairs fw)"

text \<open>A step that installs a new in-memory state and then applies it.\<close>

definition fw_commit :: "'w Nft \<Rightarrow> Firewall \<Rightarrow> (Firewall \<times> 'w, unit) io" where
  "fw_commit N fw = (\<lambda>(_, w).
     case nft_apply N (fw_render fw) w of
       Ret (r, w') \<Rightarrow> Ret (r, (fw, w'))
     | Panic \<Rightarrow> Panic
     | NoFuel \<Rightarrow> NoFuel)"

definition zone_exists :: "string \<Rightarrow> Firewall \<Rightarrow> bool" where
  "zone_exists name fw = list_ex (\<lambda>z. zo_name z = name) (fw_zones fw)"

text \<open>\<open>zones.iter_mut().find(...)\<close>: the first zone of that name.\<close>

fun push_interface :: "string \<Rightarrow> string \<Rightarrow> Zone list \<Rightarrow> Zone list" where
  "push_interface interface name [] = []"
| "push_interface interface name (z # zs) =
     (if zo_name z = name then z\<lparr>zo_interfaces := zo_interfaces z @ [interface]\<rparr> # zs
      else z # push_interface interface name zs)"

definition retain_other :: "string \<Rightarrow> Zone \<Rightarrow> Zone" where
  "retain_other interface z = z\<lparr>zo_interfaces := filter (\<lambda>i. i \<noteq> interface) (zo_interfaces z)\<rparr>"

definition assign_zone :: "'w Nft \<Rightarrow> string \<Rightarrow> string \<Rightarrow> (Firewall \<times> 'w, unit) io" where
  "assign_zone N interface zone_name = (\<lambda>(fw, w).
     case validate_interface_name interface of
       Inl e \<Rightarrow> Ret (Inl e, (fw, w))
     | Inr _ \<Rightarrow>
         if \<not> zone_exists zone_name fw then
           Ret (Inl (FirewallErr (''unknown zone '' @ quoted zone_name)), (fw, w))
         else
           let zones = push_interface interface zone_name (map (retain_other interface) (fw_zones fw))
           in fw_commit N (fw\<lparr>fw_zones := zones\<rparr>) (fw, w))"

definition assigned :: "string \<Rightarrow> Firewall \<Rightarrow> bool" where
  "assigned interface fw = list_ex (\<lambda>z. list_ex (\<lambda>i. i = interface) (zo_interfaces z)) (fw_zones fw)"

definition ensure_default_zone :: "'w Nft \<Rightarrow> string \<Rightarrow> (Firewall \<times> 'w, unit) io" where
  "ensure_default_zone N interface = (\<lambda>(fw, w).
     if \<not> assigned interface fw then assign_zone N interface DEFAULT_ZONE (fw, w)
     else Ret (Inr (), (fw, w)))"

definition check_source :: "string option \<Rightarrow> unit result" where
  "check_source source =
     (case source of
        None \<Rightarrow> Inr ()
      | Some src \<Rightarrow>
          (case parse_cidr src of
             Inl _ \<Rightarrow> Inl (FirewallErr (quoted src @ '' is not a valid source address/CIDR''))
           | Inr _ \<Rightarrow> Inr ()))"

definition add_rule :: "'w Nft \<Rightarrow> Rule \<Rightarrow> (Firewall \<times> 'w, unit) io" where
  "add_rule N rule = (\<lambda>(fw, w).
     case validate_identifier (ru_id rule) of
       Inl e \<Rightarrow> Ret (Inl e, (fw, w))
     | Inr _ \<Rightarrow>
         if \<not> zone_exists (ru_zone rule) fw then
           Ret (Inl (FirewallErr (''unknown zone '' @ quoted (ru_zone rule))), (fw, w))
         else
           (case check_source (ru_source rule) of
              Inl e \<Rightarrow> Ret (Inl e, (fw, w))
            | Inr _ \<Rightarrow>
                fw_commit N (fw\<lparr>fw_rules := filter (\<lambda>r. ru_id r \<noteq> ru_id rule) (fw_rules fw) @ [rule]\<rparr>)
                  (fw, w)))"

definition remove_rule :: "'w Nft \<Rightarrow> string \<Rightarrow> (Firewall \<times> 'w, unit) io" where
  "remove_rule N ident = (\<lambda>(fw, w).
     fw_commit N (fw\<lparr>fw_rules := filter (\<lambda>r. ru_id r \<noteq> ident) (fw_rules fw)\<rparr>) (fw, w))"

definition enable_sharing :: "'w Nft \<Rightarrow> string \<Rightarrow> string \<Rightarrow> (Firewall \<times> 'w, unit) io" where
  "enable_sharing N lan wan = (\<lambda>(fw, w).
     case validate_interface_name lan of
       Inl e \<Rightarrow> Ret (Inl e, (fw, w))
     | Inr _ \<Rightarrow>
         (case validate_interface_name wan of
            Inl e \<Rightarrow> Ret (Inl e, (fw, w))
          | Inr _ \<Rightarrow>
              let masq = (if wan \<in> set (fw_masquerade_interfaces fw) then fw_masquerade_interfaces fw
                          else fw_masquerade_interfaces fw @ [wan]);
                  pairs = (if (lan, wan) \<in> set (fw_forward_pairs fw) then fw_forward_pairs fw
                           else fw_forward_pairs fw @ [(lan, wan)])
              in fw_commit N (fw\<lparr>fw_masquerade_interfaces := masq, fw_forward_pairs := pairs\<rparr>) (fw, w)))"

definition disable_sharing :: "'w Nft \<Rightarrow> string \<Rightarrow> string \<Rightarrow> (Firewall \<times> 'w, unit) io" where
  "disable_sharing N lan wan = (\<lambda>(fw, w).
     let pairs = filter (\<lambda>(l, v). \<not> (l = lan \<and> v = wan)) (fw_forward_pairs fw);
         masq = (if \<not> list_ex (\<lambda>(_, v). v = wan) pairs
                 then filter (\<lambda>i. i \<noteq> wan) (fw_masquerade_interfaces fw)
                 else fw_masquerade_interfaces fw)
     in fw_commit N (fw\<lparr>fw_forward_pairs := pairs, fw_masquerade_interfaces := masq\<rparr>) (fw, w))"

section \<open>The state invariant\<close>

definition zone_heads :: "Zone list \<Rightarrow> (string \<times> DefaultPolicy) list" where
  "zone_heads zs = map (\<lambda>z. (zo_name z, zo_default_policy z)) zs"

definition zone_ifaces :: "Zone list \<Rightarrow> string list" where
  "zone_ifaces zs = concat (map zo_interfaces zs)"

definition zones_inv :: "Zone list \<Rightarrow> bool" where
  "zones_inv zs = (zone_heads zs = zone_heads builtin_zones \<and> distinct (zone_ifaces zs))"

definition rules_inv :: "(string \<times> DefaultPolicy) list \<Rightarrow> Rule list \<Rightarrow> bool" where
  "rules_inv heads rs = (distinct (map ru_id rs) \<and> list_all (\<lambda>r. ru_zone r \<in> fst ` set heads) rs)"

definition sharing_inv :: "string list \<Rightarrow> (string \<times> string) list \<Rightarrow> bool" where
  "sharing_inv masq pairs =
     (distinct masq \<and> distinct pairs \<and> (\<forall>v. v \<in> set masq \<longleftrightarrow> (\<exists>l. (l, v) \<in> set pairs)))"

definition fw_inv :: "Firewall \<Rightarrow> bool" where
  "fw_inv fw =
     (zones_inv (fw_zones fw) \<and> rules_inv (zone_heads (fw_zones fw)) (fw_rules fw) \<and>
      sharing_inv (fw_masquerade_interfaces fw) (fw_forward_pairs fw))"

lemma zone_exists_heads: "zone_exists name fw \<longleftrightarrow> name \<in> fst ` set (zone_heads (fw_zones fw))"
  by (force simp: zone_exists_def zone_heads_def list_ex_iff)

lemma retain_heads: "zone_heads (map (retain_other i) zs) = zone_heads zs"
  by (simp add: zone_heads_def retain_other_def comp_def)

lemma push_heads: "zone_heads (push_interface i n zs) = zone_heads zs"
  by (induction zs) (auto simp: zone_heads_def)

lemma retain_ifaces: "zone_ifaces (map (retain_other i) zs) = filter (\<lambda>j. j \<noteq> i) (zone_ifaces zs)"
  by (induction zs) (auto simp: zone_ifaces_def retain_other_def)

lemma push_ifaces:
  "distinct (zone_ifaces zs) \<Longrightarrow> i \<notin> set (zone_ifaces zs) \<Longrightarrow> distinct (zone_ifaces (push_interface i n zs))
     \<and> set (zone_ifaces (push_interface i n zs)) \<subseteq> insert i (set (zone_ifaces zs))"
  by (induction zs) (auto simp: zone_ifaces_def)

lemma assign_zones_inv:
  assumes "distinct (zone_ifaces zs)"
  shows "distinct (zone_ifaces (push_interface i n (map (retain_other i) zs)))"
  using assms push_ifaces [of "map (retain_other i) zs" i n] by (simp add: retain_ifaces)

lemma fw_commit_result: "fw_commit N fw' s = Ret (r, s') \<Longrightarrow> fst s' = fw'"
  by (auto simp: fw_commit_def split: prod.splits outcome.splits)

lemma fw_inv_new: "fw_inv fw_new"
  by (simp add: fw_inv_def fw_new_def zones_inv_def rules_inv_def sharing_inv_def zone_ifaces_def
      builtin_zones_def)

lemma assign_zone_inv:
  assumes "fw_inv fw" "assign_zone N i z (fw, w) = Ret (r, (fw', w'))"
  shows "fw_inv fw'"
proof -
  let ?zs = "push_interface i z (map (retain_other i) (fw_zones fw))"
  have "fw' = fw \<or> fw' = fw\<lparr>fw_zones := ?zs\<rparr>"
    using assms(2) by (auto simp: assign_zone_def Let_def split: sum.splits if_splits dest: fw_commit_result)
  moreover have "zone_heads ?zs = zone_heads (fw_zones fw)" by (simp add: push_heads retain_heads)
  ultimately show ?thesis
    using assms(1) assign_zones_inv [of "fw_zones fw" i z]
    by (auto simp: fw_inv_def zones_inv_def)
qed

lemma rules_inv_add:
  assumes "rules_inv heads rs" "ru_zone rule \<in> fst ` set heads"
  shows "rules_inv heads (filter (\<lambda>r. ru_id r \<noteq> ru_id rule) rs @ [rule])"
  using assms by (auto simp: rules_inv_def list_all_iff distinct_map inj_on_def)

lemma rules_inv_filter: "rules_inv heads rs \<Longrightarrow> rules_inv heads (filter P rs)"
  by (auto simp: rules_inv_def list_all_iff distinct_map inj_on_def)

lemma add_rule_inv:
  assumes "fw_inv fw" "add_rule N rule (fw, w) = Ret (r, (fw', w'))"
  shows "fw_inv fw'"
proof -
  let ?rs = "filter (\<lambda>r. ru_id r \<noteq> ru_id rule) (fw_rules fw) @ [rule]"
  have "fw' = fw \<or> (zone_exists (ru_zone rule) fw \<and> fw' = fw\<lparr>fw_rules := ?rs\<rparr>)"
    using assms(2) by (auto simp: add_rule_def split: sum.splits if_splits dest: fw_commit_result)
  then show ?thesis
    using assms(1) rules_inv_add [of "zone_heads (fw_zones fw)" "fw_rules fw" rule]
    by (elim disjE) (simp_all add: fw_inv_def zone_exists_heads)
qed

lemma remove_rule_inv:
  assumes "fw_inv fw" "remove_rule N ident (fw, w) = Ret (r, (fw', w'))"
  shows "fw_inv fw'"
proof -
  have "fw' = fw\<lparr>fw_rules := filter (\<lambda>r. ru_id r \<noteq> ident) (fw_rules fw)\<rparr>"
    using assms(2) by (auto simp: remove_rule_def dest: fw_commit_result)
  with assms(1) show ?thesis by (simp add: fw_inv_def rules_inv_filter)
qed

lemma sharing_inv_enable:
  assumes "sharing_inv masq pairs"
  shows "sharing_inv (if wan \<in> set masq then masq else masq @ [wan])
    (if (lan, wan) \<in> set pairs then pairs else pairs @ [(lan, wan)])"
  using assms by (auto simp: sharing_inv_def)

lemma enable_sharing_inv:
  assumes "fw_inv fw" "enable_sharing N lan wan (fw, w) = Ret (r, (fw', w'))"
  shows "fw_inv fw'"
proof -
  let ?m = "if wan \<in> set (fw_masquerade_interfaces fw) then fw_masquerade_interfaces fw
    else fw_masquerade_interfaces fw @ [wan]"
  let ?p = "if (lan, wan) \<in> set (fw_forward_pairs fw) then fw_forward_pairs fw
    else fw_forward_pairs fw @ [(lan, wan)]"
  have "fw' = fw \<or> fw' = fw\<lparr>fw_masquerade_interfaces := ?m, fw_forward_pairs := ?p\<rparr>"
    using assms(2)
    by (auto simp: enable_sharing_def Let_def split: sum.splits dest: fw_commit_result)
  then show ?thesis
    using assms(1) sharing_inv_enable [of "fw_masquerade_interfaces fw" "fw_forward_pairs fw" wan lan]
    by (auto simp: fw_inv_def)
qed

lemma sharing_inv_disable:
  assumes "sharing_inv masq pairs" and ps_def: "ps = filter (\<lambda>(l, v). \<not> (l = lan \<and> v = wan)) pairs"
  shows "sharing_inv (if \<not> list_ex (\<lambda>(_, v). v = wan) ps then filter (\<lambda>i. i \<noteq> wan) masq else masq) ps"
proof -
  have w: "list_ex (\<lambda>(_, v). v = wan) ps \<longleftrightarrow> (\<exists>l. (l, wan) \<in> set ps)" by (auto simp: list_ex_iff)
  have o: "(\<exists>l. (l, v) \<in> set ps) \<longleftrightarrow> (\<exists>l. (l, v) \<in> set pairs)" if "v \<noteq> wan" for v
    using that by (auto simp: ps_def)
  have "(\<exists>l. (l, wan) \<in> set ps) \<Longrightarrow> (\<exists>l. (l, wan) \<in> set pairs)" by (auto simp: ps_def)
  with assms(1) w o show ?thesis by (auto simp: sharing_inv_def ps_def)
qed

lemma disable_sharing_inv:
  assumes "fw_inv fw" "disable_sharing N lan wan (fw, w) = Ret (r, (fw', w'))"
  shows "fw_inv fw'"
proof -
  let ?ps = "filter (\<lambda>(l, v). \<not> (l = lan \<and> v = wan)) (fw_forward_pairs fw)"
  let ?ms = "if \<not> list_ex (\<lambda>(_, v). v = wan) ?ps
    then filter (\<lambda>i. i \<noteq> wan) (fw_masquerade_interfaces fw) else fw_masquerade_interfaces fw"
  have "fw' = fw\<lparr>fw_forward_pairs := ?ps, fw_masquerade_interfaces := ?ms\<rparr>"
    using assms(2) by (auto simp: disable_sharing_def Let_def dest: fw_commit_result)
  then show ?thesis
    using assms(1) sharing_inv_disable [OF _ refl, of "fw_masquerade_interfaces fw" "fw_forward_pairs fw" wan lan]
    by (simp add: fw_inv_def)
qed

text \<open>The daemon's firewall over time: any operation with any arguments, whether it succeeds or
  fails.\<close>

inductive fw_step :: "'w Nft \<Rightarrow> Firewall \<times> 'w \<Rightarrow> Firewall \<times> 'w \<Rightarrow> bool" for N where
  step_assign: "assign_zone N i z s = Ret (r, s') \<Longrightarrow> fw_step N s s'"
| step_default: "ensure_default_zone N i s = Ret (r, s') \<Longrightarrow> fw_step N s s'"
| step_add: "add_rule N rule s = Ret (r, s') \<Longrightarrow> fw_step N s s'"
| step_remove: "remove_rule N ident s = Ret (r, s') \<Longrightarrow> fw_step N s s'"
| step_enable: "enable_sharing N lan wan s = Ret (r, s') \<Longrightarrow> fw_step N s s'"
| step_disable: "disable_sharing N lan wan s = Ret (r, s') \<Longrightarrow> fw_step N s s'"

inductive_cases fw_stepE: "fw_step N s s'"

lemma fw_step_inv: "fw_step N s s' \<Longrightarrow> fw_inv (fst s) \<Longrightarrow> fw_inv (fst s')"
proof (induction rule: fw_step.induct)
  case (step_assign i z s r s')
  then show ?case using assign_zone_inv by (cases s; cases s') fastforce
next
  case (step_default i s r s')
  then show ?case
    using assign_zone_inv by (cases s; cases s') (fastforce simp: ensure_default_zone_def split: if_splits)
next
  case (step_add rule s r s')
  then show ?case using add_rule_inv by (cases s; cases s') fastforce
next
  case (step_remove ident s r s')
  then show ?case using remove_rule_inv by (cases s; cases s') fastforce
next
  case (step_enable lan wan s r s')
  then show ?case using enable_sharing_inv by (cases s; cases s') fastforce
next
  case (step_disable lan wan s r s')
  then show ?case using disable_sharing_inv by (cases s; cases s') fastforce
qed

section \<open>The meaning of the input chain\<close>

text \<open>The entries of the input chain in order, and their text.\<close>

datatype input_entry =
  EstablishedAccept | InvalidDrop | LoopbackAccept | ZoneAccept Zone | ZoneRule Zone Rule

definition entry_text :: "input_entry \<Rightarrow> string" where
  "entry_text e =
     (case e of
        EstablishedAccept \<Rightarrow> line ''        ct state established,related accept''
      | InvalidDrop \<Rightarrow> line ''        ct state invalid drop''
      | LoopbackAccept \<Rightarrow> line (''        iifname '' @ in_dquotes ''lo'' @ '' accept'')
      | ZoneAccept z \<Rightarrow> line (''        iifname { '' @ iface_set z @ '' } accept'')
      | ZoneRule z r \<Rightarrow> line (''        iifname { '' @ iface_set z @ '' } '' @ render_rule r))"

definition zone_entries :: "Rule list \<Rightarrow> Zone \<Rightarrow> input_entry list" where
  "zone_entries rules z =
     (if zo_interfaces z = [] then []
      else (if zo_default_policy z = PolicyAccept then [ZoneAccept z] else [])
           @ map (ZoneRule z) (zone_rules z rules))"

definition input_chain :: "Zone list \<Rightarrow> Rule list \<Rightarrow> input_entry list" where
  "input_chain zones rules =
     [EstablishedAccept, InvalidDrop, LoopbackAccept] @ concat (map (zone_entries rules) zones)"

lemma render_zone_entries: "render_zone rules z = concat (map entry_text (zone_entries rules z))"
  by (simp add: render_zone_def zone_entries_def entry_text_def comp_def)

lemma render_input_chain:
  "render_input zones rules =
     line ''    chain input {'' @ line ''        type filter hook input priority 0; policy drop;''
       @ concat (map entry_text (input_chain zones rules)) @ line ''    }'' @ [nl]"
proof -
  have "concat (map (render_zone rules) zones)
      = concat (map entry_text (concat (map (zone_entries rules) zones)))"
    by (induction zones) (simp_all add: render_zone_entries)
  then show ?thesis by (simp add: render_input_def input_chain_def entry_text_def)
qed

text \<open>First-match evaluation with policy drop, as nftables documents it. How \<open>nft\<close> reads the match
  part of a rule is the parameter \<open>rm\<close>.\<close>

datatype ct_state = CtNew | CtEstablished | CtRelated | CtInvalid

record 'p packet_in =
  pk_ct :: ct_state
  pk_iif :: string
  pk_rest :: 'p

definition entry_hit :: "(Rule \<Rightarrow> 'p \<Rightarrow> bool) \<Rightarrow> 'p packet_in \<Rightarrow> input_entry \<Rightarrow> bool" where
  "entry_hit rm p e =
     (case e of
        EstablishedAccept \<Rightarrow> pk_ct p = CtEstablished \<or> pk_ct p = CtRelated
      | InvalidDrop \<Rightarrow> pk_ct p = CtInvalid
      | LoopbackAccept \<Rightarrow> pk_iif p = ''lo''
      | ZoneAccept z \<Rightarrow> pk_iif p \<in> set (zo_interfaces z)
      | ZoneRule z r \<Rightarrow> pk_iif p \<in> set (zo_interfaces z) \<and> rm r (pk_rest p))"

definition entry_action :: "input_entry \<Rightarrow> Action" where
  "entry_action e =
     (case e of
        EstablishedAccept \<Rightarrow> ActAccept | InvalidDrop \<Rightarrow> ActDrop | LoopbackAccept \<Rightarrow> ActAccept
      | ZoneAccept _ \<Rightarrow> ActAccept | ZoneRule _ r \<Rightarrow> ru_action r)"

definition input_verdict :: "(Rule \<Rightarrow> 'p \<Rightarrow> bool) \<Rightarrow> Firewall \<Rightarrow> 'p packet_in \<Rightarrow> Action" where
  "input_verdict rm fw p =
     (case find (entry_hit rm p) (input_chain (fw_zones fw) (fw_rules fw)) of
        Some e \<Rightarrow> entry_action e | None \<Rightarrow> ActDrop)"

lemma find_append: "find P (xs @ ys) = (case find P xs of Some x \<Rightarrow> Some x | None \<Rightarrow> find P ys)"
  by (induction xs) auto

lemma find_concat_skip:
  "(\<And>x. x \<in> set xs \<Longrightarrow> find P (f x) = None) \<Longrightarrow> find P (concat (map f xs)) = None"
  by (induction xs) (auto simp: find_append)

lemma zone_entries_skip:
  "pk_iif p \<notin> set (zo_interfaces z) \<Longrightarrow> find (entry_hit rm p) (zone_entries rules z) = None"
  by (auto simp: zone_entries_def entry_hit_def find_None_iff)

lemma zone_ifaces_split: "zone_ifaces (xs @ z # ys) = zone_ifaces xs @ zo_interfaces z @ zone_ifaces ys"
  by (simp add: zone_ifaces_def)

lemma zone_ifaces_mem: "x \<in> set zs \<Longrightarrow> i \<in> set (zo_interfaces x) \<Longrightarrow> i \<in> set (zone_ifaces zs)"
  by (auto simp: zone_ifaces_def)

lemma input_find_zone:
  assumes "distinct (zone_ifaces (fw_zones fw))" "z \<in> set (fw_zones fw)" "pk_iif p \<in> set (zo_interfaces z)"
    and "pk_ct p = CtNew" "pk_iif p \<noteq> ''lo''"
  shows "find (entry_hit rm p) (input_chain (fw_zones fw) (fw_rules fw))
       = find (entry_hit rm p) (zone_entries (fw_rules fw) z)"
proof -
  obtain xs ys where zs: "fw_zones fw = xs @ z # ys" using assms(2) by (auto dest: split_list)
  have "pk_iif p \<notin> set (zo_interfaces x)" if "x \<in> set xs \<or> x \<in> set ys" for x
    using assms(1,3) that zone_ifaces_mem [of x xs] zone_ifaces_mem [of x ys]
    by (auto simp: zs zone_ifaces_split)
  then have "find (entry_hit rm p) (concat (map (zone_entries (fw_rules fw)) xs)) = None"
    "find (entry_hit rm p) (concat (map (zone_entries (fw_rules fw)) ys)) = None"
    by (intro find_concat_skip zone_entries_skip; blast)+
  then show ?thesis
    using assms(4,5) by (auto simp: input_chain_def zs find_append entry_hit_def split: option.splits)
qed

lemma input_find_unassigned:
  assumes "pk_iif p \<notin> set (zone_ifaces (fw_zones fw))" "pk_ct p = CtNew" "pk_iif p \<noteq> ''lo''"
  shows "find (entry_hit rm p) (input_chain (fw_zones fw) (fw_rules fw)) = None"
proof -
  have "find (entry_hit rm p) (concat (map (zone_entries (fw_rules fw)) (fw_zones fw))) = None"
    using assms(1) zone_ifaces_mem by (intro find_concat_skip zone_entries_skip) blast
  then show ?thesis using assms(2,3) by (simp add: input_chain_def entry_hit_def)
qed

lemma zone_drop_find:
  assumes "zo_default_policy z = PolicyDrop" "pk_iif p \<in> set (zo_interfaces z)"
  shows "find (entry_hit rm p) (zone_entries rules z)
       = map_option (ZoneRule z) (find (\<lambda>r. rm r (pk_rest p)) (zone_rules z rules))"
proof -
  have "find (entry_hit rm p) (map (ZoneRule z) rs) = map_option (ZoneRule z) (find (\<lambda>r. rm r (pk_rest p)) rs)"
    for rs using assms(2) by (induction rs) (auto simp: entry_hit_def)
  then show ?thesis using assms by (auto simp: zone_entries_def)
qed

lemma fw_reach_inv: "(fw_step N)\<^sup>*\<^sup>* s s' \<Longrightarrow> fw_inv (fst s) \<Longrightarrow> fw_inv (fst s')"
  by (induction rule: rtranclp_induct) (auto intro: fw_step_inv)

lemma fw_reach_distinct:
  assumes "(fw_step N)\<^sup>*\<^sup>* (fw_new, w0) (fw, w)"
  shows "distinct (zone_ifaces (fw_zones fw))"
proof -
  have "fw_inv (fst (fw, w))" by (rule fw_reach_inv [OF assms]) (simp add: fw_inv_new)
  then show ?thesis by (simp add: fw_inv_def zones_inv_def)
qed

text \<open>A program that accepts every ruleset, remembering the last one loaded.\<close>

definition recording_nft :: "string option Nft" where
  "recording_nft = \<lparr>nft_delete_table = (\<lambda>_. None), nft_load = (\<lambda>r _. (NftOk, Some r))\<rparr>"

section \<open>Properties\<close>





text \<open>
  In a zone with the accept policy no rule has any effect: in a reachable state every new
  connection on an interface of such a zone is accepted, whatever drop or reject rules the zone
  holds and whether or not they match.
\<close>

theorem accept_zone_ignores_rules:
  assumes "(fw_step N)\<^sup>*\<^sup>* (fw_new, w0) (fw, w)" "pk_ct p = CtNew"
    and "z \<in> set (fw_zones fw)" "pk_iif p \<in> set (zo_interfaces z)" "zo_default_policy z = PolicyAccept"
  shows "input_verdict rm fw p = ActAccept"
proof (cases "pk_iif p = ''lo''")
  case True
  then show ?thesis
    using assms(2) by (simp add: input_verdict_def input_chain_def entry_hit_def entry_action_def)
next
  case False
  note d = fw_reach_distinct [OF assms(1)]
  have "find (entry_hit rm p) (zone_entries (fw_rules fw) z) = Some (ZoneAccept z)"
    using assms(4,5) by (auto simp: zone_entries_def entry_hit_def)
  then show ?thesis
    using input_find_zone [OF d assms(3,4,2) False, of rm] by (simp add: input_verdict_def entry_action_def)
qed

theorem accept_zone_ignores_rules_witness:
  "\<exists>fw. ru_action (hd (fw_rules fw)) = ActDrop \<and>
     input_verdict (\<lambda>_ _. True) fw \<lparr>pk_ct = CtNew, pk_iif = ''wg0'', pk_rest = ()\<rparr> = ActAccept"
proof -
  define r where "r = \<lparr>ru_id = ''no-ssh'', ru_zone = ''trusted'', ru_direction = Inbound, ru_action = ActDrop,
    ru_protocol = Some Tcp, ru_port = Some (single 22), ru_source = None\<rparr>"
  define fw where "fw = fw_new\<lparr>fw_zones := push_interface ''wg0'' ''trusted'' builtin_zones, fw_rules := [r]\<rparr>"
  obtain w1 where a: "assign_zone recording_nft ''wg0'' ''trusted'' (fw_new, None)
      = Ret (Inr (), (fw_new\<lparr>fw_zones := push_interface ''wg0'' ''trusted'' builtin_zones\<rparr>, w1))"
    by (auto simp: assign_zone_def fw_commit_def nft_apply_def recording_nft_def Let_def zone_exists_def
        validate_interface_name_def fw_new_def builtin_zones_def retain_other_def)
  obtain w2 where b: "add_rule recording_nft r (fw_new\<lparr>fw_zones := push_interface ''wg0'' ''trusted'' builtin_zones\<rparr>, w1)
      = Ret (Inr (), (fw, w2))"
    by (auto simp: add_rule_def fw_commit_def nft_apply_def recording_nft_def zone_exists_def r_def fw_def
        validate_identifier_def identifier_char_def is_alnum_def is_alpha_def is_digit_def check_source_def
        fw_new_def builtin_zones_def)
  have "(fw_step recording_nft)\<^sup>*\<^sup>* (fw_new, None) (fw, w2)"
    using step_assign [OF a] step_add [OF b] by (meson converse_rtranclp_into_rtranclp r_into_rtranclp)
  then have "input_verdict (\<lambda>_ _. True) fw \<lparr>pk_ct = CtNew, pk_iif = ''wg0'', pk_rest = ()\<rparr> = ActAccept"
    by (rule accept_zone_ignores_rules [where z = "\<lparr>zo_name = ''trusted'', zo_default_policy = PolicyAccept,
          zo_interfaces = [''wg0'']\<rparr>"]) (simp_all add: fw_def fw_new_def builtin_zones_def)
  then show ?thesis by (intro exI [of _ fw]) (simp add: fw_def r_def)
qed

text \<open>C15. Reloading is not atomic. If \<open>nft\<close> cannot load the new ruleset, then, deleting a table being
  effective and a failed load changing nothing, the daemon's table is gone after the failed
  operation: the previous rules are not kept, although the in-memory state keeps the new one.
\<close>

theorem failed_reload_leaves_no_table:
  assumes "\<And>w. \<not> has_table (nft_delete_table N w)"
    and "\<And>r w q w'. nft_load N r w = (q, w') \<Longrightarrow> q \<noteq> NftOk \<Longrightarrow> has_table w' = has_table w"
    and "add_rule N rule (fw, w) = Ret (Inl e, (fw', w'))" "fw' \<noteq> fw"
  shows "\<not> has_table w' \<and> rule \<in> set (fw_rules fw')"
proof -
  let ?fw = "fw\<lparr>fw_rules := filter (\<lambda>r. ru_id r \<noteq> ru_id rule) (fw_rules fw) @ [rule]\<rparr>"
  have c: "fw_commit N ?fw (fw, w) = Ret (Inl e, (fw', w'))"
    using assms(3,4) by (auto simp: add_rule_def split: sum.splits if_splits)
  then have "fw' = ?fw" "nft_apply N (fw_render ?fw) w = Ret (Inl e, w')"
    by (auto simp: fw_commit_def split: outcome.splits prod.splits)
  then show ?thesis
    using assms(1,2)
    by (auto simp: nft_apply_def split: prod.splits nft_result.splits)
qed

theorem failed_reload_leaves_no_table_witness:
  "\<exists>fw. add_rule \<lparr>nft_delete_table = (\<lambda>_. False), nft_load = (\<lambda>_ w. (NftExit ''1'' ''syntax error'', w))\<rparr>
      (allow_inbound_port ''web'' ''home'' Tcp 80) (fw_new, True)
      = Ret (Inl (FirewallErr ''nft -f exited with 1: syntax error''), (fw, False))"
proof -
  let ?N = "\<lparr>nft_delete_table = (\<lambda>_. False), nft_load = (\<lambda>_ w. (NftExit ''1'' ''syntax error'', w))\<rparr>"
  let ?r = "allow_inbound_port ''web'' ''home'' Tcp 80"
  have t: "trim ''syntax error'' = ''syntax error''" by code_simp
  obtain fw w where s: "add_rule ?N ?r (fw_new, True)
      = Ret (Inl (FirewallErr ''nft -f exited with 1: syntax error''), (fw, w))" "fw \<noteq> fw_new"
    by (auto simp: add_rule_def fw_commit_def nft_apply_def zone_exists_def allow_inbound_port_def t
        validate_identifier_def identifier_char_def is_alnum_def is_alpha_def is_digit_def check_source_def
        fw_new_def builtin_zones_def)
  have "\<not> id w \<and> ?r \<in> set (fw_rules fw)"
    by (rule failed_reload_leaves_no_table [OF _ _ s, where has_table = id]) simp_all
  with s show ?thesis by simp
qed

end
