(* ===== verification/Dhcp_Server.thy ===== *)
theory Dhcp_Server
  imports Dhcp4
begin

text \<open>
  The DHCPv4 server for hotspot clients, \<^verbatim>\<open>src/src/sharing/dhcp_server.rs\<close>: the lease table, the
  packet handler and the receive loop. The lease map is an association list with distinct keys;
  32-bit arithmetic wraps as in a release build.
\<close>

section \<open>The lease table\<close>

record DhcpServerConfig =
  sc_interface :: string
  sc_server_ip :: Ipv4Addr
  sc_pool_start :: Ipv4Addr
  sc_pool_end :: Ipv4Addr
  sc_prefixlen :: u8
  sc_lease_time_secs :: u32
  sc_dns_servers :: "Ipv4Addr list"

record LeaseTable =
  lt_by_mac :: "(bytes \<times> Ipv4Addr) list"
  lt_next_candidate :: u32

text \<open>The search of \<open>allocate\<close>, with the number of iterations left.\<close>

fun allocate_loop :: "nat \<Rightarrow> u32 \<Rightarrow> u32 \<Rightarrow> u32 set \<Rightarrow> bytes \<Rightarrow> LeaseTable \<Rightarrow> Ipv4Addr option \<times> LeaseTable" where
  "allocate_loop 0 start stop taken mac t = (None, t)"
| "allocate_loop (Suc n) start stop taken mac t =
     (let candidate = start + (lt_next_candidate t - start) mod (stop - start + 1);
          t' = t\<lparr>lt_next_candidate := candidate + 1\<rparr>
      in if candidate \<notin> taken
         then (Some candidate, t'\<lparr>lt_by_mac := (mac, candidate) # lt_by_mac t'\<rparr>)
         else allocate_loop n start stop taken mac t')"

text \<open>\<open>% 0\<close> panics: that is the pool of all 2 to the 32 addresses, whose size wraps to 0.\<close>

definition allocate :: "bytes \<Rightarrow> DhcpServerConfig \<Rightarrow> LeaseTable \<Rightarrow> (Ipv4Addr option \<times> LeaseTable) outcome" where
  "allocate mac cfg t =
     (case map_of (lt_by_mac t) mac of
        Some existing \<Rightarrow> Ret (Some existing, t)
      | None \<Rightarrow>
          let start = sc_pool_start cfg; stop = sc_pool_end cfg
          in if stop < start then Ret (None, t)
             else if stop - start + 1 = 0 then Panic
             else Ret (allocate_loop (unat (stop - start) + 1) start stop
                         (set (map snd (lt_by_mac t))) mac t))"

section \<open>Replies\<close>

definition reply_options :: "DhcpServerConfig \<Rightarrow> u8 \<Rightarrow> (u8 \<times> bytes) list" where
  "reply_options cfg msg_type =
     [(OPT_MSG_TYPE, [msg_type]), (OPT_SERVER_ID, octets4 (sc_server_ip cfg))] @
     (if msg_type \<noteq> MSG_NAK then
        [(OPT_SUBNET_MASK, octets4 (subnet_mask (sc_prefixlen cfg))),
         (OPT_ROUTER, octets4 (sc_server_ip cfg)),
         (OPT_LEASE_TIME, be32 (sc_lease_time_secs cfg))] @
        (if sc_dns_servers cfg \<noteq> [] then [(OPT_DNS, concat (map octets4 (sc_dns_servers cfg)))] else [])
      else [])"

definition reply_packet :: "Packet \<Rightarrow> Ipv4Addr \<Rightarrow> DhcpServerConfig \<Rightarrow> u8 \<Rightarrow> Packet" where
  "reply_packet req yiaddr cfg msg_type =
     \<lparr>p_op = OP_BOOTREPLY, p_xid = p_xid req, p_secs = 0, p_flags = p_flags req, p_ciaddr = 0,
      p_yiaddr = (if msg_type = MSG_NAK then 0 else yiaddr), p_siaddr = sc_server_ip cfg,
      p_chaddr = p_chaddr req, p_options = reply_options cfg msg_type\<rparr>"

definition build_reply :: "Packet \<Rightarrow> Ipv4Addr \<Rightarrow> DhcpServerConfig \<Rightarrow> u8 \<Rightarrow> bytes" where
  "build_reply req yiaddr cfg msg_type = serialize (reply_packet req yiaddr cfg msg_type)"

section \<open>The receive loop\<close>

definition requested_ip :: "Packet \<Rightarrow> Ipv4Addr" where
  "requested_ip pkt =
     (case Option.bind (get_option pkt OPT_REQUESTED_IP) try_be32 of
        Some a \<Rightarrow> a | None \<Rightarrow> p_ciaddr pkt)"

definition handle_datagram :: "DhcpServerConfig \<Rightarrow> bytes \<Rightarrow> LeaseTable \<Rightarrow> (bytes option \<times> LeaseTable) outcome" where
  "handle_datagram cfg d t =
     (case parse_packet (take 1500 d) of
        None \<Rightarrow> Ret (None, t)
      | Some pkt \<Rightarrow>
          if message_type pkt = Some MSG_DISCOVER then
            (case allocate (p_chaddr pkt) cfg t of
               Ret (a, t') \<Rightarrow> Ret (map_option (\<lambda>addr. build_reply pkt addr cfg MSG_OFFER) a, t')
             | Panic \<Rightarrow> Panic
             | NoFuel \<Rightarrow> NoFuel)
          else if message_type pkt = Some MSG_REQUEST then
            (if map_of (lt_by_mac t) (p_chaddr pkt) = Some (requested_ip pkt)
             then Ret (Some (build_reply pkt (requested_ip pkt) cfg MSG_ACK), t)
             else Ret (Some (build_reply pkt (requested_ip pkt) cfg MSG_NAK), t))
          else Ret (None, t))"

text \<open>One wake-up of the loop: told to stop, a datagram, or nothing usable (a timeout or an error).\<close>

datatype server_event = SrvStop | SrvDatagram bytes | SrvNothing

definition initial_table :: "DhcpServerConfig \<Rightarrow> LeaseTable" where
  "initial_table cfg = \<lparr>lt_by_mac = [], lt_next_candidate = sc_pool_start cfg\<rparr>"

fun serve :: "DhcpServerConfig \<Rightarrow> server_event list \<Rightarrow> LeaseTable \<Rightarrow> (bytes list \<times> LeaseTable) outcome" where
  "serve cfg [] t = Ret ([], t)"
| "serve cfg (SrvStop # evs) t = Ret ([], t)"
| "serve cfg (SrvNothing # evs) t = serve cfg evs t"
| "serve cfg (SrvDatagram d # evs) t =
     (case handle_datagram cfg d t of
        Ret (r, t') \<Rightarrow>
          (case serve cfg evs t' of
             Ret (rs, t'') \<Rightarrow> Ret ((case r of Some b \<Rightarrow> [b] | None \<Rightarrow> []) @ rs, t'')
           | Panic \<Rightarrow> Panic
           | NoFuel \<Rightarrow> NoFuel)
      | Panic \<Rightarrow> Panic
      | NoFuel \<Rightarrow> NoFuel)"

definition run :: "DhcpServerConfig \<Rightarrow> server_event list \<Rightarrow> (bytes list \<times> LeaseTable) outcome" where
  "run cfg evs = serve cfg evs (initial_table cfg)"

section \<open>The pool\<close>

text \<open>A pool that \<open>start\<close> is meant for: non-empty, below the last 32-bit address.\<close>

definition pool_ok :: "DhcpServerConfig \<Rightarrow> bool" where
  "pool_ok cfg = (sc_pool_start cfg \<le> sc_pool_end cfg \<and> sc_pool_end cfg < 0xFFFFFFFF)"

definition in_pool :: "DhcpServerConfig \<Rightarrow> Ipv4Addr \<Rightarrow> bool" where
  "in_pool cfg a = (sc_pool_start cfg \<le> a \<and> a \<le> sc_pool_end cfg)"

definition table_inv :: "DhcpServerConfig \<Rightarrow> LeaseTable \<Rightarrow> bool" where
  "table_inv cfg t =
     (distinct (map fst (lt_by_mac t)) \<and> distinct (map snd (lt_by_mac t)) \<and>
      list_all (in_pool cfg) (map snd (lt_by_mac t)) \<and>
      sc_pool_start cfg \<le> lt_next_candidate t \<and> lt_next_candidate t \<le> sc_pool_end cfg + 1)"

definition pool_full :: "DhcpServerConfig \<Rightarrow> LeaseTable \<Rightarrow> bool" where
  "pool_full cfg t = (\<forall>a. in_pool cfg a \<longrightarrow> a \<in> set (map snd (lt_by_mac t)))"

text \<open>The candidates as natural numbers: an offset from the start, cyclic in the pool size.\<close>

definition pool_size :: "DhcpServerConfig \<Rightarrow> nat" where
  "pool_size cfg = unat (sc_pool_end cfg) - unat (sc_pool_start cfg) + 1"

definition next_ok :: "DhcpServerConfig \<Rightarrow> u32 \<Rightarrow> bool" where
  "next_ok cfg n = (sc_pool_start cfg \<le> n \<and> n \<le> sc_pool_end cfg + 1)"

abbreviation candidate :: "DhcpServerConfig \<Rightarrow> u32 \<Rightarrow> u32" where
  "candidate cfg n \<equiv>
     sc_pool_start cfg + (n - sc_pool_start cfg) mod (sc_pool_end cfg - sc_pool_start cfg + 1)"

lemma pool_nat:
  assumes "pool_ok cfg"
  shows "unat (sc_pool_start cfg) \<le> unat (sc_pool_end cfg)" "unat (sc_pool_end cfg) < 2 ^ 32 - 1"
    "unat (sc_pool_end cfg + 1) = unat (sc_pool_end cfg) + 1"
    "unat (sc_pool_end cfg - sc_pool_start cfg) = unat (sc_pool_end cfg) - unat (sc_pool_start cfg)"
    "unat (sc_pool_end cfg - sc_pool_start cfg + 1) = pool_size cfg"
proof -
  show se: "unat (sc_pool_start cfg) \<le> unat (sc_pool_end cfg)"
    and e: "unat (sc_pool_end cfg) < 2 ^ 32 - 1"
    using assms by (simp_all add: pool_ok_def word_le_nat_alt word_less_nat_alt)
  show "unat (sc_pool_end cfg + 1) = unat (sc_pool_end cfg) + 1"
    using e by (simp add: unat_word_ariths)
  show d: "unat (sc_pool_end cfg - sc_pool_start cfg) = unat (sc_pool_end cfg) - unat (sc_pool_start cfg)"
    using assms by (simp add: pool_ok_def unat_sub)
  show "unat (sc_pool_end cfg - sc_pool_start cfg + 1) = pool_size cfg"
    unfolding pool_size_def d [symmetric]
    using d e by (simp add: unat_word_ariths)
qed

lemma candidate_nat:
  assumes "pool_ok cfg" "next_ok cfg n"
  shows "unat (candidate cfg n)
    = unat (sc_pool_start cfg) + (unat n - unat (sc_pool_start cfg)) mod pool_size cfg"
proof -
  let ?s = "unat (sc_pool_start cfg)"
  have "unat (n - sc_pool_start cfg) = unat n - ?s"
    using assms(2) by (simp add: next_ok_def unat_sub)
  then have m: "unat ((n - sc_pool_start cfg) mod (sc_pool_end cfg - sc_pool_start cfg + 1))
      = (unat n - ?s) mod pool_size cfg"
    using pool_nat(5) [OF assms(1)] by (simp add: unat_mod_distrib)
  have "0 < pool_size cfg" by (simp add: pool_size_def)
  then have "(unat n - ?s) mod pool_size cfg < pool_size cfg" by simp
  then have "?s + (unat n - ?s) mod pool_size cfg < 2 ^ 32"
    using pool_nat(1,2) [OF assms(1)] unfolding pool_size_def by linarith
  then show ?thesis by (subst unat_plus_if_size) (simp add: m word_size)
qed

lemma candidate_in_pool:
  assumes "pool_ok cfg" "next_ok cfg n"
  shows "in_pool cfg (candidate cfg n)" "next_ok cfg (candidate cfg n + 1)"
    "unat (candidate cfg n + 1) = unat (candidate cfg n) + 1"
proof -
  have "0 < pool_size cfg" by (simp add: pool_size_def)
  then have "(unat n - unat (sc_pool_start cfg)) mod pool_size cfg < pool_size cfg" by simp
  then have b: "unat (sc_pool_start cfg) \<le> unat (candidate cfg n)"
      "unat (candidate cfg n) \<le> unat (sc_pool_end cfg)"
    using pool_nat(1) [OF assms(1)] unfolding candidate_nat [OF assms] pool_size_def by linarith+
  show "in_pool cfg (candidate cfg n)" using b by (simp add: in_pool_def word_le_nat_alt)
  show c: "unat (candidate cfg n + 1) = unat (candidate cfg n) + 1"
    using b pool_nat(2) [OF assms(1)] by (simp add: unat_word_ariths)
  show "next_ok cfg (candidate cfg n + 1)"
    using b c pool_nat(3) [OF assms(1)] by (simp add: next_ok_def word_le_nat_alt)
qed

lemma allocate_loop_Some:
  assumes "pool_ok cfg" "next_ok cfg (lt_next_candidate t)"
    and "allocate_loop n (sc_pool_start cfg) (sc_pool_end cfg) taken mac t = (Some a, t')"
  shows "in_pool cfg a \<and> a \<notin> taken \<and> lt_by_mac t' = (mac, a) # lt_by_mac t
       \<and> next_ok cfg (lt_next_candidate t')"
  using assms(2-)
proof (induction n arbitrary: t)
  case (Suc n)
  let ?c = "candidate cfg (lt_next_candidate t)"
  note c = candidate_in_pool [OF assms(1) Suc.prems(1)]
  show ?case
  proof (cases "?c \<in> taken")
    case True
    then show ?thesis
      using Suc.prems Suc.IH [of "t\<lparr>lt_next_candidate := ?c + 1\<rparr>"] c by (simp add: Let_def)
  next
    case False
    then show ?thesis using Suc.prems c by (auto simp: Let_def)
  qed
qed simp

lemma allocate_loop_None:
  assumes "pool_ok cfg" "next_ok cfg (lt_next_candidate t)"
    and "allocate_loop n (sc_pool_start cfg) (sc_pool_end cfg) taken mac t = (None, t')"
  shows "lt_by_mac t' = lt_by_mac t \<and> next_ok cfg (lt_next_candidate t') \<and>
    (\<forall>i < n. \<exists>a \<in> taken. unat a = unat (sc_pool_start cfg)
        + (unat (lt_next_candidate t) - unat (sc_pool_start cfg) + i) mod pool_size cfg)"
  using assms(2-)
proof (induction n arbitrary: t)
  case (Suc n)
  let ?s = "unat (sc_pool_start cfg)" and ?o = "unat (lt_next_candidate t) - unat (sc_pool_start cfg)"
  let ?c = "candidate cfg (lt_next_candidate t)"
  let ?t = "t\<lparr>lt_next_candidate := ?c + 1\<rparr>"
  note c = candidate_in_pool [OF assms(1) Suc.prems(1)]
  have taken: "?c \<in> taken"
    and rest: "allocate_loop n (sc_pool_start cfg) (sc_pool_end cfg) taken mac ?t = (None, t')"
    using Suc.prems by (auto simp: Let_def split: if_splits)
  note cn = candidate_nat [OF assms(1) Suc.prems(1)]
  have ih: "lt_by_mac t' = lt_by_mac t \<and> next_ok cfg (lt_next_candidate t') \<and>
      (\<forall>i < n. \<exists>a \<in> taken. unat a = ?s + (unat (?c + 1) - ?s + i) mod pool_size cfg)"
    using Suc.IH [OF _ rest] c by simp
  have "unat (?c + 1) - ?s = ?o mod pool_size cfg + 1" using c(3) cn by simp
  then have step: "(unat (?c + 1) - ?s + i) mod pool_size cfg = (?o + Suc i) mod pool_size cfg" for i
    using mod_add_left_eq [of ?o "pool_size cfg" "1 + i"] by (simp add: ac_simps)
  have "\<exists>a \<in> taken. unat a = ?s + (?o + i) mod pool_size cfg" if "i < Suc n" for i
  proof (cases i)
    case 0
    then show ?thesis using taken cn by auto
  next
    case (Suc j)
    then show ?thesis using ih step that by (metis Suc_less_eq)
  qed
  with ih show ?case by blast
qed simp

lemma residue_reached:
  fixes N :: nat
  assumes "j < N"
  shows "\<exists>i < N. (off + i) mod N = j"
proof -
  let ?i = "(j + (N - off mod N)) mod N"
  have "(off + ?i) mod N = (off mod N + (j + (N - off mod N))) mod N" by (simp add: mod_simps)
  also have "off mod N + (j + (N - off mod N)) = j + N"
    using mod_less_divisor [of N off] assms by linarith
  also have "(j + N) mod N = j" using assms by simp
  finally show ?thesis using assms by (intro exI [of _ ?i]) simp
qed

lemma in_pool_size:
  assumes "pool_ok cfg" "in_pool cfg a"
  shows "unat a - unat (sc_pool_start cfg) < pool_size cfg"
    "unat a = unat (sc_pool_start cfg) + (unat a - unat (sc_pool_start cfg))"
  using assms pool_nat(1) [OF assms(1)]
  by (auto simp: in_pool_def pool_size_def word_le_nat_alt)

lemma table_inv_eq:
  "table_inv cfg t \<longleftrightarrow> distinct (map fst (lt_by_mac t)) \<and> distinct (map snd (lt_by_mac t)) \<and>
     list_all (in_pool cfg) (map snd (lt_by_mac t)) \<and> next_ok cfg (lt_next_candidate t)"
  by (auto simp: table_inv_def next_ok_def)

text \<open>What \<open>allocate\<close> does on a well-formed table: an existing binding is kept, a fresh address of
  the pool is bound, or the pool is full.\<close>

lemma allocate_cases:
  assumes "pool_ok cfg" "table_inv cfg t"
  obtains (bound) a where "map_of (lt_by_mac t) mac = Some a" "allocate mac cfg t = Ret (Some a, t)"
    | (fresh) a t' where "map_of (lt_by_mac t) mac = None" "allocate mac cfg t = Ret (Some a, t')"
        "in_pool cfg a" "a \<notin> set (map snd (lt_by_mac t))" "lt_by_mac t' = (mac, a) # lt_by_mac t"
        "next_ok cfg (lt_next_candidate t')"
    | (full) t' where "map_of (lt_by_mac t) mac = None" "allocate mac cfg t = Ret (None, t')"
        "pool_full cfg t" "lt_by_mac t' = lt_by_mac t" "next_ok cfg (lt_next_candidate t')"
proof (cases "map_of (lt_by_mac t) mac")
  case (Some a)
  then show thesis by (intro bound) (simp_all add: allocate_def)
next
  case None
  let ?l = "allocate_loop (unat (sc_pool_end cfg - sc_pool_start cfg) + 1) (sc_pool_start cfg)
      (sc_pool_end cfg) (set (map snd (lt_by_mac t))) mac t"
  have nz: "sc_pool_end cfg - sc_pool_start cfg + 1 \<noteq> 0"
    using pool_nat(5) [OF assms(1)] by (auto simp: pool_size_def)
  have al: "allocate mac cfg t = Ret ?l"
    using None nz assms(1) by (auto simp: allocate_def pool_ok_def Let_def)
  have nx: "next_ok cfg (lt_next_candidate t)" using assms(2) by (simp add: table_inv_eq)
  obtain r t' where l: "?l = (r, t')" by (cases ?l)
  show thesis
  proof (cases r)
    case (Some a)
    have "in_pool cfg a \<and> a \<notin> set (map snd (lt_by_mac t)) \<and> lt_by_mac t' = (mac, a) # lt_by_mac t
        \<and> next_ok cfg (lt_next_candidate t')"
      by (rule allocate_loop_Some [OF assms(1) nx l [unfolded Some]])
    then show thesis using al None unfolding l Some by (intro fresh [of a t']) auto
  next
    case r: None
    then have loop: "lt_by_mac t' = lt_by_mac t" "next_ok cfg (lt_next_candidate t')"
      "\<forall>i < pool_size cfg. \<exists>a \<in> set (map snd (lt_by_mac t)). unat a = unat (sc_pool_start cfg)
        + (unat (lt_next_candidate t) - unat (sc_pool_start cfg) + i) mod pool_size cfg"
      using allocate_loop_None [OF assms(1) nx l [unfolded r]]
      unfolding pool_size_def pool_nat(4) [OF assms(1)] by blast+
    have "pool_full cfg t"
      unfolding pool_full_def
    proof (intro allI impI)
      fix a
      assume a: "in_pool cfg a"
      obtain i where i: "i < pool_size cfg"
        "(unat (lt_next_candidate t) - unat (sc_pool_start cfg) + i) mod pool_size cfg
          = unat a - unat (sc_pool_start cfg)"
        using residue_reached [OF in_pool_size(1) [OF assms(1) a]] by blast
      then obtain b where "b \<in> set (map snd (lt_by_mac t))" "unat b = unat a"
        using loop(3) in_pool_size(2) [OF assms(1) a] by metis
      then show "a \<in> set (map snd (lt_by_mac t))" by (metis unsigned_word_eqI)
    qed
    then show thesis using loop al None unfolding l r by (intro full [of t']) auto
  qed
qed

section \<open>The contract of a lease store\<close>

text \<open>
  What the packet handler relies on: allocation always returns, keeps the invariant and every
  binding, binds the address it returns, and an address has one owner at most.
\<close>

locale lease_store =
  fixes good :: "'t \<Rightarrow> bool"
    and lookup :: "'t \<Rightarrow> bytes \<Rightarrow> Ipv4Addr option"
    and alloc :: "bytes \<Rightarrow> 't \<Rightarrow> (Ipv4Addr option \<times> 't) outcome"
  assumes alloc_returns: "good t \<Longrightarrow> \<exists>r t'. alloc m t = Ret (r, t')"
    and alloc_good: "good t \<Longrightarrow> alloc m t = Ret (r, t') \<Longrightarrow> good t'"
    and alloc_binds: "good t \<Longrightarrow> alloc m t = Ret (Some a, t') \<Longrightarrow> lookup t' m = Some a"
    and alloc_keeps: "good t \<Longrightarrow> alloc m t = Ret (r, t') \<Longrightarrow> lookup t n = Some b \<Longrightarrow> lookup t' n = Some b"
    and one_owner: "good t \<Longrightarrow> lookup t m = Some a \<Longrightarrow> lookup t n = Some a \<Longrightarrow> m = n"
begin

text \<open>Two allocations in a row give different addresses to different owners.\<close>

lemma alloc_twice_distinct:
  assumes "good t" "alloc m t = Ret (Some a, t1)" "alloc n t1 = Ret (Some b, t2)"
  shows "a = b \<longleftrightarrow> m = n"
proof -
  have g1: "good t1" and g2: "good t2" using assms alloc_good by blast+
  have "lookup t1 m = Some a" using assms alloc_binds by blast
  then have m: "lookup t2 m = Some a" using alloc_keeps [OF g1 assms(3)] by blast
  have n: "lookup t2 n = Some b" using alloc_binds [OF g1 assms(3)] .
  show ?thesis using m n one_owner [OF g2] by auto
qed

text \<open>Allocation is stable: asking again returns the same address.\<close>

lemma alloc_stable:
  assumes "good t" "alloc m t = Ret (Some a, t1)" "alloc m t1 = Ret (Some b, t2)"
  shows "a = b"
  using alloc_twice_distinct [OF assms] by simp

end

definition table_lookup :: "LeaseTable \<Rightarrow> bytes \<Rightarrow> Ipv4Addr option" where
  "table_lookup t = map_of (lt_by_mac t)"

lemma table_inv_owner:
  assumes "table_inv cfg t" "map_of (lt_by_mac t) m = Some a" "map_of (lt_by_mac t) n = Some a"
  shows "m = n"
proof -
  have "(m, a) \<in> set (lt_by_mac t)" "(n, a) \<in> set (lt_by_mac t)"
    using assms by (auto dest: map_of_SomeD)
  moreover have "inj_on snd (set (lt_by_mac t))"
    using assms(1) by (simp add: table_inv_eq distinct_map)
  ultimately show ?thesis by (metis fst_conv inj_onD snd_conv)
qed

lemma allocate_effect:
  assumes "pool_ok cfg" "table_inv cfg t" "allocate m cfg t = Ret (r, t')"
  shows "table_inv cfg t'" "table_lookup t n = Some b \<Longrightarrow> table_lookup t' n = Some b"
    "r = Some a \<Longrightarrow> table_lookup t' m = Some a"
proof -
  have "table_inv cfg t' \<and> (table_lookup t n = Some b \<longrightarrow> table_lookup t' n = Some b)
      \<and> (r = Some a \<longrightarrow> table_lookup t' m = Some a)"
    using assms(1,2)
  proof (cases rule: allocate_cases [where mac = m])
    case (bound a)
    with assms show ?thesis by (auto simp: table_lookup_def)
  next
    case (fresh a t1)
    then have t1: "t1 = t'" "r = Some a" using assms(3) by simp_all
    have "m \<notin> set (map fst (lt_by_mac t))" using fresh(1) by (simp add: map_of_eq_None_iff)
    then have "table_inv cfg t'" using fresh assms(2) unfolding t1 by (auto simp: table_inv_eq)
    then show ?thesis using fresh unfolding t1 by (auto simp: table_lookup_def)
  next
    case (full t1)
    then have t1: "t1 = t'" "r = None" using assms(3) by simp_all
    then show ?thesis using full assms(2) by (auto simp: table_inv_eq table_lookup_def)
  qed
  then show "table_inv cfg t'" "table_lookup t n = Some b \<Longrightarrow> table_lookup t' n = Some b"
    "r = Some a \<Longrightarrow> table_lookup t' m = Some a" by blast+
qed

definition store_good :: "DhcpServerConfig \<Rightarrow> LeaseTable \<Rightarrow> bool" where
  "store_good cfg t = (pool_ok cfg \<and> table_inv cfg t)"

interpretation pool: lease_store "store_good cfg" table_lookup "\<lambda>m. allocate m cfg" for cfg
proof
  fix t m r t' a n b
  show "store_good cfg t \<Longrightarrow> \<exists>r t'. allocate m cfg t = Ret (r, t')"
    unfolding store_good_def by (erule conjE, rule allocate_cases [of cfg t m]) auto
  show "store_good cfg t \<Longrightarrow> allocate m cfg t = Ret (r, t') \<Longrightarrow> store_good cfg t'"
    unfolding store_good_def using allocate_effect(1) by blast
  show "store_good cfg t \<Longrightarrow> allocate m cfg t = Ret (Some a, t') \<Longrightarrow> table_lookup t' m = Some a"
    unfolding store_good_def using allocate_effect(3) by blast
  show "store_good cfg t \<Longrightarrow> allocate m cfg t = Ret (r, t') \<Longrightarrow> table_lookup t n = Some b
      \<Longrightarrow> table_lookup t' n = Some b"
    unfolding store_good_def using allocate_effect(2) by blast
  show "store_good cfg t \<Longrightarrow> table_lookup t m = Some a \<Longrightarrow> table_lookup t n = Some a \<Longrightarrow> m = n"
    unfolding store_good_def table_lookup_def using table_inv_owner by blast
qed

section \<open>What the server promises\<close>

lemma parse_packet_chaddr: "parse_packet d = Some p \<Longrightarrow> length (p_chaddr p) = 6"
  by (auto simp: parse_packet_def split: if_splits)

lemma reply_packet_ok:
  assumes "length (p_chaddr req) = 6" "length (sc_dns_servers cfg) \<le> 63"
  shows "packet_ok (reply_packet req a cfg ty)"
proof -
  have "length (concat (map octets4 (sc_dns_servers cfg))) \<le> 255"
    using assms(2) by (simp add: length_concat comp_def sum_list_triv)
  then show ?thesis
    using assms(1) by (simp add: packet_ok_def reply_packet_def reply_options_def option_ok_def length_wire)
qed

lemma parse_build_reply:
  assumes "length (p_chaddr req) = 6" "length (sc_dns_servers cfg) \<le> 63"
  shows "parse_packet (build_reply req a cfg ty) = Some (reply_packet req a cfg ty)"
  unfolding build_reply_def by (rule parse_serialize [OF reply_packet_ok [OF assms]])

lemma message_type_reply: "message_type (reply_packet req a cfg ty) = Some ty"
  by (simp add: message_type_def get_option_def reply_packet_def reply_options_def)

lemma reply_fields [simp]:
  "p_xid (reply_packet req a cfg ty) = p_xid req"
  "p_chaddr (reply_packet req a cfg ty) = p_chaddr req"
  "p_yiaddr (reply_packet req a cfg ty) = (if ty = MSG_NAK then 0 else a)"
  by (simp_all add: reply_packet_def)

text \<open>A reply that grants an address names an address bound to its client.\<close>

definition grants :: "LeaseTable \<Rightarrow> bytes \<Rightarrow> bool" where
  "grants t r =
     (case parse_packet r of
        Some p \<Rightarrow> (message_type p = Some MSG_OFFER \<or> message_type p = Some MSG_ACK) \<longrightarrow>
                  table_lookup t (p_chaddr p) = Some (p_yiaddr p)
      | None \<Rightarrow> True)"

definition extends :: "LeaseTable \<Rightarrow> LeaseTable \<Rightarrow> bool" where
  "extends t t' = (\<forall>m a. table_lookup t m = Some a \<longrightarrow> table_lookup t' m = Some a)"

lemma extends_refl [simp]: "extends t t"
  by (simp add: extends_def)

lemma extends_trans: "extends t t1 \<Longrightarrow> extends t1 t2 \<Longrightarrow> extends t t2"
  by (simp add: extends_def)

lemma grants_extends: "grants t r \<Longrightarrow> extends t t' \<Longrightarrow> grants t' r"
  by (auto simp: grants_def extends_def split: option.splits)

lemma handle_datagram_ok:
  assumes "store_good cfg t" "length (sc_dns_servers cfg) \<le> 63"
  obtains r t' where "handle_datagram cfg d t = Ret (r, t')" "store_good cfg t'" "extends t t'"
    "\<forall>b. r = Some b \<longrightarrow> grants t' b"
proof (cases "parse_packet (take 1500 d)")
  case None
  then show thesis using assms by (intro that [of None t]) (auto simp: handle_datagram_def)
next
  case (Some pkt)
  note rep = parse_build_reply [OF parse_packet_chaddr [OF Some] assms(2)]
  consider (discover) "message_type pkt = Some MSG_DISCOVER"
    | (request) "message_type pkt = Some MSG_REQUEST"
    | (other) "message_type pkt \<noteq> Some MSG_DISCOVER" "message_type pkt \<noteq> Some MSG_REQUEST" by blast
  then show thesis
  proof cases
    case discover
    obtain a t' where al: "allocate (p_chaddr pkt) cfg t = Ret (a, t')"
      using pool.alloc_returns [OF assms(1)] by blast
    have "extends t t'" using pool.alloc_keeps [OF assms(1) al] by (simp add: extends_def)
    moreover have "store_good cfg t'" by (rule pool.alloc_good [OF assms(1) al])
    moreover have "grants t' (build_reply pkt b cfg MSG_OFFER)" if "a = Some b" for b
      using pool.alloc_binds [OF assms(1)] al that by (simp add: grants_def rep message_type_reply)
    ultimately show thesis
      using Some discover al
      by (intro that [of "map_option (\<lambda>b. build_reply pkt b cfg MSG_OFFER) a" t'])
        (auto simp: handle_datagram_def)
  next
    case request
    let ?ty = "if map_of (lt_by_mac t) (p_chaddr pkt) = Some (requested_ip pkt) then MSG_ACK else MSG_NAK"
    have "handle_datagram cfg d t = Ret (Some (build_reply pkt (requested_ip pkt) cfg ?ty), t)"
      using Some request by (simp add: handle_datagram_def)
    moreover have "grants t (build_reply pkt (requested_ip pkt) cfg ?ty)"
      by (simp add: grants_def rep message_type_reply table_lookup_def)
    ultimately show thesis using assms(1) by (intro that) auto
  next
    case other
    then show thesis using assms Some by (intro that [of None t]) (auto simp: handle_datagram_def)
  qed
qed

lemma serve_ok:
  assumes "store_good cfg t" "length (sc_dns_servers cfg) \<le> 63"
  shows "\<exists>rs t'. serve cfg evs t = Ret (rs, t') \<and> store_good cfg t' \<and> extends t t' \<and> list_all (grants t') rs"
  using assms(1)
proof (induction evs arbitrary: t)
  case Nil
  then show ?case by simp
next
  case (Cons ev evs)
  show ?case
  proof (cases ev)
    case (SrvDatagram d)
    obtain r t1 where h: "handle_datagram cfg d t = Ret (r, t1)" "store_good cfg t1" "extends t t1"
      "\<forall>b. r = Some b \<longrightarrow> grants t1 b"
      using handle_datagram_ok [OF Cons.prems assms(2)] by blast
    obtain rs t2 where s: "serve cfg evs t1 = Ret (rs, t2)" "store_good cfg t2" "extends t1 t2"
      "list_all (grants t2) rs"
      using Cons.IH [OF h(2)] by blast
    have "list_all (grants t2) ((case r of Some b \<Rightarrow> [b] | None \<Rightarrow> []) @ rs)"
      using h(4) s(3,4) grants_extends by (auto split: option.splits)
    then show ?thesis using SrvDatagram h s extends_trans by auto
  qed (use Cons in auto)
qed

lemma initial_table_good: "pool_ok cfg \<Longrightarrow> store_good cfg (initial_table cfg)"
  using pool_nat(1,3) [of cfg]
  by (simp add: store_good_def table_inv_eq initial_table_def next_ok_def word_le_nat_alt)

section \<open>Properties\<close>

text \<open>C9. Allocation on a well-formed table always returns, keeps the table well-formed, and is complete:
  a client that already has a binding keeps its address; another client gets an address of the pool
  no one owns; and only when every address of the pool is owned is a client refused.
\<close>

theorem allocate_complete:
  assumes "pool_ok cfg" "table_inv cfg t"
  shows "\<exists>r t'. allocate mac cfg t = Ret (r, t') \<and> table_inv cfg t' \<and>
    (case map_of (lt_by_mac t) mac of
       Some a \<Rightarrow> r = Some a \<and> t' = t
     | None \<Rightarrow>
         (case r of
            Some a \<Rightarrow> in_pool cfg a \<and> a \<notin> set (map snd (lt_by_mac t))
                      \<and> lt_by_mac t' = (mac, a) # lt_by_mac t
          | None \<Rightarrow> pool_full cfg t \<and> lt_by_mac t' = lt_by_mac t))"
  using assms
proof (cases rule: allocate_cases [where mac = mac])
  case (bound a)
  then show ?thesis using assms by auto
next
  case (fresh a t')
  then show ?thesis using allocate_effect(1) [OF assms fresh(2)] by auto
next
  case (full t')
  then show ?thesis using allocate_effect(1) [OF assms full(2)] by auto
qed

theorem allocate_complete_witness:
  "\<exists>t'. allocate [0, 1, 2, 3, 4, 5]
      \<lparr>sc_interface = ''ap0'', sc_server_ip = 0x0A000001, sc_pool_start = 0x0A000002,
       sc_pool_end = 0x0A000003, sc_prefixlen = 24, sc_lease_time_secs = 3600, sc_dns_servers = []\<rparr>
      \<lparr>lt_by_mac = [], lt_next_candidate = 0x0A000002\<rparr> = Ret (Some 0x0A000002, t')"
  using allocate_complete [of "\<lparr>sc_interface = ''ap0'', sc_server_ip = 0x0A000001,
      sc_pool_start = 0x0A000002, sc_pool_end = 0x0A000003, sc_prefixlen = 24,
      sc_lease_time_secs = 3600, sc_dns_servers = []\<rparr>"
      "\<lparr>lt_by_mac = [], lt_next_candidate = 0x0A000002\<rparr>" "[0, 1, 2, 3, 4, 5]"]
  by (simp add: pool_ok_def table_inv_def allocate_def)

text \<open>C10. Whatever datagrams arrive, the server never crashes, and every OFFER and every ACK it has sent
  names an address of the pool that its final table binds to that reply's client; one address is
  never granted to two different clients. This holds for every pool below the last 32-bit address
  and up to 63 DNS servers.
\<close>

theorem run_grants_unique:
  assumes "pool_ok cfg" "length (sc_dns_servers cfg) \<le> 63"
  shows "\<exists>rs t. run cfg evs = Ret (rs, t) \<and> list_all (grants t) rs \<and>
     list_all (in_pool cfg) (map snd (lt_by_mac t)) \<and> inj_on (map_of (lt_by_mac t)) (dom (map_of (lt_by_mac t)))"
proof -
  obtain rs t where s: "serve cfg evs (initial_table cfg) = Ret (rs, t)" "store_good cfg t"
    "list_all (grants t) rs"
    using serve_ok [OF initial_table_good [OF assms(1)] assms(2)] by blast
  have "inj_on (map_of (lt_by_mac t)) (dom (map_of (lt_by_mac t)))"
    using pool.one_owner [OF s(2)] by (auto simp: inj_on_def table_lookup_def)
  with s show ?thesis by (auto simp: run_def store_good_def table_inv_def)
qed

theorem run_grants_unique_witness:
  "\<exists>rs t. run \<lparr>sc_interface = ''ap0'', sc_server_ip = 0x0A000001, sc_pool_start = 0x0A000002,
       sc_pool_end = 0x0A000003, sc_prefixlen = 24, sc_lease_time_secs = 3600, sc_dns_servers = [0x08080808]\<rparr>
      [SrvDatagram (build_discover 7 [0, 1, 2, 3, 4, 5] None), SrvNothing, SrvStop] = Ret (rs, t)
     \<and> list_all (grants t) rs"
  using run_grants_unique [of "\<lparr>sc_interface = ''ap0'', sc_server_ip = 0x0A000001,
       sc_pool_start = 0x0A000002, sc_pool_end = 0x0A000003, sc_prefixlen = 24,
       sc_lease_time_secs = 3600, sc_dns_servers = [0x08080808]\<rparr>"
      "[SrvDatagram (build_discover 7 [0, 1, 2, 3, 4, 5] None), SrvNothing, SrvStop]"]
  by (auto simp: pool_ok_def)

end
