(* ===== verification/Sample_Host.thy ===== *)
theory Sample_Host
  imports Ip_Ops
begin

text \<open>
  A host to run examples on: a kernel that lists a fixed set of links and acknowledges every request. Its
  world is the last request it was sent.
\<close>

definition link_body :: "i32 \<Rightarrow> u32 \<Rightarrow> string \<Rightarrow> bytes" where
  "link_body index flags name = build_ifinfomsg index flags 0 @ enc_attrs [(IFLA_IFNAME, as_bytes name @ [0])]"

definition link_frames :: "(i32 \<times> u32 \<times> string) list \<Rightarrow> frame list" where
  "link_frames links = map (\<lambda>(i, f, n). multi 1 (RTM_NEWLINK, link_body i f n)) links @ [(1, NLMSG_DONE, 0x02, [])]"

definition request_type :: "bytes \<Rightarrow> u16" where
  "request_type req = from_le16 (req ! 4) (req ! 5)"

definition host_reply :: "(i32 \<times> u32 \<times> string) list \<Rightarrow> bytes \<Rightarrow> bytes" where
  "host_reply links req =
     datagram (if request_type req = RTM_GETLINK then link_frames links
               else if request_type req \<in> {RTM_GETADDR, RTM_GETROUTE} then [(1, NLMSG_DONE, 0x02, [])]
               else [(1, NLMSG_ERROR, 0, le32 0)])"

definition host_kernel :: "(i32 \<times> u32 \<times> string) list \<Rightarrow> bytes Kernel" where
  "host_kernel links = \<lparr>k_socket = (\<lambda>_ k. (Inr 3, k)), k_bind = (\<lambda>_ _ k. (Inr (), k)),
     k_send = (\<lambda>_ b _. (Inr (), b)), k_recv = (\<lambda>_ k. (Inr (host_reply links k), k)), k_close = (\<lambda>_ k. k),
     k_strerror = (\<lambda>_. ''os error'')\<rparr>"

definition link_interface :: "i32 \<times> u32 \<times> string \<Rightarrow> Interface" where
  "link_interface = (\<lambda>(i, f, n). \<lparr>if_index = i, if_name = n, if_flags = f, if_mtu = 0, if_hwaddr = None,
     if_operstate = None, if_kind = None\<rparr>)"

definition host_links_ok :: "(i32 \<times> u32 \<times> string) list \<Rightarrow> bool" where
  "host_links_ok links = (dg_ok (link_frames links) \<and> list_all (\<lambda>(i, f, n). plain_text n \<and> length n \<le> 100) links)"

lemma request_type_encode: "request_type (encode_msg sq t f p) = t"
proof -
  have "encode_msg sq t f p ! 4 = le16 t ! 0" "encode_msg sq t f p ! 5 = le16 t ! Suc 0"
    by (simp_all add: encode_msg_def Let_def le32_def le16_def)
  then show ?thesis by (simp add: request_type_def from_wire)
qed

lemma parse_link_body:
  assumes "plain_text n" "length n \<le> 100"
  shows "map_option interface_of_link (parse_link (link_body i f n)) = Some (link_interface (i, f, n))"
proof -
  let ?as = "[(IFLA_IFNAME, as_bytes n @ [0])]"
  have fit: "\<forall>a \<in> set ?as. attr_fits a" using assms by (auto intro!: attr_fits_small)
  have body: "link_body i f n = build_ifinfomsg i f 0 @ enc_attrs ?as" by (simp add: link_body_def)
  show ?thesis
    unfolding parse_link_def Let_def link_header [OF body] parse_attrs_enc [OF fit]
    using assms by (simp add: interface_of_link_def link_interface_def attr_string_nul_str)
qed

lemma parse_link_bodies:
  "list_all (\<lambda>(i, f, n). plain_text n \<and> length n \<le> 100) links \<Longrightarrow>
     map interface_of_link (List.map_filter parse_link (map snd (map (\<lambda>(i, f, n). (t, link_body i f n)) links)))
       = map link_interface links"
proof (induction links)
  case (Cons l ls)
  obtain i f n where l: "l = (i, f, n)" by (cases l)
  from Cons.prems have "map_option interface_of_link (parse_link (link_body i f n)) = Some (link_interface l)"
    by (simp add: l parse_link_body)
  then obtain x where "parse_link (link_body i f n) = Some x" "interface_of_link x = link_interface l" by auto
  with Cons show ?case by (simp add: l List.map_filter_simps)
qed (simp add: List.map_filter_simps)

lemma host_recv:
  assumes "host_reply links k = datagram frs" "dg_ok frs" "\<not> continues 1 frs"
  shows "recv_loop (host_kernel links) (Suc n) 1 [] (sock, k) = Ret (Inr (concat (map (scan_out 1) frs)), (sock, k))"
  using recv_loop_datagrams [of "[]" 1 frs "host_kernel links" sock k k "Suc n" "[]"] assms
  by (simp add: host_kernel_def any_error_def)

lemma host_send:
  "nl_send (host_kernel links) t f p (\<lparr>nl_fd = 3, nl_seq = 1\<rparr>, k) =
     Ret (Inr 1, (\<lparr>nl_fd = 3, nl_seq = 2\<rparr>, encode_msg 1 t f p))"
  by (simp add: nl_send_def host_kernel_def Let_def)

lemma host_call:
  assumes "\<And>k. \<exists>sock k'. body (\<lparr>nl_fd = 3, nl_seq = 1\<rparr>, k) = Ret (r, (sock, k'))"
  shows "\<exists>k'. nl_call (host_kernel links) body k = Ret (r, k')"
proof -
  obtain sock k' where "body (\<lparr>nl_fd = 3, nl_seq = 1\<rparr>, k) = Ret (r, (sock, k'))" using assms by blast
  then have "nl_call (host_kernel links) body k = Ret (r, k_close (host_kernel links) (nl_fd sock) k')"
    by (intro nl_call_eq) (simp_all add: host_kernel_def)
  then show ?thesis by blast
qed

lemma host_request:
  assumes "t \<notin> {RTM_GETLINK, RTM_GETADDR, RTM_GETROUTE}"
  shows "\<exists>k'. nl_call (host_kernel links) (request (host_kernel links) (Suc n) t f p) k = Ret (Inr (), k')"
proof (rule host_call)
  fix k
  let ?k = "encode_msg 1 t (f OR NLM_F_REQUEST OR NLM_F_ACK) p"
  have "dg_ok [(1, NLMSG_ERROR, 0, le32 0)]"
    by (simp add: dg_ok_def frame_fits_def datagram_def length_enc_frame align_def length_wire)
  moreover have "\<not> continues 1 [(1, NLMSG_ERROR, 0, le32 0)]" by (simp add: continues_def scan_fin_def)
  moreover have "host_reply links ?k = datagram [(1, NLMSG_ERROR, 0, le32 0)]"
    using assms by (simp add: host_reply_def request_type_encode)
  ultimately have "recv_loop (host_kernel links) (Suc n) 1 [] (\<lparr>nl_fd = 3, nl_seq = 2\<rparr>, ?k) =
      Ret (Inr [(NLMSG_ERROR, 0, le32 0)], (\<lparr>nl_fd = 3, nl_seq = 2\<rparr>, ?k))"
    using host_recv [of links ?k "[(1, NLMSG_ERROR, 0, le32 0)]" n "\<lparr>nl_fd = 3, nl_seq = 2\<rparr>"]
    by (simp add: scan_out_def del: recv_loop.simps)
  moreover have "check_ack (host_kernel links) (le32 0) = Inr ()"
    using from_wire(4) [of 0] by (simp add: check_ack_def Let_def length_wire)
  ultimately show "\<exists>sock k'. request (host_kernel links) (Suc n) t f p (\<lparr>nl_fd = 3, nl_seq = 1\<rparr>, k) = Ret (Inr (), (sock, k'))"
    by (simp add: request_def host_send recv_until_done_def lift_io_def)
qed

lemma host_dump:
  assumes frs: "host_reply links (encode_msg 1 t (NLM_F_REQUEST OR NLM_F_DUMP) p) = datagram (map (multi 1) ms @ [(1, NLMSG_DONE, 0x02, [])])"
    and ok: "dg_ok (map (multi 1) ms @ [(1, NLMSG_DONE, 0x02, [])])" "list_all dump_type ms"
  shows "\<exists>sock k'. dump (host_kernel links) (Suc n) t p (\<lparr>nl_fd = 3, nl_seq = 1\<rparr>, k) = Ret (Inr (map snd ms), (sock, k'))"
proof -
  have "\<not> continues 1 (map (multi 1) ms @ [(1, NLMSG_DONE, 0x02, [])])" by (simp add: continues_def scan_fin_def)
  from host_recv [OF frs ok(1) this, of n "\<lparr>nl_fd = 3, nl_seq = 2\<rparr>"] multi_out [OF ok(2), of 1]
    collect_multi [OF ok(2), where out = "[]"]
  show ?thesis by (simp add: dump_def host_send recv_until_done_def lift_io_def scan_out_def)
qed

lemma host_interfaces:
  assumes "host_links_ok links"
  shows "\<exists>k'. interface_list (host_kernel links) (Suc n) k = Ret (Inr (map link_interface links), k')"
  unfolding interface_list_def
proof (rule host_call)
  fix k
  let ?ms = "map (\<lambda>(i, f, n). (RTM_NEWLINK, link_body i f n)) links"
  have fr: "link_frames links = map (multi 1) ?ms @ [(1, NLMSG_DONE, 0x02, [])]"
    by (simp add: link_frames_def comp_def case_prod_unfold)
  have "host_reply links (encode_msg 1 RTM_GETLINK (NLM_F_REQUEST OR NLM_F_DUMP) (build_ifinfomsg 0 0 0)) =
      datagram (map (multi 1) ?ms @ [(1, NLMSG_DONE, 0x02, [])])"
    unfolding fr [symmetric] by (simp add: host_reply_def request_type_encode)
  moreover have "list_all dump_type ?ms" by (auto simp: dump_type_def list_all_iff)
  ultimately obtain sock k' where d: "dump (host_kernel links) (Suc n) RTM_GETLINK (build_ifinfomsg 0 0 0)
      (\<lparr>nl_fd = 3, nl_seq = 1\<rparr>, k) = Ret (Inr (map snd ?ms), (sock, k'))"
    using host_dump [of links RTM_GETLINK "build_ifinfomsg 0 0 0" ?ms n k] assms fr by (auto simp: host_links_ok_def)
  have "map interface_of_link (List.map_filter parse_link (map snd ?ms)) = map link_interface links"
    using assms by (intro parse_link_bodies) (simp add: host_links_ok_def)
  with d show "\<exists>sock k'. bind_io (dump (host_kernel links) (Suc n) RTM_GETLINK (build_ifinfomsg 0 0 0))
      (\<lambda>replies. return_io (map interface_of_link (List.map_filter parse_link replies)))
      (\<lparr>nl_fd = 3, nl_seq = 1\<rparr>, k) = Ret (Inr (map link_interface links), (sock, k'))"
    by (simp add: return_io_apply)
qed

lemma host_get_by_name:
  assumes "host_links_ok links" "find (\<lambda>i. if_name i = name) (map link_interface links) = Some iface"
  shows "\<exists>k'. get_by_name (host_kernel links) (Suc n) name k = Ret (Inr iface, k')"
proof -
  obtain k' where "interface_list (host_kernel links) (Suc n) k = Ret (Inr (map link_interface links), k')"
    using host_interfaces [OF assms(1)] by blast
  then show ?thesis using assms(2) by (simp add: get_by_name_def ok_or_def lift_io_def)
qed

lemma host_no_addresses: "\<exists>k'. address_list (host_kernel links) (Suc n) idx k = Ret (Inr [], k')"
proof -
  have d: "dg_ok [(1, NLMSG_DONE, 0x02, [])]"
    by (simp add: dg_ok_def frame_fits_def datagram_def length_enc_frame align_def)
  have fam: "\<exists>k'. address_list_family (host_kernel links) (Suc n) idx fam k = Ret (Inr [], k')" for fam k
    unfolding address_list_family_def
  proof (rule host_call)
    fix k
    let ?p = "build_ifaddrmsg fam 0 (case idx of Some i \<Rightarrow> i | None \<Rightarrow> 0)"
    obtain sock k' where "dump (host_kernel links) (Suc n) RTM_GETADDR ?p (\<lparr>nl_fd = 3, nl_seq = 1\<rparr>, k) = Ret (Inr [], (sock, k'))"
      using host_dump [of links RTM_GETADDR ?p "[]" n k] d by (auto simp: host_reply_def request_type_encode)
    then show "\<exists>sock k'. bind_io (dump (host_kernel links) (Suc n) RTM_GETADDR ?p)
        (\<lambda>replies. return_io (List.map_filter (address_of_body fam idx) replies)) (\<lparr>nl_fd = 3, nl_seq = 1\<rparr>, k)
        = Ret (Inr [], (sock, k'))"
      by (simp add: return_io_apply List.map_filter_simps)
  qed
  obtain k1 where k1: "address_list_family (host_kernel links) (Suc n) idx AF_INET k = Ret (Inr [], k1)" using fam by blast
  obtain k2 where k2: "address_list_family (host_kernel links) (Suc n) idx AF_INET6 k1 = Ret (Inr [], k2)" using fam by blast
  show ?thesis by (simp add: address_list_def k1 k2 return_io_apply)
qed

lemma host_flush: "\<exists>k'. address_flush (host_kernel links) (Suc n) index k = Ret (Inr (), k')"
proof -
  obtain k' where "address_list (host_kernel links) (Suc n) (Some index) k = Ret (Inr [], k')"
    using host_no_addresses by blast
  then show ?thesis by (simp add: address_flush_def return_io_apply)
qed

lemma host_address_add: "\<exists>k'. address_add (host_kernel links) (Suc n) index ip len k = Ret (Inr (), k')"
  unfolding address_add_def by (rule host_request) simp

lemma host_set_up: "\<exists>k'. set_up (host_kernel links) (Suc n) index k = Ret (Inr (), k')"
  unfolding set_up_def set_flags_def by (rule host_request) simp

end
