(* ===== verification/Sharing.thy ===== *)
theory Sharing
  imports Activation Firewall Dhcp_Server Sample_Host
begin

text \<open>
  Hotspots and internet sharing: \<^verbatim>\<open>sharing/hotspot.rs\<close>, \<^verbatim>\<open>sharing/internet_sharing.rs\<close>,
  \<^verbatim>\<open>sharing/nat.rs\<close> and the start and stop of the DHCP server thread, \<^verbatim>\<open>sharing/dhcp_server.rs\<close>. The
  server's own loop is in \<open>Dhcp_Server\<close>. The firewall and the table of running access points are the state
  beside the world.
\<close>

section \<open>Starting and stopping the DHCP server, \<^verbatim>\<open>sharing/dhcp_server.rs\<close>\<close>

text \<open>
  \<open>dd_bind fd ifname\<close> is the socket options, whose results are ignored, and \<open>bind\<close> to port 67;
  \<open>dd_spawn\<close> starts the thread that runs the server on a socket, \<open>dd_stop\<close> sets its flag and joins it.
\<close>

record 'w DhcpdEnv =
  dd_socket :: "'w \<Rightarrow> (string + nat) \<times> 'w"
  dd_bind :: "nat \<Rightarrow> string \<Rightarrow> 'w \<Rightarrow> (string + unit) \<times> 'w"
  dd_close :: "nat \<Rightarrow> 'w \<Rightarrow> 'w"
  dd_set_timeout :: "nat \<Rightarrow> nat \<Rightarrow> 'w \<Rightarrow> (string + unit) \<times> 'w"
  dd_spawn :: "DhcpServerConfig \<Rightarrow> nat \<Rightarrow> 'w \<Rightarrow> (string + nat) \<times> 'w"
  dd_stop :: "nat \<Rightarrow> 'w \<Rightarrow> 'w"

text \<open>\<open>CString::new(ifname).unwrap()\<close> panics on a name with a NUL.\<close>

definition bound_server_socket :: "'w DhcpdEnv \<Rightarrow> string \<Rightarrow> ('w, nat) io" where
  "bound_server_socket D ifname =
     bind_io (sys_call Io (dd_socket D)) (\<lambda>fd.
       if nul \<in> set ifname then (\<lambda>w. Panic)
       else on_error (dd_close D fd)
         (then_io (sys_call (\<lambda>e. Dhcp (''bind udp/67 on '' @ ifname @ '' failed: '' @ e)) (dd_bind D fd ifname))
           (return_io fd)))"

definition dhcpd_start :: "'w DhcpdEnv \<Rightarrow> DhcpServerConfig \<Rightarrow> ('w, nat) io" where
  "dhcpd_start D cfg =
     bind_io (bound_server_socket D (sc_interface cfg)) (\<lambda>sock.
       on_error (dd_close D sock)
         (then_io (sys_call Io (dd_set_timeout D sock 500))
           (sys_call Io (dd_spawn D cfg sock))))"

section \<open>Forwarding and masquerading, \<^verbatim>\<open>sharing/nat.rs\<close>\<close>

definition set_ipv4_forwarding :: "'w Fs \<Rightarrow> bool \<Rightarrow> ('w, unit) io" where
  "set_ipv4_forwarding F enabled =
     fs_call (fs_write F ''/proc/sys/net/ipv4/ip_forward'' (if enabled then ''1'' else ''0''))"

definition nat_enable :: "'w Fs \<Rightarrow> 'w Nft \<Rightarrow> string \<Rightarrow> string \<Rightarrow> (Firewall \<times> 'w, unit) io" where
  "nat_enable F N lan wan = then_io (on_world (set_ipv4_forwarding F True)) (enable_sharing N lan wan)"

definition nat_disable :: "'w Nft \<Rightarrow> string \<Rightarrow> string \<Rightarrow> (Firewall \<times> 'w, unit) io" where
  "nat_disable N lan wan = disable_sharing N lan wan"

section \<open>Hotspots, \<^verbatim>\<open>sharing/hotspot.rs\<close>\<close>

record HotspotSession =
  hs_interface :: string
  hs_dhcp :: "nat option"
  hs_uplink :: "string option"

definition AP_SERVER_IP :: Ipv4Addr where "AP_SERVER_IP = 0xC0A80401"
definition AP_POOL_START :: Ipv4Addr where "AP_POOL_START = 0xC0A8040A"
definition AP_POOL_END :: Ipv4Addr where "AP_POOL_END = 0xC0A804C8"

definition hotspot_dhcp :: "string \<Rightarrow> DhcpServerConfig" where
  "hotspot_dhcp interface =
     \<lparr>sc_interface = interface, sc_server_ip = AP_SERVER_IP, sc_pool_start = AP_POOL_START,
      sc_pool_end = AP_POOL_END, sc_prefixlen = 24, sc_lease_time_secs = 3600, sc_dns_servers = [AP_SERVER_IP]\<rparr>"

record 'w ShareEnv =
  sh_kernel :: "'w Kernel"
  sh_fs :: "'w Fs"
  sh_nft :: "'w Nft"
  sh_ap :: "'w ApEnv"
  sh_dhcpd :: "'w DhcpdEnv"
  sh_fuel :: nat

type_synonym share_state = "Firewall \<times> children"

abbreviation on_firewall :: "(Firewall \<times> 'w, 'a) io \<Rightarrow> (share_state \<times> 'w, 'a) io" where
  "on_firewall \<equiv> zoom fst (\<lambda>fw (_, ch). (fw, ch))"

abbreviation on_children :: "(children \<times> 'w, 'a) io \<Rightarrow> (share_state \<times> 'w, 'a) io" where
  "on_children \<equiv> zoom snd (\<lambda>ch (fw, _). (fw, ch))"

definition sharing_hotspot_start ::
    "'w ShareEnv \<Rightarrow> string \<Rightarrow> string \<Rightarrow> string option \<Rightarrow> string option
      \<Rightarrow> (share_state \<times> 'w, HotspotSession) io" where
  "sharing_hotspot_start E interface ssid passphrase uplink =
     bind_io (on_world (get_by_name (sh_kernel E) (sh_fuel E) interface)) (\<lambda>iface.
     then_io (on_world (address_flush (sh_kernel E) (sh_fuel E) (if_index iface)))
    (then_io (on_world (address_add (sh_kernel E) (sh_fuel E) (if_index iface) (V4 AP_SERVER_IP) 24))
    (then_io (on_world (bring_up (sh_kernel E) (sh_fuel E) (if_index iface)))
    (then_io (on_children (hotspot_start (sh_ap E)
       \<lparr>hc_interface = interface, hc_ssid = ssid, hc_passphrase = passphrase, hc_channel = 6, hc_hw_mode = ''g''\<rparr>))
    (bind_io (on_world (dhcpd_start (sh_dhcpd E) (hotspot_dhcp interface))) (\<lambda>dhcp.
     then_io (on_firewall (assign_zone (sh_nft E) interface ''home''))
    (then_io (if_some uplink (\<lambda>wan. on_firewall (nat_enable (sh_fs E) (sh_nft E) interface wan)))
       (return_io \<lparr>hs_interface = interface, hs_dhcp = Some dhcp, hs_uplink = uplink\<rparr>))))))))"

definition sharing_hotspot_stop :: "'w ShareEnv \<Rightarrow> HotspotSession \<Rightarrow> (share_state \<times> 'w, unit) io" where
  "sharing_hotspot_stop E session =
     then_io (if_some (hs_dhcp session) (\<lambda>h. on_world (do_io (dd_stop (sh_dhcpd E) h))))
    (then_io (on_children (do_io (hotspot_stop (sh_ap E) (hs_interface session))))
    (then_io (if_some (hs_uplink session) (\<lambda>wan. on_firewall (nat_disable (sh_nft E) (hs_interface session) wan)))
    (bind_io (on_world (get_by_name (sh_kernel E) (sh_fuel E) (hs_interface session))) (\<lambda>iface.
       on_world (address_flush (sh_kernel E) (sh_fuel E) (if_index iface))))))"

section \<open>Internet sharing, \<^verbatim>\<open>sharing/internet_sharing.rs\<close>\<close>

record SharingSession =
  se_lan_interface :: string
  se_wan_interface :: string
  se_dhcp :: "nat option"

definition sharing_dhcp :: "string \<Rightarrow> Ipv4Addr \<Rightarrow> u8 \<Rightarrow> Ipv4Addr \<times> Ipv4Addr \<Rightarrow> DhcpServerConfig" where
  "sharing_dhcp lan ip len pool =
     \<lparr>sc_interface = lan, sc_server_ip = ip, sc_pool_start = fst pool, sc_pool_end = snd pool,
      sc_prefixlen = len, sc_lease_time_secs = 3600, sc_dns_servers = [ip]\<rparr>"

definition sharing_start ::
    "'w ShareEnv \<Rightarrow> string \<Rightarrow> string \<Rightarrow> Ipv4Addr \<Rightarrow> u8 \<Rightarrow> Ipv4Addr \<times> Ipv4Addr
      \<Rightarrow> (Firewall \<times> 'w, SharingSession) io" where
  "sharing_start E lan wan ip len pool =
     bind_io (on_world (get_by_name (sh_kernel E) (sh_fuel E) lan)) (\<lambda>iface.
     then_io (on_world (address_add (sh_kernel E) (sh_fuel E) (if_index iface) (V4 ip) len))
    (then_io (on_world (bring_up (sh_kernel E) (sh_fuel E) (if_index iface)))
    (bind_io (on_world (dhcpd_start (sh_dhcpd E) (sharing_dhcp lan ip len pool))) (\<lambda>dhcp.
     then_io (assign_zone (sh_nft E) lan ''home'')
    (then_io (nat_enable (sh_fs E) (sh_nft E) lan wan)
       (return_io \<lparr>se_lan_interface = lan, se_wan_interface = wan, se_dhcp = Some dhcp\<rparr>))))))"

definition sharing_stop :: "'w ShareEnv \<Rightarrow> SharingSession \<Rightarrow> (Firewall \<times> 'w, unit) io" where
  "sharing_stop E session =
     then_io (if_some (se_dhcp session) (\<lambda>h. on_world (do_io (dd_stop (sh_dhcpd E) h))))
    (then_io (nat_disable (sh_nft E) (se_lan_interface session) (se_wan_interface session))
    (bind_io (on_world (get_by_name (sh_kernel E) (sh_fuel E) (se_lan_interface session))) (\<lambda>iface.
       on_world (address_flush (sh_kernel E) (sh_fuel E) (if_index iface)))))"

section \<open>What a hotspot sets up and what stopping it takes down\<close>

text \<open>The servers' pools are ones the allocation of \<open>Dhcp_Server\<close> is correct for.\<close>

lemma hotspot_pool_ok: "pool_ok (hotspot_dhcp interface)"
  by (simp add: pool_ok_def hotspot_dhcp_def AP_POOL_START_def AP_POOL_END_def)

text \<open>Once the access point's configuration has been checked, starting the server does not panic.\<close>

lemma dhcpd_start_returns:
  assumes "nul \<notin> set (sc_interface cfg)"
  shows "returns_io (dhcpd_start D cfg)"
proof -
  have e: "returns_io m \<Longrightarrow> returns_io (on_error f m)" for f and m :: "('w, nat) io"
    unfolding returns_io_def on_error_def by (metis (no_types, lifting) outcome.simps(8) prod.case sum.exhaust sum.simps(5,6))
  show ?thesis
    unfolding dhcpd_start_def bound_server_socket_def
    using assms by (auto intro!: returns_intros e)
qed

text \<open>The zone an interface is in.\<close>

definition in_zone :: "string \<Rightarrow> string \<Rightarrow> Firewall \<Rightarrow> bool" where
  "in_zone i z fw = (\<exists>zn \<in> set (fw_zones fw). zo_name zn = z \<and> i \<in> set (zo_interfaces zn))"

lemma push_in: "z \<in> zo_name ` set zs \<Longrightarrow> \<exists>zn \<in> set (push_interface i z zs). zo_name zn = z \<and> i \<in> set (zo_interfaces zn)"
  by (induction zs) auto

lemma assign_zone_Ok:
  assumes "assign_zone N i z (fw, w) = Ret (Inr (), (fw', w'))"
  shows "in_zone i z fw' \<and> fw_forward_pairs fw' = fw_forward_pairs fw"
proof -
  let ?zs = "map (retain_other i) (fw_zones fw)"
  have fw': "fw' = fw\<lparr>fw_zones := push_interface i z ?zs\<rparr>" and ex: "zone_exists z fw"
    using assms by (auto simp: assign_zone_def Let_def split: sum.splits if_splits dest: fw_commit_result)
  have "z \<in> zo_name ` set ?zs" using ex by (auto simp: zone_exists_def list_ex_iff retain_other_def image_def)
  from push_in [OF this] show ?thesis by (simp add: fw' in_zone_def)
qed

lemma enable_sharing_Ok:
  assumes "enable_sharing N lan wan (fw, w) = Ret (Inr (), (fw', w'))"
  shows "(lan, wan) \<in> set (fw_forward_pairs fw') \<and> wan \<in> set (fw_masquerade_interfaces fw') \<and>
    fw_zones fw' = fw_zones fw"
  using assms by (auto simp: enable_sharing_def Let_def split: sum.splits if_splits dest!: fw_commit_result)

lemma disable_sharing_effect:
  assumes "disable_sharing N lan wan (fw, w) = Ret (r, (fw', w'))"
  shows "(lan, wan) \<notin> set (fw_forward_pairs fw') \<and> fw_zones fw' = fw_zones fw"
  using assms by (auto simp: disable_sharing_def Let_def dest!: fw_commit_result)

lemma nat_enable_Ok:
  assumes "nat_enable F N lan wan (fw, w) = Ret (Inr (), (fw', w'))"
  shows "\<exists>w1. enable_sharing N lan wan (fw, w1) = Ret (Inr (), (fw', w'))"
  using assms unfolding nat_enable_def then_io_Ok by (metis on_world_cases surj_pair)

lemma hotspot_start_runs:
  assumes "hotspot_start A cfg (ch, w) = Ret (Inr (), (ch', w'))"
  shows "is_running (hc_interface cfg) ch' \<and> hotspot_check cfg = Inr ()"
  using assms by (auto simp: hotspot_start_def io_Ok is_running_def hm.get_ins)

lemma hotspot_stop_gone: "hotspot_stop A i (ch, w) = (ch', w') \<Longrightarrow> \<not> is_running i ch'"
  by (auto simp: hotspot_stop_def is_running_def hm.get_del)

text \<open>The steps of a successful start: the radio and the zone, then the uplink.\<close>

lemma hotspot_started:
  assumes "sharing_hotspot_start E i ssid pass uplink ((fw, ch), w) = Ret (Inr session, ((fw', ch'), w'))"
  shows "hs_interface session = i \<and> hs_uplink session = uplink \<and> is_running i ch' \<and>
    (\<exists>fw1 wa wb wc. assign_zone (sh_nft E) i ''home'' (fw, wa) = Ret (Inr (), (fw1, wb)) \<and>
      (case uplink of None \<Rightarrow> fw' = fw1
       | Some wan \<Rightarrow> enable_sharing (sh_nft E) i wan (fw1, wc) = Ret (Inr (), (fw', w'))))"
proof -
  let ?cfg = "\<lparr>hc_interface = i, hc_ssid = ssid, hc_passphrase = pass, hc_channel = 6, hc_hw_mode = ''g''\<rparr>"
  from assms obtain w3 s4 dhcp s5 s6 where
    ap: "on_children (hotspot_start (sh_ap E) ?cfg) ((fw, ch), w3) = Ret (Inr (), s4)" and
    dh: "on_world (dhcpd_start (sh_dhcpd E) (hotspot_dhcp i)) s4 = Ret (Inr dhcp, s5)" and
    zn: "on_firewall (assign_zone (sh_nft E) i ''home'') s5 = Ret (Inr (), s6)" and
    up: "then_io (if_some uplink (\<lambda>wan. on_firewall (nat_enable (sh_fs E) (sh_nft E) i wan)))
       (return_io \<lparr>hs_interface = i, hs_dhcp = Some dhcp, hs_uplink = uplink\<rparr>) s6 = Ret (Inr session, ((fw', ch'), w'))"
    unfolding sharing_hotspot_start_def
    by (simp only: world_bind_Ok world_then_Ok) (simp only: then_io_Ok bind_io_Ok, blast)
  obtain ch1 w4 where s4: "s4 = ((fw, ch1), w4)" and r: "hotspot_start (sh_ap E) ?cfg (ch, w3) = Ret (Inr (), (ch1, w4))"
    using zoomed_Ok [OF ap] by auto
  obtain w5 where s5: "s5 = ((fw, ch1), w5)" using dh on_world_Ok unfolding s4 by metis
  obtain fw1 w6 where s6: "s6 = ((fw1, ch1), w6)"
    and z: "assign_zone (sh_nft E) i ''home'' (fw, w5) = Ret (Inr (), (fw1, w6))"
    using zoomed_Ok [OF zn [unfolded s5]] by auto
  have run: "is_running i ch1" using hotspot_start_runs [OF r] by simp
  show ?thesis
  proof (cases uplink)
    case None
    with up run z show ?thesis by (auto simp: s6 if_some_def then_io_def)
  next
    case (Some wan)
    then obtain s7 where n: "on_firewall (nat_enable (sh_fs E) (sh_nft E) i wan) ((fw1, ch1), w6) = Ret (Inr (), s7)"
      and fin: "s7 = ((fw', ch'), w')" "session = \<lparr>hs_interface = i, hs_dhcp = Some dhcp, hs_uplink = uplink\<rparr>"
      using up by (auto simp: s6 if_some_def then_io_Ok)
    from zoomed_Ok [OF n] fin(1) have ch': "ch' = ch1"
      and "nat_enable (sh_fs E) (sh_nft E) i wan (fw1, w6) = Ret (Inr (), (fw', w'))" by auto
    from nat_enable_Ok [OF this(2)] Some run z ch' fin(2) show ?thesis by auto
  qed
qed

lemma hotspot_stopped:
  assumes "sharing_hotspot_stop E session ((fw, ch), w) = Ret (r, ((fw', ch'), w'))"
  shows "\<not> is_running (hs_interface session) ch' \<and>
    (case hs_uplink session of None \<Rightarrow> fw' = fw
     | Some wan \<Rightarrow> \<exists>q wa wb. disable_sharing (sh_nft E) (hs_interface session) wan (fw, wa) = Ret (q, (fw', wb)))"
proof -
  let ?i = "hs_interface session"
  let ?down = "if_some (hs_uplink session) (\<lambda>wan. on_firewall (nat_disable (sh_nft E) ?i wan))"
  let ?flush = "bind_io (on_world (get_by_name (sh_kernel E) (sh_fuel E) ?i)) (\<lambda>iface.
       on_world (address_flush (sh_kernel E) (sh_fuel E) (if_index iface))) :: (share_state \<times> 'a, unit) io"
  have a: "\<exists>w1. if_some (hs_dhcp session) (\<lambda>h. on_world (do_io (dd_stop (sh_dhcpd E) h))) ((fw, ch), w) = Ret (Inr (), ((fw, ch), w1))"
    by (cases "hs_dhcp session") (auto simp: if_some_def return_io_apply on_world_def do_io_def)
  then obtain w1 where w1: "if_some (hs_dhcp session) (\<lambda>h. on_world (do_io (dd_stop (sh_dhcpd E) h))) ((fw, ch), w)
      = Ret (Inr (), ((fw, ch), w1))" by blast
  obtain ch2 w2 where st: "hotspot_stop (sh_ap E) ?i (ch, w1) = (ch2, w2)" by (cases "hotspot_stop (sh_ap E) ?i (ch, w1)")
  then have c: "on_children (do_io (hotspot_stop (sh_ap E) ?i)) ((fw, ch), w1) = Ret (Inr (), ((fw, ch2), w2))"
    by (simp add: zoom_def do_io_def)
  have rest: "then_io ?down ?flush ((fw, ch2), w2) = Ret (r, ((fw', ch'), w'))"
    using assms w1 c unfolding sharing_hotspot_stop_def then_io_def by simp
  have k: "keeps_io (\<lambda>(s, w). s = s0) ?flush" for s0
    by (intro keeps_bind keeps_on_world)
  have "ch' = ch2 \<and> (case hs_uplink session of None \<Rightarrow> fw' = fw
     | Some wan \<Rightarrow> \<exists>q wa wb. disable_sharing (sh_nft E) ?i wan (fw, wa) = Ret (q, (fw', wb)))"
  proof (cases "hs_uplink session")
    case None
    then show ?thesis
      using rest keeps_ioD [OF k [of "(fw, ch2)"], of "((fw, ch2), w2)"] by (simp add: if_some_def then_io_def)
  next
    case (Some wan)
    from rest show ?thesis
    proof (cases rule: then_io_cases)
      case (ok s)
      with Some obtain fw1 w3 where s: "s = ((fw1, ch2), w3)"
        and d: "disable_sharing (sh_nft E) ?i wan (fw, w2) = Ret (Inr (), (fw1, w3))"
        by (auto simp: if_some_def nat_disable_def dest!: zoomed_Ok)
      from keeps_ioD [OF k [of "(fw1, ch2)"] ok(2)] s have "fw' = fw1" "ch' = ch2" by simp_all
      with d Some show ?thesis by auto
    next
      case (err e)
      with Some have "ch' = ch2" "disable_sharing (sh_nft E) ?i wan (fw, w2) = Ret (Inl e, (fw', w'))"
        by (auto simp: if_some_def nat_disable_def dest!: zoomed_Ok)
      with Some show ?thesis by auto
    qed
  qed
  with hotspot_stop_gone [OF st] show ?thesis by auto
qed

text \<open>C20. A hotspot that starts runs its access point with its interface in zone \<open>home\<close>, and with an uplink is forwarded and
  masqueraded to it. Stopping the session ends the access point and the forwarding, whatever fails on
  the way, and keeps the firewall's invariant; the interface stays in zone \<open>home\<close>.\<close>

theorem hotspot_round:
  assumes inv: "fw_inv fw"
    and up: "sharing_hotspot_start E i ssid pass uplink ((fw, ch), w) = Ret (Inr session, ((fw1, ch1), w1))"
  shows "fw_inv fw1 \<and> is_running i ch1 \<and> in_zone i ''home'' fw1 \<and>
    (\<forall>wan. uplink = Some wan \<longrightarrow>
       (i, wan) \<in> set (fw_forward_pairs fw1) \<and> wan \<in> set (fw_masquerade_interfaces fw1)) \<and>
    (\<forall>r fw2 ch2 w2. sharing_hotspot_stop E session ((fw1, ch1), w1) = Ret (r, ((fw2, ch2), w2)) \<longrightarrow>
       fw_inv fw2 \<and> \<not> is_running i ch2 \<and> in_zone i ''home'' fw2 \<and>
       (\<forall>wan. uplink = Some wan \<longrightarrow> (i, wan) \<notin> set (fw_forward_pairs fw2)))"
proof -
  from hotspot_started [OF up] obtain fw0 wa wb wc where s: "hs_interface session = i" "hs_uplink session = uplink"
    "is_running i ch1" and z: "assign_zone (sh_nft E) i ''home'' (fw, wa) = Ret (Inr (), (fw0, wb))"
    and e: "case uplink of None \<Rightarrow> fw1 = fw0
       | Some wan \<Rightarrow> enable_sharing (sh_nft E) i wan (fw0, wc) = Ret (Inr (), (fw1, w1))"
    by blast
  have i0: "fw_inv fw0" by (rule assign_zone_inv [OF inv z])
  have e1: "fw_inv fw1 \<and> fw_zones fw1 = fw_zones fw0 \<and> (\<forall>wan. uplink = Some wan \<longrightarrow>
      (i, wan) \<in> set (fw_forward_pairs fw1) \<and> wan \<in> set (fw_masquerade_interfaces fw1))"
  proof (cases uplink)
    case (Some wan)
    with e have en: "enable_sharing (sh_nft E) i wan (fw0, wc) = Ret (Inr (), (fw1, w1))" by simp
    from enable_sharing_Ok [OF en] enable_sharing_inv [OF i0 en] Some show ?thesis by simp
  qed (use e i0 in simp)
  have home: "in_zone i ''home'' fw1" using assign_zone_Ok [OF z] e1 by (simp add: in_zone_def)
  have down: "fw_inv fw2 \<and> \<not> is_running i ch2 \<and> in_zone i ''home'' fw2 \<and>
       (\<forall>wan. uplink = Some wan \<longrightarrow> (i, wan) \<notin> set (fw_forward_pairs fw2))"
    if d: "sharing_hotspot_stop E session ((fw1, ch1), w1) = Ret (r, ((fw2, ch2), w2))" for r fw2 ch2 w2
  proof (cases uplink)
    case None
    with hotspot_stopped [OF d] s e1 home show ?thesis by simp
  next
    case (Some wan)
    with hotspot_stopped [OF d] s obtain q wa wb where
      dis: "disable_sharing (sh_nft E) i wan (fw1, wa) = Ret (q, (fw2, wb))" "\<not> is_running i ch2"
      by auto
    from disable_sharing_effect [OF dis(1)] disable_sharing_inv [OF conjunct1 [OF e1] dis(1)] home dis(2) Some
    show ?thesis by (simp add: in_zone_def)
  qed
  from e1 s(3) home down show ?thesis by blast
qed

definition ap_links :: "(i32 \<times> u32 \<times> string) list" where
  "ap_links = [(4, 0, ''ap0'')]"

definition ap_host :: "bytes ShareEnv" where
  "ap_host = \<lparr>sh_kernel = host_kernel ap_links, sh_fs = quiet_fs,
     sh_nft = \<lparr>nft_delete_table = (\<lambda>w. w), nft_load = (\<lambda>_ w. (NftOk, w))\<rparr>,
     sh_ap = \<lparr>ap_mkdir = (\<lambda>_ w. (Inr (), w)), ap_write = (\<lambda>_ _ w. (Inr (), w)), ap_unlink = (\<lambda>_ w. w),
       ap_spawn = (\<lambda>_ w. (Inr 7, w)), ap_kill = (\<lambda>_ w. w)\<rparr>,
     sh_dhcpd = \<lparr>dd_socket = (\<lambda>w. (Inr 8, w)), dd_bind = (\<lambda>_ _ w. (Inr (), w)), dd_close = (\<lambda>_ w. w),
       dd_set_timeout = (\<lambda>_ _ w. (Inr (), w)), dd_spawn = (\<lambda>_ _ w. (Inr 9, w)), dd_stop = (\<lambda>_ w. w)\<rparr>,
     sh_fuel = Suc 0\<rparr>"

lemma ap_links_ok: "host_links_ok ap_links"
  by (simp add: host_links_ok_def ap_links_def dg_ok_def link_frames_def frame_fits_def multi_def datagram_def
      length_enc_frame link_body_def build_ifinfomsg_def length_wire align_def enc_attrs_simps length_enc_attr
      plain_text_def is_ascii_def)

lemma ap_radio:
  "hotspot_start (sh_ap ap_host)
     \<lparr>hc_interface = ''ap0'', hc_ssid = ''guests'', hc_passphrase = None, hc_channel = 6, hc_hw_mode = ''g''\<rparr> ([], w) =
     Ret (Inr (), ([(''ap0'', 7)], w))"
proof -
  have "hotspot_check \<lparr>hc_interface = ''ap0'', hc_ssid = ''guests'', hc_passphrase = None, hc_channel = 6,
      hc_hw_mode = ''g''\<rparr> = Inr ()" by code_simp
  then show ?thesis
    by (simp add: hotspot_start_def then_io_def lift_io_unit hotspot_stop_def ap_host_def on_world_def sys_call_def
        hm_get_def hm_insert_def hm_remove_def)
qed

lemma ap_server: "dhcpd_start (sh_dhcpd ap_host) (hotspot_dhcp ''ap0'') w = Ret (Inr 9, w)"
  by (simp add: dhcpd_start_def bound_server_socket_def then_io_def on_error_def sys_call_def ap_host_def
      hotspot_dhcp_def return_io_apply bind_io_def)

lemma ap_zone:
  "\<exists>fw1. assign_zone (sh_nft ap_host) ''ap0'' ''home'' (fw_new, w) = Ret (Inr (), (fw1, w))"
proof -
  have "validate_interface_name ''ap0'' = Inr ()" "zone_exists ''home'' fw_new" by code_simp+
  then show ?thesis by (simp add: assign_zone_def Let_def fw_commit_def nft_apply_def ap_host_def)
qed

lemma ap_nat:
  "\<exists>fw2. on_firewall (nat_enable (sh_fs ap_host) (sh_nft ap_host) ''ap0'' ''eth0'') ((fw1, ch), w) = Ret (Inr (), ((fw2, ch), w))"
proof -
  have "validate_interface_name ''ap0'' = Inr ()" "validate_interface_name ''eth0'' = Inr ()" by code_simp+
  then show ?thesis
    by (simp add: zoom_def nat_enable_def then_io_def on_world_def set_ipv4_forwarding_def fs_call_def quiet_fs_def
        enable_sharing_def Let_def fw_commit_def nft_apply_def ap_host_def)
qed

lemma ap_up:
  "\<exists>session fw1 ch1 w1. sharing_hotspot_start ap_host ''ap0'' ''guests'' None (Some ''eth0'') ((fw_new, []), []) =
     Ret (Inr session, ((fw1, ch1), w1))"
proof -
  have f: "find (\<lambda>i. if_name i = ''ap0'') (map link_interface ap_links) = Some (link_interface (4, 0, ''ap0''))"
    by (simp add: ap_links_def link_interface_def)
  have h: "sh_kernel ap_host = host_kernel ap_links" "sh_fuel ap_host = Suc 0" by (simp_all add: ap_host_def)
  obtain w1 where w1: "get_by_name (host_kernel ap_links) (Suc 0) ''ap0'' [] = Ret (Inr (link_interface (4, 0, ''ap0'')), w1)"
    using host_get_by_name [OF ap_links_ok f] by blast
  obtain w2 where w2: "address_flush (host_kernel ap_links) (Suc 0) 4 w1 = Ret (Inr (), w2)" using host_flush by blast
  obtain w3 where w3: "address_add (host_kernel ap_links) (Suc 0) 4 (V4 AP_SERVER_IP) 24 w2 = Ret (Inr (), w3)"
    using host_address_add by blast
  obtain w4 where w4: "bring_up (host_kernel ap_links) (Suc 0) 4 w3 = Ret (Inr (), w4)"
    unfolding bring_up_def using host_set_up by blast
  obtain fw1 where z: "assign_zone (sh_nft ap_host) ''ap0'' ''home'' (fw_new, w4) = Ret (Inr (), (fw1, w4))"
    using ap_zone by blast
  obtain fw2 where n: "on_firewall (nat_enable (sh_fs ap_host) (sh_nft ap_host) ''ap0'' ''eth0'') ((fw1, [(''ap0'', 7)]), w4) =
      Ret (Inr (), ((fw2, [(''ap0'', 7)]), w4))"
    using ap_nat by blast
  have i: "if_index (link_interface (4, 0, ''ap0'')) = 4" by (simp add: link_interface_def)
  show ?thesis
    by (simp add: sharing_hotspot_start_def h then_io_def bind_io_def on_world_def zoom_def [where get = snd]
        zoom_def [where m = "assign_zone _ _ _"] w1 i w2 w3 w4 ap_radio ap_server z if_some_def n return_io_apply)
qed

theorem hotspot_round_witness:
  "\<exists>session fw1 ch1 w1. sharing_hotspot_start ap_host ''ap0'' ''guests'' None (Some ''eth0'') ((fw_new, []), []) =
     Ret (Inr session, ((fw1, ch1), w1)) \<and> fw_inv fw1 \<and> is_running ''ap0'' ch1 \<and>
     (''ap0'', ''eth0'') \<in> set (fw_forward_pairs fw1)"
proof -
  obtain session fw1 ch1 w1 where
    up: "sharing_hotspot_start ap_host ''ap0'' ''guests'' None (Some ''eth0'') ((fw_new, []), []) =
     Ret (Inr session, ((fw1, ch1), w1))"
    using ap_up by blast
  have "fw_inv fw1 \<and> is_running ''ap0'' ch1 \<and> (''ap0'', ''eth0'') \<in> set (fw_forward_pairs fw1)"
    using hotspot_round [OF fw_inv_new up] by simp
  then show ?thesis by (intro exI [of _ session] exI [of _ fw1] exI [of _ ch1] exI [of _ w1] conjI up) simp_all
qed

text \<open>A start that fails is not undone. With an uplink name that is refused at the very end, the error is returned
  and the access point, the DHCP server and the zone stay as a start without uplink leaves them.\<close>

theorem hotspot_failure_stays:
  assumes "sharing_hotspot_start E i ssid pass None s = Ret (Inr session, (st, w1))"
    and "validate_interface_name i = Inr ()" "validate_interface_name wan = Inl e"
    and "fs_write (sh_fs E) ''/proc/sys/net/ipv4/ip_forward'' ''1'' w1 = (Inr (), w2)"
  shows "sharing_hotspot_start E i ssid pass (Some wan) s = Ret (Inl e, (st, w2))"
proof -
  obtain fw ch where st: "st = (fw, ch)" by (cases st)
  have n: "on_firewall (nat_enable (sh_fs E) (sh_nft E) i wan) (st, w1) = Ret (Inl e, (st, w2))"
    using assms(2-4) by (simp add: st zoom_def nat_enable_def then_io_def on_world_def set_ipv4_forwarding_def
        fs_call_def enable_sharing_def)
  have "sharing_hotspot_start E i ssid pass (Some wan) s =
    bind_io (sharing_hotspot_start E i ssid pass None) (\<lambda>session.
      then_io (on_firewall (nat_enable (sh_fs E) (sh_nft E) i wan))
        (return_io (session\<lparr>hs_uplink := Some wan\<rparr>))) s"
    unfolding sharing_hotspot_start_def then_io_def bind_io_assoc if_some_def by simp
  then show ?thesis using assms(1) n by (simp add: then_io_def)
qed

end
