(* ===== verification/Rust_Float.thy ===== *)
theory Rust_Float
  imports Complex_Main "HOL-Library.Log_Nat" Rust_Str
begin

text \<open>
  The type \<open>f64\<close> as far as the crate uses it: finite values are rational numbers rounded to the
  nearest double (ties to even), sums round once, comparisons with a NaN are false, \<open>as u32\<close>
  saturates, and printing gives the shortest digits that read back. The sign of zero is left out:
  no value of the crate is divided by or printed after a negation.
\<close>

datatype F64 = NaN | PInf | NInf | Fin rat

section \<open>Rounding\<close>

definition pow2 :: "int \<Rightarrow> rat" where
  "pow2 e = (if 0 \<le> e then 2 ^ nat e else 1 / 2 ^ nat (- e))"

definition round_half_even :: "rat \<Rightarrow> int" where
  "round_half_even x =
     (let f = \<lfloor>x\<rfloor>; d = x - of_int f
      in if d < 1 / 2 then f else if 1 / 2 < d then f + 1 else if even f then f else f + 1)"

text \<open>The binary exponent of a positive number, read off the bit lengths of its quotient.\<close>

definition exponent :: "rat \<Rightarrow> int" where
  "exponent x =
     (let (p, q) = quotient_of x; k = int (floorlog 2 (nat p)) - int (floorlog 2 (nat q))
      in if pow2 k \<le> x then k else k - 1)"

definition round_pos :: "rat \<Rightarrow> rat" where
  "round_pos x = (let e = max (exponent x - 52) (- 1074) in of_int (round_half_even (x / pow2 e)) * pow2 e)"

definition f64_of :: "rat \<Rightarrow> F64" where
  "f64_of x =
     (if x = 0 then Fin 0
      else if 0 < x then (let y = round_pos x in if pow2 1024 \<le> y then PInf else Fin y)
      else (let y = round_pos (- x) in if pow2 1024 \<le> y then NInf else Fin (- y)))"

section \<open>Operations\<close>

fun f64_add :: "F64 \<Rightarrow> F64 \<Rightarrow> F64" where
  "f64_add (Fin a) (Fin b) = f64_of (a + b)"
| "f64_add NaN b = NaN"
| "f64_add a NaN = NaN"
| "f64_add PInf NInf = NaN"
| "f64_add NInf PInf = NaN"
| "f64_add PInf b = PInf"
| "f64_add NInf b = NInf"
| "f64_add a PInf = PInf"
| "f64_add a NInf = NInf"

fun f64_lt :: "F64 \<Rightarrow> F64 \<Rightarrow> bool" where
  "f64_lt NaN b = False"
| "f64_lt a NaN = False"
| "f64_lt (Fin a) (Fin b) = (a < b)"
| "f64_lt NInf b = (b \<noteq> NInf)"
| "f64_lt a PInf = (a \<noteq> PInf)"
| "f64_lt a b = False"

definition f64_eq :: "F64 \<Rightarrow> F64 \<Rightarrow> bool" where
  "f64_eq a b = (a \<noteq> NaN \<and> a = b)"

definition f64_le :: "F64 \<Rightarrow> F64 \<Rightarrow> bool" where
  "f64_le a b = (f64_lt a b \<or> f64_eq a b)"

text \<open>\<open>x.fract() == 0.0\<close>, false for the infinities, whose fractional part is a NaN.\<close>

fun fract_zero :: "F64 \<Rightarrow> bool" where
  "fract_zero (Fin x) = (x = of_int \<lfloor>x\<rfloor>)"
| "fract_zero _ = False"

fun f64_as_u32 :: "F64 \<Rightarrow> u32" where
  "f64_as_u32 NaN = 0"
| "f64_as_u32 NInf = 0"
| "f64_as_u32 PInf = - 1"
| "f64_as_u32 (Fin x) = (if x \<le> 0 then 0 else if 4294967295 \<le> x then - 1 else word_of_int \<lfloor>x\<rfloor>)"

section \<open>Printing\<close>

text \<open>The number \<open>k\<close> with \<open>10 ^ (k - 1) \<le> x < 10 ^ k\<close>, for a positive double.\<close>

definition dec_exp :: "rat \<Rightarrow> int" where
  "dec_exp x =
     (if 1 \<le> x then int (length (show_nat (nat \<lfloor>x\<rfloor>)))
      else case find (\<lambda>j. 1 \<le> x * 10 ^ j) [1..<340] of Some j \<Rightarrow> 1 - int j | None \<Rightarrow> - 339)"

definition pow10 :: "int \<Rightarrow> rat" where
  "pow10 e = (if 0 \<le> e then 10 ^ nat e else 1 / 10 ^ nat (- e))"

text \<open>The \<open>n\<close>-digit decimal next to \<open>x\<close> that reads back as \<open>x\<close>, rounded up when both neighbours do
  and \<open>x\<close> is not closer to the lower one.\<close>

definition digits_at :: "rat \<Rightarrow> nat \<Rightarrow> nat option" where
  "digits_at x n =
     (let s = pow10 (int n - dec_exp x); y = x * s; lo = \<lfloor>y\<rfloor>;
          down = (f64_of (of_int lo / s) = Fin x); up = (f64_of (of_int (lo + 1) / s) = Fin x)
      in if up \<and> (\<not> down \<or> 1 \<le> 2 * (y - of_int lo)) then Some (nat (lo + 1))
         else if down then Some (nat lo) else None)"

fun first_some :: "('a \<Rightarrow> 'b option) \<Rightarrow> 'a list \<Rightarrow> 'b option" where
  "first_some f [] = None"
| "first_some f (x # xs) = (case f x of None \<Rightarrow> first_some f xs | Some y \<Rightarrow> Some y)"

text \<open>Shortest digits and decimal exponent; a carry such as 9.99 to 10 moves the exponent.\<close>

definition shortest :: "rat \<Rightarrow> string \<times> int" where
  "shortest x =
     (case first_some (\<lambda>n. map_option (\<lambda>d. (n, d)) (digits_at x n)) [1..<18] of
        None \<Rightarrow> ([], 0)
      | Some (n, d) \<Rightarrow>
          let s = show_nat d
          in if length s > n then (butlast s, dec_exp x + 1) else (s, dec_exp x))"

definition place_point :: "string \<Rightarrow> int \<Rightarrow> string" where
  "place_point d k =
     (let n = int (length d) in
      if k \<le> 0 then ''0.'' @ replicate (nat (- k)) (CHR ''0'') @ d
      else if n \<le> k then d @ replicate (nat (k - n)) (CHR ''0'')
      else take (nat k) d @ ''.'' @ drop (nat k) d)"

definition show_pos :: "rat \<Rightarrow> string" where
  "show_pos x = (case shortest x of (d, k) \<Rightarrow> place_point d k)"

definition signed :: "(rat \<Rightarrow> string) \<Rightarrow> rat \<Rightarrow> string" where
  "signed f x = (if x < 0 then CHR ''-'' # f (- x) else f x)"

fun show_f64 :: "F64 \<Rightarrow> string" where
  "show_f64 NaN = ''NaN''"
| "show_f64 PInf = ''inf''"
| "show_f64 NInf = ''-inf''"
| "show_f64 (Fin x) = (if x = 0 then ''0'' else signed show_pos x)"

text \<open>The format \<open>{:.0}\<close> of a whole number.\<close>

fun show_whole :: "F64 \<Rightarrow> string" where
  "show_whole (Fin x) = show_int \<lfloor>x\<rfloor>"
| "show_whole x = show_f64 x"

text \<open>The format \<open>{:?}\<close>: a point is always shown, very large and very small numbers with an exponent.\<close>

definition debug_pos :: "rat \<Rightarrow> string" where
  "debug_pos x =
     (case shortest x of (d, k) \<Rightarrow>
        if 10 ^ 16 \<le> x \<or> x < 1 / 10 ^ 4
        then take 1 d @ (if length d = 1 then [] else ''.'' @ drop 1 d) @ ''e'' @ show_int (k - 1)
        else if int (length d) \<le> k then place_point d k @ ''.0''
        else place_point d k)"

fun debug_f64 :: "F64 \<Rightarrow> string" where
  "debug_f64 (Fin x) = (if x = 0 then ''0.0'' else signed debug_pos x)"
| "debug_f64 x = show_f64 x"

section \<open>Reading\<close>

definition digits_nat :: "string \<Rightarrow> nat" where
  "digits_nat s = foldl (\<lambda>n c. 10 * n + (code_of c - 48)) 0 s"

text \<open>Digits with an optional point and an optional exponent.\<close>

definition parse_exponent :: "string \<Rightarrow> int option" where
  "parse_exponent s =
     (let (neg, ds) = (case s of
            c # cs \<Rightarrow> if c = CHR ''-'' then (True, cs) else if c = CHR ''+'' then (False, cs) else (False, s)
          | [] \<Rightarrow> (False, []))
      in if ds \<noteq> [] \<and> list_all is_digit ds then Some ((if neg then -1 else 1) * int (digits_nat ds)) else None)"

definition parse_unsigned :: "string \<Rightarrow> F64 option" where
  "parse_unsigned s =
     (let whole = takeWhile is_digit s; r = dropWhile is_digit s;
          (frac, r2) = (case r of
             c # cs \<Rightarrow> if c = CHR ''.'' then (takeWhile is_digit cs, dropWhile is_digit cs) else ([], r)
           | [] \<Rightarrow> ([], []));
          value = rat_of_nat (digits_nat (whole @ frac)) / 10 ^ length frac
      in if whole = [] \<and> frac = [] then None
         else case r2 of
             [] \<Rightarrow> Some (f64_of value)
           | c # cs \<Rightarrow>
               if c = CHR ''e'' \<or> c = CHR ''E''
               then map_option (\<lambda>e. f64_of (value * pow10 e)) (parse_exponent cs)
               else None)"

fun f64_neg :: "F64 \<Rightarrow> F64" where
  "f64_neg (Fin x) = Fin (- x)"
| "f64_neg PInf = NInf"
| "f64_neg NInf = PInf"
| "f64_neg NaN = NaN"

definition parse_magnitude :: "string \<Rightarrow> F64 option" where
  "parse_magnitude s =
     (let l = to_ascii_lowercase s
      in if l = ''inf'' \<or> l = ''infinity'' then Some PInf
         else if l = ''nan'' then Some NaN
         else parse_unsigned s)"

definition parse_f64 :: "string \<Rightarrow> F64 option" where
  "parse_f64 s =
     (case s of
        c # cs \<Rightarrow>
          if c = CHR ''-'' then map_option f64_neg (parse_magnitude cs)
          else if c = CHR ''+'' then parse_magnitude cs
          else parse_magnitude s
      | [] \<Rightarrow> None)"

end
