(* ===== verification/Pac_Syntax.thy ===== *)
theory Pac_Syntax
  imports Rust_Float Rust_Io Hash_Map
begin

text \<open>
  The language of proxy auto-config scripts (first half of \<^verbatim>\<open>src/src/proxy/pac.rs\<close>): the tokenizer
  and the recursive-descent parser. The parser's state is the list of remaining tokens, which ends
  with \<open>Eof\<close>; nesting and loops take fuel, and \<open>parse_script\<close> always has enough
  (\<open>parse_script_returns\<close>). The Unicode tables of the standard library are a parameter, consulted
  for characters outside ASCII only.
\<close>

section \<open>Characters\<close>

record Unicode =
  uc_alphabetic :: "string \<Rightarrow> bool"
  uc_alphanumeric :: "string \<Rightarrow> bool"
  uc_escape :: "string \<Rightarrow> string"

definition continuation :: "char \<Rightarrow> bool" where
  "continuation c = (128 \<le> code_of c \<and> code_of c < 192)"

text \<open>The characters of a string, each as its UTF-8 bytes.\<close>

function chars :: "string \<Rightarrow> string list" where
  "chars [] = []"
| "chars (c # s) = (c # takeWhile continuation s) # chars (dropWhile continuation s)"
  by pat_completeness auto
termination by (relation "measure length") (auto simp: le_imp_less_Suc length_dropWhile_le)

definition is_whitespace :: "string \<Rightarrow> bool" where
  "is_whitespace c = (0 < ws_len c)"

definition alphabetic :: "Unicode \<Rightarrow> string \<Rightarrow> bool" where
  "alphabetic U c = (case c of [x] \<Rightarrow> is_alpha x | _ \<Rightarrow> uc_alphabetic U c)"

definition alphanumeric :: "Unicode \<Rightarrow> string \<Rightarrow> bool" where
  "alphanumeric U c = (case c of [x] \<Rightarrow> is_alnum x | _ \<Rightarrow> uc_alphanumeric U c)"

definition digit_or :: "(char \<Rightarrow> bool) \<Rightarrow> string \<Rightarrow> bool" where
  "digit_or p c = (case c of [x] \<Rightarrow> is_digit x \<or> p x | _ \<Rightarrow> False)"

text \<open>The format \<open>{:?}\<close> of a string.\<close>

definition debug_char :: "Unicode \<Rightarrow> string \<Rightarrow> string" where
  "debug_char U c =
     (case c of
        [x] \<Rightarrow>
          (if x = nul then [bslash, CHR ''0'']
           else if x = tab then [bslash, CHR ''t'']
           else if x = nl then [bslash, CHR ''n'']
           else if x = cr then [bslash, CHR ''r'']
           else if x = dquote \<or> x = bslash then [bslash, x]
           else if code_of x < 32 \<or> code_of x = 127 then [bslash] @ ''u{'' @ show_radix 16 (code_of x) @ ''}''
           else [x])
      | _ \<Rightarrow> uc_escape U c)"

definition debug_str :: "Unicode \<Rightarrow> string \<Rightarrow> string" where
  "debug_str U s = [dquote] @ concat (map (debug_char U) (chars s)) @ [dquote]"

section \<open>Tokens\<close>

datatype Tok =
    TIdent string
  | TStr string
  | TNum F64
  | LParen
  | RParen
  | LBrace
  | RBrace
  | Semi
  | Comma
  | Assign
  | EqEq
  | NotEq
  | Not
  | AndAnd
  | OrOr
  | Plus
  | Lt
  | Gt
  | Le
  | Ge
  | Eof

fun debug_tok :: "Unicode \<Rightarrow> Tok \<Rightarrow> string" where
  "debug_tok U (TIdent s) = ''Ident('' @ debug_str U s @ '')''"
| "debug_tok U (TStr s) = ''Str('' @ debug_str U s @ '')''"
| "debug_tok U (TNum n) = ''Num('' @ debug_f64 n @ '')''"
| "debug_tok U LParen = ''LParen''"
| "debug_tok U RParen = ''RParen''"
| "debug_tok U LBrace = ''LBrace''"
| "debug_tok U RBrace = ''RBrace''"
| "debug_tok U Semi = ''Semi''"
| "debug_tok U Comma = ''Comma''"
| "debug_tok U Assign = ''Assign''"
| "debug_tok U EqEq = ''EqEq''"
| "debug_tok U NotEq = ''NotEq''"
| "debug_tok U Not = ''Not''"
| "debug_tok U AndAnd = ''AndAnd''"
| "debug_tok U OrOr = ''OrOr''"
| "debug_tok U Plus = ''Plus''"
| "debug_tok U Lt = ''Lt''"
| "debug_tok U Gt = ''Gt''"
| "debug_tok U Le = ''Le''"
| "debug_tok U Ge = ''Ge''"
| "debug_tok U Eof = ''Eof''"

text \<open>The rest of a line comment, of a block comment, and of a string literal.\<close>

definition skip_line :: "string list \<Rightarrow> string list" where
  "skip_line cs = dropWhile (\<lambda>c. c \<noteq> [nl]) cs"

fun skip_block :: "string list \<Rightarrow> string list" where
  "skip_block (a # b # cs) = (if a = ''*'' \<and> b = ''/'' then cs else skip_block (b # cs))"
| "skip_block _ = []"

definition unescape :: "string \<Rightarrow> string" where
  "unescape c = (if c = ''n'' then [nl] else if c = ''t'' then [tab] else c)"

fun lex_string :: "string \<Rightarrow> string list \<Rightarrow> (string \<times> string list) option" where
  "lex_string quote [] = None"
| "lex_string quote (c # cs) =
     (if c = quote then Some ([], cs)
      else if c = [bslash] then
        (case cs of
           [] \<Rightarrow> None
         | d # ds \<Rightarrow> map_option (\<lambda>(s, r). (unescape d @ s, r)) (lex_string quote ds))
      else map_option (\<lambda>(s, r). (c @ s, r)) (lex_string quote cs))"

text \<open>Operators and punctuation: the token at the front and how many characters it takes.\<close>

definition punctuation :: "string list \<Rightarrow> (Tok \<times> nat) option" where
  "punctuation cs =
     (case cs of
        [] \<Rightarrow> None
      | c # r \<Rightarrow>
          let next = (\<lambda>d. r \<noteq> [] \<and> hd r = d) in
          if c = ''('' then Some (LParen, 1)
          else if c = '')'' then Some (RParen, 1)
          else if c = ''{'' then Some (LBrace, 1)
          else if c = ''}'' then Some (RBrace, 1)
          else if c = '';'' then Some (Semi, 1)
          else if c = '','' then Some (Comma, 1)
          else if c = ''+'' then Some (Plus, 1)
          else if c = ''!'' then (if next ''='' then Some (NotEq, 2) else Some (Not, 1))
          else if c = ''='' then (if next ''='' then Some (EqEq, 2) else Some (Assign, 1))
          else if c = ''&'' \<and> next ''&'' then Some (AndAnd, 2)
          else if c = ''|'' \<and> next ''|'' then Some (OrOr, 2)
          else if c = ''<'' then (if next ''='' then Some (Le, 2) else Some (Lt, 1))
          else if c = ''>'' then (if next ''='' then Some (Ge, 2) else Some (Gt, 1))
          else None)"

definition number_char :: "string \<Rightarrow> bool" where
  "number_char = digit_or (\<lambda>x. x = CHR ''.'')"

definition ident_start :: "Unicode \<Rightarrow> string \<Rightarrow> bool" where
  "ident_start U c = (alphabetic U c \<or> c = ''_'' \<or> c = ''$'')"

definition ident_char :: "Unicode \<Rightarrow> string \<Rightarrow> bool" where
  "ident_char U c = (alphanumeric U c \<or> c = ''_'' \<or> c = ''$'')"

text \<open>One round of the tokenizer's loop: the tokens it pushes and the characters left.\<close>

definition lex_step :: "Unicode \<Rightarrow> string \<Rightarrow> string list \<Rightarrow> (Tok list \<times> string list) result" where
  "lex_step U c r =
     (if is_whitespace c then Inr ([], r)
      else if c = ''/'' \<and> r \<noteq> [] \<and> hd r = ''/'' then Inr ([], skip_line r)
      else if c = ''/'' \<and> r \<noteq> [] \<and> hd r = ''*'' then Inr ([], skip_block (tl r))
      else case punctuation (c # r) of
        Some (t, n) \<Rightarrow> Inr ([t], drop (n - 1) r)
      | None \<Rightarrow>
          if c = [dquote] \<or> c = [CHR 0x27] then
            (case lex_string c r of
               None \<Rightarrow> Inl (Parse ''unterminated string in PAC script'')
             | Some (s, r2) \<Rightarrow> Inr ([TStr s], r2))
          else if digit_or (\<lambda>_. False) c then
            (let t = c @ concat (takeWhile number_char r) in
             case parse_f64 t of
               None \<Rightarrow> Inl (Parse (''bad number literal '' @ quoted t))
             | Some n \<Rightarrow> Inr ([TNum n], dropWhile number_char r))
          else if ident_start U c then
            Inr ([TIdent (c @ concat (takeWhile (ident_char U) r))], dropWhile (ident_char U) r)
          else Inl (Parse (''unexpected character '' @ quoted c @ '' in PAC script'')))"

lemma skip_block_length: "length (skip_block cs) \<le> length cs"
  by (induction cs rule: skip_block.induct) auto

lemma lex_string_length: "lex_string q cs = Some (s, r) \<Longrightarrow> length r < length cs"
  by (induction q cs arbitrary: s r rule: lex_string.induct)
     (force split: if_splits list.splits)+

lemma lex_step_length: "lex_step U c r = Inr (ts, r2) \<Longrightarrow> length r2 \<le> length r"
  using skip_block_length [of "tl r"] lex_string_length [of c r]
  by (auto simp: lex_step_def skip_line_def Let_def length_dropWhile_le
      split: if_splits option.splits prod.splits intro: order_trans [OF skip_block_length] less_imp_le)

function tokenize_chars :: "Unicode \<Rightarrow> string list \<Rightarrow> Tok list result" where
  "tokenize_chars U [] = Inr [Eof]"
| "tokenize_chars U (c # r) =
     (case lex_step U c r of
        Inl e \<Rightarrow> Inl e
      | Inr (ts, r2) \<Rightarrow> bind_r (tokenize_chars U r2) (\<lambda>rest. Inr (ts @ rest)))"
  by pat_completeness auto
termination
  by (relation "measure (\<lambda>(U, cs). length cs)") (auto dest!: lex_step_length)

definition tokenize :: "Unicode \<Rightarrow> string \<Rightarrow> Tok list result" where
  "tokenize U src = tokenize_chars U (chars src)"

section \<open>Abstract syntax\<close>

datatype Expr =
    EStr string
  | ENum F64
  | EBool bool
  | EIdent string
  | ECall string "Expr list"
  | EAdd Expr Expr
  | EEq Expr Expr
  | ENotEq Expr Expr
  | EAnd Expr Expr
  | EOr Expr Expr
  | ELt Expr Expr
  | EGt Expr Expr
  | ELe Expr Expr
  | EGe Expr Expr
  | ENot Expr

datatype Stmt =
    VarDecl string "Expr option"
  | SAssign string Expr
  | ExprStmt Expr
  | SIf Expr "Stmt list" "Stmt list"
  | SReturn "Expr option"

record FunctionDecl =
  fd_params :: "string list"
  fd_body :: "Stmt list"

record Program =
  pg_functions :: "(string \<times> FunctionDecl) list"
  pg_globals :: "Stmt list"

section \<open>The parser\<close>

type_synonym 'a parser = "(Tok list, 'a) io"

definition peek :: "Tok parser" where
  "peek ts = (case ts of [] \<Rightarrow> Panic | t # _ \<Rightarrow> Ret (Inr t, ts))"

text \<open>\<open>advance\<close> stays on the last token.\<close>

definition advance :: "Tok parser" where
  "advance ts = (case ts of [] \<Rightarrow> Panic | t # r \<Rightarrow> Ret (Inr t, if r = [] then [t] else r))"

definition skip_tok :: "'a parser \<Rightarrow> 'a parser" where
  "skip_tok p = bind_io advance (\<lambda>_. p)"

definition expect :: "Unicode \<Rightarrow> Tok \<Rightarrow> unit parser" where
  "expect U want =
     bind_io peek (\<lambda>t.
       if t = want then skip_tok (return_io ())
       else fail_io (Parse (''expected '' @ debug_tok U want @ '', found '' @ debug_tok U t @ '' in PAC script'')))"

definition expect_ident :: "Unicode \<Rightarrow> string parser" where
  "expect_ident U =
     bind_io advance (\<lambda>t. case t of
         TIdent s \<Rightarrow> return_io s
       | _ \<Rightarrow> fail_io (Parse (''expected identifier, found '' @ debug_tok U t @ '' in PAC script'')))"

definition skip_semi :: "unit parser" where
  "skip_semi = bind_io peek (\<lambda>t. if t = Semi then skip_tok (return_io ()) else return_io ())"

text \<open>One or more items separated by commas, and a list up to a closing parenthesis.\<close>

fun comma_list :: "nat \<Rightarrow> 'a parser \<Rightarrow> 'a list parser" where
  "comma_list 0 item ts = NoFuel"
| "comma_list (Suc n) item ts =
     (bind_io item (\<lambda>x. bind_io peek (\<lambda>t.
       if t = Comma then skip_tok (bind_io (comma_list n item) (\<lambda>xs. return_io (x # xs)))
       else return_io [x]))) ts"

definition paren_list :: "Unicode \<Rightarrow> nat \<Rightarrow> 'a parser \<Rightarrow> 'a list parser" where
  "paren_list U n item =
     bind_io (bind_io peek (\<lambda>t. if t = RParen then return_io [] else comma_list n item)) (\<lambda>xs.
       then_io (expect U RParen) (return_io xs))"

text \<open>A level of left-associative binary operators over the next tighter level.\<close>

fun binary_loop :: "nat \<Rightarrow> (Tok \<Rightarrow> (Expr \<Rightarrow> Expr \<Rightarrow> Expr) option) \<Rightarrow> Expr parser \<Rightarrow> Expr \<Rightarrow> Expr parser" where
  "binary_loop 0 ops sub left ts = NoFuel"
| "binary_loop (Suc n) ops sub left ts =
     (bind_io peek (\<lambda>t. case ops t of
         None \<Rightarrow> return_io left
       | Some mk \<Rightarrow> skip_tok (bind_io sub (\<lambda>r. binary_loop n ops sub (mk left r))))) ts"

definition binary_level :: "nat \<Rightarrow> (Tok \<Rightarrow> (Expr \<Rightarrow> Expr \<Rightarrow> Expr) option) \<Rightarrow> Expr parser \<Rightarrow> Expr parser" where
  "binary_level n ops sub = bind_io sub (binary_loop n ops sub)"

definition or_op :: "Tok \<Rightarrow> (Expr \<Rightarrow> Expr \<Rightarrow> Expr) option" where
  "or_op t = (if t = OrOr then Some EOr else None)"

definition and_op :: "Tok \<Rightarrow> (Expr \<Rightarrow> Expr \<Rightarrow> Expr) option" where
  "and_op t = (if t = AndAnd then Some EAnd else None)"

definition equality_op :: "Tok \<Rightarrow> (Expr \<Rightarrow> Expr \<Rightarrow> Expr) option" where
  "equality_op t = (if t = EqEq then Some EEq else if t = NotEq then Some ENotEq else None)"

definition relational_op :: "Tok \<Rightarrow> (Expr \<Rightarrow> Expr \<Rightarrow> Expr) option" where
  "relational_op t =
     (if t = Lt then Some ELt else if t = Gt then Some EGt
      else if t = Le then Some ELe else if t = Ge then Some EGe else None)"

definition add_op :: "Tok \<Rightarrow> (Expr \<Rightarrow> Expr \<Rightarrow> Expr) option" where
  "add_op t = (if t = Plus then Some EAdd else None)"

definition parse_primary :: "Unicode \<Rightarrow> nat \<Rightarrow> Expr parser \<Rightarrow> Expr parser" where
  "parse_primary U n expr =
     bind_io advance (\<lambda>t. case t of
         TStr s \<Rightarrow> return_io (EStr s)
       | TNum x \<Rightarrow> return_io (ENum x)
       | LParen \<Rightarrow> bind_io expr (\<lambda>e. then_io (expect U RParen) (return_io e))
       | TIdent name \<Rightarrow>
           if name = ''true'' then return_io (EBool True)
           else if name = ''false'' then return_io (EBool False)
           else bind_io peek (\<lambda>p.
             if p = LParen then skip_tok (bind_io (paren_list U n expr) (\<lambda>args. return_io (ECall name args)))
             else return_io (EIdent name))
       | _ \<Rightarrow> fail_io (Parse (''unexpected token '' @ debug_tok U t @ '' in PAC expression'')))"

fun parse_unary :: "nat \<Rightarrow> Expr parser \<Rightarrow> Expr parser" where
  "parse_unary 0 primary ts = NoFuel"
| "parse_unary (Suc n) primary ts =
     (bind_io peek (\<lambda>t.
       if t = Not then skip_tok (bind_io (parse_unary n primary) (\<lambda>e. return_io (ENot e)))
       else primary)) ts"

definition parse_additive :: "nat \<Rightarrow> Expr parser \<Rightarrow> Expr parser" where
  "parse_additive n unary = binary_level n add_op unary"

definition parse_relational :: "nat \<Rightarrow> Expr parser \<Rightarrow> Expr parser" where
  "parse_relational n sub = binary_level n relational_op sub"

definition parse_equality :: "nat \<Rightarrow> Expr parser \<Rightarrow> Expr parser" where
  "parse_equality n relational = binary_level n equality_op relational"

definition parse_and :: "nat \<Rightarrow> Expr parser \<Rightarrow> Expr parser" where
  "parse_and n equality = binary_level n and_op equality"

definition parse_or :: "nat \<Rightarrow> Expr parser \<Rightarrow> Expr parser" where
  "parse_or n sub = binary_level n or_op sub"

text \<open>\<open>n\<close> bounds the loops, \<open>d\<close> the nesting of expressions, which is the recursion depth.\<close>

fun parse_expr :: "Unicode \<Rightarrow> nat \<Rightarrow> nat \<Rightarrow> Expr parser" where
  "parse_expr U n 0 ts = NoFuel"
| "parse_expr U n (Suc d) ts =
     (parse_or n (parse_and n (parse_equality n (parse_relational n (parse_additive n
       (parse_unary n (parse_primary U n (parse_expr U n d)))))))) ts"

fun stmts_until_brace :: "nat \<Rightarrow> Stmt parser \<Rightarrow> Stmt list parser" where
  "stmts_until_brace 0 stmt ts = NoFuel"
| "stmts_until_brace (Suc n) stmt ts =
     (bind_io peek (\<lambda>t.
       if t = RBrace then return_io []
       else if t = Eof then fail_io (Parse ''unexpected end of PAC script (unclosed block)'')
       else bind_io stmt (\<lambda>s. bind_io (stmts_until_brace n stmt) (\<lambda>ss. return_io (s # ss))))) ts"

definition parse_block :: "Unicode \<Rightarrow> nat \<Rightarrow> Stmt parser \<Rightarrow> Stmt list parser" where
  "parse_block U n stmt =
     then_io (expect U LBrace) (bind_io (stmts_until_brace n stmt) (\<lambda>ss.
       then_io (expect U RBrace) (return_io ss)))"

definition parse_var :: "Unicode \<Rightarrow> Expr parser \<Rightarrow> Stmt parser" where
  "parse_var U expr =
     bind_io (expect_ident U) (\<lambda>name. bind_io peek (\<lambda>t.
       bind_io (if t = Assign then skip_tok (bind_io expr (\<lambda>e. return_io (Some e))) else return_io None) (\<lambda>init.
         then_io skip_semi (return_io (VarDecl name init)))))"

definition parse_return :: "Expr parser \<Rightarrow> Stmt parser" where
  "parse_return expr =
     bind_io peek (\<lambda>t.
       bind_io (if t = Semi \<or> t = RBrace then return_io None else bind_io expr (\<lambda>e. return_io (Some e))) (\<lambda>v.
         then_io skip_semi (return_io (SReturn v))))"

definition parse_else :: "Unicode \<Rightarrow> nat \<Rightarrow> Stmt parser \<Rightarrow> Stmt list parser" where
  "parse_else U n stmt =
     bind_io peek (\<lambda>t.
       if t = TIdent ''else'' then
         skip_tok (bind_io peek (\<lambda>t2.
           if t2 = TIdent ''if'' then bind_io stmt (\<lambda>s. return_io [s]) else parse_block U n stmt))
       else return_io [])"

definition parse_if :: "Unicode \<Rightarrow> nat \<Rightarrow> Expr parser \<Rightarrow> Stmt parser \<Rightarrow> Stmt parser" where
  "parse_if U n expr stmt =
     then_io (expect U LParen) (bind_io expr (\<lambda>c. then_io (expect U RParen)
       (bind_io (parse_block U n stmt) (\<lambda>b. bind_io (parse_else U n stmt) (\<lambda>e. return_io (SIf c b e))))))"

text \<open>An assignment is told from an expression statement by looking at the next token.\<close>

definition parse_simple :: "Expr parser \<Rightarrow> string \<Rightarrow> Stmt parser" where
  "parse_simple expr name =
     (\<lambda>ts. if (case ts of _ # t # _ \<Rightarrow> t = Assign | _ \<Rightarrow> False)
           then skip_tok (skip_tok (bind_io expr (\<lambda>e. then_io skip_semi (return_io (SAssign name e))))) ts
           else bind_io expr (\<lambda>e. then_io skip_semi (return_io (ExprStmt e))) ts)"

fun parse_stmt :: "Unicode \<Rightarrow> nat \<Rightarrow> nat \<Rightarrow> Stmt parser" where
  "parse_stmt U n 0 ts = NoFuel"
| "parse_stmt U n (Suc d) ts =
     (bind_io peek (\<lambda>t. case t of
         TIdent kw \<Rightarrow>
           if kw = ''var'' then skip_tok (parse_var U (parse_expr U n n))
           else if kw = ''return'' then skip_tok (parse_return (parse_expr U n n))
           else if kw = ''if'' then skip_tok (parse_if U n (parse_expr U n n) (parse_stmt U n d))
           else parse_simple (parse_expr U n n) kw
       | _ \<Rightarrow> fail_io (Parse (''unexpected token '' @ debug_tok U t @ '' in PAC script'')))) ts"

definition parse_function :: "Unicode \<Rightarrow> nat \<Rightarrow> (string \<times> FunctionDecl) parser" where
  "parse_function U n =
     bind_io (expect_ident U) (\<lambda>name. then_io (expect U LParen)
       (bind_io (paren_list U n (expect_ident U)) (\<lambda>params.
         bind_io (parse_block U n (parse_stmt U n n)) (\<lambda>body.
           return_io (name, \<lparr>fd_params = params, fd_body = body\<rparr>)))))"

fun parse_items :: "Unicode \<Rightarrow> nat \<Rightarrow> nat \<Rightarrow> Program \<Rightarrow> Program parser" where
  "parse_items U n 0 p ts = NoFuel"
| "parse_items U n (Suc k) p ts =
     (bind_io peek (\<lambda>t.
       if t = Eof then return_io p
       else if t = TIdent ''function''
       then skip_tok (bind_io (parse_function U n) (\<lambda>(name, f).
              parse_items U n k (p\<lparr>pg_functions := hm_insert name f (pg_functions p)\<rparr>)))
       else bind_io (parse_stmt U n n) (\<lambda>s. parse_items U n k (p\<lparr>pg_globals := pg_globals p @ [s]\<rparr>)))) ts"

definition parse_program :: "Unicode \<Rightarrow> Tok list \<Rightarrow> (Program result \<times> Tok list) outcome" where
  "parse_program U ts =
     parse_items U (length ts) (length ts) \<lparr>pg_functions = [], pg_globals = []\<rparr> ts"

text \<open>The parse of a script, as a call that does not touch the world.\<close>

definition parse_script :: "Unicode \<Rightarrow> string \<Rightarrow> ('w, Program) io" where
  "parse_script U src =
     bind_io (lift_io (tokenize U src)) (\<lambda>toks w.
       case parse_program U toks of Ret (r, _) \<Rightarrow> Ret (r, w) | Panic \<Rightarrow> Panic | NoFuel \<Rightarrow> NoFuel)"

text \<open>The defining equations, as equations between parsers.\<close>

lemma comma_list_Suc:
  "comma_list (Suc n) item =
     bind_io item (\<lambda>x. bind_io peek (\<lambda>t.
       if t = Comma then skip_tok (bind_io (comma_list n item) (\<lambda>xs. return_io (x # xs)))
       else return_io [x]))"
  by (rule ext) simp

lemma binary_loop_Suc:
  "binary_loop (Suc n) ops sub left =
     bind_io peek (\<lambda>t. case ops t of
         None \<Rightarrow> return_io left
       | Some mk \<Rightarrow> skip_tok (bind_io sub (\<lambda>r. binary_loop n ops sub (mk left r))))"
  by (rule ext) simp

lemma parse_unary_Suc:
  "parse_unary (Suc n) primary =
     bind_io peek (\<lambda>t.
       if t = Not then skip_tok (bind_io (parse_unary n primary) (\<lambda>e. return_io (ENot e)))
       else primary)"
  by (rule ext) simp

lemma parse_expr_Suc:
  "parse_expr U n (Suc d) =
     parse_or n (parse_and n (parse_equality n (parse_relational n (parse_additive n
       (parse_unary n (parse_primary U n (parse_expr U n d)))))))"
  by (rule ext) simp

lemma stmts_until_brace_Suc:
  "stmts_until_brace (Suc n) stmt =
     bind_io peek (\<lambda>t.
       if t = RBrace then return_io []
       else if t = Eof then fail_io (Parse ''unexpected end of PAC script (unclosed block)'')
       else bind_io stmt (\<lambda>s. bind_io (stmts_until_brace n stmt) (\<lambda>ss. return_io (s # ss))))"
  by (rule ext) simp

lemma parse_stmt_Suc:
  "parse_stmt U n (Suc d) =
     bind_io peek (\<lambda>t. case t of
         TIdent kw \<Rightarrow>
           if kw = ''var'' then skip_tok (parse_var U (parse_expr U n n))
           else if kw = ''return'' then skip_tok (parse_return (parse_expr U n n))
           else if kw = ''if'' then skip_tok (parse_if U n (parse_expr U n n) (parse_stmt U n d))
           else parse_simple (parse_expr U n n) kw
       | _ \<Rightarrow> fail_io (Parse (''unexpected token '' @ debug_tok U t @ '' in PAC script'')))"
  by (rule ext) simp

lemma parse_items_Suc:
  "parse_items U n (Suc k) p =
     bind_io peek (\<lambda>t.
       if t = Eof then return_io p
       else if t = TIdent ''function''
       then skip_tok (bind_io (parse_function U n) (\<lambda>(name, f).
              parse_items U n k (p\<lparr>pg_functions := hm_insert name f (pg_functions p)\<rparr>)))
       else bind_io (parse_stmt U n n) (\<lambda>s. parse_items U n k (p\<lparr>pg_globals := pg_globals p @ [s]\<rparr>)))"
  by (rule ext) simp

section \<open>Parsing ends\<close>

text \<open>
  Token lists as the tokenizer makes them end with their only \<open>Eof\<close>. \<open>consumes d ts p\<close>: on \<open>ts\<close> the
  parser returns, leaves such a list, and takes at least \<open>d\<close> tokens when it succeeds.
\<close>

definition toks_ok :: "Tok list \<Rightarrow> bool" where
  "toks_ok ts = (ts \<noteq> [] \<and> last ts = Eof \<and> Eof \<notin> set (butlast ts))"

definition consumes :: "nat \<Rightarrow> Tok list \<Rightarrow> 'a parser \<Rightarrow> bool" where
  "consumes d ts p =
     (\<exists>r ts'. p ts = Ret (r, ts') \<and> toks_ok ts' \<and> length ts' \<le> length ts \<and>
        (is_ok r \<longrightarrow> length ts' + d \<le> length ts))"

lemma toks_ok_Nil [simp]: "\<not> toks_ok []"
  by (simp add: toks_ok_def)

lemma toks_ok_Cons: "toks_ok (t # ts) \<longleftrightarrow> (if ts = [] then t = Eof else t \<noteq> Eof \<and> toks_ok ts)"
  by (auto simp: toks_ok_def)

lemma toks_ok_tl: "toks_ok ts \<Longrightarrow> hd ts \<noteq> Eof \<Longrightarrow> toks_ok (tl ts) \<and> Suc (length (tl ts)) = length ts"
  by (cases ts) (auto simp: toks_ok_Cons split: if_splits)

named_theorems consumes_intros

lemma consumes_return [consumes_intros]: "toks_ok ts \<Longrightarrow> consumes 0 ts (return_io x)"
  by (simp add: consumes_def return_io_def)

lemma consumes_fail [consumes_intros]: "toks_ok ts \<Longrightarrow> consumes d ts (fail_io e)"
  by (simp add: consumes_def fail_io_def is_ok_def)

lemma consumes_weaken: "consumes (Suc 0) ts p \<Longrightarrow> consumes 0 ts p"
  by (fastforce simp: consumes_def)

lemma consumes_bind:
  assumes p: "consumes a ts p"
    and f: "\<And>x ts'. toks_ok ts' \<Longrightarrow> length ts' + a \<le> length ts \<Longrightarrow> consumes 0 ts' (f x)"
  shows "consumes a ts (bind_io p f)"
proof -
  obtain r ts1 where 1: "p ts = Ret (r, ts1)" "toks_ok ts1" "length ts1 \<le> length ts"
    "is_ok r \<longrightarrow> length ts1 + a \<le> length ts"
    using p unfolding consumes_def by blast
  show ?thesis
  proof (cases r)
    case (Inl e)
    with 1 show ?thesis by (simp add: consumes_def is_ok_def)
  next
    case (Inr x)
    with 1 have "length ts1 + a \<le> length ts" by (simp add: is_ok_def)
    with f [OF 1(2) this, of x] 1 Inr show ?thesis
      by (fastforce simp: consumes_def)
  qed
qed

lemma consumes_then:
  "consumes a ts p \<Longrightarrow> (\<And>ts'. toks_ok ts' \<Longrightarrow> length ts' + a \<le> length ts \<Longrightarrow> consumes 0 ts' q) \<Longrightarrow>
    consumes a ts (then_io p q)"
  unfolding then_io_def by (rule consumes_bind)

lemma consumes_peek: "toks_ok ts \<Longrightarrow> consumes d ts (f (hd ts)) \<Longrightarrow> consumes d ts (bind_io peek f)"
  by (cases ts) (simp_all add: consumes_def peek_def bind_io_def)

lemma consumes_advance:
  "toks_ok ts \<Longrightarrow> hd ts \<noteq> Eof \<Longrightarrow> consumes 0 (tl ts) (f (hd ts)) \<Longrightarrow> consumes (Suc 0) ts (bind_io advance f)"
  by (cases ts) (auto simp: consumes_def advance_def bind_io_def toks_ok_Cons split: if_splits)

lemma consumes_advance_Eof:
  "toks_ok ts \<Longrightarrow> hd ts = Eof \<Longrightarrow> consumes d ts (f Eof) \<Longrightarrow> consumes d ts (bind_io advance f)"
  by (cases ts) (auto simp: consumes_def advance_def bind_io_def toks_ok_Cons split: if_splits)

lemma consumes_skip:
  "toks_ok ts \<Longrightarrow> hd ts \<noteq> Eof \<Longrightarrow>
    (toks_ok (tl ts) \<Longrightarrow> Suc (length (tl ts)) = length ts \<Longrightarrow> consumes 0 (tl ts) p) \<Longrightarrow>
    consumes (Suc 0) ts (skip_tok p)"
  unfolding skip_tok_def using toks_ok_tl [of ts] by (auto intro!: consumes_advance)

lemmas consumes_skip0 = consumes_weaken [OF consumes_skip]

lemma consumes_expect: "toks_ok ts \<Longrightarrow> want \<noteq> Eof \<Longrightarrow> consumes (Suc 0) ts (expect U want)"
  unfolding expect_def
  by (rule consumes_peek) (auto intro!: consumes_skip consumes_return consumes_fail)

lemma consumes_expect_ident:
  assumes ts: "toks_ok ts"
  shows "consumes (Suc 0) ts (expect_ident U)"
proof (cases "hd ts = Eof")
  case True
  then show ?thesis
    unfolding expect_ident_def using ts by (auto intro!: consumes_advance_Eof consumes_fail)
next
  case False
  with toks_ok_tl [OF ts] show ?thesis
    unfolding expect_ident_def by (intro consumes_advance [OF ts]) (auto intro!: consumes_intros split: Tok.split)
qed

lemma consumes_semi: "toks_ok ts \<Longrightarrow> consumes 0 ts skip_semi"
  unfolding skip_semi_def by (rule consumes_peek) (auto intro!: consumes_skip0 consumes_return)

text \<open>A parser that, on lists of at most \<open>m\<close> tokens, takes at least one.\<close>

definition productive :: "nat \<Rightarrow> 'a parser \<Rightarrow> bool" where
  "productive m p = (\<forall>ts. toks_ok ts \<longrightarrow> length ts \<le> m \<longrightarrow> consumes (Suc 0) ts p)"

lemma productiveI: "(\<And>ts. toks_ok ts \<Longrightarrow> length ts \<le> m \<Longrightarrow> consumes (Suc 0) ts p) \<Longrightarrow> productive m p"
  by (simp add: productive_def)

lemma productiveD: "productive m p \<Longrightarrow> toks_ok ts \<Longrightarrow> length ts \<le> m \<Longrightarrow> consumes (Suc 0) ts p"
  by (simp add: productive_def)

lemma productiveD0: "productive m p \<Longrightarrow> toks_ok ts \<Longrightarrow> length ts \<le> m \<Longrightarrow> consumes 0 ts p"
  by (rule consumes_weaken) (rule productiveD)

lemma productive_mono: "productive m p \<Longrightarrow> m' \<le> m \<Longrightarrow> productive m' p"
  by (simp add: productive_def)

lemma comma_list_consumes:
  "productive m item \<Longrightarrow> toks_ok ts \<Longrightarrow> length ts \<le> n \<Longrightarrow> length ts \<le> m \<Longrightarrow>
    consumes (Suc 0) ts (comma_list n item)"
proof (induction n arbitrary: ts)
  case 0
  then show ?case by (cases ts) auto
next
  case (Suc n)
  show ?case
    unfolding comma_list_Suc
    by (rule consumes_bind [OF productiveD [OF Suc.prems(1,2,4)]], rule consumes_peek, assumption)
       (use Suc in \<open>auto intro!: consumes_skip0 consumes_bind [OF consumes_weaken [OF Suc.IH]] consumes_return\<close>)
qed

lemma paren_list_consumes:
  "productive m item \<Longrightarrow> toks_ok ts \<Longrightarrow> length ts \<le> n \<Longrightarrow> length ts \<le> m \<Longrightarrow>
    consumes 0 ts (paren_list U n item)"
  unfolding paren_list_def
  by (intro consumes_bind consumes_peek)
     (auto intro!: consumes_return consumes_weaken [OF comma_list_consumes]
        consumes_then [OF consumes_weaken [OF consumes_expect]])

lemma binary_loop_consumes:
  "productive m sub \<Longrightarrow> ops Eof = None \<Longrightarrow> toks_ok ts \<Longrightarrow> length ts \<le> n \<Longrightarrow> length ts \<le> m \<Longrightarrow>
    consumes 0 ts (binary_loop n ops sub left)"
proof (induction n arbitrary: ts left)
  case 0
  then show ?case by (cases ts) auto
next
  case (Suc n)
  have "hd ts \<noteq> Eof" if "ops (hd ts) = Some mk" for mk
    using that Suc.prems(2) by auto
  then show ?case
    unfolding binary_loop_Suc using Suc.prems
    by (intro consumes_peek)
       (auto split: option.splits intro!: consumes_return consumes_skip0 consumes_bind [OF productiveD0] Suc.IH)
qed

lemma binary_level_productive:
  "productive m sub \<Longrightarrow> ops Eof = None \<Longrightarrow> m \<le> n \<Longrightarrow> productive m (binary_level n ops sub)"
  unfolding binary_level_def
  by (intro productiveI consumes_bind) (auto intro: productiveD binary_loop_consumes)

lemma paren_expr_consumes:
  "productive m expr \<Longrightarrow> toks_ok ts \<Longrightarrow> length ts \<le> m \<Longrightarrow>
    consumes 0 ts (bind_io expr (\<lambda>e. then_io (expect U RParen) (return_io e)))"
  by (rule consumes_bind [OF productiveD0], assumption+)
     (auto intro: consumes_then [OF consumes_weaken [OF consumes_expect]] consumes_return)

lemma call_or_ident_consumes:
  assumes "productive m expr" "m \<le> n" and ts: "toks_ok ts" "length ts \<le> m"
  shows "consumes 0 ts (bind_io peek (\<lambda>p.
    if p = LParen then skip_tok (bind_io (paren_list U n expr) (\<lambda>args. return_io (ECall name args)))
    else return_io (EIdent name)))"
proof (rule consumes_peek [OF ts(1)])
  have "consumes 0 ts (skip_tok (bind_io (paren_list U n expr) (\<lambda>args. return_io (ECall name args))))"
    if "hd ts = LParen"
    using that assms by (intro consumes_skip0 consumes_bind [OF paren_list_consumes]) (auto intro: consumes_return)
  then show "consumes 0 ts (if hd ts = LParen then skip_tok (bind_io (paren_list U n expr) (\<lambda>args. return_io (ECall name args)))
      else return_io (EIdent name))"
    by (simp add: consumes_return [OF ts(1)])
qed

lemma parse_primary_productive:
  assumes "productive m expr" "m \<le> n"
  shows "productive (Suc m) (parse_primary U n expr)"
proof (rule productiveI)
  fix ts assume ts: "toks_ok ts" "length ts \<le> Suc m"
  show "consumes (Suc 0) ts (parse_primary U n expr)"
  proof (cases "hd ts = Eof")
    case True
    then show ?thesis
      unfolding parse_primary_def using ts by (auto intro!: consumes_advance_Eof consumes_fail)
  next
    case False
    with ts toks_ok_tl [of ts] have tl: "toks_ok (tl ts)" "length (tl ts) \<le> m" by auto
    show ?thesis
      unfolding parse_primary_def
      by (rule consumes_advance [OF ts(1) False])
         (simp add: paren_expr_consumes [OF assms(1) tl] call_or_ident_consumes [OF assms tl]
            consumes_return [OF tl(1)] consumes_fail [OF tl(1)] split: Tok.split)
  qed
qed

lemma parse_unary_consumes:
  "productive m primary \<Longrightarrow> toks_ok ts \<Longrightarrow> length ts \<le> n \<Longrightarrow> length ts \<le> m \<Longrightarrow>
    consumes (Suc 0) ts (parse_unary n primary)"
proof (induction n arbitrary: ts)
  case 0
  then show ?case by (cases ts) auto
next
  case (Suc n)
  have "consumes (Suc 0) ts (skip_tok (bind_io (parse_unary n primary) (\<lambda>e. return_io (ENot e))))" if "hd ts = Not"
    using that Suc by (intro consumes_skip consumes_bind [OF consumes_weaken [OF Suc.IH]]) (auto intro: consumes_return)
  then show ?case
    unfolding parse_unary_Suc using Suc.prems productiveD [of m primary ts]
    by (intro consumes_peek) auto
qed

lemma parse_expr_productive: "d \<le> n \<Longrightarrow> productive d (parse_expr U n d)"
proof (induction d)
  case 0
  show ?case by (rule productiveI) auto
next
  case (Suc d)
  have "productive (Suc d) (parse_primary U n (parse_expr U n d))"
    using Suc by (intro parse_primary_productive) auto
  then have "productive (Suc d) (parse_unary n (parse_primary U n (parse_expr U n d)))"
    using Suc.prems parse_unary_consumes by (intro productiveI) (metis order_trans)
  then show ?case
    unfolding parse_expr_Suc parse_or_def parse_and_def parse_equality_def parse_relational_def parse_additive_def
    using Suc.prems
    by (intro binary_level_productive)
       (simp_all add: or_op_def and_op_def equality_op_def relational_op_def add_op_def)
qed

lemma stmts_consume:
  "productive m stmt \<Longrightarrow> toks_ok ts \<Longrightarrow> length ts \<le> n \<Longrightarrow> length ts \<le> m \<Longrightarrow>
    consumes 0 ts (stmts_until_brace n stmt)"
proof (induction n arbitrary: ts)
  case 0
  then show ?case by (cases ts) auto
next
  case (Suc n)
  have rest: "consumes 0 ts' (bind_io (stmts_until_brace n stmt) (\<lambda>ss. return_io (s # ss)))"
    if "toks_ok ts'" "length ts' + Suc 0 \<le> length ts" for ts' s
    using that Suc by (intro consumes_bind [OF Suc.IH]) (auto intro: consumes_return)
  have "consumes 0 ts (bind_io stmt (\<lambda>s. bind_io (stmts_until_brace n stmt) (\<lambda>ss. return_io (s # ss))))"
    using consumes_weaken [OF consumes_bind [OF productiveD [OF Suc.prems(1,2,4)] rest]] .
  then show ?case
    unfolding stmts_until_brace_Suc
    by (intro consumes_peek [OF Suc.prems(2)]) (simp add: consumes_return consumes_fail Suc.prems(2))
qed

lemma parse_block_consumes:
  assumes "productive m stmt" "toks_ok ts" "length ts \<le> n" "length ts \<le> m"
  shows "consumes (Suc 0) ts (parse_block U n stmt)"
  unfolding parse_block_def
  by (rule consumes_then [OF consumes_expect], use assms in simp, simp, rule consumes_bind [OF stmts_consume [OF assms(1)]])
     (use assms in \<open>auto intro: consumes_then [OF consumes_weaken [OF consumes_expect]] consumes_return\<close>)

lemma parse_var_consumes:
  assumes "productive m expr" "toks_ok ts" "length ts \<le> m"
  shows "consumes 0 ts (parse_var U expr)"
proof -
  have init: "consumes 0 ts' (if t = Assign then skip_tok (bind_io expr (\<lambda>e. return_io (Some e))) else return_io None)"
    if "toks_ok ts'" "length ts' \<le> m" "hd ts' = t" for ts' t
    using that assms(1)
    by (auto intro!: consumes_skip0 consumes_bind [OF productiveD0 [OF assms(1)]] intro: consumes_return)
  show ?thesis
    unfolding parse_var_def
    by (rule consumes_bind [OF consumes_weaken [OF consumes_expect_ident [OF assms(2)]]], rule consumes_peek, assumption,
        rule consumes_bind [OF init])
       (use assms(3) in \<open>auto intro: consumes_then [OF consumes_semi] consumes_return\<close>)
qed

lemma parse_return_consumes:
  assumes "productive m expr" "toks_ok ts" "length ts \<le> m"
  shows "consumes 0 ts (parse_return expr)"
proof -
  have v: "consumes 0 ts (if t = Semi \<or> t = RBrace then return_io None else bind_io expr (\<lambda>e. return_io (Some e)))" for t
    using assms by (auto intro!: consumes_bind [OF productiveD0 [OF assms(1)]] intro: consumes_return)
  show ?thesis
    unfolding parse_return_def
    by (rule consumes_peek [OF assms(2)], rule consumes_bind [OF v])
       (auto intro: consumes_then [OF consumes_semi] consumes_return)
qed

lemma parse_else_consumes:
  assumes "productive m stmt" "toks_ok ts" "length ts \<le> n" "length ts \<le> m"
  shows "consumes 0 ts (parse_else U n stmt)"
proof -
  have branch: "consumes 0 ts' (if t = TIdent ''if'' then bind_io stmt (\<lambda>s. return_io [s]) else parse_block U n stmt)"
    if "toks_ok ts'" "length ts' \<le> length ts" for ts' t
    using that assms
    by (auto intro!: consumes_bind [OF productiveD0 [OF assms(1)]] consumes_weaken [OF parse_block_consumes [OF assms(1)]]
        intro: consumes_return)
  have "consumes 0 ts (skip_tok (bind_io peek (\<lambda>t2.
      if t2 = TIdent ''if'' then bind_io stmt (\<lambda>s. return_io [s]) else parse_block U n stmt)))"
    if "hd ts = TIdent ''else''"
    using that by (intro consumes_skip0 [OF assms(2)] consumes_peek branch) auto
  then show ?thesis
    unfolding parse_else_def by (intro consumes_peek [OF assms(2)]) (simp add: consumes_return assms(2))
qed

lemma parse_if_consumes:
  assumes "productive m expr" "productive m stmt" "toks_ok ts" "length ts \<le> n" "length ts \<le> m"
  shows "consumes 0 ts (parse_if U n expr stmt)"
proof -
  have tail: "consumes 0 ts' (bind_io (parse_block U n stmt) (\<lambda>b. bind_io (parse_else U n stmt) (\<lambda>e. return_io (SIf c b e))))"
    if "toks_ok ts'" "length ts' \<le> length ts" for ts' c
    using that assms
    by (intro consumes_bind [OF consumes_weaken [OF parse_block_consumes [OF assms(2)]]]
        consumes_bind [OF parse_else_consumes [OF assms(2)]]) (auto intro: consumes_return)
  show ?thesis
    unfolding parse_if_def
    by (rule consumes_then [OF consumes_weaken [OF consumes_expect [OF assms(3)]]], simp,
        rule consumes_bind [OF productiveD0 [OF assms(1)]], assumption, use assms in simp,
        rule consumes_then [OF consumes_weaken [OF consumes_expect]], assumption, simp, rule tail) auto
qed

lemma expr_stmt_consumes:
  "productive m expr \<Longrightarrow> toks_ok ts \<Longrightarrow> length ts \<le> m \<Longrightarrow>
    consumes (Suc 0) ts (bind_io expr (\<lambda>e. then_io skip_semi (return_io (f e))))"
  by (rule consumes_bind [OF productiveD], assumption+) (auto intro: consumes_then [OF consumes_semi] consumes_return)

lemma parse_simple_consumes:
  assumes "productive m expr" "toks_ok ts" "hd ts \<noteq> Eof" "length ts \<le> m"
  shows "consumes (Suc 0) ts (parse_simple expr name)"
proof (cases "case ts of _ # t # _ \<Rightarrow> t = Assign | _ \<Rightarrow> False")
  case True
  then have "hd (tl ts) = Assign" by (auto split: list.splits)
  then have "consumes (Suc 0) ts (skip_tok (skip_tok (bind_io expr (\<lambda>e. then_io skip_semi (return_io (SAssign name e))))))"
    using assms by (intro consumes_skip consumes_skip0 consumes_weaken [OF expr_stmt_consumes [OF assms(1)]]) auto
  with True show ?thesis by (simp add: consumes_def parse_simple_def)
next
  case False
  with expr_stmt_consumes [OF assms(1,2,4), of ExprStmt] show ?thesis
    by (simp add: consumes_def parse_simple_def)
qed

lemma parse_stmt_productive: "d \<le> n \<Longrightarrow> productive d (parse_stmt U n d)"
proof (induction d)
  case 0
  show ?case by (rule productiveI) auto
next
  case (Suc d)
  note expr = parse_expr_productive [OF order_refl, of n U] and stmt = Suc.IH [OF Suc_leD [OF Suc.prems]]
  show ?case
  proof (rule productiveI)
    fix ts assume ts: "toks_ok ts" "length ts \<le> Suc d"
    have tl: "consumes (Suc 0) ts (skip_tok p)"
      if "hd ts \<noteq> Eof" "toks_ok (tl ts) \<Longrightarrow> length (tl ts) \<le> d \<Longrightarrow> consumes 0 (tl ts) p" for p :: "Stmt parser"
      using that ts by (intro consumes_skip) auto
    show "consumes (Suc 0) ts (parse_stmt U n (Suc d))"
      unfolding parse_stmt_Suc using ts Suc.prems
      by (intro consumes_peek)
         (auto split: Tok.split intro!: consumes_fail tl parse_simple_consumes [OF expr] parse_var_consumes [OF expr]
           parse_return_consumes [OF expr] parse_if_consumes [OF productive_mono [OF expr] stmt])
  qed
qed

lemma parse_function_consumes:
  assumes "toks_ok ts" "length ts \<le> n"
  shows "consumes 0 ts (parse_function U n)"
proof -
  have ident: "productive n (expect_ident U)" by (intro productiveI consumes_expect_ident)
  show ?thesis
    unfolding parse_function_def
    by (rule consumes_bind [OF consumes_weaken [OF consumes_expect_ident [OF assms(1)]]],
        rule consumes_then [OF consumes_weaken [OF consumes_expect]], assumption, simp,
        rule consumes_bind [OF paren_list_consumes [OF ident]], assumption, use assms in simp, use assms in simp,
        rule consumes_bind [OF consumes_weaken [OF parse_block_consumes [OF parse_stmt_productive [OF order_refl]]]],
        assumption, use assms in simp, use assms in simp, rule consumes_return)
qed

lemma parse_items_consume:
  "toks_ok ts \<Longrightarrow> length ts \<le> n \<Longrightarrow> length ts \<le> k \<Longrightarrow> consumes 0 ts (parse_items U n k p)"
proof (induction k arbitrary: ts p)
  case 0
  then show ?case by (cases ts) auto
next
  case (Suc k)
  have stmt: "consumes 0 ts (bind_io (parse_stmt U n n) (\<lambda>s. parse_items U n k (p\<lparr>pg_globals := pg_globals p @ [s]\<rparr>)))"
    using Suc.prems
    by (intro consumes_weaken [OF consumes_bind [OF productiveD [OF parse_stmt_productive [OF order_refl]]]] Suc.IH) auto
  have "consumes 0 ts (skip_tok (bind_io (parse_function U n) (\<lambda>(name, f).
      parse_items U n k (p\<lparr>pg_functions := hm_insert name f (pg_functions p)\<rparr>))))" if "hd ts \<noteq> Eof"
    using Suc.prems that by (intro consumes_skip0 consumes_bind [OF parse_function_consumes]) (auto intro!: Suc.IH)
  with stmt show ?case
    unfolding parse_items_Suc
    by (intro consumes_peek [OF Suc.prems(1)]) (simp add: consumes_return Suc.prems(1))
qed

lemma if_eq_iff: "(if P then a else b) = c \<longleftrightarrow> P \<and> a = c \<or> \<not> P \<and> b = c"
  by simp

lemma punctuation_not_Eof: "punctuation cs \<noteq> Some (Eof, n)"
  by (simp add: punctuation_def Let_def if_eq_iff split: list.split split del: if_split)

lemma lex_step_no_Eof: "lex_step U c r = Inr (ts, r2) \<Longrightarrow> Eof \<notin> set ts"
  by (auto simp: lex_step_def Let_def punctuation_not_Eof split: if_splits option.splits)

lemma tokenize_chars_ok: "tokenize_chars U cs = Inr ts \<Longrightarrow> toks_ok ts"
proof (induction U cs arbitrary: ts rule: tokenize_chars.induct)
  case (1 U)
  then show ?case by (auto simp: toks_ok_def)
next
  case (2 U c r)
  then obtain us r2 rest where step: "lex_step U c r = Inr (us, r2)" "tokenize_chars U r2 = Inr rest" "ts = us @ rest"
    by (auto simp: bind_r_def split: sum.splits)
  from 2(1) [OF step(1) refl step(2)] lex_step_no_Eof [OF step(1)] step(3) show ?case
    by (auto simp: toks_ok_def butlast_append)
qed

text \<open>
  Every script is parsed or refused: the parser never runs out of the fuel \<open>parse_program\<close> gives it,
  and never reads past its tokens.
\<close>

lemma parse_script_returns: "returns_io (parse_script U src)"
proof -
  have "\<exists>r ts'. parse_program U toks = Ret (r, ts')" if "tokenize U src = Inr toks" for toks
    using parse_items_consume [of toks "length toks" "length toks" U] tokenize_chars_ok [of U "chars src" toks] that
    by (fastforce simp: tokenize_def parse_program_def consumes_def)
  then show ?thesis
    unfolding returns_io_def parse_script_def
    by (cases "tokenize U src") (auto simp: lift_io_def bind_io_def)
qed

text \<open>Recursion depth is not bounded by the parser: every level of parentheses is a nested call.\<close>

lemma bind_NoFuel: "p ts = NoFuel \<Longrightarrow> bind_io p f ts = NoFuel"
  by simp

lemma nested_parens_depth: "d \<le> k \<Longrightarrow> 0 < n \<Longrightarrow> parse_expr U n d (replicate k LParen @ ts) = NoFuel"
proof (induction d arbitrary: k)
  case (Suc d)
  then obtain j where k: "k = Suc j" and j: "d \<le> j" by (cases k) auto
  obtain m where n: "n = Suc m" using Suc.prems(2) by (cases n) auto
  have "parse_expr U n d (if replicate j LParen @ ts = [] then [LParen] else replicate j LParen @ ts) = NoFuel"
    using Suc.IH [OF j] Suc.prems(2) j by (cases d) auto
  then have "parse_primary U n (parse_expr U n d) (replicate k LParen @ ts) = NoFuel"
    by (simp add: parse_primary_def advance_def bind_io_def k)
  then have "parse_unary n (parse_primary U n (parse_expr U n d)) (replicate k LParen @ ts) = NoFuel"
    by (simp add: n k peek_def bind_io_def)
  then show ?case
    unfolding parse_expr_Suc parse_or_def parse_and_def parse_equality_def parse_relational_def parse_additive_def
      binary_level_def
    by (intro bind_NoFuel)
qed simp

end
