(* ===== verification/Pac_Eval.thy ===== *)
theory Pac_Eval
  imports Pac_Syntax Ip_Addr "HOL-Library.Signed_Division"
begin

text \<open>
  Fetching and running proxy auto-config scripts (second half of \<^verbatim>\<open>src/src/proxy/pac.rs\<close>): the HTTP
  fetch, the interpreter and the built-in functions. Name resolution, the clock and the local
  address come from \<open>PacEnv\<close>.
\<close>

section \<open>Fetching\<close>

abbreviation (input) MAX_CALL_DEPTH :: nat where "MAX_CALL_DEPTH \<equiv> 64"
abbreviation (input) MAX_PAC_SIZE :: nat where "MAX_PAC_SIZE \<equiv> 1024 * 1024"

record 'w PacEnv =
  pe_unicode :: Unicode
  pe_connect :: "string \<Rightarrow> u16 \<Rightarrow> 'w \<Rightarrow> (string + unit) \<times> 'w"
  pe_set_read_timeout :: "nat \<Rightarrow> 'w \<Rightarrow> (string + unit) \<times> 'w"
  pe_set_write_timeout :: "nat \<Rightarrow> 'w \<Rightarrow> (string + unit) \<times> 'w"
  pe_write_all :: "string \<Rightarrow> 'w \<Rightarrow> (string + unit) \<times> 'w"
  pe_read_to_end :: "nat \<Rightarrow> 'w \<Rightarrow> (string + bytes) \<times> 'w"
  pe_lookup_host :: "string \<Rightarrow> 'w \<Rightarrow> (string + IpAddr list) \<times> 'w"
  pe_route_source :: "'w \<Rightarrow> (string + IpAddr) \<times> 'w"
  pe_unix_secs :: "'w \<Rightarrow> nat \<times> 'w"

definition parse_http_url :: "string \<Rightarrow> (string \<times> u16 \<times> string) result" where
  "parse_http_url url =
     bind_r (ok_or (Other ''only http:// PAC URLs are supported (no TLS client available)'') (strip_prefix ''http://'' url))
       (\<lambda>rest.
         let (authority, path) = (case split_once (CHR ''/'') rest of Some (a, p) \<Rightarrow> (a, ''/'' @ p) | None \<Rightarrow> (rest, ''/''))
         in bind_r (case split_once (CHR '':'') authority of
                      Some (h, p) \<Rightarrow>
                        bind_r (ok_or (Other (''invalid port in PAC URL: '' @ quoted p)) (parse_u16 p)) (\<lambda>port. Inr (h, port))
                    | None \<Rightarrow> Inr (authority, 80))
              (\<lambda>(host, port). if host = [] then Inl (Other ''PAC URL has no host'') else Inr (host, port, path)))"

definition crlf :: string where "crlf = [cr, nl]"

text \<open>\<open>&tail[..size]\<close> panics inside a character.\<close>

definition char_boundary :: "string \<Rightarrow> nat \<Rightarrow> bool" where
  "char_boundary s i = (i = 0 \<or> i = length s \<or> (i < length s \<and> \<not> continuation (s ! i)))"

definition chunk_size :: "string \<Rightarrow> nat option" where
  "chunk_size size_line = parse_uint (2 ^ 64 - 1) 16 (trim (hd (split_on (CHR '';'') size_line)))"

function dechunk_from :: "string \<Rightarrow> string \<Rightarrow> string outcome" where
  "dechunk_from out rest =
     (case split_once_str crlf rest of
        None \<Rightarrow> Ret out
      | Some (size_line, tail) \<Rightarrow>
          (case chunk_size size_line of
             None \<Rightarrow> Ret out
           | Some n \<Rightarrow>
               if n = 0 then Ret out
               else if length tail < n then Ret out
               else if \<not> char_boundary tail n then Panic
               else dechunk_from (out @ take n tail)
                      (case strip_prefix crlf (drop n tail) of Some s \<Rightarrow> s | None \<Rightarrow> [])))"
  by pat_completeness auto
termination
  by (relation "measure (\<lambda>(out, rest). length rest)")
     (auto dest!: split_once_str_Some arg_cong [of "drop _ _" _ length] simp: crlf_def strip_prefix_Some split: option.splits)

declare dechunk_from.simps [simp del]

definition dechunk :: "string \<Rightarrow> string outcome" where
  "dechunk body = dechunk_from [] body"

definition pac_request :: "string \<Rightarrow> string \<Rightarrow> string" where
  "pac_request host path =
     ''GET '' @ path @ '' HTTP/1.1'' @ crlf @ ''Host: '' @ host @ crlf @ ''User-Agent: mitos-network'' @ crlf @
     ''Accept: application/x-ns-proxy-autoconfig, */*'' @ crlf @ ''Connection: close'' @ crlf @ crlf"

text \<open>\<open>splitn(3, ' ').nth(1)\<close>.\<close>

definition second_word :: "string \<Rightarrow> string option" where
  "second_word s =
     (case split_once (CHR '' '') s of
        None \<Rightarrow> None
      | Some (_, r) \<Rightarrow> Some (case split_once (CHR '' '') r of None \<Rightarrow> r | Some (w, _) \<Rightarrow> w))"

definition lift_outcome :: "'a outcome \<Rightarrow> ('w, 'a) io" where
  "lift_outcome r = (\<lambda>w. case r of Ret x \<Rightarrow> Ret (Inr x, w) | Panic \<Rightarrow> Panic | NoFuel \<Rightarrow> NoFuel)"

text \<open>What \<open>fetch\<close> makes of the bytes the server sent.\<close>

definition pac_body :: "string \<Rightarrow> ('w, string) io" where
  "pac_body raw =
     (case split_once_str (crlf @ crlf) raw of
        None \<Rightarrow> fail_io (Other ''malformed HTTP response fetching PAC'')
      | Some (headers, body) \<Rightarrow>
          let status_line = (case lines headers of [] \<Rightarrow> [] | l # _ \<Rightarrow> l)
          in if second_word status_line \<noteq> Some ''200'' then fail_io (Other (''PAC server returned: '' @ status_line))
             else bind_io (if str_contains (to_ascii_lowercase headers) ''transfer-encoding: chunked''
                           then lift_outcome (dechunk body) else return_io body) (\<lambda>body.
               if MAX_PAC_SIZE < length body then fail_io (Other ''PAC file exceeds size limit'') else return_io body))"

definition fetch :: "'w PacEnv \<Rightarrow> string \<Rightarrow> ('w, string) io" where
  "fetch E url =
     bind_io (lift_io (parse_http_url url)) (\<lambda>(host, port, path).
       then_io (sys_call (\<lambda>e. Other (''connecting to PAC server '' @ host @ '':'' @ show_nat (unat port) @ '': '' @ e))
                  (pe_connect E host port))
      (then_io (sys_call Io (pe_set_read_timeout E 10))
      (then_io (sys_call Io (pe_set_write_timeout E 10))
      (then_io (sys_call (\<lambda>e. Other (''sending PAC request: '' @ e)) (pe_write_all E (pac_request host path)))
      (bind_io (sys_call (\<lambda>e. Other (''reading PAC response: '' @ e)) (pe_read_to_end E (MAX_PAC_SIZE + 8192))) (\<lambda>raw.
         pac_body (from_utf8_lossy (take (MAX_PAC_SIZE + 8192) raw))))))))"

section \<open>Values\<close>

datatype Value = VStr string | VNum F64 | VBool bool | VNull

fun truthy :: "Value \<Rightarrow> bool" where
  "truthy (VStr s) = (s \<noteq> [])"
| "truthy (VNum n) = (\<not> f64_eq n (Fin 0))"
| "truthy (VBool b) = b"
| "truthy VNull = False"

fun as_string :: "Value \<Rightarrow> string" where
  "as_string (VStr s) = s"
| "as_string (VNum n) = (if fract_zero n then show_whole n else show_f64 n)"
| "as_string (VBool b) = (if b then ''true'' else ''false'')"
| "as_string VNull = ''null''"

fun as_num :: "Value \<Rightarrow> F64" where
  "as_num (VNum n) = n"
| "as_num (VStr s) = (case parse_f64 (trim s) of Some n \<Rightarrow> n | None \<Rightarrow> NaN)"
| "as_num (VBool b) = Fin (if b then 1 else 0)"
| "as_num VNull = Fin 0"

fun values_eq :: "Value \<Rightarrow> Value \<Rightarrow> bool" where
  "values_eq (VNum x) (VNum y) = f64_eq x y"
| "values_eq (VBool x) (VBool y) = (x = y)"
| "values_eq VNull VNull = True"
| "values_eq a b = (as_string a = as_string b)"

fun add_values :: "Value \<Rightarrow> Value \<Rightarrow> Value" where
  "add_values (VNum a) (VNum b) = VNum (f64_add a b)"
| "add_values l r = VStr (as_string l @ as_string r)"

section \<open>Built-in functions\<close>

definition arg_str :: "Value list \<Rightarrow> nat \<Rightarrow> string result" where
  "arg_str args i =
     (if i < length args then Inr (as_string (args ! i))
      else Inl (Other (''PAC builtin missing argument '' @ show_nat i)))"

definition prefer_v4 :: "IpAddr list \<Rightarrow> IpAddr option" where
  "prefer_v4 addrs =
     (case find is_ipv4 addrs of
        Some ip \<Rightarrow> Some ip
      | None \<Rightarrow> (case addrs of [] \<Rightarrow> None | ip # _ \<Rightarrow> Some ip))"

definition resolve_host :: "'w PacEnv \<Rightarrow> string \<Rightarrow> 'w \<Rightarrow> string option \<times> 'w" where
  "resolve_host E host w =
     (case parse_ip host of
        Some ip \<Rightarrow> (Some (show_ip ip), w)
      | None \<Rightarrow>
          (case pe_lookup_host E host w of
             (Inl _, w') \<Rightarrow> (None, w')
           | (Inr addrs, w') \<Rightarrow> (map_option show_ip (prefer_v4 addrs), w')))"

definition my_ip_address :: "'w PacEnv \<Rightarrow> 'w \<Rightarrow> string \<times> 'w" where
  "my_ip_address E w =
     (case pe_route_source E w of (Inr ip, w') \<Rightarrow> (show_ip ip, w') | (Inl _, w') \<Rightarrow> (''127.0.0.1'', w'))"

definition is_in_net :: "string \<Rightarrow> string \<Rightarrow> string \<Rightarrow> bool" where
  "is_in_net ip pattern netmask =
     (case (parse_ipv4 ip, parse_ipv4 pattern, parse_ipv4 netmask) of
        (Some i, Some p, Some m) \<Rightarrow> (i AND m) = (p AND m)
      | _ \<Rightarrow> False)"

function sh_match :: "string \<Rightarrow> string \<Rightarrow> bool" where
  "sh_match s p =
     (case p of
        [] \<Rightarrow> s = []
      | pc # ps \<Rightarrow>
          if pc = CHR ''*'' then sh_match s ps \<or> (if s = [] then False else sh_match (tl s) p)
          else if s \<noteq> [] \<and> (pc = CHR ''?'' \<or> hd s = pc) then sh_match (tl s) ps
          else False)"
  by pat_completeness auto
termination
  by (relation "measure (\<lambda>(s, p). length s + length p)") (auto simp flip: length_greater_0_conv)

declare sh_match.simps [simp del]

definition sh_exp_match :: "string \<Rightarrow> string \<Rightarrow> bool" where
  "sh_exp_match s pattern = sh_match s pattern"

definition now_unix_days_and_secs :: "'w PacEnv \<Rightarrow> 'w \<Rightarrow> (int \<times> u32) \<times> 'w" where
  "now_unix_days_and_secs E w =
     (case pe_unix_secs E w of (n, w') \<Rightarrow>
        let secs = int n in ((secs div 86400, word_of_int (secs mod 86400)), w'))"

definition civil_from_days :: "int \<Rightarrow> int \<times> u32 \<times> u32" where
  "civil_from_days z =
     (let z = z + 719468;
          era = (if 0 \<le> z then z else z - 146096) sdiv 146097;
          doe = z - era * 146097;
          yoe = (doe - doe div 1460 + doe div 36524 - doe div 146096) div 365;
          y = yoe + era * 400;
          doy = doe - (365 * yoe + yoe div 4 - yoe div 100);
          mp = (5 * doy + 2) div 153;
          d = doy - (153 * mp + 2) div 5 + 1;
          m = (if mp < 10 then mp + 3 else mp - 9);
          y = (if m \<le> 2 then y + 1 else y)
      in (y, word_of_int m, word_of_int d))"

definition weekday_from_days :: "int \<Rightarrow> u32" where
  "weekday_from_days z = word_of_int ((z mod 7 + 4) mod 7)"

definition WEEKDAYS :: "string list" where
  "WEEKDAYS = [''SUN'', ''MON'', ''TUE'', ''WED'', ''THU'', ''FRI'', ''SAT'']"

fun position :: "('a \<Rightarrow> bool) \<Rightarrow> 'a list \<Rightarrow> nat option" where
  "position p [] = None"
| "position p (x # xs) = (if p x then Some 0 else map_option Suc (position p xs))"

definition weekday_index :: "string \<Rightarrow> u32 option" where
  "weekday_index s = map_option word_of_nat (position (\<lambda>d. d = to_ascii_uppercase s) WEEKDAYS)"

definition arg :: "Value list \<Rightarrow> nat \<Rightarrow> Value option" where
  "arg args i = (if i < length args then Some (args ! i) else None)"

text \<open>A range with an optional end; one whose end lies before its start wraps around.\<close>

definition in_range :: "u32 \<Rightarrow> u32 option \<Rightarrow> u32 option \<Rightarrow> bool" where
  "in_range today first second =
     (case first of
        None \<Rightarrow> False
      | Some d1 \<Rightarrow>
          (case second of
             None \<Rightarrow> today = d1
           | Some d2 \<Rightarrow> if d1 \<le> d2 then d1 \<le> today \<and> today \<le> d2 else d1 \<le> today \<or> today \<le> d2))"

definition arg_u32 :: "Value list \<Rightarrow> nat \<Rightarrow> u32 option" where
  "arg_u32 args i = map_option (\<lambda>v. f64_as_u32 (as_num v)) (arg args i)"

definition weekday_range :: "'w PacEnv \<Rightarrow> Value list \<Rightarrow> 'w \<Rightarrow> bool \<times> 'w" where
  "weekday_range E args w =
     (case now_unix_days_and_secs E w of ((days, _), w') \<Rightarrow>
        (in_range (weekday_from_days days)
           (Option.bind (arg args 0) (\<lambda>v. weekday_index (as_string v)))
           (Option.bind (arg args 1) (\<lambda>v. weekday_index (as_string v))), w'))"

definition date_range :: "'w PacEnv \<Rightarrow> Value list \<Rightarrow> 'w \<Rightarrow> bool \<times> 'w" where
  "date_range E args w =
     (case now_unix_days_and_secs E w of ((days, _), w') \<Rightarrow>
        (in_range (snd (snd (civil_from_days days))) (arg_u32 args 0) (arg_u32 args 1), w'))"

definition time_range :: "'w PacEnv \<Rightarrow> Value list \<Rightarrow> 'w \<Rightarrow> bool \<times> 'w" where
  "time_range E args w =
     (case now_unix_days_and_secs E w of ((_, secs), w') \<Rightarrow>
        (in_range (secs div 3600) (arg_u32 args 0) (arg_u32 args 1), w'))"

definition dot_count :: "string \<Rightarrow> nat" where
  "dot_count s = length (filter (\<lambda>c. c = CHR ''.'') s)"

definition with_arg :: "Value list \<Rightarrow> nat \<Rightarrow> (string \<Rightarrow> ('w, 'a) io) \<Rightarrow> ('w, 'a) io" where
  "with_arg args i f = bind_io (lift_io (arg_str args i)) f"

definition local_host_or_domain_is :: "string \<Rightarrow> string \<Rightarrow> bool" where
  "local_host_or_domain_is host hostdom =
     (host = hostdom \<or> (CHR ''.'' \<notin> set host \<and> starts_with hostdom (host @ ''.'')))"

text \<open>\<open>None\<close> for a name that is not built in.\<close>

definition call_builtin :: "'w PacEnv \<Rightarrow> string \<Rightarrow> Value list \<Rightarrow> ('w, Value option) io" where
  "call_builtin E name args =
     (let yes = (\<lambda>b. return_io (Some (VBool b))) in
      if name = ''isPlainHostName'' then with_arg args 0 (\<lambda>h. yes (CHR ''.'' \<notin> set h))
      else if name = ''dnsDomainIs'' then
        with_arg args 0 (\<lambda>h. with_arg args 1 (\<lambda>d. yes (ends_with (to_ascii_lowercase h) (to_ascii_lowercase d))))
      else if name = ''localHostOrDomainIs'' then
        with_arg args 0 (\<lambda>h. with_arg args 1 (\<lambda>d.
          yes (local_host_or_domain_is (to_ascii_lowercase h) (to_ascii_lowercase d))))
      else if name = ''isResolvable'' then
        with_arg args 0 (\<lambda>h. bind_io (ask (resolve_host E h)) (\<lambda>r. yes (r \<noteq> None)))
      else if name = ''dnsResolve'' then
        with_arg args 0 (\<lambda>h. bind_io (ask (resolve_host E h)) (\<lambda>r.
          return_io (Some (case r of Some ip \<Rightarrow> VStr ip | None \<Rightarrow> VNull))))
      else if name = ''myIpAddress'' then bind_io (ask (my_ip_address E)) (\<lambda>ip. return_io (Some (VStr ip)))
      else if name = ''dnsDomainLevels'' then
        with_arg args 0 (\<lambda>h. return_io (Some (VNum (f64_of (of_nat (dot_count h))))))
      else if name = ''isInNet'' then
        with_arg args 0 (\<lambda>h. with_arg args 1 (\<lambda>p. with_arg args 2 (\<lambda>m.
          bind_io (ask (resolve_host E h)) (\<lambda>r. yes (case r of Some ip \<Rightarrow> is_in_net ip p m | None \<Rightarrow> False)))))
      else if name = ''shExpMatch'' then with_arg args 0 (\<lambda>s. with_arg args 1 (\<lambda>p. yes (sh_exp_match s p)))
      else if name = ''weekdayRange'' then bind_io (ask (weekday_range E args)) yes
      else if name = ''dateRange'' then bind_io (ask (date_range E args)) yes
      else if name = ''timeRange'' then bind_io (ask (time_range E args)) yes
      else if name = ''alert'' then return_io (Some VNull)
      else return_io None)"

section \<open>The interpreter\<close>

datatype Signal = NoSignal | ReturnSignal Value

type_synonym scope = "(string \<times> Value) list"
type_synonym fun_table = "(string \<times> FunctionDecl) list"

definition bind_params :: "string list \<Rightarrow> Value list \<Rightarrow> scope" where
  "bind_params params args = fold (\<lambda>(p, a). hm_insert p a) (zip params args) []"

function (sequential)
  pac_call :: "'w PacEnv \<Rightarrow> fun_table \<Rightarrow> string \<Rightarrow> Value list \<Rightarrow> nat \<Rightarrow> ('w, Value) io" and
  exec_block :: "'w PacEnv \<Rightarrow> fun_table \<Rightarrow> Stmt list \<Rightarrow> scope \<Rightarrow> nat \<Rightarrow> ('w, Signal \<times> scope) io" and
  exec_stmt :: "'w PacEnv \<Rightarrow> fun_table \<Rightarrow> Stmt \<Rightarrow> scope \<Rightarrow> nat \<Rightarrow> ('w, Signal \<times> scope) io" and
  pac_eval :: "'w PacEnv \<Rightarrow> fun_table \<Rightarrow> Expr \<Rightarrow> scope \<Rightarrow> nat \<Rightarrow> ('w, Value) io" and
  eval_args :: "'w PacEnv \<Rightarrow> fun_table \<Rightarrow> Expr list \<Rightarrow> scope \<Rightarrow> nat \<Rightarrow> ('w, Value list) io" where
  "pac_call E F name args depth =
     (if MAX_CALL_DEPTH < depth then fail_io (Other ''PAC script recursion too deep'')
      else bind_io (call_builtin E name args) (\<lambda>builtin.
        case builtin of
          Some v \<Rightarrow> return_io v
        | None \<Rightarrow>
            (case hm_get F name of
               None \<Rightarrow> fail_io (Other (''PAC script calls undefined function '' @ quoted name))
             | Some func \<Rightarrow>
                 bind_io (exec_block E F (fd_body func) (bind_params (fd_params func) args) (depth + 1)) (\<lambda>(sig, _).
                   return_io (case sig of ReturnSignal v \<Rightarrow> v | NoSignal \<Rightarrow> VNull)))))"
| "exec_block E F [] scope depth = return_io (NoSignal, scope)"
| "exec_block E F (s # ss) scope depth =
     bind_io (exec_stmt E F s scope depth) (\<lambda>(sig, scope').
       case sig of NoSignal \<Rightarrow> exec_block E F ss scope' depth | ReturnSignal v \<Rightarrow> return_io (ReturnSignal v, scope'))"
| "exec_stmt E F (VarDecl name None) scope depth = return_io (NoSignal, hm_insert name VNull scope)"
| "exec_stmt E F (VarDecl name (Some e)) scope depth =
     bind_io (pac_eval E F e scope depth) (\<lambda>v. return_io (NoSignal, hm_insert name v scope))"
| "exec_stmt E F (SAssign name e) scope depth =
     bind_io (pac_eval E F e scope depth) (\<lambda>v. return_io (NoSignal, hm_insert name v scope))"
| "exec_stmt E F (ExprStmt e) scope depth =
     bind_io (pac_eval E F e scope depth) (\<lambda>_. return_io (NoSignal, scope))"
| "exec_stmt E F (SIf c then_b else_b) scope depth =
     bind_io (pac_eval E F c scope depth) (\<lambda>v.
       if truthy v then exec_block E F then_b scope depth else exec_block E F else_b scope depth)"
| "exec_stmt E F (SReturn None) scope depth = return_io (ReturnSignal VNull, scope)"
| "exec_stmt E F (SReturn (Some e)) scope depth =
     bind_io (pac_eval E F e scope depth) (\<lambda>v. return_io (ReturnSignal v, scope))"
| "pac_eval E F (EStr s) scope depth = return_io (VStr s)"
| "pac_eval E F (ENum n) scope depth = return_io (VNum n)"
| "pac_eval E F (EBool b) scope depth = return_io (VBool b)"
| "pac_eval E F (EIdent name) scope depth =
     return_io (case hm_get scope name of Some v \<Rightarrow> v | None \<Rightarrow> VNull)"
| "pac_eval E F (ECall name args) scope depth =
     bind_io (eval_args E F args scope depth) (\<lambda>vs. pac_call E F name vs depth)"
| "pac_eval E F (EAdd l r) scope depth =
     bind_io (pac_eval E F l scope depth) (\<lambda>a. bind_io (pac_eval E F r scope depth) (\<lambda>b. return_io (add_values a b)))"
| "pac_eval E F (EEq l r) scope depth =
     bind_io (pac_eval E F l scope depth) (\<lambda>a. bind_io (pac_eval E F r scope depth) (\<lambda>b. return_io (VBool (values_eq a b))))"
| "pac_eval E F (ENotEq l r) scope depth =
     bind_io (pac_eval E F l scope depth) (\<lambda>a. bind_io (pac_eval E F r scope depth) (\<lambda>b. return_io (VBool (\<not> values_eq a b))))"
| "pac_eval E F (EAnd l r) scope depth =
     bind_io (pac_eval E F l scope depth) (\<lambda>a. if \<not> truthy a then return_io a else pac_eval E F r scope depth)"
| "pac_eval E F (EOr l r) scope depth =
     bind_io (pac_eval E F l scope depth) (\<lambda>a. if truthy a then return_io a else pac_eval E F r scope depth)"
| "pac_eval E F (ELt l r) scope depth =
     bind_io (pac_eval E F l scope depth) (\<lambda>a. bind_io (pac_eval E F r scope depth) (\<lambda>b.
       return_io (VBool (f64_lt (as_num a) (as_num b)))))"
| "pac_eval E F (EGt l r) scope depth =
     bind_io (pac_eval E F l scope depth) (\<lambda>a. bind_io (pac_eval E F r scope depth) (\<lambda>b.
       return_io (VBool (f64_lt (as_num b) (as_num a)))))"
| "pac_eval E F (ELe l r) scope depth =
     bind_io (pac_eval E F l scope depth) (\<lambda>a. bind_io (pac_eval E F r scope depth) (\<lambda>b.
       return_io (VBool (f64_le (as_num a) (as_num b)))))"
| "pac_eval E F (EGe l r) scope depth =
     bind_io (pac_eval E F l scope depth) (\<lambda>a. bind_io (pac_eval E F r scope depth) (\<lambda>b.
       return_io (VBool (f64_le (as_num b) (as_num a)))))"
| "pac_eval E F (ENot e) scope depth =
     bind_io (pac_eval E F e scope depth) (\<lambda>v. return_io (VBool (\<not> truthy v)))"
| "eval_args E F [] scope depth = return_io []"
| "eval_args E F (e # es) scope depth =
     bind_io (pac_eval E F e scope depth) (\<lambda>v. bind_io (eval_args E F es scope depth) (\<lambda>vs. return_io (v # vs)))"
  by pat_completeness auto
termination
  by (relation "measures
       [case_sum
          (case_sum (\<lambda>(E, F, name, args, depth). 66 - depth) (\<lambda>(E, F, ss, scope, depth). 66 - depth))
          (case_sum (\<lambda>(E, F, s, scope, depth). 66 - depth)
             (case_sum (\<lambda>(E, F, e, scope, depth). 66 - depth) (\<lambda>(E, F, es, scope, depth). 66 - depth))),
        case_sum (case_sum (\<lambda>_. 0) (\<lambda>_. 2)) (case_sum (\<lambda>_. 2) (case_sum (\<lambda>_. 1) (\<lambda>_. 1))),
        case_sum
          (case_sum (\<lambda>_. 0) (\<lambda>(E, F, ss, scope, depth). size_list size ss))
          (case_sum (\<lambda>(E, F, s, scope, depth). size s)
             (case_sum (\<lambda>(E, F, e, scope, depth). size e) (\<lambda>(E, F, es, scope, depth). size_list size es)))]")
     auto

declare pac_call.simps [simp del]

fun exec_globals :: "'w PacEnv \<Rightarrow> fun_table \<Rightarrow> Stmt list \<Rightarrow> scope \<Rightarrow> ('w, scope) io" where
  "exec_globals E F [] globals = return_io globals"
| "exec_globals E F (s # ss) globals =
     bind_io (exec_stmt E F s globals 0) (\<lambda>(_, globals'). exec_globals E F ss globals')"

definition evaluate :: "'w PacEnv \<Rightarrow> string \<Rightarrow> string \<Rightarrow> string \<Rightarrow> ('w, string) io" where
  "evaluate E script url host =
     bind_io (parse_script (pe_unicode E) script) (\<lambda>program.
       if hm_get (pg_functions program) ''FindProxyForURL'' = None
       then fail_io (Other ''PAC script has no FindProxyForURL function'')
       else bind_io (exec_globals E (pg_functions program) (pg_globals program) []) (\<lambda>_.
         bind_io (pac_call E (pg_functions program) ''FindProxyForURL'' [VStr url, VStr host] 0) (\<lambda>result.
           return_io (case result of VStr s \<Rightarrow> s | VNull \<Rightarrow> ''DIRECT'' | other \<Rightarrow> as_string other))))"

section \<open>Evaluation ends\<close>

lemma returns_if: "returns_io m \<Longrightarrow> returns_io n \<Longrightarrow> returns_io (if b then m else n)"
  by simp

lemma call_builtin_returns: "returns_io (call_builtin E name args)"
  unfolding call_builtin_def with_arg_def Let_def
  by (intro returns_if returns_bind returns_basic returns_calls)

lemma interpreter_returns:
  "returns_io (pac_call E F name args d1)"
  "returns_io (exec_block E F ss scope d2)"
  "returns_io (exec_stmt E F s scope' d3)"
  "returns_io (pac_eval E F e scope'' d4)"
  "returns_io (eval_args E F es scope''' d5)"
  by (induction E F name args d1 and E F ss scope d2 and E F s scope' d3 and E F e scope'' d4 and E F es scope''' d5
      rule: pac_call_exec_block_exec_stmt_pac_eval_eval_args.induct)
     (auto intro!: returns_bind call_builtin_returns split: prod.splits Signal.splits option.splits
       simp: pac_call.simps)

lemma exec_globals_returns: "returns_io (exec_globals E F ss globals)"
  by (induction ss arbitrary: globals) (auto intro!: returns_bind interpreter_returns split: prod.splits)

lemma evaluate_returns: "returns_io (evaluate E script url host)"
  unfolding evaluate_def
  by (auto intro!: returns_bind parse_script_returns exec_globals_returns interpreter_returns)

text \<open>C28. The evaluation of every script returns, with a proxy string or an error: nothing runs out of
  fuel and nothing panics, whatever the script and whatever the resolver answers.\<close>

theorem evaluate_ends: "\<exists>r w'. evaluate E script url host w = Ret (r, w')"
  by (rule returns_ioD [OF evaluate_returns])

end
