(* ===== verification/Proxy.thy ===== *)
theory Proxy
  imports Pac_Eval File_Sys
begin

text \<open>
  System proxy settings (\<^verbatim>\<open>src/src/proxy/proxy.rs\<close>): applying a configuration, which writes or removes
  the shell profile script and fetches a PAC script, and resolving the proxy for a URL. The two
  statics of the module, the active configuration and the cached script, are a state component.
\<close>

section \<open>Configuration and state\<close>

datatype ProxyMode = NoProxy | ManualProxy | AutoProxy

record ProxyConfig =
  pc_mode :: ProxyMode
  pc_http :: "string option"
  pc_https :: "string option"
  pc_ftp :: "string option"
  pc_socks :: "string option"
  pc_no_proxy :: "string list"
  pc_pac_url :: "string option"

definition default_proxy :: ProxyConfig where
  "default_proxy = \<lparr>pc_mode = NoProxy, pc_http = None, pc_https = None, pc_ftp = None, pc_socks = None,
     pc_no_proxy = [], pc_pac_url = None\<rparr>"

definition PROFILE_SCRIPT_PATH :: string where
  "PROFILE_SCRIPT_PATH = ''/etc/profile.d/mitos-network-proxy.sh''"

record ProxyState =
  px_active :: "ProxyConfig option"
  px_pac :: "string option"

record 'w ProxyEnv =
  pv_fs :: "'w Fs"
  pv_pac :: "'w PacEnv"
  pv_codec :: "ProxyConfig Codec"
  pv_data_dir :: "string option"

definition save_proxy_config :: "'w ProxyEnv \<Rightarrow> ProxyConfig \<Rightarrow> ('w, unit) io" where
  "save_proxy_config E cfg = write_json (pv_fs E) (pv_codec E) (proxy_config_path (base_dir (pv_data_dir E))) cfg"

definition load_proxy_config :: "'w ProxyEnv \<Rightarrow> ('w, ProxyConfig option) io" where
  "load_proxy_config E = read_json (pv_fs E) (pv_codec E) (proxy_config_path (base_dir (pv_data_dir E)))"

section \<open>Applying\<close>

definition export_line :: "string \<Rightarrow> string \<Rightarrow> string" where
  "export_line var v = ''export '' @ var @ ''='' @ [dquote] @ v @ [dquote, nl]"

definition export_both :: "string \<Rightarrow> string option \<Rightarrow> string" where
  "export_both var value =
     (case value of
        None \<Rightarrow> []
      | Some v \<Rightarrow> export_line var v @ export_line (to_ascii_uppercase var) v)"

definition proxy_script :: "ProxyConfig \<Rightarrow> string" where
  "proxy_script cfg =
     ''# Generated by mitos-network. Do not edit by hand.'' @ [nl] @
     export_both ''http_proxy'' (pc_http cfg) @ export_both ''https_proxy'' (pc_https cfg) @
     export_both ''ftp_proxy'' (pc_ftp cfg) @ export_both ''all_proxy'' (pc_socks cfg) @
     (if pc_no_proxy cfg = [] then []
      else export_line ''no_proxy'' (str_join '','' (pc_no_proxy cfg)) @ export_line ''NO_PROXY'' (str_join '','' (pc_no_proxy cfg)))"

definition proxy_clear :: "'w Fs \<Rightarrow> ('w, unit) io" where
  "proxy_clear F = unless_missing (Inr ()) (fs_remove_file F PROFILE_SCRIPT_PATH)"

definition set_pac :: "string option \<Rightarrow> (ProxyState \<times> 'w, unit) io" where
  "set_pac script = modify_state (\<lambda>s. s\<lparr>px_pac := script\<rparr>)"

definition apply_inner :: "'w ProxyEnv \<Rightarrow> ProxyConfig \<Rightarrow> (ProxyState \<times> 'w, unit) io" where
  "apply_inner E cfg =
     (case pc_mode cfg of
        NoProxy \<Rightarrow> then_io (set_pac None) (on_world (proxy_clear (pv_fs E)))
      | ManualProxy \<Rightarrow>
          then_io (set_pac None) (on_world (fs_call (fs_write (pv_fs E) PROFILE_SCRIPT_PATH (proxy_script cfg))))
      | AutoProxy \<Rightarrow>
          then_io (on_world (proxy_clear (pv_fs E)))
            (case pc_pac_url cfg of
               None \<Rightarrow> then_io (set_pac None) (fail_io (Config ''proxy mode is Auto but no pac_url is configured''))
             | Some url \<Rightarrow>
                 bind_io (on_world (fetch (pv_pac E) url)) (\<lambda>script.
                 bind_io (on_world (map_err_io (\<lambda>e. Config (''PAC script at '' @ url @ '' is invalid: '' @ error_to_string e))
                            (evaluate (pv_pac E) script ''http://example.com/'' ''example.com''))) (\<lambda>_.
                   set_pac (Some script)))))"

definition proxy_apply :: "'w ProxyEnv \<Rightarrow> ProxyConfig \<Rightarrow> (ProxyState \<times> 'w, unit) io" where
  "proxy_apply E cfg =
     then_io (modify_state (\<lambda>s. s\<lparr>px_active := Some cfg\<rparr>))
    (bind_io (try_io (apply_inner E cfg)) (\<lambda>result.
       then_io (if is_ok result then ignore_io (on_world (save_proxy_config E cfg)) else return_io ())
         (lift_io result)))"

definition proxy_current :: "ProxyState \<Rightarrow> ProxyConfig option" where
  "proxy_current s = px_active s"

section \<open>Resolving\<close>

definition extract_host :: "string \<Rightarrow> string option" where
  "extract_host url =
     (let after_scheme = (case split_once_str ''://'' url of Some (_, rest) \<Rightarrow> rest | None \<Rightarrow> url);
          authority = hd (split_by (\<lambda>c. c = CHR ''/'' \<or> c = CHR ''?'' \<or> c = CHR ''#'') after_scheme);
          authority = (case rsplit_once (CHR ''@'') authority of Some (_, h) \<Rightarrow> h | None \<Rightarrow> authority)
      in case strip_prefix ''['' authority of
           Some rest \<Rightarrow> (let s = hd (split_on (CHR '']'') rest) in if s = [] then None else Some s)
         | None \<Rightarrow> (let host = hd (split_on (CHR '':'') authority) in if host = [] then None else Some host))"

definition host_matches_no_proxy :: "string \<Rightarrow> string \<Rightarrow> bool" where
  "host_matches_no_proxy host pattern =
     (let host = to_ascii_lowercase host; pattern = to_ascii_lowercase (trim pattern)
      in pattern = ''*'' \<or>
         (let p = (case strip_prefix ''.'' pattern of Some r \<Rightarrow> r | None \<Rightarrow> pattern)
          in host = p \<or> ends_with host (''.'' @ p)))"

definition or_else :: "'a option \<Rightarrow> 'a option \<Rightarrow> 'a option" where
  "or_else a b = (case a of Some x \<Rightarrow> Some x | None \<Rightarrow> b)"

definition url_host :: "string \<Rightarrow> string" where
  "url_host url = (case extract_host url of Some h \<Rightarrow> h | None \<Rightarrow> [])"

definition manual_directive :: "ProxyConfig \<Rightarrow> string \<Rightarrow> string" where
  "manual_directive cfg url =
     (if list_ex (host_matches_no_proxy (url_host url)) (pc_no_proxy cfg) then ''DIRECT''
      else
        let scheme = to_ascii_lowercase (hd (split_on (CHR '':'') url));
            chosen = (if scheme = ''https'' then or_else (pc_https cfg) (pc_http cfg)
                      else if scheme = ''ftp'' then pc_ftp cfg
                      else pc_http cfg)
        in case or_else chosen (pc_socks cfg) of
             Some proxy \<Rightarrow> ''PROXY '' @ proxy
           | None \<Rightarrow> ''DIRECT'')"

definition resolve_for_url :: "'w ProxyEnv \<Rightarrow> string \<Rightarrow> (ProxyState \<times> 'w, string) io" where
  "resolve_for_url E url =
     bind_io (get_state (\<lambda>s. s)) (\<lambda>s.
       let cfg = (case px_active s of Some c \<Rightarrow> c | None \<Rightarrow> default_proxy)
       in case pc_mode cfg of
            NoProxy \<Rightarrow> return_io ''DIRECT''
          | ManualProxy \<Rightarrow> return_io (manual_directive cfg url)
          | AutoProxy \<Rightarrow>
              (case px_pac s of
                 None \<Rightarrow> return_io ''DIRECT''
               | Some script \<Rightarrow>
                   bind_io (try_io (on_world (evaluate (pv_pac E) script url (url_host url)))) (\<lambda>r.
                     return_io (case r of Inr d \<Rightarrow> d | Inl _ \<Rightarrow> ''DIRECT''))))"

section \<open>Hosts of URLs\<close>

definition url_delimiter :: "char \<Rightarrow> bool" where
  "url_delimiter c = (c = CHR ''/'' \<or> c = CHR ''?'' \<or> c = CHR ''#'')"

definition host_char :: "char \<Rightarrow> bool" where
  "host_char c = (\<not> url_delimiter c \<and> c \<noteq> CHR ''@'' \<and> c \<noteq> CHR '':'' \<and> c \<noteq> CHR ''['')"

lemma split_after_scheme:
  "CHR '':'' \<notin> set scheme \<Longrightarrow> split_once_str ''://'' (scheme @ ''://'' @ r) = Some (scheme, r)"
  by (induction scheme) auto

lemma hd_split_by:
  "\<forall>c \<in> set a. \<not> p c \<Longrightarrow> b = [] \<or> p (hd b) \<Longrightarrow> hd (split_by p (a @ b)) = a"
  by (cases b) (auto simp: split_by_none split_by_append)

lemma drop_user:
  assumes "CHR ''@'' \<notin> set h" "user = [] \<or> (\<exists>u. user = u @ ''@'')"
  shows "(case rsplit_once (CHR ''@'') (user @ h) of Some (_, x) \<Rightarrow> x | None \<Rightarrow> user @ h) = h"
proof (cases "user = []")
  case True
  then have "rsplit_once (CHR ''@'') (user @ h) = None" using assms(1) by (simp add: rsplit_once_None)
  with True show ?thesis by simp
next
  case False
  then obtain u where "user = u @ ''@''" using assms(2) by blast
  then have "rsplit_once (CHR ''@'') (user @ h) = Some (u, h)" using assms(1) by (simp add: rsplit_once_Some)
  then show ?thesis by simp
qed

text \<open>The host of a URL is found between the user part, the port and the path, each of which may be
  absent.\<close>

lemma extract_host_url:
  assumes host: "list_all host_char host" "host \<noteq> []"
    and scheme: "CHR '':'' \<notin> set scheme"
    and user: "list_all (\<lambda>c. \<not> url_delimiter c) user" "user = [] \<or> (\<exists>u. user = u @ ''@'')"
    and port: "list_all (\<lambda>c. \<not> url_delimiter c \<and> c \<noteq> CHR ''@'') port" "port = [] \<or> hd port = CHR '':''"
    and rest: "rest = [] \<or> url_delimiter (hd rest)"
  shows "extract_host (scheme @ ''://'' @ user @ host @ port @ rest) = Some host"
proof -
  have "hd (split_by url_delimiter ((user @ host @ port) @ rest)) = user @ host @ port"
    using host user port rest by (intro hd_split_by) (auto simp: list_all_iff host_char_def)
  then have auth: "hd (split_by url_delimiter (user @ host @ port @ rest)) = user @ host @ port" by simp
  have "CHR ''@'' \<notin> set (host @ port)"
    using host port by (auto simp: list_all_iff host_char_def)
  from drop_user [OF this user(2)]
  have drop: "(case rsplit_once (CHR ''@'') (user @ host @ port) of Some (_, x) \<Rightarrow> x | None \<Rightarrow> user @ host @ port) = host @ port" .
  have nb: "strip_prefix ''['' (host @ port) = None"
    using host by (cases host) (auto simp: host_char_def)
  have "hd (split_on (CHR '':'') (host @ port)) = host"
    using host port(2) by (intro hd_split_by) (auto simp: list_all_iff host_char_def)
  then show ?thesis
    unfolding extract_host_def split_after_scheme [OF scheme] url_delimiter_def [symmetric] Let_def option.case prod.case
      auth drop nb
    using host(2) by simp
qed

section \<open>Applying and resolving\<close>

text \<open>Resolving always answers, and changes nothing of the module's state.\<close>

lemma resolve_answers: "\<exists>d w'. resolve_for_url E url (s, w) = Ret (Inr d, (s, w'))"
proof -
  have "\<exists>d w'. bind_io (try_io (on_world (evaluate (pv_pac E) script url (url_host url)))) (\<lambda>r.
      return_io (case r of Inr d \<Rightarrow> d | Inl _ \<Rightarrow> ''DIRECT'')) (s, w) = Ret (Inr d, (s, w'))" for script
  proof -
    obtain r w' where "evaluate (pv_pac E) script url (url_host url) w = Ret (r, w')"
      using returns_ioD [OF evaluate_returns [of "pv_pac E" script url "url_host url"], of w] by blast
    then have "try_io (on_world (evaluate (pv_pac E) script url (url_host url))) (s, w) = Ret (Inr r, (s, w'))"
      by (intro try_io_Ret on_world_Ret)
    then show ?thesis by (auto simp: return_io_def)
  qed
  then show ?thesis
    by (auto simp: resolve_for_url_def Let_def return_io_def split: ProxyMode.split option.split)
qed

lemma apply_inner_active: "apply_inner E cfg (s, w) = Ret (r, (s', w')) \<Longrightarrow> px_active s' = px_active s"
proof -
  have "keeps_io (\<lambda>(t, w). px_active t = px_active s) (apply_inner E cfg)"
    unfolding apply_inner_def set_pac_def
    by (cases "pc_mode cfg"; cases "pc_pac_url cfg")
       (auto intro!: keeps_intros keeps_modify_state)
  then show "apply_inner E cfg (s, w) = Ret (r, (s', w')) \<Longrightarrow> ?thesis"
    by (auto dest: keeps_ioD)
qed

lemma proxy_apply_active:
  assumes "proxy_apply E cfg (s, w) = Ret (r, (s', w'))"
  obtains w1 where "apply_inner E cfg (s\<lparr>px_active := Some cfg\<rparr>, w) = Ret (r, (s', w1))"
proof -
  let ?s = "s\<lparr>px_active := Some cfg\<rparr>"
  obtain q s1 w1 where in1: "apply_inner E cfg (?s, w) = Ret (q, (s1, w1))"
    using assms
    by (cases "apply_inner E cfg (?s, w)") (auto simp: proxy_apply_def then_io_def bind_io_def try_io_def)
  have "r = q \<and> s' = s1"
  proof (cases "is_ok q")
    case False
    then show ?thesis
      using assms in1 by (simp add: proxy_apply_def then_io_def bind_io_def try_io_def return_io_def lift_io_def)
  next
    case True
    obtain q2 w2 where "save_proxy_config E cfg w1 = Ret (q2, w2)"
      using returns_ioD [OF write_json_returns [of "pv_fs E" "pv_codec E" "proxy_config_path (base_dir (pv_data_dir E))" cfg], of w1]
      unfolding save_proxy_config_def by blast
    then have "ignore_io (on_world (save_proxy_config E cfg)) (s1, w1) = Ret (Inr (), (s1, w2))"
      by (simp add: ignore_io_def on_world_def try_io_def bind_io_def return_io_def)
    then show ?thesis
      using assms in1 True by (simp add: proxy_apply_def then_io_def bind_io_def try_io_def lift_io_def)
  qed
  with in1 that show thesis by blast
qed

lemma apply_inner_pac:
  assumes "apply_inner E cfg (s, w) = Ret (r, (s', w'))"
  shows "(pc_mode cfg \<noteq> AutoProxy \<longrightarrow> px_pac s' = None) \<and>
    (pc_mode cfg = AutoProxy \<longrightarrow>
       (case pc_pac_url cfg of
          None \<Rightarrow> \<not> is_ok r
        | Some url \<Rightarrow>
            (is_ok r \<longrightarrow> (\<exists>w1 w2 script. fetch (pv_pac E) url w1 = Ret (Inr script, w2) \<and> px_pac s' = Some script)) \<and>
            (\<not> is_ok r \<longrightarrow> px_pac s' = px_pac s)))"
proof (cases "pc_mode cfg")
  case NoProxy
  with assms show ?thesis
    by (auto simp: apply_inner_def set_pac_def then_io_def dest: on_world_cases)
next
  case ManualProxy
  with assms show ?thesis
    by (auto simp: apply_inner_def set_pac_def then_io_def dest: on_world_cases)
next
  case AutoProxy
  show ?thesis
  proof (cases "pc_pac_url cfg")
    case None
    with AutoProxy assms show ?thesis
      by (auto simp: apply_inner_def set_pac_def then_io_def is_ok_def elim!: bind_io_cases)
  next
    case (Some url)
    from assms AutoProxy Some have run: "bind_io (on_world (proxy_clear (pv_fs E))) (\<lambda>_.
        bind_io (on_world (fetch (pv_pac E) url)) (\<lambda>script.
        bind_io (on_world (map_err_io (\<lambda>e. Config (''PAC script at '' @ url @ '' is invalid: '' @ error_to_string e))
                   (evaluate (pv_pac E) script ''http://example.com/'' ''example.com''))) (\<lambda>_.
          set_pac (Some script)))) (s, w) = Ret (r, (s', w'))"
      by (simp add: apply_inner_def then_io_def)
    from run have "(is_ok r \<longrightarrow> (\<exists>w1 w2 script. fetch (pv_pac E) url w1 = Ret (Inr script, w2) \<and> px_pac s' = Some script)) \<and>
        (\<not> is_ok r \<longrightarrow> px_pac s' = px_pac s)"
      by (fastforce simp: set_pac_def is_ok_def elim!: bind_io_cases dest!: on_world_cases)
    with AutoProxy Some show ?thesis by simp
  qed
qed


text \<open>A file system on which every call succeeds, and a network on which none does.\<close>

definition offline_proxy :: "unit ProxyEnv" where
  "offline_proxy = \<lparr>
     pv_fs = \<lparr>fs_read_to_string = (\<lambda>_ w. (Inr [], w)), fs_write = (\<lambda>_ _ w. (Inr (), w)), fs_rename = (\<lambda>_ _ w. (Inr (), w)),
       fs_create_dir_all = (\<lambda>_ w. (Inr (), w)), fs_remove_file = (\<lambda>_ w. (Inr (), w)), fs_read_dir = (\<lambda>_ w. (Inr [], w)),
       fs_mtime = (\<lambda>_ w. (None, w)), fs_read = (\<lambda>_ w. (Inl missing_file, w))\<rparr>,
     pv_pac = \<lparr>pe_unicode = \<lparr>uc_alphabetic = (\<lambda>_. False), uc_alphanumeric = (\<lambda>_. False), uc_escape = (\<lambda>c. c)\<rparr>,
       pe_connect = (\<lambda>_ _ w. (Inl ''unreachable'', w)), pe_set_read_timeout = (\<lambda>_ w. (Inr (), w)),
       pe_set_write_timeout = (\<lambda>_ w. (Inr (), w)), pe_write_all = (\<lambda>_ w. (Inr (), w)),
       pe_read_to_end = (\<lambda>_ w. (Inr [], w)), pe_lookup_host = (\<lambda>_ w. (Inl [], w)),
       pe_route_source = (\<lambda>w. (Inl [], w)), pe_unix_secs = (\<lambda>w. (0, w))\<rparr>,
     pv_codec = \<lparr>enc = (\<lambda>_. Inr []), dec = (\<lambda>_. Inl [])\<rparr>, pv_data_dir = None\<rparr>"

definition moved_pac :: ProxyConfig where
  "moved_pac = default_proxy\<lparr>pc_mode := AutoProxy, pc_pac_url := Some ''http://new/p''\<rparr>"

lemma moved_pac_fetch:
  "fetch (pv_pac offline_proxy) ''http://new/p'' () =
     Ret (Inl (Other (''connecting to PAC server new:'' @ show_nat 80 @ '': unreachable'')), ())"
proof -
  have "parse_http_url ''http://new/p'' = Inr (''new'', 80, ''/p'')"
    by (simp add: parse_http_url_def bind_r_def ok_or_def)
  then show ?thesis
    by (simp add: fetch_def lift_io_def bind_io_def then_io_def sys_call_def offline_proxy_def)
qed

lemma moved_pac_unreachable:
  "proxy_apply offline_proxy moved_pac (\<lparr>px_active = None, px_pac = Some ''old''\<rparr>, ()) =
     Ret (Inl (Other (''connecting to PAC server new:'' @ show_nat 80 @ '': unreachable'')),
       (\<lparr>px_active = Some moved_pac, px_pac = Some ''old''\<rparr>, ()))"
proof -
  have clear: "proxy_clear (pv_fs offline_proxy) () = Ret (Inr (), ())"
    by (simp add: proxy_clear_def unless_missing_def offline_proxy_def)
  show ?thesis
    by (simp add: proxy_apply_def apply_inner_def then_io_def moved_pac_def clear moved_pac_fetch on_world_def
        bind_io_def try_io_def is_ok_def return_io_def lift_io_def)
qed


text \<open>The profile script quotes nothing: a proxy value with a command substitution is a command that
  every login shell runs.\<close>

lemma proxy_script_unquoted:
  assumes "pc_http cfg = Some v"
  shows "\<exists>a b. proxy_script cfg = a @ export_line ''http_proxy'' v @ b"
  unfolding proxy_script_def export_both_def [of "''http_proxy''"] assms option.case append.assoc
  by (metis append.assoc)

end
