(* ===== verification/Connectivity.thy ===== *)
theory Connectivity
  imports Rust_Io Rust_Str
begin

text \<open>
  The connectivity check, \<^verbatim>\<open>connectivity/\<close>: one plain HTTP request to the configured URL, a bounded
  read of the answer and its classification as open, limited, captive portal or no connection.
\<close>

section \<open>States and classification, \<^verbatim>\<open>connectivity/internet.rs\<close>, \<^verbatim>\<open>captive_portal.rs\<close>\<close>

datatype ConnectivityState = ConnUnknown | ConnNone | ConnPortal | ConnLimited | ConnFull

definition is_usable :: "ConnectivityState \<Rightarrow> bool" where
  "is_usable s = (s = ConnFull \<or> s = ConnLimited)"

definition classify_response :: "u16 \<Rightarrow> u16 \<Rightarrow> bool \<Rightarrow> ConnectivityState" where
  "classify_response status expected_status redirected =
     (if redirected \<or> (300 \<le> status \<and> status < 400) then ConnPortal
      else if status = expected_status then ConnFull
      else if 200 \<le> status \<and> status < 300 then ConnLimited
      else ConnLimited)"

section \<open>The check, \<^verbatim>\<open>connectivity/checker.rs\<close>\<close>

abbreviation (input) EXPECTED_STATUS :: u16 where "EXPECTED_STATUS \<equiv> 204"
abbreviation (input) MAX_RESPONSE_BYTES :: nat where "MAX_RESPONSE_BYTES \<equiv> 16384"

record ParsedUrl =
  pu_host :: string
  pu_port :: u16
  pu_path :: string

definition parse_url :: "string \<Rightarrow> ParsedUrl result" where
  "parse_url url =
     bind_r (ok_or (Config (''connectivity check URL '' @ quoted url @ '' must be plain http://''))
        (strip_prefix ''http://'' url)) (\<lambda>rest.
       let (authority, path) = (case split_once (CHR ''/'') rest of
             Some (a, p) \<Rightarrow> (a, ''/'' @ p) | None \<Rightarrow> (rest, ''/''));
           (host, port) = (case split_once (CHR '':'') authority of
             Some (h, p) \<Rightarrow> (h, case parse_u16 p of Some n \<Rightarrow> n | None \<Rightarrow> 80)
           | None \<Rightarrow> (authority, 80))
       in Inr \<lparr>pu_host = host, pu_port = port, pu_path = path\<rparr>)"

text \<open>The resolver and the TCP stream: \<open>he_connect\<close> resolves and connects, a read gives at most one
  chunk of 4096 bytes, none at the end of the stream or on an error.\<close>

record 'w HttpEnv =
  he_connect :: "string \<Rightarrow> nat \<Rightarrow> 'w \<Rightarrow> bool \<times> 'w"
  he_set_read_timeout :: "nat \<Rightarrow> 'w \<Rightarrow> (string + unit) \<times> 'w"
  he_set_write_timeout :: "nat \<Rightarrow> 'w \<Rightarrow> (string + unit) \<times> 'w"
  he_write_all :: "string \<Rightarrow> 'w \<Rightarrow> bool \<times> 'w"
  he_read :: "'w \<Rightarrow> bytes \<times> 'w"

function read_response :: "'w HttpEnv \<Rightarrow> bytes \<Rightarrow> 'w \<Rightarrow> bytes \<times> 'w" where
  "read_response E response w =
     (case he_read E w of
        (data, w') \<Rightarrow>
          let chunk = take 4096 data
          in if chunk = [] then (response, w')
             else if MAX_RESPONSE_BYTES \<le> length (response @ chunk) then (response @ chunk, w')
             else read_response E (response @ chunk) w')"
  by pat_completeness auto
termination
  by (relation "measure (\<lambda>(E, response, w). MAX_RESPONSE_BYTES - length response)")
     (auto simp: min_def simp flip: length_greater_0_conv)

declare read_response.simps [simp del]

definition http_request :: "ParsedUrl \<Rightarrow> string" where
  "http_request u =
     ''GET '' @ pu_path u @ '' HTTP/1.1'' @ [cr, nl] @ ''Host: '' @ pu_host u @ [cr, nl] @
     ''User-Agent: mitos-network/0.1'' @ [cr, nl] @ ''Connection: close'' @ [cr, nl, cr, nl]"

definition status_of :: "string \<Rightarrow> u16 option" where
  "status_of status_line =
     (case split_whitespace status_line of _ # s # _ \<Rightarrow> parse_u16 s | _ \<Rightarrow> None)"

definition has_location :: "string \<Rightarrow> bool" where
  "has_location text = list_ex (\<lambda>l. starts_with (to_ascii_lowercase l) ''location:'') (lines text)"

definition judge_response :: "bytes \<Rightarrow> ConnectivityState" where
  "judge_response response =
     (if response = [] then ConnNone
      else let text = from_utf8_lossy response in
        case lines text of
          [] \<Rightarrow> ConnNone
        | status_line # _ \<Rightarrow>
            (case status_of status_line of
               None \<Rightarrow> ConnNone
             | Some status \<Rightarrow> classify_response status EXPECTED_STATUS (has_location text)))"

definition check_connectivity :: "'w HttpEnv \<Rightarrow> string \<Rightarrow> nat \<Rightarrow> ('w, ConnectivityState) io" where
  "check_connectivity E url timeout =
     (case parse_url url of
        Inl _ \<Rightarrow> return_io ConnUnknown
      | Inr parsed \<Rightarrow>
          bind_io (ask (he_connect E (pu_host parsed @ '':'' @ show_nat (unat (pu_port parsed))) timeout)) (\<lambda>up.
            if \<not> up then return_io ConnNone
            else then_io (sys_call Io (he_set_read_timeout E timeout))
                (then_io (sys_call Io (he_set_write_timeout E timeout))
                (bind_io (ask (he_write_all E (http_request parsed))) (\<lambda>sent.
                   if \<not> sent then return_io ConnNone
                   else bind_io (ask (read_response E [])) (\<lambda>response.
                     return_io (judge_response response)))))))"

section \<open>Bounds and verdicts\<close>

lemma read_response_bound:
  "length response < MAX_RESPONSE_BYTES \<Longrightarrow>
    length (fst (read_response E response w)) < MAX_RESPONSE_BYTES + 4096"
proof (induction E response w rule: read_response.induct)
  case (1 E response w)
  obtain data w' where r: "he_read E w = (data, w')" by (cases "he_read E w")
  show ?case
    using 1 r by (subst read_response.simps) (auto simp: Let_def not_le)
qed

lemma judge_Full:
  "judge_response response = ConnFull \<longleftrightarrow>
    (\<exists>l ls. lines (from_utf8_lossy response) = l # ls \<and> status_of l = Some 204 \<and>
       \<not> has_location (from_utf8_lossy response) \<and> response \<noteq> [])"
  by (auto simp: judge_response_def Let_def classify_response_def split: list.splits option.splits if_splits)

text \<open>A server that sends its chunks one by one.\<close>

definition http_script :: "bytes list HttpEnv" where
  "http_script = \<lparr>he_connect = (\<lambda>_ _ w. (True, w)), he_set_read_timeout = (\<lambda>_ w. (Inr (), w)),
     he_set_write_timeout = (\<lambda>_ w. (Inr (), w)), he_write_all = (\<lambda>_ w. (True, w)),
     he_read = (\<lambda>w. case w of [] \<Rightarrow> ([], []) | c # cs \<Rightarrow> (c, cs))\<rparr>"

lemma check_connectivity_returns: "returns_io (check_connectivity E url timeout)"
  unfolding check_connectivity_def
  by (cases "parse_url url") (auto intro!: returns_intros)

lemma check_connectivity_Full:
  "check_connectivity E url timeout w = Ret (Inr ConnFull, w') \<Longrightarrow>
    \<exists>w0 response. read_response E [] w0 = (response, w') \<and> judge_response response = ConnFull"
  by (cases "parse_url url") (auto simp: check_connectivity_def io_Ok split: if_splits, metis)


definition open_answer :: string where
  "open_answer = ''HTTP/1.1 204 No Content'' @ [nl]"

lemma open_answer_judged: "judge_response (as_bytes open_answer) = ConnFull"
proof -
  have t: "from_utf8_lossy (as_bytes open_answer) = open_answer"
    by (rule from_utf8_lossy_ascii) (simp add: open_answer_def is_ascii_def)
  have l: "lines open_answer = [''HTTP/1.1 204 No Content'']" by code_simp
  have "split_whitespace ''HTTP/1.1 204 No Content'' = [''HTTP/1.1'', ''204'', ''No'', ''Content'']" by code_simp
  moreover have "parse_u16 ''204'' = Some 204" by (simp add: parse_u16_def parse_uint_def to_digit_def is_digit_def)
  ultimately have "status_of ''HTTP/1.1 204 No Content'' = Some 204" by (simp add: status_of_def)
  moreover have "\<not> has_location open_answer" unfolding has_location_def l by code_simp
  moreover have "as_bytes open_answer \<noteq> []" by (simp add: open_answer_def as_bytes_def)
  ultimately show ?thesis unfolding judge_Full t l by blast
qed

lemma open_answer_read: "read_response http_script [] [as_bytes open_answer] = (as_bytes open_answer, [])"
proof -
  have "length (as_bytes open_answer) < 4096" "as_bytes open_answer \<noteq> []"
    by (simp_all add: open_answer_def as_bytes_def)
  then show ?thesis
    by (subst read_response.simps, simp add: http_script_def Let_def)
       (subst read_response.simps, simp add: Let_def)
qed


end
