(* ===== verification/Monitoring.thy ===== *)
theory Monitoring
  imports Device Dns Connectivity
begin

text \<open>
  The reporting layer, \<^verbatim>\<open>monitoring/\<close>: the diagnostic report (\<^verbatim>\<open>diagnostics.rs\<close>) and the health verdict
  of a device (\<^verbatim>\<open>health.rs\<close>). The signal query is with Wi-Fi, the traffic rates are in
  \<open>Rate_Sampler\<close>.
\<close>

section \<open>The diagnostic report, \<^verbatim>\<open>monitoring/diagnostics.rs\<close>\<close>

record RouteSummary =
  rs_destination :: string
  rs_gateway :: "string option"
  rs_interface_index :: i32
  rs_metric :: "u32 option"

record DnsSummary =
  dsum_nameservers :: "string list"
  dsum_search :: "string list"

record NeighborSummary =
  ns_ip :: string
  ns_mac :: "string option"
  ns_interface_index :: i32
  ns_reachable :: bool

record DiagnosticReport =
  dr_devices :: "NetworkDevice list"
  dr_routes_v4 :: "RouteSummary list"
  dr_routes_v6 :: "RouteSummary list"
  dr_dns :: DnsSummary
  dr_neighbors :: "NeighborSummary list"
  dr_connectivity :: ConnectivityState

definition summarize_route :: "Route \<Rightarrow> RouteSummary" where
  "summarize_route r =
     \<lparr>rs_destination = (case rt_destination r of
          Some (ip, len) \<Rightarrow> show_ip ip @ ''/'' @ show_nat (unat len) | None \<Rightarrow> ''default''),
      rs_gateway = map_option show_ip (rt_gateway r),
      rs_interface_index = rt_oif_index r, rs_metric = rt_metric r\<rparr>"

definition summarize_neighbor :: "Neighbor \<Rightarrow> NeighborSummary" where
  "summarize_neighbor n =
     \<lparr>ns_ip = show_ip (ne_ip n), ns_mac = map_option mac_format (ne_mac n), ns_interface_index = ne_ifindex n,
      ns_reachable = (ne_state n = NsReachable \<or> ne_state n = NsPermanent)\<rparr>"

definition collect_report ::
    "'w Kernel \<Rightarrow> 'w Fs \<Rightarrow> nat \<Rightarrow> NetworkDevice list \<Rightarrow> ConnectivityState \<Rightarrow> ('w, DiagnosticReport) io" where
  "collect_report K F fuel devices connectivity =
     bind_io (route_list K fuel FamV4) (\<lambda>v4.
     bind_io (route_list K fuel FamV6) (\<lambda>v6.
     bind_io (try_io (read_current F)) (\<lambda>rc.
     let conf = (case rc of Inr c \<Rightarrow> c | Inl _ \<Rightarrow> \<lparr>rc_nameservers = [], rc_search = []\<rparr>) in
     bind_io (neighbor_list K fuel None) (\<lambda>neighbors.
       return_io \<lparr>dr_devices = devices, dr_routes_v4 = map summarize_route v4,
         dr_routes_v6 = map summarize_route v6,
         dr_dns = \<lparr>dsum_nameservers = map show_ip (rc_nameservers conf), dsum_search = rc_search conf\<rparr>,
         dr_neighbors = map summarize_neighbor neighbors, dr_connectivity = connectivity\<rparr>))))"

section \<open>The health verdict, \<^verbatim>\<open>monitoring/health.rs\<close>\<close>

datatype HealthStatus = Healthy | Degraded | Unhealthy | HealthUnknown

text \<open>The counters are 64-bit and their sums and the product wrap, as in a release build.\<close>

definition error_rate_high :: "DeviceStatistics \<Rightarrow> bool" where
  "error_rate_high s =
     (let total = ds_rx_packets s + ds_tx_packets s;
          errors = ds_rx_errors s + ds_tx_errors s + ds_rx_dropped s + ds_tx_dropped s
      in 0 < total \<and> 5 < (errors * 100) div max total 1)"

definition device_health :: "NetworkDevice \<Rightarrow> DeviceStatistics option \<Rightarrow> HealthStatus" where
  "device_health device stats =
     (case nd_state device of
        Unmanaged \<Rightarrow> HealthUnknown
      | Unavailable \<Rightarrow> HealthUnknown
      | Failed \<Rightarrow> Unhealthy
      | Connecting \<Rightarrow> Degraded
      | IpConfiguring \<Rightarrow> Degraded
      | Deactivating \<Rightarrow> Degraded
      | Disconnected \<Rightarrow> HealthUnknown
      | Activated \<Rightarrow>
          if \<not> nd_carrier device then Unhealthy
          else (case stats of
                  Some s \<Rightarrow> if error_rate_high s then Degraded else Healthy
                | None \<Rightarrow> Healthy))"

section \<open>Where the verdict turns\<close>

definition packets_of :: "DeviceStatistics \<Rightarrow> nat" where
  "packets_of s = unat (ds_rx_packets s) + unat (ds_tx_packets s)"

definition errors_of :: "DeviceStatistics \<Rightarrow> nat" where
  "errors_of s = unat (ds_rx_errors s) + unat (ds_tx_errors s) + unat (ds_rx_dropped s) + unat (ds_tx_dropped s)"

lemma unat_plus_small: "unat a + unat b < 2 ^ 64 \<Longrightarrow> unat (a + b) = unat a + unat b" for a b :: u64
  by (simp add: unat_word_ariths)

lemma unat_times_100: "100 * unat e < 2 ^ 64 \<Longrightarrow> unat (e * 100) = 100 * unat e" for e :: u64
  by (simp add: unat_word_ariths mult.commute)

lemma error_rate_exact:
  assumes "packets_of s < 2 ^ 64" "100 * errors_of s < 2 ^ 64"
  shows "error_rate_high s \<longleftrightarrow> 0 < packets_of s \<and> 6 * packets_of s \<le> 100 * errors_of s"
proof -
  let ?t = "ds_rx_packets s + ds_tx_packets s"
  let ?e = "ds_rx_errors s + ds_tx_errors s + ds_rx_dropped s + ds_tx_dropped s"
  have t: "unat ?t = packets_of s" using assms(1) by (simp add: packets_of_def unat_plus_small)
  have e: "unat ?e = errors_of s" using assms(2) by (simp add: errors_of_def unat_plus_small)
  have p: "unat (?e * 100) = 100 * errors_of s" using assms(2) unat_times_100 [of ?e] unfolding e by simp
  have pos: "0 < ?t \<longleftrightarrow> 0 < packets_of s" by (simp add: word_less_nat_alt t)
  show ?thesis
  proof (cases "0 < packets_of s")
    case True
    then have "1 \<le> ?t" by (simp add: word_le_nat_alt t)
    then have "max ?t 1 = ?t" by (rule max_absorb1)
    then have "5 < (?e * 100) div max ?t 1 \<longleftrightarrow> 5 < 100 * errors_of s div packets_of s"
      unfolding word_less_nat_alt unat_div p by (simp only: t p unat_div) simp
    also have "\<dots> \<longleftrightarrow> 6 * packets_of s \<le> 100 * errors_of s"
      using True less_eq_div_iff_mult_less_eq [of "packets_of s" 6 "100 * errors_of s"] by auto
    finally show ?thesis using pos True by (simp add: error_rate_high_def Let_def)
  next
    case False
    then show ?thesis using pos by (simp add: error_rate_high_def Let_def)
  qed
qed

text \<open>Health: an activated device with carrier is degraded exactly when errors and drops reach six percent
  of the packets, as long as the counters do not wrap; a rate above five and below six percent still
  counts as healthy.\<close>

theorem health_threshold:
  assumes "nd_state d = Activated" "nd_carrier d" "packets_of s < 2 ^ 64" "100 * errors_of s < 2 ^ 64"
  shows "device_health d (Some s) =
    (if 0 < packets_of s \<and> 6 * packets_of s \<le> 100 * errors_of s then Degraded else Healthy)"
  using assms by (simp add: device_health_def error_rate_exact)

definition up_device :: NetworkDevice where
  "up_device = \<lparr>nd_name = ''eth0'', nd_index = 2, nd_device_type = Ethernet, nd_state = Activated, nd_mac_address = None,
     nd_mtu = 1500, nd_ipv4_addresses = [], nd_ipv6_addresses = [], nd_carrier = True, nd_driver = None,
     nd_active_connection = None\<rparr>"

definition lossy_stats :: DeviceStatistics where
  "lossy_stats = \<lparr>ds_rx_bytes = 0, ds_tx_bytes = 0, ds_rx_packets = 1000, ds_tx_packets = 0, ds_rx_errors = 59,
     ds_tx_errors = 0, ds_rx_dropped = 0, ds_tx_dropped = 0\<rparr>"

theorem health_threshold_witness: "device_health up_device (Some lossy_stats) = Healthy"
  using health_threshold [of up_device lossy_stats]
  by (simp add: up_device_def lossy_stats_def packets_of_def errors_of_def)

end
