(* ===== verification/Bluetooth.thy ===== *)
theory Bluetooth
  imports Security Rust_Io
begin

text \<open>
  Bluetooth, \<^verbatim>\<open>bluetooth/\<close>: devices through \<^verbatim>\<open>bluetoothctl\<close> (\<^verbatim>\<open>bluetooth.rs\<close>) and network access
  through \<^verbatim>\<open>bt-network\<close> (\<^verbatim>\<open>tethering.rs\<close>). Running a program is a call of the environment.
\<close>

datatype run_result = RunError string | RunExit bool string string

text \<open>Program, arguments; the exit status with standard output and standard error, decoded.\<close>

type_synonym 'w runner = "string \<Rightarrow> string list \<Rightarrow> 'w \<Rightarrow> run_result \<times> 'w"

definition run_tool :: "'w runner \<Rightarrow> string \<Rightarrow> string \<Rightarrow> string list \<Rightarrow> ('w, string) io" where
  "run_tool R prog hint args = (\<lambda>w. case R prog args w of
      (RunError e, w') \<Rightarrow> Ret (Inl (Other (''failed to run '' @ prog @ hint @ '': '' @ e)), w')
    | (RunExit success out err, w') \<Rightarrow>
        if \<not> success then Ret (Inl (Other (prog @ '' '' @ str_join '' '' args @ '' failed: '' @ err)), w')
        else Ret (Inr out, w'))"

section \<open>Devices, \<^verbatim>\<open>bluetooth/bluetooth.rs\<close>\<close>

record BluetoothDevice =
  bd_mac :: string
  bd_name :: string
  bd_paired :: bool
  bd_connected :: bool

definition bt_run :: "'w runner \<Rightarrow> string list \<Rightarrow> ('w, string) io" where
  "bt_run R args = run_tool R ''bluetoothctl'' [] args"

definition discard :: "('w, 'a) io \<Rightarrow> ('w, unit) io" where
  "discard m = bind_io m (\<lambda>_. return_io ())"

definition power_on :: "'w runner \<Rightarrow> ('w, unit) io" where
  "power_on R = discard (bt_run R [''power'', ''on''])"

definition power_off :: "'w runner \<Rightarrow> ('w, unit) io" where
  "power_off R = discard (bt_run R [''power'', ''off''])"

definition start_scan :: "'w runner \<Rightarrow> ('w, unit) io" where
  "start_scan R = discard (bt_run R [''scan'', ''on''])"

definition stop_scan :: "'w runner \<Rightarrow> ('w, unit) io" where
  "stop_scan R = discard (bt_run R [''scan'', ''off''])"

text \<open>The address and name of a line \<open>Device AA:BB:CC:DD:EE:FF Some Name\<close>.\<close>

definition device_line :: "string \<Rightarrow> (string \<times> string) option" where
  "device_line line =
     (case split_once (CHR '' '') line of
        None \<Rightarrow> None
      | Some (word, rest) \<Rightarrow>
          if word \<noteq> ''Device'' then None
          else (case split_once (CHR '' '') rest of
                  Some (mac, name) \<Rightarrow> Some (mac, name)
                | None \<Rightarrow> Some (rest, rest)))"

definition bt_device_of :: "'w runner \<Rightarrow> string \<times> string \<Rightarrow> ('w, BluetoothDevice) io" where
  "bt_device_of R = (\<lambda>(mac, name).
     bind_io (try_io (bt_run R [''info'', mac])) (\<lambda>r.
     let info = (case r of Inr s \<Rightarrow> s | Inl _ \<Rightarrow> [])
     in return_io \<lparr>bd_mac = mac, bd_name = name, bd_paired = str_contains info ''Paired: yes'',
                   bd_connected = str_contains info ''Connected: yes''\<rparr>))"

definition list_devices :: "'w runner \<Rightarrow> ('w, BluetoothDevice list) io" where
  "list_devices R =
     bind_io (bt_run R [''devices'']) (\<lambda>raw.
       map_io (List.map_filter device_line (lines raw)) (bt_device_of R))"

definition bt_checked :: "'w runner \<Rightarrow> string \<Rightarrow> string \<Rightarrow> ('w, unit) io" where
  "bt_checked R verb mac =
     then_io (lift_io (validate_mac_address mac)) (discard (bt_run R [verb, mac]))"

definition bt_pair :: "'w runner \<Rightarrow> string \<Rightarrow> ('w, unit) io" where
  "bt_pair R mac = bt_checked R ''pair'' mac"

definition bt_trust :: "'w runner \<Rightarrow> string \<Rightarrow> ('w, unit) io" where
  "bt_trust R mac = bt_checked R ''trust'' mac"

definition bt_connect :: "'w runner \<Rightarrow> string \<Rightarrow> ('w, unit) io" where
  "bt_connect R mac = bt_checked R ''connect'' mac"

definition bt_disconnect :: "'w runner \<Rightarrow> string \<Rightarrow> ('w, unit) io" where
  "bt_disconnect R mac = bt_checked R ''disconnect'' mac"

definition bt_remove :: "'w runner \<Rightarrow> string \<Rightarrow> ('w, unit) io" where
  "bt_remove R mac = bt_checked R ''remove'' mac"

section \<open>Tethering, \<^verbatim>\<open>bluetooth/tethering.rs\<close>\<close>

definition pan_run :: "'w runner \<Rightarrow> string list \<Rightarrow> ('w, string) io" where
  "pan_run R args = run_tool R ''bt-network'' '' (is bluez-tools installed?)'' args"

definition connect_panu :: "'w runner \<Rightarrow> string \<Rightarrow> ('w, string) io" where
  "connect_panu R remote_mac =
     bind_io (pan_run R [''-c'', remote_mac, ''nap'']) (\<lambda>out. return_io (trim out))"

definition pan_disconnect :: "'w runner \<Rightarrow> string \<Rightarrow> ('w, unit) io" where
  "pan_disconnect R remote_mac = discard (pan_run R [''-d'', remote_mac])"

definition start_nap_server :: "'w runner \<Rightarrow> string \<Rightarrow> ('w, unit) io" where
  "start_nap_server R bridge_interface = discard (pan_run R [''-s'', ''nap'', bridge_interface])"

definition stop_nap_server :: "'w runner \<Rightarrow> ('w, unit) io" where
  "stop_nap_server R = discard (pan_run R [''-S'', ''nap''])"

section \<open>Arguments cannot be options\<close>

text \<open>An address that passes the check starts with a hexadecimal digit, so it is never read as an option,
  and the tool is not run at all for one that does not.\<close>

lemma checked_mac_runs_once:
  "bt_checked R verb mac =
    (if validate_mac_address mac = Inr () then discard (bt_run R [verb, mac])
     else fail_io (Parse (quoted mac @ '' is not a valid MAC address'')))"
  by (auto simp: bt_checked_def then_io_def lift_io_def fail_io_def bind_io_def validate_mac_address_def Let_def
      fun_eq_iff)

end
