(* ===== verification/Ipc.thy ===== *)
theory Ipc
  imports Profiles Proxy Monitoring Bluetooth Firewall
begin

text \<open>
  The control socket: the messages (\<^verbatim>\<open>ipc/messages.rs\<close>), their framing (\<^verbatim>\<open>ipc/protocol.rs\<close>), the
  capability each request needs and the server's connection handling (\<^verbatim>\<open>ipc/server.rs\<close>,
  \<^verbatim>\<open>ipc/permissions.rs\<close>), the client (\<^verbatim>\<open>ipc/client.rs\<close>), and the two parts of the manager the messages are
  about: its overall state (\<^verbatim>\<open>manager/state.rs\<close>) and the event bus (\<^verbatim>\<open>manager/events.rs\<close>). JSON is a codec
  given by the caller.
\<close>

section \<open>The overall state, \<^verbatim>\<open>manager/state.rs\<close>\<close>

datatype NetworkState =
  NetUnknown | NetUnavailable | NetDisconnected | NetConnecting | NetConnectedLocal | NetConnected
  | NetLimited | NetPortal | NetDisconnecting

definition overall_state :: "NetworkDevice list \<Rightarrow> ConnectivityState \<Rightarrow> NetworkState" where
  "overall_state devices connectivity =
     (if list_ex (\<lambda>d. nd_state d = Connecting \<or> nd_state d = IpConfiguring) devices then NetConnecting
      else if list_ex (\<lambda>d. nd_state d = Deactivating) devices then NetDisconnecting
      else if list_ex (\<lambda>d. nd_state d = Activated) devices then
        (case connectivity of
           ConnFull \<Rightarrow> NetConnected
         | ConnLimited \<Rightarrow> NetLimited
         | ConnPortal \<Rightarrow> NetPortal
         | ConnNone \<Rightarrow> NetConnectedLocal
         | ConnUnknown \<Rightarrow> NetConnectedLocal)
      else if \<not> list_ex (\<lambda>d. nd_state d \<noteq> Unmanaged) devices then NetUnavailable
      else if \<not> list_ex (\<lambda>d. nd_state d \<noteq> Unavailable \<and> nd_state d \<noteq> Unmanaged) devices then NetUnavailable
      else NetDisconnected)"

section \<open>Messages, \<^verbatim>\<open>ipc/messages.rs\<close>\<close>

datatype Request =
  GetState | ListDevices | GetDevice string | ListConnections | GetConnection string
  | AddConnection ConnectionProfile | DeleteConnection string | ActivateConnection string
  | DeactivateConnection string | ScanWifi string | ListWifiNetworks string
  | ConnectWifi string string SecurityType "string option" | ForgetWifi string string
  | StartHotspot string string "string option" "string option" | StopHotspot string
  | SetFirewallZone string string | AddFirewallRule Rule | RemoveFirewallRule string
  | GetConnectivity | Diagnose | Reload | ListBluetoothDevices | BluetoothPower bool | BluetoothScan bool
  | PairBluetooth string | TrustBluetooth string | ConnectBluetooth string | DisconnectBluetooth string
  | RemoveBluetooth string | SetProxyConfig ProxyConfig | GetProxyConfig | ResolveProxy string

datatype Response =
  RespOk | RespState NetworkState | RespDevices "NetworkDevice list" | RespDevice NetworkDevice
  | RespConnections "ConnectionProfile list" | RespConnection ConnectionProfile
  | RespWifiNetworks "WifiNetwork list" | RespConnectivity ConnectivityState
  | RespDiagnostics DiagnosticReport | RespBluetoothDevices "BluetoothDevice list"
  | RespProxyConfig "ProxyConfig option" | RespProxyResolution string | RespError string

datatype Event =
  StateChanged NetworkState | DeviceAdded NetworkDevice | DeviceRemoved string
  | DeviceStateChanged string DeviceState | ConnectionActivated string | ConnectionDeactivated string
  | ConnectivityChanged ConnectivityState

datatype ServerMessage = MsgResponse Response | MsgEvent Event

section \<open>The event bus, \<^verbatim>\<open>manager/events.rs\<close>\<close>

text \<open>A sender is the queue of events sent on it; whether its receiver still exists is asked of the
  outside.\<close>

record EventBus =
  eb_clients :: "(u64 \<times> Event list) list"
  eb_next_id :: u64

definition bus_new :: EventBus where
  "bus_new = \<lparr>eb_clients = [], eb_next_id = 0\<rparr>"

definition bus_register :: "EventBus \<Rightarrow> u64 \<times> EventBus" where
  "bus_register b =
     (let ident = eb_next_id b
      in (ident, \<lparr>eb_clients = hm_insert ident [] (eb_clients b), eb_next_id = ident + 1\<rparr>))"

definition bus_unregister :: "u64 \<Rightarrow> EventBus \<Rightarrow> EventBus" where
  "bus_unregister ident b = b\<lparr>eb_clients := hm_remove ident (eb_clients b)\<rparr>"

definition bus_broadcast :: "(u64 \<Rightarrow> bool) \<Rightarrow> Event \<Rightarrow> EventBus \<Rightarrow> EventBus" where
  "bus_broadcast alive ev b =
     b\<lparr>eb_clients := map (\<lambda>(i, q). (i, q @ [ev])) (filter (\<lambda>(i, _). alive i) (eb_clients b))\<rparr>"

section \<open>Framing, \<^verbatim>\<open>ipc/protocol.rs\<close>\<close>

abbreviation (input) MAX_MESSAGE_LEN :: nat where "MAX_MESSAGE_LEN \<equiv> 1048576"

record 'w Stream =
  st_write_all :: "bytes \<Rightarrow> 'w \<Rightarrow> (string + unit) \<times> 'w"
  st_flush :: "'w \<Rightarrow> (string + unit) \<times> 'w"
  st_read_exact :: "nat \<Rightarrow> 'w \<Rightarrow> (string + bytes) \<times> 'w"

text \<open>What serde_json provides for a type, on bytes.\<close>

record 'a Json =
  to_vec :: "'a \<Rightarrow> string + bytes"
  from_slice :: "bytes \<Rightarrow> string + 'a"

definition write_message :: "'w Stream \<Rightarrow> 'a Json \<Rightarrow> 'a \<Rightarrow> ('w, unit) io" where
  "write_message S J value =
     bind_io (serde Parse (to_vec J value)) (\<lambda>buf.
       if MAX_MESSAGE_LEN < length buf then fail_io (Other ''outgoing IPC message too large'')
       else
         then_io (sys_call Io (st_write_all S (le32 (word_of_nat (length buf)))))
        (then_io (sys_call Io (st_write_all S buf))
                 (sys_call Io (st_flush S))))"

definition read_message :: "'w Stream \<Rightarrow> 'a Json \<Rightarrow> ('w, 'a) io" where
  "read_message S J =
     bind_io (sys_call Io (st_read_exact S 4)) (\<lambda>b.
       let len = from_le32 (b ! 0) (b ! 1) (b ! 2) (b ! 3)
       in if MAX_MESSAGE_LEN < unat len then
            fail_io (Other (''incoming IPC message too large ('' @ show_nat (unat len) @ '' bytes)''))
          else
            bind_io (sys_call Io (st_read_exact S (unat len))) (\<lambda>buf. serde Parse (from_slice J buf)))"

section \<open>The client, \<^verbatim>\<open>ipc/client.rs\<close>\<close>

definition client_connect :: "(string \<Rightarrow> 'w \<Rightarrow> (string + unit) \<times> 'w) \<Rightarrow> string \<Rightarrow> ('w, unit) io" where
  "client_connect conn path =
     sys_call (\<lambda>e. Other (''could not connect to mitos-network at '' @ path @ '': '' @ e @ '' (is the daemon running?)''))
       (conn path)"

fun await_response :: "'w Stream \<Rightarrow> ServerMessage Json \<Rightarrow> nat \<Rightarrow> ('w, Response) io" where
  "await_response S J 0 w = NoFuel"
| "await_response S J (Suc fuel) w =
     bind_io (read_message S J) (\<lambda>m.
       case m of MsgResponse r \<Rightarrow> return_io r | MsgEvent _ \<Rightarrow> await_response S J fuel) w"

definition client_request ::
    "'w Stream \<Rightarrow> Request Json \<Rightarrow> ServerMessage Json \<Rightarrow> nat \<Rightarrow> Request \<Rightarrow> ('w, Response) io" where
  "client_request S Jq J fuel req = then_io (write_message S Jq req) (await_response S J fuel)"

fun next_event :: "'w Stream \<Rightarrow> ServerMessage Json \<Rightarrow> nat \<Rightarrow> ('w, Event) io" where
  "next_event S J 0 w = NoFuel"
| "next_event S J (Suc fuel) w =
     bind_io (read_message S J) (\<lambda>m.
       case m of MsgEvent e \<Rightarrow> return_io e | MsgResponse _ \<Rightarrow> next_event S J fuel) w"

section \<open>Requests and capabilities, \<^verbatim>\<open>ipc/server.rs\<close>\<close>

fun required_capability :: "Request \<Rightarrow> Capability" where
  "required_capability GetState = ViewState"
| "required_capability ListDevices = ViewState"
| "required_capability (GetDevice _) = ViewState"
| "required_capability ListConnections = ViewState"
| "required_capability (GetConnection _) = ViewState"
| "required_capability (ListWifiNetworks _) = ViewState"
| "required_capability GetConnectivity = ViewState"
| "required_capability ListBluetoothDevices = ViewState"
| "required_capability GetProxyConfig = ViewState"
| "required_capability (ResolveProxy _) = ViewState"
| "required_capability Diagnose = ViewState"
| "required_capability (AddConnection _) = ManageConnections"
| "required_capability (DeleteConnection _) = ManageConnections"
| "required_capability (ActivateConnection _) = ManageConnections"
| "required_capability (DeactivateConnection _) = ManageConnections"
| "required_capability (ScanWifi _) = ManageWifi"
| "required_capability (ConnectWifi _ _ _ _) = ManageWifi"
| "required_capability (ForgetWifi _ _) = ManageWifi"
| "required_capability (StartHotspot _ _ _ _) = ManageHotspot"
| "required_capability (StopHotspot _) = ManageHotspot"
| "required_capability (SetFirewallZone _ _) = ManageFirewall"
| "required_capability (AddFirewallRule _) = ManageFirewall"
| "required_capability (RemoveFirewallRule _) = ManageFirewall"
| "required_capability (BluetoothPower _) = ManageBluetooth"
| "required_capability (BluetoothScan _) = ManageBluetooth"
| "required_capability (PairBluetooth _) = ManageBluetooth"
| "required_capability (TrustBluetooth _) = ManageBluetooth"
| "required_capability (ConnectBluetooth _) = ManageBluetooth"
| "required_capability (DisconnectBluetooth _) = ManageBluetooth"
| "required_capability (RemoveBluetooth _) = ManageBluetooth"
| "required_capability (SetProxyConfig _) = ManageProxy"
| "required_capability Reload = Admin"

section \<open>One connection, \<^verbatim>\<open>ipc/server.rs\<close> and \<^verbatim>\<open>ipc/permissions.rs\<close>\<close>

abbreviation (input) MAX_REQUESTS_PER_SEC :: u32 where "MAX_REQUESTS_PER_SEC \<equiv> 50"
abbreviation (input) MAX_CONNECTIONS :: nat where "MAX_CONNECTIONS \<equiv> 128"

text \<open>The connection's socket and clock. \<open>co_register\<close> asks the manager for a place on the event bus and
  gives nothing when the manager is gone or does not reply.\<close>

record 'w ConnEnv =
  co_stream :: "'w Stream"
  co_requests :: "Request Json"
  co_messages :: "ServerMessage Json"
  co_groups :: GroupDb
  co_now :: "'w \<Rightarrow> nat \<times> 'w"
  co_sleep :: "nat \<Rightarrow> 'w \<Rightarrow> 'w"
  co_peercred :: "'w \<Rightarrow> (string + PeerIdentity) \<times> 'w"
  co_try_clone :: "'w \<Rightarrow> (string + unit) \<times> 'w"
  co_register :: "('w, u64) io"
  co_unregister :: "u64 \<Rightarrow> ('w, unit) io"

text \<open>What the manager's thread does with a request: an answer, none, or an error when it is gone.\<close>

type_synonym 'w manager_link = "Request \<Rightarrow> PeerIdentity \<Rightarrow> ('w, Response option) io"

definition peer_identity :: "'w ConnEnv \<Rightarrow> ('w, PeerIdentity) io" where
  "peer_identity E = sys_call (\<lambda>e. Other (''SO_PEERCRED failed: '' @ e)) (co_peercred E)"

text \<open>The throttle's window: when it began, in milliseconds, and how many requests it has seen.\<close>

type_synonym window = "nat \<times> u32"

definition throttle :: "'w ConnEnv \<Rightarrow> window \<Rightarrow> ('w, window) io" where
  "throttle E win =
     bind_io (ask (co_now E)) (\<lambda>now.
     bind_io (if 1000 \<le> now - fst win then bind_io (ask (co_now E)) (\<lambda>again. return_io (again, 0))
              else return_io win) (\<lambda>(start, count).
     let count' = count + 1 in
     then_io (if MAX_REQUESTS_PER_SEC < count' then (\<lambda>w. Ret (Inr (), co_sleep E 50 w)) else return_io ())
       (return_io (start, count'))))"

text \<open>The authorization decision and the hand-over to the manager.\<close>

definition answer_request :: "GroupDb \<Rightarrow> 'w manager_link \<Rightarrow> PeerIdentity \<Rightarrow> Request \<Rightarrow> ('w, Response) io" where
  "answer_request db mgr identity req =
     (case check db identity (required_capability req) of
        Inr _ \<Rightarrow> bind_io (mgr req identity) (\<lambda>r.
          return_io (case r of Some resp \<Rightarrow> resp | None \<Rightarrow> RespError ''manager did not reply''))
      | Inl e \<Rightarrow> return_io (RespError (error_to_string e)))"

definition request_step :: "'w ConnEnv \<Rightarrow> 'w manager_link \<Rightarrow> PeerIdentity \<Rightarrow> window \<Rightarrow> ('w, window) io" where
  "request_step E mgr identity win =
     bind_io (read_message (co_stream E) (co_requests E)) (\<lambda>req.
     bind_io (throttle E win) (\<lambda>win'.
     bind_io (answer_request (co_groups E) mgr identity req) (\<lambda>resp.
     then_io (write_message (co_stream E) (co_messages E) (MsgResponse resp))
       (return_io win'))))"

text \<open>The loop leaves only through an error; \<open>fuel\<close> bounds the number of requests.\<close>

fun request_loop :: "'w ConnEnv \<Rightarrow> 'w manager_link \<Rightarrow> PeerIdentity \<Rightarrow> nat \<Rightarrow> window \<Rightarrow> ('w, unit) io" where
  "request_loop E mgr identity 0 win w = NoFuel"
| "request_loop E mgr identity (Suc fuel) win w =
     bind_io (request_step E mgr identity win) (request_loop E mgr identity fuel) w"

text \<open>The events of a connection, written until a write fails.\<close>

fun event_loop :: "'w Stream \<Rightarrow> ServerMessage Json \<Rightarrow> Event list \<Rightarrow> ('w, unit) io" where
  "event_loop S J [] = return_io ()"
| "event_loop S J (ev # evs) =
     bind_io (try_io (write_message S J (MsgEvent ev))) (\<lambda>r.
       case r of Inl _ \<Rightarrow> return_io () | Inr _ \<Rightarrow> event_loop S J evs)"

definition handle_connection :: "'w ConnEnv \<Rightarrow> 'w manager_link \<Rightarrow> nat \<Rightarrow> ('w, unit) io" where
  "handle_connection E mgr fuel =
     bind_io (peer_identity E) (\<lambda>identity.
     then_io (sys_call Io (co_try_clone E))
    (bind_io (co_register E) (\<lambda>client_id.
     bind_io (ask (co_now E)) (\<lambda>now.
     bind_io (try_io (request_loop E mgr identity fuel (now, 0))) (\<lambda>result.
     then_io (ignore_io (co_unregister E client_id))
       (lift_io result))))))"

section \<open>Accepting connections, \<^verbatim>\<open>ipc/server.rs\<close>\<close>

text \<open>The socket: its directory, a stale socket removed, bound, and opened to every local user.\<close>

record 'w ListenEnv =
  li_create_dir_all :: "string \<Rightarrow> 'w \<Rightarrow> (string + unit) \<times> 'w"
  li_remove_file :: "string \<Rightarrow> 'w \<Rightarrow> (string + unit) \<times> 'w"
  li_bind :: "string \<Rightarrow> 'w \<Rightarrow> (string + unit) \<times> 'w"
  li_set_mode :: "string \<Rightarrow> nat \<Rightarrow> 'w \<Rightarrow> (string + unit) \<times> 'w"

definition serve_listen :: "'w ListenEnv \<Rightarrow> string \<Rightarrow> ('w, unit) io" where
  "serve_listen L path =
     then_io (case path_parent path of Some p \<Rightarrow> sys_call Io (li_create_dir_all L p) | None \<Rightarrow> return_io ())
    (then_io (ignore_io (sys_call Io (li_remove_file L path)))
    (then_io (sys_call Io (li_bind L path))
             (sys_call Io (li_set_mode L path 438))))"

text \<open>
  The accept loop and the handler threads share the counter \<open>active_connections\<close>; each access is one
  atomic step and the steps interleave. \<open>Claimed n\<close> is the accept loop between \<open>fetch_add\<close>, which gave it
  \<open>n\<close>, and its decision.
\<close>

datatype accept_phase = Accepting | Claimed nat

record Server =
  sv_counter :: nat
  sv_running :: nat
  sv_phase :: accept_phase

definition server_start :: Server where
  "server_start = \<lparr>sv_counter = 0, sv_running = 0, sv_phase = Accepting\<rparr>"

inductive server_step :: "Server \<Rightarrow> Server \<Rightarrow> bool" where
  accept_failed: "sv_phase s = Accepting \<Longrightarrow> server_step s s"
| claim: "sv_phase s = Accepting \<Longrightarrow>
    server_step s (s\<lparr>sv_counter := sv_counter s + 1, sv_phase := Claimed (sv_counter s)\<rparr>)"
| refuse: "sv_phase s = Claimed prior \<Longrightarrow> MAX_CONNECTIONS \<le> prior \<Longrightarrow>
    server_step s (s\<lparr>sv_counter := sv_counter s - 1, sv_phase := Accepting\<rparr>)"
| spawned: "sv_phase s = Claimed prior \<Longrightarrow> prior < MAX_CONNECTIONS \<Longrightarrow>
    server_step s (s\<lparr>sv_running := sv_running s + 1, sv_phase := Accepting\<rparr>)"
| spawn_failed: "sv_phase s = Claimed prior \<Longrightarrow> prior < MAX_CONNECTIONS \<Longrightarrow>
    server_step s (s\<lparr>sv_counter := sv_counter s - 1, sv_phase := Accepting\<rparr>)"
| slot_drop: "0 < sv_running s \<Longrightarrow>
    server_step s (s\<lparr>sv_counter := sv_counter s - 1, sv_running := sv_running s - 1\<rparr>)"

inductive_cases server_stepE: "server_step s s'"

definition server_inv :: "Server \<Rightarrow> bool" where
  "server_inv s \<longleftrightarrow> sv_running s \<le> MAX_CONNECTIONS \<and>
     (case sv_phase s of
        Accepting \<Rightarrow> sv_counter s = sv_running s
      | Claimed prior \<Rightarrow> sv_counter s = sv_running s + 1 \<and> sv_running s \<le> prior)"

lemma server_step_inv: "server_step s s' \<Longrightarrow> server_inv s \<Longrightarrow> server_inv s'"
  by (induction rule: server_step.induct) (auto simp: server_inv_def split: accept_phase.splits)

text \<open>C22. However accepts and ending connections interleave, at most 128 connection handlers run at once, a slot is
  never lost or released twice, and when all handlers have ended the counter is back at zero.\<close>

theorem connection_cap:
  assumes "server_step\<^sup>*\<^sup>* server_start s"
  shows "sv_running s \<le> MAX_CONNECTIONS \<and>
    sv_counter s = sv_running s + (case sv_phase s of Accepting \<Rightarrow> 0 | Claimed _ \<Rightarrow> 1)"
proof -
  have "server_inv server_start" by (simp add: server_inv_def server_start_def)
  with assms have "server_inv s" by (induction rule: rtranclp_induct) (auto intro: server_step_inv)
  then show ?thesis by (auto simp: server_inv_def split: accept_phase.splits)
qed

theorem connection_cap_witness:
  "server_step\<^sup>*\<^sup>* server_start \<lparr>sv_counter = 1, sv_running = 1, sv_phase = Accepting\<rparr> \<and>
   sv_running \<lparr>sv_counter = 1, sv_running = 1, sv_phase = Accepting\<rparr> \<le> 128"
proof -
  let ?c = "\<lparr>sv_counter = 1, sv_running = 0, sv_phase = Claimed 0\<rparr>"
  have "server_step server_start ?c" using claim [of server_start] by (simp add: server_start_def)
  moreover have "server_step ?c \<lparr>sv_counter = 1, sv_running = 1, sv_phase = Accepting\<rparr>"
    using spawned [of ?c 0] by simp
  ultimately have "server_step\<^sup>*\<^sup>* server_start \<lparr>sv_counter = 1, sv_running = 1, sv_phase = Accepting\<rparr>"
    by (meson converse_rtranclp_into_rtranclp r_into_rtranclp)
  from connection_cap [OF this] this show ?thesis by simp
qed

section \<open>Framing round trip\<close>

text \<open>An in-memory stream: what is written is appended, what is read is taken from the front.\<close>

definition pipe :: "bytes Stream" where
  "pipe = \<lparr>st_write_all = (\<lambda>b w. (Inr (), w @ b)), st_flush = (\<lambda>w. (Inr (), w)),
     st_read_exact = (\<lambda>n w. if n \<le> length w then (Inr (take n w), drop n w)
       else (Inl ''failed to fill whole buffer'', []))\<rparr>"

definition json_frame :: "bytes \<Rightarrow> bytes" where
  "json_frame buf = le32 (word_of_nat (length buf)) @ buf"

lemma pipe_calls:
  "sys_call mk (st_write_all pipe b) w = Ret (Inr (), w @ b)"
  "sys_call mk (st_flush pipe) w = Ret (Inr (), w)"
  by (simp_all add: sys_call_def pipe_def)

lemma write_pipe:
  assumes "to_vec J v = Inr buf" "length buf \<le> MAX_MESSAGE_LEN"
  shows "write_message pipe J v w = Ret (Inr (), w @ json_frame buf)"
  using assms by (simp add: write_message_def serde_def lift_io_unit then_io_def pipe_calls json_frame_def)

lemma frame_length:
  assumes "length buf \<le> MAX_MESSAGE_LEN"
  shows "unat (word_of_nat (length buf) :: u32) = length buf"
proof -
  have "length buf < 2 ^ 32" using assms by simp
  then show ?thesis by (simp add: unat_of_nat)
qed

lemma read_pipe:
  assumes "length buf \<le> MAX_MESSAGE_LEN"
  shows "read_message pipe J (json_frame buf @ rest) = Ret (map_err Parse (from_slice J buf), rest)"
proof -
  let ?n = "word_of_nat (length buf) :: u32"
  have four: "sys_call Io (st_read_exact pipe 4) (json_frame buf @ rest) = Ret (Inr (le32 ?n), buf @ rest)"
    by (simp add: sys_call_def pipe_def json_frame_def length_wire)
  have "sys_call Io (st_read_exact pipe (length buf)) (buf @ rest) = Ret (Inr buf, rest)"
    by (simp add: sys_call_def pipe_def)
  then show ?thesis
    using assms from_wire(4) [of ?n]
    by (simp add: read_message_def four Let_def frame_length serde_def lift_io_def)
qed

text \<open>C21. Any sequence of messages of at most one MiB each is read back from the wire as it was written, and nothing
  is left over; a longer message is refused by either side without reading or writing its
  bytes.\<close>

theorem framing_roundtrip:
  assumes "\<forall>v \<in> set vs. \<exists>buf. to_vec J v = Inr buf \<and> length buf \<le> MAX_MESSAGE_LEN \<and> from_slice J buf = Inr v"
  shows "\<exists>wire. for_io vs (write_message pipe J) [] = Ret (Inr (), wire) \<and>
    map_io (replicate (length vs) ()) (\<lambda>_. read_message pipe J) wire = Ret (Inr vs, []) \<and>
    (\<forall>v buf S w. to_vec J v = Inr buf \<and> MAX_MESSAGE_LEN < length buf \<longrightarrow>
       write_message S J v w = Ret (Inl (Other ''outgoing IPC message too large''), w)) \<and>
    (\<forall>n rest. MAX_MESSAGE_LEN < unat n \<longrightarrow>
       read_message pipe J (le32 n @ rest) =
         Ret (Inl (Other (''incoming IPC message too large ('' @ show_nat (unat n) @ '' bytes)'')), rest))"
proof -
  define f where "f v = (SOME buf. to_vec J v = Inr buf \<and> length buf \<le> MAX_MESSAGE_LEN \<and> from_slice J buf = Inr v)" for v
  have f: "to_vec J v = Inr (f v)" "length (f v) \<le> MAX_MESSAGE_LEN" "from_slice J (f v) = Inr v" if "v \<in> set vs" for v
    using someI_ex [of "\<lambda>buf. to_vec J v = Inr buf \<and> length buf \<le> MAX_MESSAGE_LEN \<and> from_slice J buf = Inr v"] assms that
    unfolding f_def by blast+
  have w: "set us \<subseteq> set vs \<Longrightarrow> for_io us (write_message pipe J) w = Ret (Inr (), w @ concat (map (json_frame \<circ> f) us))" for us w
    by (induction us arbitrary: w) (auto simp: return_io_apply then_io_def write_pipe f)
  have r: "set us \<subseteq> set vs \<Longrightarrow> map_io (replicate (length us) ()) (\<lambda>_. read_message pipe J) (concat (map (json_frame \<circ> f) us))
      = Ret (Inr us, [])" for us
    by (induction us) (auto simp: return_io_apply read_pipe f map_err_def)
  have big: "write_message S J v w = Ret (Inl (Other ''outgoing IPC message too large''), w)"
    if "to_vec J v = Inr buf" "MAX_MESSAGE_LEN < length buf" for v buf and S :: "'b Stream" and w
    using that by (simp add: write_message_def serde_def lift_io_unit fail_io_def)
  have huge: "read_message pipe J (le32 n @ rest) =
         Ret (Inl (Other (''incoming IPC message too large ('' @ show_nat (unat n) @ '' bytes)'')), rest)"
    if "MAX_MESSAGE_LEN < unat n" for n rest
  proof -
    have "sys_call Io (st_read_exact pipe 4) (le32 n @ rest) = Ret (Inr (le32 n), rest)"
      by (simp add: sys_call_def pipe_def length_wire)
    then show ?thesis using that from_wire(4) [of n] by (simp add: read_message_def Let_def fail_io_def)
  qed
  from w [of vs "[]"] r [of vs] big huge show ?thesis by auto
qed

definition unit_json :: "unit Json" where
  "unit_json = \<lparr>to_vec = (\<lambda>_. Inr [110, 117, 108, 108]),
     from_slice = (\<lambda>b. if b = [110, 117, 108, 108] then Inr () else Inl ''not null'')\<rparr>"

theorem framing_roundtrip_witness:
  "\<exists>wire. for_io [(), ()] (write_message pipe unit_json) [] = Ret (Inr (), wire) \<and>
     map_io [(), ()] (\<lambda>_. read_message pipe unit_json) wire = Ret (Inr [(), ()], [])"
  using framing_roundtrip [of "[(), ()]" unit_json] by (auto simp: unit_json_def)

text \<open>The client skips the events that arrive before its response.\<close>

lemma await_response_skips:
  assumes "\<forall>m \<in> set (map MsgEvent evs @ [MsgResponse r]). to_vec J m = Inr (f m) \<and> length (f m) \<le> MAX_MESSAGE_LEN \<and>
      from_slice J (f m) = Inr m"
    and "length evs < fuel"
  shows "await_response pipe J fuel (concat (map (\<lambda>m. json_frame (f m)) (map MsgEvent evs @ [MsgResponse r])) @ rest) =
     Ret (Inr r, rest)"
  using assms
proof (induction evs arbitrary: fuel)
  case Nil
  then obtain n where "fuel = Suc n" by (cases fuel) auto
  with Nil show ?case by (simp add: read_pipe map_err_def return_io_apply)
next
  case (Cons e evs)
  then obtain n where n: "fuel = Suc n" by (cases fuel) auto
  let ?rest = "concat (map (\<lambda>m. json_frame (f m)) (map MsgEvent evs @ [MsgResponse r])) @ rest"
  have "read_message pipe J (json_frame (f (MsgEvent e)) @ ?rest) = Ret (Inr (MsgEvent e), ?rest)"
    using Cons.prems by (simp add: read_pipe map_err_def)
  with Cons n show ?case by (simp add: comp_def)
qed

section \<open>The throttle\<close>

definition conn_clock :: "'w ConnEnv \<Rightarrow> ('w \<Rightarrow> nat) \<Rightarrow> bool" where
  "conn_clock E tm \<longleftrightarrow> (\<forall>w. fst (co_now E w) = tm w \<and> tm w \<le> tm (snd (co_now E w))) \<and>
     (\<forall>w n. tm w + n \<le> tm (co_sleep E n w))"

text \<open>\<open>n\<close> requests of one connection pass the throttle, with any amount of time between them.\<close>

inductive throttled :: "'w ConnEnv \<Rightarrow> ('w \<Rightarrow> nat) \<Rightarrow> nat \<Rightarrow> window \<times> 'w \<Rightarrow> window \<times> 'w \<Rightarrow> bool"
  for E tm where
  none: "throttled E tm 0 x x"
| more: "throttled E tm n x (win, w) \<Longrightarrow> tm w \<le> tm w1 \<Longrightarrow> throttle E win w1 = Ret (Inr win', w2) \<Longrightarrow>
    throttled E tm (Suc n) x (win', w2)"

lemma throttle_window:
  assumes c: "conn_clock E tm" and t: "throttle E (s, k) w = Ret (Inr (s', k'), w')"
  shows "(if 1000 \<le> tm w - s then tm w \<le> s' else s' = s \<and> k' = k + 1 \<and>
      tm w + (if MAX_REQUESTS_PER_SEC < k + 1 then 50 else 0) \<le> tm w')"
proof -
  obtain w1 where w1: "co_now E w = (tm w, w1)" "tm w \<le> tm w1"
    using c unfolding conn_clock_def by (metis prod.collapse)
  obtain w2 where w2: "co_now E w1 = (tm w1, w2)" "tm w1 \<le> tm w2"
    using c unfolding conn_clock_def by (metis prod.collapse)
  have s: "tm x + 50 \<le> tm (co_sleep E 50 x)" for x using c unfolding conn_clock_def by blast
  show ?thesis
    using t w1 w2 s [of w1] s [of w2]
    by (auto simp: throttle_def ask_def then_io_def bind_io_def return_io_def Let_def split: if_splits)
qed

lemma throttled_inv:
  assumes "throttled E tm n x y" "conn_clock E tm" "x = ((tm w0, 0), w0)" "y = ((s, k), w)"
  shows "tm w0 \<le> s \<and> (s = tm w0 \<longrightarrow> unat k = n \<and> n \<le> 70 \<and> tm w0 + 50 * (n - 50) \<le> tm w)"
  using assms
proof (induction arbitrary: s k w rule: throttled.induct)
  case (more n x win w1 w2 win' w3)
  obtain s1 k1 where win: "win = (s1, k1)" by (cases win)
  with more have IH: "tm w0 \<le> s1" "s1 = tm w0 \<longrightarrow> unat k1 = n \<and> n \<le> 70 \<and> tm w0 + 50 * (n - 50) \<le> tm w1"
    by auto
  have step: "if 1000 \<le> tm w2 - s1 then tm w2 \<le> s else s = s1 \<and> k = k1 + 1 \<and>
      tm w2 + (if MAX_REQUESTS_PER_SEC < k1 + 1 then 50 else 0) \<le> tm w"
    using throttle_window [OF more.prems(1), of s1 k1 w2 s k w] more win by simp
  show ?case
  proof (cases "1000 \<le> tm w2 - s1")
    case True
    with step IH(1) show ?thesis by auto
  next
    case False
    with step have s: "s = s1" "k = k1 + 1" by auto
    have "unat k = Suc n \<and> Suc n \<le> 70 \<and> tm w0 + 50 * (Suc n - 50) \<le> tm w" if "s1 = tm w0"
    proof -
      from that IH have n: "unat k1 = n" "n \<le> 70" "tm w0 + 50 * (n - 50) \<le> tm w2" using more.hyps(2) by auto
      have "n \<le> 69" using n False that by simp
      moreover have k: "unat (k1 + 1) = Suc n" using n by (simp add: unat_word_ariths)
      moreover have "(MAX_REQUESTS_PER_SEC < k1 + 1) = (50 < Suc n)" using k by (simp add: word_less_nat_alt)
      moreover have "tm w2 + (if 50 < Suc n then 50 else 0) \<le> tm w" using step False calculation(3) by simp
      ultimately show ?thesis using n s by (auto split: if_splits)
    qed
    with s IH(1) show ?thesis by auto
  qed
qed (auto simp: unat_0)

text \<open>C23. A connection passes at most 70 requests in any one window of the throttle: the 50 of the budget, and then one for
  each 50 milliseconds of delay until the second is over, however its requests are spaced.\<close>

theorem throttle_bound:
  assumes "conn_clock E tm" "throttled E tm n ((tm w0, 0), w0) ((tm w0, k), w)"
  shows "n \<le> 70 \<and> unat k = n \<and> tm w0 + 50 * (n - 50) \<le> tm w"
  using throttled_inv [OF assms(2,1) refl refl] by simp

definition still_conn :: "nat ConnEnv" where
  "still_conn = \<lparr>co_stream = \<lparr>st_write_all = (\<lambda>_ w. (Inr (), w)), st_flush = (\<lambda>w. (Inr (), w)),
       st_read_exact = (\<lambda>_ w. (Inl ''closed'', w))\<rparr>,
     co_requests = \<lparr>to_vec = (\<lambda>_. Inl []), from_slice = (\<lambda>_. Inl [])\<rparr>,
     co_messages = \<lparr>to_vec = (\<lambda>_. Inl []), from_slice = (\<lambda>_. Inl [])\<rparr>,
     co_groups = \<lparr>gd_getgrnam = (\<lambda>_. None), gd_getpwuid = (\<lambda>_. None), gd_getgrgid = (\<lambda>_. None)\<rparr>,
     co_now = (\<lambda>w. (w, w)), co_sleep = (\<lambda>n w. w + n),
     co_peercred = (\<lambda>w. (Inr \<lparr>pi_uid = 1000, pi_gid = 1000, pi_pid = 1\<rparr>, w)),
     co_try_clone = (\<lambda>w. (Inr (), w)), co_register = return_io 0, co_unregister = (\<lambda>_. return_io ())\<rparr>"

theorem throttle_bound_witness:
  "throttled still_conn id 1 ((id 0, 0), 0) ((id 0, 1), 0) \<and> (1::nat) \<le> 70"
proof -
  have c: "conn_clock still_conn id" by (simp add: conn_clock_def still_conn_def)
  have "throttle still_conn (0, 0) 0 = Ret (Inr (0, 1), 0)"
    by (simp add: throttle_def ask_def still_conn_def then_io_def bind_io_def return_io_def Let_def)
  then have "throttled still_conn id (Suc 0) ((id 0, 0), 0) ((id 0, 1), 0)"
    using more [OF none [of still_conn id "((0, 0), 0)"], of 0] by simp
  with throttle_bound [OF c, of "Suc 0" 0 1 0] show ?thesis by simp
qed

end
