(* ===== verification/Logging.thy ===== *)
theory Logging
  imports Rust_Io Rust_Str
begin

text \<open>
  Logging, \<^verbatim>\<open>logging/\<close>: the leveled daemon log (\<^verbatim>\<open>logger.rs\<close>) and the append-only audit log
  (\<^verbatim>\<open>audit.rs\<close>).
\<close>

section \<open>The daemon log, \<^verbatim>\<open>logging/logger.rs\<close>\<close>

datatype Level = LevelError | LevelWarn | LevelInfo | LevelDebug

fun level_u8 :: "Level \<Rightarrow> nat" where
  "level_u8 LevelError = 0"
| "level_u8 LevelWarn = 1"
| "level_u8 LevelInfo = 2"
| "level_u8 LevelDebug = 3"

text \<open>The new value of \<open>MIN_LEVEL\<close>.\<close>

definition set_level :: "string \<Rightarrow> Level" where
  "set_level name =
     (if name = ''error'' then LevelError
      else if name = ''warn'' then LevelWarn
      else if name = ''debug'' \<or> name = ''trace'' then LevelDebug
      else LevelInfo)"

definition log_enabled :: "Level \<Rightarrow> Level \<Rightarrow> bool" where
  "log_enabled min_level level = (level_u8 level \<le> level_u8 min_level)"

fun level_tag :: "Level \<Rightarrow> string" where
  "level_tag LevelError = ''ERROR''"
| "level_tag LevelWarn = ''WARN''"
| "level_tag LevelInfo = ''INFO''"
| "level_tag LevelDebug = ''DEBUG''"

text \<open>What is printed to standard error, if anything.\<close>

definition log_line :: "Level \<Rightarrow> Level \<Rightarrow> string \<Rightarrow> string option" where
  "log_line min_level level msg =
     (if log_enabled min_level level then Some (''['' @ level_tag level @ ''] '' @ msg @ [nl]) else None)"

section \<open>The audit log, \<^verbatim>\<open>logging/audit.rs\<close>\<close>

record 'w AuditEnv =
  au_mkdir :: "string \<Rightarrow> 'w \<Rightarrow> (string + unit) \<times> 'w"
  au_open :: "string \<Rightarrow> 'w \<Rightarrow> (string + unit) \<times> 'w"
  au_unix :: "'w \<Rightarrow> nat \<times> 'w"
  au_append :: "string \<Rightarrow> 'w \<Rightarrow> (string + unit) \<times> 'w"

record AuditLog =
  al_path :: string
  al_parent :: "string option"
  al_open :: bool

definition audit_line :: "nat \<Rightarrow> string \<Rightarrow> string \<Rightarrow> string \<Rightarrow> string" where
  "audit_line ts actor action detail =
     show_nat ts @ '' actor='' @ actor @ '' action='' @ action @ '' detail='' @ detail @ [nl]"

definition ensure_open :: "'w AuditEnv \<Rightarrow> AuditLog \<Rightarrow> ('w, AuditLog) io" where
  "ensure_open A l =
     (if al_open l then return_io l
      else then_io (case al_parent l of Some p \<Rightarrow> sys_call Io (au_mkdir A p) | None \<Rightarrow> return_io ())
          (then_io (sys_call Io (au_open A (al_path l))) (return_io (l\<lparr>al_open := True\<rparr>))))"

text \<open>Recording never fails: whatever goes wrong is dropped.\<close>

definition audit_record :: "'w AuditEnv \<Rightarrow> string \<Rightarrow> string \<Rightarrow> string \<Rightarrow> AuditLog \<Rightarrow> ('w, AuditLog) io" where
  "audit_record A actor action detail l =
     bind_io (try_io (ensure_open A l)) (\<lambda>r.
       case r of
         Inl _ \<Rightarrow> return_io l
       | Inr l' \<Rightarrow>
           bind_io (ask (au_unix A)) (\<lambda>ts.
           then_io (ignore_io (sys_call Io (au_append A (audit_line ts actor action detail))))
             (return_io l')))"

lemma ensure_open_returns: "returns_io (ensure_open A l)"
  unfolding ensure_open_def by (auto intro!: returns_intros split: option.splits)

lemma audit_record_Ok: "\<exists>l' w'. audit_record A actor action detail l w = Ret (Inr l', w')"
proof -
  obtain r w1 where r: "ensure_open A l w = Ret (r, w1)"
    using returns_ioD [OF ensure_open_returns, of A l w] by blast
  show ?thesis
  proof (cases r)
    case (Inl e)
    with r show ?thesis by (simp add: audit_record_def return_io_def)
  next
    case (Inr l')
    obtain ts w2 where ts: "au_unix A w1 = (ts, w2)" by (cases "au_unix A w1")
    obtain q w3 where "sys_call Io (au_append A (audit_line ts actor action detail)) w2 = Ret (q, w3)"
      using returns_ioD [OF returns_calls(2), of Io "au_append A (audit_line ts actor action detail)" w2] by blast
    with r Inr ts show ?thesis
      by (simp add: audit_record_def ask_def then_io_def ignore_io_def return_io_def)
  qed
qed

text \<open>An entry is one line exactly when no field has a line break.\<close>

lemma audit_line_single:
  "length (filter (\<lambda>c. c = nl) (audit_line ts actor action detail)) = 1 \<longleftrightarrow>
    nl \<notin> set actor \<and> nl \<notin> set action \<and> nl \<notin> set detail"
  by (auto simp: audit_line_def filter_empty_conv)

text \<open>A line break in the detail forges an entry with any actor and action.\<close>

lemma audit_line_forged:
  "audit_line ts actor action (d @ [nl] @ butlast (audit_line ts' actor' action' detail')) =
    audit_line ts actor action d @ audit_line ts' actor' action' detail'"
  by (simp add: audit_line_def butlast_append)

end
