(* ===== verification/Manager.thy ===== *)
theory Manager
  imports Activation Sharing Ipc Logging
begin

text \<open>
  The network manager, \<^verbatim>\<open>manager/manager.rs\<close>: the one thread that owns the daemon's state and handles, one
  command after the other, the requests of the control socket, kernel notifications and timer ticks. Its
  state is the struct \<open>NetworkManager\<close> together with the statics of the modules it calls; the outside is the
  record \<open>Env\<close> of the services those modules use.
\<close>

section \<open>State and services\<close>

record 'w Env =
  en_link :: "'w LinkEnv"
  en_sysfs :: "'w \<Rightarrow> Sysfs"
  en_nft :: "'w Nft"
  en_ap :: "'w ApEnv"
  en_dhcpd :: "'w DhcpdEnv"
  en_http :: "'w HttpEnv"
  en_bluetooth :: "'w runner"
  en_audit :: "'w AuditEnv"
  en_proxy :: "'w ProxyEnv"
  en_profile_codec :: "ConnectionProfile Codec"
  en_config_codecs :: ConfigCodecs
  en_alive :: "u64 \<Rightarrow> 'w \<Rightarrow> bool"

text \<open>The fields \<open>gl_\<close> are statics: \<open>DATA_DIR\<close>, \<open>CTRL_DIR\<close>, \<open>MIN_LEVEL\<close>, hostapd's \<open>CHILDREN\<close>, the VPN
  tables and the proxy state. The secrets backend is a service of \<open>en_link\<close>.\<close>

record Manager =
  nm_config :: NetworkConfig
  nm_profiles_dir :: string
  nm_devices :: DeviceRegistry
  nm_connections :: "ConnectionProfile list"
  nm_active :: "(string \<times> ActiveConnection) list"
  nm_firewall :: Firewall
  nm_dns_registry :: DnsServerRegistry
  nm_connectivity :: ConnectivityState
  nm_events :: EventBus
  nm_audit :: AuditLog
  gl_data_dir :: "string option"
  gl_ctrl_dir :: "string option"
  gl_log_level :: Level
  gl_children :: children
  gl_vpn :: VpnTable
  gl_proxy :: ProxyState

type_synonym ('w, 'a) manager_io = "(Manager \<times> 'w, 'a) io"

definition link_of :: "'w Env \<Rightarrow> Manager \<Rightarrow> 'w LinkEnv" where
  "link_of E s = (en_link E)\<lparr>ln_data_dir := gl_data_dir s, ln_ctrl_dir := gl_ctrl_dir s\<rparr>"

definition share_of :: "'w Env \<Rightarrow> 'w ShareEnv" where
  "share_of E = \<lparr>sh_kernel = ln_kernel (en_link E), sh_fs = ln_fs (en_link E), sh_nft = en_nft E, sh_ap = en_ap E,
     sh_dhcpd = en_dhcpd E, sh_fuel = ln_fuel (en_link E)\<rparr>"

definition proxy_of :: "'w Env \<Rightarrow> Manager \<Rightarrow> 'w ProxyEnv" where
  "proxy_of E s = (en_proxy E)\<lparr>pv_data_dir := gl_data_dir s\<rparr>"

text \<open>Calls on one part of the state.\<close>

abbreviation fw_part :: "(Firewall \<times> 'w, 'a) io \<Rightarrow> ('w, 'a) manager_io" where
  "fw_part \<equiv> zoom nm_firewall (\<lambda>fw s. s\<lparr>nm_firewall := fw\<rparr>)"

abbreviation share_part :: "(share_state \<times> 'w, 'a) io \<Rightarrow> ('w, 'a) manager_io" where
  "share_part \<equiv> zoom (\<lambda>s. (nm_firewall s, gl_children s))
     (\<lambda>(fw, ch) s. s\<lparr>nm_firewall := fw, gl_children := ch\<rparr>)"

abbreviation proxy_part :: "(ProxyState \<times> 'w, 'a) io \<Rightarrow> ('w, 'a) manager_io" where
  "proxy_part \<equiv> zoom gl_proxy (\<lambda>p s. s\<lparr>gl_proxy := p\<rparr>)"

text \<open>\<open>match result { Ok(x) => ..., Err(e) => Response::Error(e.to_string()) }\<close>\<close>

definition answer :: "('w, 'a) manager_io \<Rightarrow> ('a \<Rightarrow> ('w, Response) manager_io) \<Rightarrow> ('w, Response) manager_io" where
  "answer m good = bind_io (try_io m) (\<lambda>r.
     case r of Inr x \<Rightarrow> good x | Inl e \<Rightarrow> return_io (RespError (error_to_string e)))"

definition record_audit :: "'w Env \<Rightarrow> string \<Rightarrow> string \<Rightarrow> string \<Rightarrow> ('w, unit) manager_io" where
  "record_audit E actor action detail =
     bind_io (get_state nm_audit) (\<lambda>l.
     bind_io (on_world (audit_record (en_audit E) actor action detail l)) (\<lambda>l'.
       modify_state (\<lambda>s. s\<lparr>nm_audit := l'\<rparr>)))"

definition broadcast :: "'w Env \<Rightarrow> Event \<Rightarrow> ('w, unit) manager_io" where
  "broadcast E ev =
     bind_io (on_world (ask (\<lambda>w. (\<lambda>i. en_alive E i w, w)))) (\<lambda>alive.
       modify_state (\<lambda>s. s\<lparr>nm_events := bus_broadcast alive ev (nm_events s)\<rparr>))"

definition broadcast_state :: "'w Env \<Rightarrow> ('w, unit) manager_io" where
  "broadcast_state E =
     bind_io (get_state (\<lambda>s. overall_state (hm_values (nm_devices s)) (nm_connectivity s))) (\<lambda>st.
       broadcast E (StateChanged st))"

text \<open>The re-scan of the devices; the sysfs entries are those at its start.\<close>

definition refresh_devices :: "'w Env \<Rightarrow> ('w, unit) manager_io" where
  "refresh_devices E =
     bind_io (get_state (\<lambda>s. unmanaged_devices (cfg_general (nm_config s)))) (\<lambda>unmanaged.
     bind_io (on_world (ask (\<lambda>w. (en_sysfs E w, w)))) (\<lambda>S.
       zoom nm_devices (\<lambda>reg s. s\<lparr>nm_devices := reg\<rparr>)
         (refresh (ln_kernel (en_link E)) S (ln_fuel (en_link E)) unmanaged)))"

section \<open>Activation and deactivation of profiles\<close>

definition find_device_for_profile :: "ConnectionProfile \<Rightarrow> DeviceRegistry \<Rightarrow> string option" where
  "find_device_for_profile profile devices =
     map_option nd_name (find (\<lambda>d. nd_device_type d = cp_device_type profile \<and>
         nd_active_connection d = None \<and>
         (case cp_interface_name profile of Some n \<Rightarrow> n = nd_name d | None \<Rightarrow> True))
       (hm_values devices))"

text \<open>The call of \<open>activate\<close> on the registry's entry of a device.\<close>

definition activate_on :: "'w Env \<Rightarrow> ConnectionProfile \<Rightarrow> string \<Rightarrow> NetworkDevice \<Rightarrow> ('w, ActiveConnection) manager_io" where
  "activate_on E profile device_name device =
     bind_io (get_state (link_of E)) (\<lambda>L.
       zoom (\<lambda>s. (device, gl_vpn s))
         (\<lambda>(d, t) s. s\<lparr>nm_devices := hm_modify device_name (\<lambda>_. d) (nm_devices s), gl_vpn := t\<rparr>)
         (activate L profile))"

definition activated_on :: "'w Env \<Rightarrow> string \<Rightarrow> string \<Rightarrow> string \<Rightarrow> ActiveConnection \<Rightarrow> ('w, Response) manager_io" where
  "activated_on E profile_id actor device_name active =
     bind_io (get_state (\<lambda>s. map_option nd_state (hm_get (nm_devices s) device_name))) (\<lambda>state.
     then_io (modify_state (\<lambda>s. s\<lparr>nm_active := hm_insert device_name active (nm_active s)\<rparr>))
    (bind_io (get_state nm_profiles_dir) (\<lambda>dir.
     then_io (ignore_io (on_world (touch (ln_fs (en_link E)) dir profile_id)))
    (then_io (record_audit E actor ''connection.activate'' (profile_id @ '' on '' @ device_name))
    (then_io (if_some state (\<lambda>st. broadcast E (DeviceStateChanged device_name st)))
    (then_io (broadcast E (ConnectionActivated profile_id))
    (then_io (broadcast_state E)
       (return_io RespOk))))))))"

definition activate_profile :: "'w Env \<Rightarrow> string \<Rightarrow> string \<Rightarrow> ('w, Response) manager_io" where
  "activate_profile E profile_id actor =
     bind_io (get_state (\<lambda>s. find (\<lambda>p. cp_id p = profile_id) (nm_connections s))) (\<lambda>found.
     case found of
       None \<Rightarrow> return_io (RespError (''no such connection profile '' @ quoted profile_id))
     | Some profile \<Rightarrow>
         bind_io (get_state (\<lambda>s. find_device_for_profile profile (nm_devices s))) (\<lambda>chosen.
         case chosen of
           None \<Rightarrow> return_io (RespError (''no available '' @ device_type_name (cp_device_type profile) @
             '' device for '' @ quoted profile_id))
         | Some device_name \<Rightarrow>
             bind_io (get_state (\<lambda>s. hm_get (nm_devices s) device_name)) (\<lambda>entry.
             case entry of
               None \<Rightarrow> return_io (RespError (''device '' @ quoted device_name @ '' disappeared''))
             | Some device \<Rightarrow>
                 bind_io (try_io (activate_on E profile device_name device)) (\<lambda>result.
                 case result of
                   Inr active \<Rightarrow> activated_on E profile_id actor device_name active
                 | Inl e \<Rightarrow>
                     then_io (modify_state (\<lambda>s. s\<lparr>nm_devices := set_state device_name Failed (nm_devices s)\<rparr>))
                       (return_io (RespError (''activation failed: '' @ error_to_string e)))))))"

text \<open>The call of \<open>deactivate\<close> on the registry's entry of a device and the removed active connection.\<close>

definition deactivate_on :: "'w Env \<Rightarrow> ActiveConnection \<Rightarrow> string \<Rightarrow> NetworkDevice \<Rightarrow> ('w, unit) manager_io" where
  "deactivate_on E active device_name device =
     bind_io (get_state (link_of E)) (\<lambda>L.
       zoom (\<lambda>s. (active, device, gl_vpn s))
         (\<lambda>(_, d, t) s. s\<lparr>nm_devices := hm_modify device_name (\<lambda>_. d) (nm_devices s), gl_vpn := t\<rparr>)
         (deactivate L))"

definition deactivate_profile :: "'w Env \<Rightarrow> string \<Rightarrow> string \<Rightarrow> ('w, Response) manager_io" where
  "deactivate_profile E profile_id actor =
     bind_io (get_state (\<lambda>s. find (\<lambda>(_, a). ac_profile_id a = profile_id) (nm_active s))) (\<lambda>found.
     case found of
       None \<Rightarrow> return_io (RespError (''connection '' @ quoted profile_id @ '' is not active''))
     | Some (device_name, _) \<Rightarrow>
         bind_io (get_state (\<lambda>s. hm_get (nm_active s) device_name)) (\<lambda>entry.
         then_io (modify_state (\<lambda>s. s\<lparr>nm_active := hm_remove device_name (nm_active s)\<rparr>))
        (case entry of
           None \<Rightarrow> return_io (RespError ''internal state inconsistency'')
         | Some active \<Rightarrow>
             bind_io (get_state (\<lambda>s. hm_get (nm_devices s) device_name)) (\<lambda>dev.
             case dev of
               None \<Rightarrow> return_io (RespError (''device '' @ quoted device_name @ '' disappeared''))
             | Some device \<Rightarrow>
                 bind_io (try_io (deactivate_on E active device_name device)) (\<lambda>result.
                 case result of
                   Inr _ \<Rightarrow>
                     then_io (record_audit E actor ''connection.deactivate'' (profile_id @ '' on '' @ device_name))
                    (then_io (broadcast E (ConnectionDeactivated profile_id))
                    (then_io (broadcast_state E)
                       (return_io RespOk)))
                 | Inl e \<Rightarrow> return_io (RespError (''deactivation failed: '' @ error_to_string e)))))))"

section \<open>Autoconnect\<close>

definition visible_ssids :: "'w Env \<Rightarrow> string \<Rightarrow> ('w, string list) manager_io" where
  "visible_ssids E device_name =
     bind_io (get_state (\<lambda>s. wl_ctrl_interface_dir (cfg_wireless (nm_config s)))) (\<lambda>dir.
     bind_io (try_io (on_world (last_results (ln_wpa (en_link E)) dir device_name))) (\<lambda>nets.
       return_io (case nets of Inr ns \<Rightarrow> map wn_ssid ns | Inl _ \<Rightarrow> [])))"

definition try_autoconnect :: "'w Env \<Rightarrow> string \<Rightarrow> ('w, unit) manager_io" where
  "try_autoconnect E device_name =
     bind_io (get_state (\<lambda>s. hm_get (nm_devices s) device_name)) (\<lambda>entry.
     case entry of
       None \<Rightarrow> return_io ()
     | Some device \<Rightarrow>
         if nd_state device = Unmanaged \<or> nd_active_connection device \<noteq> None then return_io ()
         else if nd_state device \<noteq> Disconnected \<and> nd_state device \<noteq> Unavailable then return_io ()
         else
           bind_io (get_state (\<lambda>s. (nm_profiles_dir s, nm_connections s))) (\<lambda>(dir, connections).
           bind_io (on_world (recently_used_first (ln_fs (en_link E)) dir connections)) (\<lambda>sorted.
           if \<not> nd_carrier device then return_io ()
           else
             bind_io (if nd_device_type device = WiFi
                      then bind_io (visible_ssids E device_name) (\<lambda>visible. return_io (select_wifi device sorted visible))
                      else return_io (select device sorted)) (\<lambda>chosen.
             case chosen of
               None \<Rightarrow> return_io ()
             | Some profile \<Rightarrow>
                 bind_io (activate_profile E (cp_id profile) ''system:autoconnect'') (\<lambda>_. return_io ())))))"

definition try_autoconnect_all :: "'w Env \<Rightarrow> ('w, unit) manager_io" where
  "try_autoconnect_all E =
     bind_io (get_state (\<lambda>s. map nd_name (hm_values (nm_devices s)))) (\<lambda>names.
       for_io names (try_autoconnect E))"

section \<open>Kernel notifications and ticks\<close>

text \<open>The common arm of \<open>LinkChanged\<close> and \<open>AddressChanged\<close>.\<close>

definition device_changed :: "'w Env \<Rightarrow> string \<Rightarrow> ('w, unit) manager_io" where
  "device_changed E name =
     then_io (ignore_io (refresh_devices E))
    (bind_io (get_state (\<lambda>s. hm_get (nm_devices s) name)) (\<lambda>entry.
       if_some entry (\<lambda>dev. broadcast E (DeviceStateChanged name (nd_state dev)))))"

definition handle_hotplug :: "'w Env \<Rightarrow> HotplugEvent \<Rightarrow> ('w, unit) manager_io" where
  "handle_hotplug E ev =
     then_io (case ev of
         LinkAdded name \<Rightarrow>
           then_io (ignore_io (refresh_devices E))
          (then_io (ignore_io (fw_part (ensure_default_zone (en_nft E) name)))
          (bind_io (get_state (\<lambda>s. hm_get (nm_devices s) name)) (\<lambda>entry.
           then_io (if_some entry (\<lambda>dev. broadcast E (DeviceAdded dev)))
             (try_autoconnect E name))))
       | LinkRemoved name \<Rightarrow>
           then_io (modify_state (\<lambda>s. s\<lparr>nm_active := hm_remove name (nm_active s),
                                        nm_devices := hm_remove name (nm_devices s)\<rparr>))
             (broadcast E (DeviceRemoved name))
       | LinkChanged name \<Rightarrow> device_changed E name
       | AddressChanged name \<Rightarrow> device_changed E name)
     (broadcast_state E)"

datatype TickKind = TickConnectivity | TickWifiScan | TickLeaseCheck | TickDeviceRefresh

definition check_lease :: "'w Env \<Rightarrow> string \<times> ActiveConnection \<Rightarrow> ('w, unit) manager_io" where
  "check_lease E = (\<lambda>(device_name, active).
     if ac_state active \<noteq> AcActivated then return_io ()
     else
       bind_io (get_state (link_of E)) (\<lambda>L. on_world
        (let base = base_dir (ln_data_dir L) in
         bind_io (try_io (load_lease (ln_fs L) (ln_lease_codec L) base device_name)) (\<lambda>loaded.
         case loaded of
           Inr (Some lease) \<Rightarrow>
             bind_io (ask (ln_system_time L)) (\<lambda>now.
             if renewal_time lease \<le> now then
               bind_io (try_io (renew (ln_kernel L) (udp_of L) (ln_fuel L) device_name lease)) (\<lambda>renewed.
               case renewed of
                 Inr new_lease \<Rightarrow> ignore_io (save_lease (ln_fs L) (ln_lease_codec L) base device_name new_lease)
               | Inl _ \<Rightarrow> return_io ())
             else return_io ())
         | _ \<Rightarrow> return_io ()))))"

text \<open>The connectivity check has five seconds.\<close>

definition handle_tick :: "'w Env \<Rightarrow> TickKind \<Rightarrow> ('w, unit) manager_io" where
  "handle_tick E kind =
     (case kind of
        TickConnectivity \<Rightarrow>
          bind_io (get_state (\<lambda>s. connectivity_check_url (cfg_general (nm_config s)))) (\<lambda>url.
          bind_io (try_io (on_world (check_connectivity (en_http E) url 5))) (\<lambda>r.
          let new_state = (case r of Inr c \<Rightarrow> c | Inl _ \<Rightarrow> ConnUnknown) in
          bind_io (get_state nm_connectivity) (\<lambda>old.
          if new_state \<noteq> old then
            then_io (modify_state (\<lambda>s. s\<lparr>nm_connectivity := new_state\<rparr>))
           (then_io (broadcast E (ConnectivityChanged new_state))
                    (broadcast_state E))
          else return_io ())))
      | TickWifiScan \<Rightarrow>
          bind_io (get_state (\<lambda>s. map nd_name (filter (\<lambda>d. nd_device_type d = WiFi \<and> nd_state d \<noteq> Unmanaged)
            (hm_values (nm_devices s))))) (\<lambda>wifi_devices.
          for_io wifi_devices (try_autoconnect E))
      | TickLeaseCheck \<Rightarrow>
          bind_io (get_state nm_active) (\<lambda>active. for_io active (check_lease E))
      | TickDeviceRefresh \<Rightarrow>
          then_io (ignore_io (refresh_devices E))
         (bind_io (get_state (\<lambda>s. map nd_name (hm_values (nm_devices s)))) (\<lambda>names.
            for_io names (try_autoconnect E))))"

section \<open>Requests\<close>

definition add_connection :: "ConnectionProfile \<Rightarrow> ConnectionProfile list \<Rightarrow> ConnectionProfile list" where
  "add_connection profile cs = filter (\<lambda>p. cp_id p \<noteq> cp_id profile) cs @ [profile]"

definition drop_connection :: "string \<Rightarrow> ConnectionProfile list \<Rightarrow> ConnectionProfile list" where
  "drop_connection ident cs = filter (\<lambda>p. cp_id p \<noteq> ident) cs"

definition store_profile :: "'w Env \<Rightarrow> ConnectionProfile \<Rightarrow> ('w, unit) manager_io" where
  "store_profile E profile =
     bind_io (get_state nm_profiles_dir) (\<lambda>dir.
       on_world (save_profile (ln_fs (en_link E)) (en_profile_codec E) dir profile))"

definition erase_profile :: "'w Env \<Rightarrow> string \<Rightarrow> ('w, unit) manager_io" where
  "erase_profile E ident =
     bind_io (get_state nm_profiles_dir) (\<lambda>dir. on_world (delete_profile (ln_fs (en_link E)) dir ident))"

definition erase_secrets :: "'w Env \<Rightarrow> string \<Rightarrow> ('w, unit) manager_io" where
  "erase_secrets E ident = ignore_io (on_world (ask_result (sb_delete_all (ln_secrets (en_link E)) ident)))"

definition req_add_connection :: "'w Env \<Rightarrow> string \<Rightarrow> ConnectionProfile \<Rightarrow> ('w, Response) manager_io" where
  "req_add_connection E actor profile =
     answer (store_profile E profile) (\<lambda>_.
       then_io (record_audit E actor ''connection.add'' (cp_id profile))
      (then_io (modify_state (\<lambda>s. s\<lparr>nm_connections := add_connection profile (nm_connections s)\<rparr>))
         (return_io RespOk)))"

definition req_delete_connection :: "'w Env \<Rightarrow> string \<Rightarrow> string \<Rightarrow> ('w, Response) manager_io" where
  "req_delete_connection E actor ident =
     bind_io (get_state (\<lambda>s. list_ex (\<lambda>a. ac_profile_id a = ident) (hm_values (nm_active s)))) (\<lambda>is_active.
     then_io (if is_active then bind_io (deactivate_profile E ident actor) (\<lambda>_. return_io ()) else return_io ())
    (answer (erase_profile E ident) (\<lambda>_.
       then_io (record_audit E actor ''connection.delete'' ident)
      (then_io (modify_state (\<lambda>s. s\<lparr>nm_connections := drop_connection ident (nm_connections s)\<rparr>))
      (then_io (erase_secrets E ident)
         (return_io RespOk))))))"

definition req_connect_wifi ::
    "'w Env \<Rightarrow> string \<Rightarrow> string \<Rightarrow> string \<Rightarrow> SecurityType \<Rightarrow> string option \<Rightarrow> ('w, Response) manager_io" where
  "req_connect_wifi E actor device ssid security passphrase =
     (let ident = ''wifi-'' @ ssid;
          profile = (new_wifi ident ssid security)\<lparr>cp_interface_name := Some device\<rparr>
      in answer (if_some passphrase (\<lambda>pass.
                   on_world (ask_result (sb_set (ln_secrets (en_link E)) ident ''psk'' pass)))) (\<lambda>_.
         answer (store_profile E profile) (\<lambda>_.
           then_io (record_audit E actor ''wifi.connect'' ident)
          (then_io (modify_state (\<lambda>s. s\<lparr>nm_connections := add_connection profile (nm_connections s)\<rparr>))
             (activate_profile E ident actor)))))"

definition req_forget_wifi :: "'w Env \<Rightarrow> string \<Rightarrow> string \<Rightarrow> string \<Rightarrow> ('w, Response) manager_io" where
  "req_forget_wifi E actor device ssid =
     (let ident = ''wifi-'' @ ssid in
      bind_io (get_state (\<lambda>s. ctrl_dir_of (gl_ctrl_dir s))) (\<lambda>dir.
      then_io (ignore_io (on_world (wifi_forget (ln_wpa (en_link E)) dir device ssid)))
     (then_io (erase_secrets E ident)
     (then_io (ignore_io (erase_profile E ident))
     (then_io (modify_state (\<lambda>s. s\<lparr>nm_connections := drop_connection ident (nm_connections s)\<rparr>))
     (then_io (record_audit E actor ''wifi.forget'' ident)
        (return_io RespOk)))))))"

definition req_start_hotspot ::
    "'w Env \<Rightarrow> string \<Rightarrow> string \<Rightarrow> string \<Rightarrow> string option \<Rightarrow> string option \<Rightarrow> ('w, Response) manager_io" where
  "req_start_hotspot E actor device ssid passphrase uplink =
     answer (share_part (sharing_hotspot_start (share_of E) device ssid passphrase uplink)) (\<lambda>_.
       then_io (record_audit E actor ''hotspot.start'' (device @ '' ('' @ ssid @ '')''))
         (return_io RespOk))"

definition req_stop_hotspot :: "'w Env \<Rightarrow> string \<Rightarrow> string \<Rightarrow> ('w, Response) manager_io" where
  "req_stop_hotspot E actor device =
     then_io (zoom gl_children (\<lambda>ch s. s\<lparr>gl_children := ch\<rparr>) (do_io (hotspot_stop (en_ap E) device)))
    (then_io (record_audit E actor ''hotspot.stop'' device)
       (return_io RespOk))"

text \<open>A call whose success is recorded in the audit log.\<close>

definition audited :: "'w Env \<Rightarrow> string \<Rightarrow> string \<Rightarrow> string \<Rightarrow> ('w, unit) manager_io \<Rightarrow> ('w, Response) manager_io" where
  "audited E actor action detail m =
     answer m (\<lambda>_. then_io (record_audit E actor action detail) (return_io RespOk))"

definition mode_debug :: "ProxyMode \<Rightarrow> string" where
  "mode_debug m = (case m of NoProxy \<Rightarrow> ''None'' | ManualProxy \<Rightarrow> ''Manual'' | AutoProxy \<Rightarrow> ''Auto'')"

definition req_set_proxy :: "'w Env \<Rightarrow> string \<Rightarrow> ProxyConfig \<Rightarrow> ('w, Response) manager_io" where
  "req_set_proxy E actor config =
     audited E actor ''proxy.set'' (mode_debug (pc_mode config))
       (bind_io (get_state (proxy_of E)) (\<lambda>P. proxy_part (proxy_apply P config)))"

definition req_diagnose :: "'w Env \<Rightarrow> ('w, Response) manager_io" where
  "req_diagnose E =
     bind_io (get_state (\<lambda>s. (hm_values (nm_devices s), nm_connectivity s))) (\<lambda>(devices, connectivity).
       answer (on_world (collect_report (ln_kernel (en_link E)) (ln_fs (en_link E)) (ln_fuel (en_link E))
           devices connectivity))
         (\<lambda>report. return_io (RespDiagnostics report)))"

abbreviation (input) DEFAULT_CONFIG_DIR :: string where "DEFAULT_CONFIG_DIR \<equiv> ''/etc/mitos-network''"

definition req_reload :: "'w Env \<Rightarrow> string \<Rightarrow> ('w, Response) manager_io" where
  "req_reload E actor =
     answer (on_world (load_config (ln_fs (en_link E)) (en_config_codecs E) DEFAULT_CONFIG_DIR)) (\<lambda>cfg.
       then_io (modify_state (\<lambda>s. s\<lparr>nm_config := cfg\<rparr>))
      (then_io (record_audit E actor ''config.reload'' [])
         (return_io RespOk)))"

definition req_bluetooth :: "'w Env \<Rightarrow> string \<Rightarrow> string \<Rightarrow> string \<Rightarrow> ('w, unit) io \<Rightarrow> ('w, Response) manager_io" where
  "req_bluetooth E actor action detail m = audited E actor action detail (on_world m)"

definition actor_of :: "PeerIdentity \<Rightarrow> string" where
  "actor_of identity = ''uid:'' @ show_nat (unat (pi_uid identity))"

text \<open>\<open>option.map(Response::X).unwrap_or_else(|| Response::Error(...))\<close>\<close>

definition found_or :: "string \<Rightarrow> ('a \<Rightarrow> Response) \<Rightarrow> 'a option \<Rightarrow> Response" where
  "found_or msg mk x = (case x of Some v \<Rightarrow> mk v | None \<Rightarrow> RespError msg)"

definition wireless_dir :: "Manager \<Rightarrow> string" where
  "wireless_dir s = wl_ctrl_interface_dir (cfg_wireless (nm_config s))"

definition handle_request :: "'w Env \<Rightarrow> Request \<Rightarrow> PeerIdentity \<Rightarrow> ('w, Response) manager_io" where
  "handle_request E req identity =
     (let actor = actor_of identity; wpa = ln_wpa (en_link E); bt = en_bluetooth E in
      case req of
        GetState \<Rightarrow> get_state (\<lambda>s. RespState (overall_state (hm_values (nm_devices s)) (nm_connectivity s)))
      | ListDevices \<Rightarrow> get_state (\<lambda>s. RespDevices (hm_values (nm_devices s)))
      | GetDevice name \<Rightarrow>
          get_state (\<lambda>s. found_or (''no such device '' @ quoted name) RespDevice (hm_get (nm_devices s) name))
      | ListConnections \<Rightarrow> get_state (\<lambda>s. RespConnections (nm_connections s))
      | GetConnection ident \<Rightarrow>
          get_state (\<lambda>s. found_or (''no such connection '' @ quoted ident) RespConnection
            (find (\<lambda>p. cp_id p = ident) (nm_connections s)))
      | AddConnection profile \<Rightarrow> req_add_connection E actor profile
      | DeleteConnection ident \<Rightarrow> req_delete_connection E actor ident
      | ActivateConnection ident \<Rightarrow> activate_profile E ident actor
      | DeactivateConnection ident \<Rightarrow> deactivate_profile E ident actor
      | ScanWifi device \<Rightarrow>
          bind_io (get_state wireless_dir) (\<lambda>dir.
            answer (on_world (wifi_scan wpa (ln_fuel (en_link E)) dir device)) (\<lambda>nets. return_io (RespWifiNetworks nets)))
      | ListWifiNetworks device \<Rightarrow>
          bind_io (get_state wireless_dir) (\<lambda>dir.
            answer (on_world (last_results wpa dir device)) (\<lambda>nets. return_io (RespWifiNetworks nets)))
      | ConnectWifi device ssid security passphrase \<Rightarrow> req_connect_wifi E actor device ssid security passphrase
      | ForgetWifi device ssid \<Rightarrow> req_forget_wifi E actor device ssid
      | StartHotspot device ssid passphrase uplink \<Rightarrow> req_start_hotspot E actor device ssid passphrase uplink
      | StopHotspot device \<Rightarrow> req_stop_hotspot E actor device
      | SetFirewallZone interface zone \<Rightarrow>
          audited E actor ''firewall.zone'' (interface @ '' -> '' @ zone) (fw_part (assign_zone (en_nft E) interface zone))
      | AddFirewallRule rule \<Rightarrow>
          audited E actor ''firewall.rule.add'' (ru_id rule) (fw_part (add_rule (en_nft E) rule))
      | RemoveFirewallRule ident \<Rightarrow>
          audited E actor ''firewall.rule.remove'' ident (fw_part (remove_rule (en_nft E) ident))
      | ListBluetoothDevices \<Rightarrow>
          answer (on_world (list_devices bt)) (\<lambda>devices. return_io (RespBluetoothDevices devices))
      | BluetoothPower on \<Rightarrow>
          req_bluetooth E actor ''bluetooth.power'' (if on then ''on'' else ''off'')
            (if on then power_on bt else power_off bt)
      | BluetoothScan on \<Rightarrow>
          answer (on_world (if on then start_scan bt else stop_scan bt)) (\<lambda>_. return_io RespOk)
      | PairBluetooth mac \<Rightarrow> req_bluetooth E actor ''bluetooth.pair'' mac (bt_pair bt mac)
      | TrustBluetooth mac \<Rightarrow> req_bluetooth E actor ''bluetooth.trust'' mac (bt_trust bt mac)
      | ConnectBluetooth mac \<Rightarrow> req_bluetooth E actor ''bluetooth.connect'' mac (bt_connect bt mac)
      | DisconnectBluetooth mac \<Rightarrow> req_bluetooth E actor ''bluetooth.disconnect'' mac (bt_disconnect bt mac)
      | RemoveBluetooth mac \<Rightarrow> req_bluetooth E actor ''bluetooth.remove'' mac (bt_remove bt mac)
      | SetProxyConfig config \<Rightarrow> req_set_proxy E actor config
      | GetProxyConfig \<Rightarrow> get_state (\<lambda>s. RespProxyConfig (proxy_current (gl_proxy s)))
      | ResolveProxy url \<Rightarrow>
          bind_io (get_state (proxy_of E)) (\<lambda>P.
          bind_io (proxy_part (resolve_for_url P url)) (\<lambda>d. return_io (RespProxyResolution d)))
      | GetConnectivity \<Rightarrow> get_state (\<lambda>s. RespConnectivity (nm_connectivity s))
      | Diagnose \<Rightarrow> req_diagnose E
      | Reload \<Rightarrow> req_reload E actor)"

section \<open>Start-up and the command loop\<close>

text \<open>The statics before \<open>NetworkManager::new\<close> and the struct it fills in.\<close>

definition blank :: "NetworkConfig \<Rightarrow> Manager" where
  "blank config =
     (let dir = data_dir (cfg_general config); log_path = path_join dir ''audit.log'' in
      \<lparr>nm_config = config, nm_profiles_dir = path_join dir ''profiles'', nm_devices = [], nm_connections = [],
       nm_active = [], nm_firewall = fw_new, nm_dns_registry = [], nm_connectivity = ConnUnknown,
       nm_events = bus_new,
       nm_audit = \<lparr>al_path = log_path, al_parent = path_parent log_path, al_open = False\<rparr>,
       gl_data_dir = Some dir, gl_ctrl_dir = Some (wl_ctrl_interface_dir (cfg_wireless config)),
       gl_log_level = set_level (log_level (cfg_general config)), gl_children = [],
       gl_vpn = \<lparr>vt_active = [], vt_sessions = []\<rparr>, gl_proxy = \<lparr>px_active = None, px_pac = None\<rparr>\<rparr>)"

definition manager_init :: "'w Env \<Rightarrow> ('w, unit) manager_io" where
  "manager_init E =
     bind_io (get_state nm_profiles_dir) (\<lambda>dir.
     bind_io (on_world (load_all (ln_fs (en_link E)) (en_profile_codec E) dir)) (\<lambda>connections.
     then_io (modify_state (\<lambda>s. s\<lparr>nm_connections := connections\<rparr>))
    (then_io (refresh_devices E)
    (bind_io (get_state (\<lambda>s. map nd_name (hm_values (nm_devices s)))) (\<lambda>names.
     then_io (for_io names (\<lambda>name. ignore_io (fw_part (ensure_default_zone (en_nft E) name))))
    (bind_io (get_state (\<lambda>s. cfg_dns (nm_config s))) (\<lambda>dns.
     then_io (ignore_io (on_world (apply_from_config (ln_fs (en_link E)) dns)))
    (bind_io (get_state (proxy_of E)) (\<lambda>P.
     bind_io (try_io (on_world (load_proxy_config P))) (\<lambda>loaded.
     case loaded of
       Inr (Some proxy_cfg) \<Rightarrow> ignore_io (proxy_part (proxy_apply P proxy_cfg))
     | _ \<Rightarrow> return_io ()))))))))))"

definition manager_new :: "'w Env \<Rightarrow> NetworkConfig \<Rightarrow> ('w, Manager) io" where
  "manager_new E config = (\<lambda>w.
     case manager_init E (blank config, w) of
       Ret (Inr _, (s, w')) \<Rightarrow> Ret (Inr s, w')
     | Ret (Inl e, (_, w')) \<Rightarrow> Ret (Inl e, w')
     | Panic \<Rightarrow> Panic
     | NoFuel \<Rightarrow> NoFuel)"

datatype Command =
  CmdRequest Request PeerIdentity | CmdRegisterEventClient | CmdUnregisterEventClient u64
  | CmdHotplug HotplugEvent | CmdTick TickKind | CmdShutdown

datatype Reply = NoReply | ReplyResponse Response | ReplyClient u64

definition register_client :: "('w, u64) manager_io" where
  "register_client =
     bind_io (get_state (fst \<circ> bus_register \<circ> nm_events)) (\<lambda>ident.
     then_io (modify_state (\<lambda>s. s\<lparr>nm_events := snd (bus_register (nm_events s))\<rparr>))
       (return_io ident))"

definition unregister_client :: "u64 \<Rightarrow> ('w, unit) manager_io" where
  "unregister_client ident = modify_state (\<lambda>s. s\<lparr>nm_events := bus_unregister ident (nm_events s)\<rparr>)"

text \<open>One round of the loop, with what is sent back on the reply channel.\<close>

definition handle_command :: "'w Env \<Rightarrow> Command \<Rightarrow> ('w, Reply) manager_io" where
  "handle_command E cmd =
     (case cmd of
        CmdRequest req identity \<Rightarrow>
          bind_io (handle_request E req identity) (\<lambda>resp. return_io (ReplyResponse resp))
      | CmdRegisterEventClient \<Rightarrow> bind_io register_client (\<lambda>ident. return_io (ReplyClient ident))
      | CmdUnregisterEventClient ident \<Rightarrow> then_io (unregister_client ident) (return_io NoReply)
      | CmdHotplug ev \<Rightarrow> then_io (handle_hotplug E ev) (return_io NoReply)
      | CmdTick kind \<Rightarrow> then_io (handle_tick E kind) (return_io NoReply)
      | CmdShutdown \<Rightarrow> return_io NoReply)"

fun command_loop :: "'w Env \<Rightarrow> Command list \<Rightarrow> ('w, unit) manager_io" where
  "command_loop E [] = return_io ()"
| "command_loop E (cmd # cmds) =
     (if cmd = CmdShutdown then return_io ()
      else bind_io (handle_command E cmd) (\<lambda>_. command_loop E cmds))"

definition manager_run :: "'w Env \<Rightarrow> Command list \<Rightarrow> ('w, unit) manager_io" where
  "manager_run E cmds = then_io (try_autoconnect_all E) (command_loop E cmds)"

end
