(* ===== verification/Manager_Inv.thy ===== *)
theory Manager_Inv
  imports Manager
begin

text \<open>
  What holds of the manager between two commands. The invariant relates the device registry to the table of
  active connections and is kept by every handler, whatever the kernel, the disk and the other services do.
\<close>

section \<open>The invariant\<close>

text \<open>A device that is up is up through the active connection recorded for it; no device is left half way.\<close>

definition device_ok :: "(string \<times> ActiveConnection) list \<Rightarrow> string \<Rightarrow> NetworkDevice \<Rightarrow> bool" where
  "device_ok active k d \<longleftrightarrow> nd_name d = k \<and> nd_state d \<noteq> Connecting \<and> nd_state d \<noteq> IpConfiguring \<and>
     (nd_active_connection d \<noteq> None \<longrightarrow> nd_state d = Activated \<or> nd_state d = Deactivating) \<and>
     (nd_state d = Activated \<longrightarrow> (\<exists>a. hm_get active k = Some a \<and> ac_state a = AcActivated \<and>
        nd_active_connection d = Some (ac_profile_id a)))"

definition manager_ok :: "Manager \<Rightarrow> bool" where
  "manager_ok s \<longleftrightarrow> hm_ok (nm_devices s) \<and> hm_ok (nm_active s) \<and>
     (\<forall>k d. hm_get (nm_devices s) k = Some d \<longrightarrow> device_ok (nm_active s) k d) \<and> fw_inv (nm_firewall s)"

lemma manager_okD: "manager_ok s \<Longrightarrow> hm_get (nm_devices s) k = Some d \<Longrightarrow> device_ok (nm_active s) k d"
  by (simp add: manager_ok_def)

lemma manager_ok_frame [simp]:
  "manager_ok (s\<lparr>nm_config := c\<rparr>) = manager_ok s"
  "manager_ok (s\<lparr>nm_connections := cs\<rparr>) = manager_ok s"
  "manager_ok (s\<lparr>nm_connectivity := x\<rparr>) = manager_ok s"
  "manager_ok (s\<lparr>nm_events := ev\<rparr>) = manager_ok s"
  "manager_ok (s\<lparr>nm_audit := al\<rparr>) = manager_ok s"
  "manager_ok (s\<lparr>gl_children := ch\<rparr>) = manager_ok s"
  "manager_ok (s\<lparr>gl_vpn := t\<rparr>) = manager_ok s"
  "manager_ok (s\<lparr>gl_proxy := p\<rparr>) = manager_ok s"
  "manager_ok (s\<lparr>gl_vpn := t, nm_active := active\<rparr>) = manager_ok (s\<lparr>nm_active := active\<rparr>)"
  by (simp_all add: manager_ok_def)

lemma manager_ok_firewall: "manager_ok s \<Longrightarrow> fw_inv fw \<Longrightarrow> manager_ok (s\<lparr>nm_firewall := fw\<rparr>)"
  by (simp add: manager_ok_def)

lemma manager_ok_fw_inv: "manager_ok s \<Longrightarrow> fw_inv (nm_firewall s)"
  by (simp add: manager_ok_def)

section \<open>Composition\<close>

named_theorems manager_keeps

lemma keeps_cases [manager_keeps]:
  "(x = None \<Longrightarrow> keeps_io P a) \<Longrightarrow> (\<And>v. x = Some v \<Longrightarrow> keeps_io P (b v)) \<Longrightarrow>
     keeps_io P (case x of None \<Rightarrow> a | Some v \<Rightarrow> b v)"
  "(\<And>e. r = Inl e \<Longrightarrow> keeps_io P (c e)) \<Longrightarrow> (\<And>v. r = Inr v \<Longrightarrow> keeps_io P (d v)) \<Longrightarrow>
     keeps_io P (case r of Inl e \<Rightarrow> c e | Inr v \<Rightarrow> d v)"
  "(\<And>u v. keeps_io P (f u v)) \<Longrightarrow> keeps_io P (case p of (u, v) \<Rightarrow> f u v)"
  by (cases x; simp; fail | cases r; simp; fail | cases p; simp; fail)+

lemma keeps_on_found [manager_keeps]:
  "(\<And>v. x = Some v \<Longrightarrow> keeps_io P (f v)) \<Longrightarrow> keeps_io P (if_some x f)"
  by (cases x) (simp_all add: if_some_def)

lemma keeps_answer [manager_keeps]:
  "keeps_io P m \<Longrightarrow> (\<And>x. keeps_io P (f x)) \<Longrightarrow> keeps_io P (answer m f)"
  unfolding answer_def by (intro keeps_intros manager_keeps)

text \<open>A call on a part of the state that keeps the part's own invariant.\<close>

lemma keeps_zoom_part:
  assumes "keeps_io (\<lambda>(t, w). Q t) m" "\<And>s. P s \<Longrightarrow> Q (get s)" "\<And>s t. P s \<Longrightarrow> Q t \<Longrightarrow> P (put t s)"
  shows "keeps_io (\<lambda>(s, w). P s) (zoom get put m)"
proof
  fix x r y
  assume "(\<lambda>(s, w). P s) x" and run: "zoom get put m x = Ret (r, y)"
  then obtain s w where x: "x = (s, w)" "P s" by (cases x) auto
  from run x obtain t w' where "y = (put t s, w')" "m (get s, w) = Ret (r, (t, w'))" by (auto dest!: zoomed_Ok)
  with keeps_ioD [OF assms(1), of "(get s, w)" r "(t, w')"] assms(2,3) x(2) show "(\<lambda>(s, w). P s) y" by auto
qed

lemma keeps_state_update: "(\<And>s. P (f s) = P s) \<Longrightarrow> keeps_io (\<lambda>(s, w). P s) (modify_state f)"
  by (rule keeps_modify_state) simp

section \<open>The firewall part\<close>

abbreviation fw_kept :: "Firewall \<times> 'w \<Rightarrow> bool" where
  "fw_kept \<equiv> \<lambda>(fw, w). fw_inv fw"

lemma keeps_fw_steps:
  assumes "\<And>s r s'. m s = Ret (r, s') \<Longrightarrow> fw_step N s s'"
  shows "keeps_io fw_kept m"
  using assms fw_step_inv unfolding keeps_io_def by fastforce

lemma keeps_fw [manager_keeps]:
  "keeps_io fw_kept (assign_zone N i z)" "keeps_io fw_kept (ensure_default_zone N i)"
  "keeps_io fw_kept (add_rule N rule)" "keeps_io fw_kept (remove_rule N ident)"
  "keeps_io fw_kept (enable_sharing N lan wan)" "keeps_io fw_kept (disable_sharing N lan wan)"
  by (rule keeps_fw_steps; erule fw_step.intros)+

abbreviation share_kept :: "share_state \<times> 'w \<Rightarrow> bool" where
  "share_kept \<equiv> \<lambda>(st, w). fw_inv (fst st)"

lemma keeps_on_firewall: "keeps_io fw_kept m \<Longrightarrow> keeps_io share_kept (on_firewall m)"
  by (rule keeps_zoom_part [where Q = fw_inv]) auto

lemma keeps_on_children: "keeps_io share_kept (on_children m)"
  by (rule keeps_zoom) auto

lemma keeps_nat_enable [manager_keeps]: "keeps_io fw_kept (nat_enable F N lan wan)"
  unfolding nat_enable_def by (intro keeps_intros manager_keeps)

lemma keeps_hotspot_start: "keeps_io share_kept (sharing_hotspot_start E i ssid pass uplink)"
  unfolding sharing_hotspot_start_def
  by (intro keeps_intros manager_keeps keeps_on_firewall keeps_on_children)

abbreviation ok_state :: "Manager \<times> 'w \<Rightarrow> bool" where
  "ok_state \<equiv> \<lambda>(s, w). manager_ok s"

lemma keeps_fw_part [manager_keeps]: "keeps_io fw_kept m \<Longrightarrow> keeps_io ok_state (fw_part m)"
  by (rule keeps_zoom_part [where Q = fw_inv]) (auto intro: manager_ok_firewall manager_ok_fw_inv)

section \<open>Audit log and events\<close>

lemma bind_get [simp]: "bind_io (get_state f) g (s, w) = g (f s) (s, w)"
  by simp

lemma then_modify [simp]: "then_io (modify_state f) g (s, w) = g (f s, w)"
  by (simp add: then_io_def)

lemma record_audit_runs: "\<exists>al w'. record_audit E actor action detail (s, w) = Ret (Inr (), (s\<lparr>nm_audit := al\<rparr>, w'))"
proof -
  obtain al w' where "audit_record (en_audit E) actor action detail (nm_audit s) w = Ret (Inr al, w')"
    using audit_record_Ok [of "en_audit E" actor action detail "nm_audit s" w] by blast
  then have "on_world (audit_record (en_audit E) actor action detail (nm_audit s)) (s, w) = Ret (Inr al, (s, w'))"
    by (rule on_world_Ret)
  then show ?thesis by (auto simp: record_audit_def)
qed

lemma broadcast_runs: "\<exists>ev'. broadcast E ev (s, w) = Ret (Inr (), (s\<lparr>nm_events := ev'\<rparr>, w))"
  by (auto simp: broadcast_def on_world_def ask_def bind_io_def)

lemma broadcast_state_runs: "\<exists>ev. broadcast_state E (s, w) = Ret (Inr (), (s\<lparr>nm_events := ev\<rparr>, w))"
  using broadcast_runs by (auto simp: broadcast_state_def)

lemma keeps_notes:
  assumes "\<And>s al. P (s\<lparr>nm_audit := al\<rparr>) = P s" "\<And>s ev. P (s\<lparr>nm_events := ev\<rparr>) = P s"
  shows "keeps_io (\<lambda>(s, w). P s) (record_audit E actor action detail) \<and>
    keeps_io (\<lambda>(s, w). P s) (broadcast E ev) \<and> keeps_io (\<lambda>(s, w). P s) (broadcast_state E)"
  unfolding record_audit_def broadcast_state_def broadcast_def
  by (intro conjI keeps_intros keeps_state_update assms)

lemma keeps_notes_ok [manager_keeps]:
  "keeps_io ok_state (record_audit E actor action detail)" "keeps_io ok_state (broadcast E ev)"
  "keeps_io ok_state (broadcast_state E)"
  using keeps_notes [of manager_ok, OF manager_ok_frame(5,4)] by blast+

section \<open>Devices\<close>

lemma rebuild_entry:
  assumes "hm_get (rebuild un scanned reg) k = Some d"
  obtains dev where "dev \<in> set scanned" "nd_name dev = k" "d = merge_device un reg dev"
proof -
  have "map_of (rev (map (\<lambda>dev. (nd_name dev, merge_device un reg dev)) scanned)) k = Some d"
    using assms by (simp add: rebuild_def hm.get_fold_ins hm.get_emp split: option.splits)
  from map_of_SomeD [OF this] that show thesis by auto
qed

lemma scan_devices:
  assumes "scan K S fuel w = Ret (Inr scanned, w')" "dev \<in> set scanned"
  shows "nd_active_connection dev = None \<and> (nd_state dev = Disconnected \<or> nd_state dev = Unavailable)"
proof -
  from assms(1) obtain addrs ifaces where "scanned = map (device_of_interface S addrs) ifaces"
    unfolding scan_def bind_io_Ok by auto
  with assms(2) show ?thesis by (auto simp: device_of_interface_def split: if_splits)
qed

lemma merged_device_ok:
  assumes "\<And>k d. hm_get reg k = Some d \<Longrightarrow> device_ok active k d"
    and "nd_active_connection dev = None" "nd_state dev = Disconnected \<or> nd_state dev = Unavailable"
  shows "device_ok active (nd_name dev) (merge_device un reg dev)"
proof (cases "hm_get reg (nd_name dev)")
  case None
  with assms(2,3) show ?thesis by (auto simp: merge_device_def device_ok_def)
next
  case (Some d)
  from assms(1) [OF this] assms(2) Some show ?thesis by (simp add: merge_device_def device_ok_def)
qed

lemma refresh_result:
  assumes "refresh K S fuel un (reg, w) = Ret (r, (reg', w'))"
  obtains (kept) "reg' = reg" | (rebuilt) scanned where "scan K S fuel w = Ret (Inr scanned, w')" "reg' = rebuild un scanned reg"
  using assms by (auto simp: refresh_def split: outcome.splits sum.splits)

lemma refresh_keeps_devices:
  assumes "refresh K S fuel un (reg, w) = Ret (r, (reg', w'))"
    and "hm_ok reg" "\<And>k d. hm_get reg k = Some d \<Longrightarrow> device_ok active k d"
  shows "hm_ok reg' \<and> (\<forall>k d. hm_get reg' k = Some d \<longrightarrow> device_ok active k d)"
  using assms(1)
proof (cases rule: refresh_result)
  case kept
  with assms(2,3) show ?thesis by simp
next
  case (rebuilt scanned)
  have "device_ok active k d" if "hm_get reg' k = Some d" for k d
    using that unfolding rebuilt(2)
    by (rule rebuild_entry) (use scan_devices [OF rebuilt(1)] merged_device_ok [OF assms(3)] in blast)
  moreover have "hm_ok reg'" using registry_ok_rebuild rebuilt(2) by (simp add: registry_ok_def)
  ultimately show ?thesis by blast
qed

lemma keeps_refresh_devices [manager_keeps]: "keeps_io ok_state (refresh_devices E)"
proof -
  have "keeps_io ok_state (zoom nm_devices (\<lambda>reg s. s\<lparr>nm_devices := reg\<rparr>) (refresh K S fuel un))" for K S fuel un
  proof
    fix x r y
    assume ok: "ok_state x" and run: "zoom nm_devices (\<lambda>reg s. s\<lparr>nm_devices := reg\<rparr>) (refresh K S fuel un) x = Ret (r, y)"
    obtain s w where x: "x = (s, w)" by (cases x)
    with run obtain reg' w' where y: "y = (s\<lparr>nm_devices := reg'\<rparr>, w')"
      and "refresh K S fuel un (nm_devices s, w) = Ret (r, (reg', w'))" by (auto dest!: zoomed_Ok)
    from refresh_keeps_devices [OF this(2), of "nm_active s"] ok x y show "ok_state y"
      by (auto simp: manager_ok_def)
  qed
  then show ?thesis unfolding refresh_devices_def by (intro keeps_intros)
qed

section \<open>Activation\<close>

text \<open>The state with one device and its active connection replaced.\<close>

lemma manager_ok_device:
  assumes ok: "manager_ok s" and new: "device_ok active n d'"
    and other: "\<And>k. k \<noteq> n \<Longrightarrow> hm_get active k = hm_get (nm_active s) k" and act: "hm_ok active"
  shows "manager_ok (s\<lparr>nm_devices := hm_modify n (\<lambda>_. d') (nm_devices s), nm_active := active, gl_vpn := t\<rparr>)"
proof -
  have "device_ok active k d" if "hm_get (hm_modify n (\<lambda>_. d') (nm_devices s)) k = Some d" for k d
    using that new manager_okD [OF ok, of k d] other [of k]
    by (auto simp: hm_get_modify device_ok_def split: if_splits)
  with ok act show ?thesis by (simp add: manager_ok_def)
qed

lemma find_device_entry:
  assumes "manager_ok s" "find_device_for_profile profile (nm_devices s) = Some n"
  shows "\<exists>d. hm_get (nm_devices s) n = Some d \<and> nd_name d = n \<and> nd_device_type d = cp_device_type profile \<and>
    nd_active_connection d = None \<and> (cp_interface_name profile = None \<or> cp_interface_name profile = Some n)"
proof -
  obtain d where d: "d \<in> set (hm_values (nm_devices s))" "n = nd_name d" "nd_device_type d = cp_device_type profile"
    "nd_active_connection d = None" "case cp_interface_name profile of Some n \<Rightarrow> n = nd_name d | None \<Rightarrow> True"
    using assms(2) by (auto simp: find_device_for_profile_def find_Some_iff dest: nth_mem)
  with assms(1) obtain k where "hm_get (nm_devices s) k = Some d" by (auto simp: manager_ok_def hm_values_get)
  with manager_okD [OF assms(1) this] d show ?thesis by (auto simp: device_ok_def split: option.splits)
qed

text \<open>Calls that end with a given answer and change at most the audit log and the event queues.\<close>

definition noted :: "'a \<Rightarrow> ('w, 'a) manager_io \<Rightarrow> bool" where
  "noted v m \<longleftrightarrow> (\<forall>s w r s' w'. m (s, w) = Ret (r, (s', w')) \<longrightarrow>
     r = Inr v \<and> (\<exists>al ev. s' = s\<lparr>nm_audit := al, nm_events := ev\<rparr>))"

lemma notedD:
  assumes "noted v m" "m (s, w) = Ret (r, (s', w'))"
  shows "r = Inr v \<and> (\<exists>al ev. s' = s\<lparr>nm_audit := al, nm_events := ev\<rparr>)"
  using assms unfolding noted_def by blast

lemma noted_same: "\<exists>al ev. s = s\<lparr>nm_audit := al, nm_events := ev\<rparr>" for s :: Manager
  by (rule exI [of _ "nm_audit s"], rule exI [of _ "nm_events s"]) simp

lemma noted_return: "noted v (return_io v)"
  using noted_same by (auto simp: noted_def)

lemma noted_then:
  assumes m: "noted () m" and n: "noted v n"
  shows "noted v (then_io m n)"
  unfolding noted_def
proof (intro allI impI)
  fix s w r s' w'
  assume "then_io m n (s, w) = Ret (r, (s', w'))"
  then show "r = Inr v \<and> (\<exists>al ev. s' = s\<lparr>nm_audit := al, nm_events := ev\<rparr>)"
  proof (cases rule: then_io_cases)
    case (ok x)
    obtain s1 w1 where x: "x = (s1, w1)" by (cases x)
    obtain al ev where "s1 = s\<lparr>nm_audit := al, nm_events := ev\<rparr>" using notedD [OF m] ok(1) x by blast
    moreover have "r = Inr v \<and> (\<exists>al ev. s' = s1\<lparr>nm_audit := al, nm_events := ev\<rparr>)"
      using notedD [OF n] ok(2) x by blast
    ultimately show ?thesis by auto
  next
    case (err e)
    with notedD [OF m] show ?thesis by blast
  qed
qed

lemma notedI:
  assumes "\<And>s w. \<exists>al ev w'. m (s, w) = Ret (Inr v, (s\<lparr>nm_audit := al, nm_events := ev\<rparr>, w'))"
  shows "noted v m"
  unfolding noted_def
proof (intro allI impI)
  fix s w r s' w'
  assume "m (s, w) = Ret (r, (s', w'))"
  with assms [of s w] show "r = Inr v \<and> (\<exists>al ev. s' = s\<lparr>nm_audit := al, nm_events := ev\<rparr>)" by auto
qed

lemma noted_audit: "noted () (record_audit E actor action detail)"
proof (rule notedI)
  fix s w
  obtain al w' where "record_audit E actor action detail (s, w) = Ret (Inr (), (s\<lparr>nm_audit := al\<rparr>, w'))"
    using record_audit_runs [of E actor action detail s w] by blast
  then have "record_audit E actor action detail (s, w) = Ret (Inr (), (s\<lparr>nm_audit := al, nm_events := nm_events s\<rparr>, w'))"
    by simp
  then show "\<exists>al ev w'. record_audit E actor action detail (s, w) = Ret (Inr (), (s\<lparr>nm_audit := al, nm_events := ev\<rparr>, w'))"
    by blast
qed

lemma noted_broadcast: "noted () (broadcast E ev)"
proof (rule notedI)
  fix s w
  obtain q where "broadcast E ev (s, w) = Ret (Inr (), (s\<lparr>nm_events := q\<rparr>, w))"
    using broadcast_runs [of E ev s w] by blast
  then have "broadcast E ev (s, w) = Ret (Inr (), (s\<lparr>nm_audit := nm_audit s, nm_events := q\<rparr>, w))" by simp
  then show "\<exists>al q w'. broadcast E ev (s, w) = Ret (Inr (), (s\<lparr>nm_audit := al, nm_events := q\<rparr>, w'))" by blast
qed

lemma noted_ignored: "noted () (ignore_io (on_world m))"
proof -
  have "r = Inr () \<and> s' = s" if "ignore_io (on_world m) (s, w) = Ret (r, (s', w'))" for s s' :: Manager and w w' r
    using that by (auto simp: ignore_io_def try_io_def bind_io_def on_world_def return_io_def split: outcome.splits)
  then show ?thesis unfolding noted_def using noted_same by blast
qed

lemma noted_if_some: "(\<And>v. noted () (f v)) \<Longrightarrow> noted () (if_some x f)"
  by (cases x) (simp_all add: if_some_def noted_return)

lemma noted_bind_get: "(\<And>v. noted u (f v)) \<Longrightarrow> noted u (bind_io (get_state g) f)"
  unfolding noted_def by simp

lemma noted_broadcast_state: "noted () (broadcast_state E)"
  unfolding broadcast_state_def by (intro noted_bind_get noted_broadcast)

lemmas noted_intros = noted_return noted_then noted_audit noted_broadcast noted_broadcast_state noted_ignored
  noted_if_some noted_bind_get

lemma activated_on_result:
  assumes "activated_on E pid actor n a (s, w) = Ret (r, (s', w'))"
  shows "r = Inr RespOk \<and>
    (\<exists>al ev. s' = s\<lparr>nm_active := hm_insert n a (nm_active s), nm_audit := al, nm_events := ev\<rparr>)"
proof -
  let ?rest = "\<lambda>state. bind_io (get_state nm_profiles_dir) (\<lambda>dir.
     then_io (ignore_io (on_world (touch (ln_fs (en_link E)) dir pid)))
    (then_io (record_audit E actor ''connection.activate'' (pid @ '' on '' @ n))
    (then_io (if_some state (\<lambda>st. broadcast E (DeviceStateChanged n st)))
    (then_io (broadcast E (ConnectionActivated pid))
    (then_io (broadcast_state E)
       (return_io RespOk))))))"
  let ?state = "map_option nd_state (hm_get (nm_devices s) n)"
  have "noted RespOk (?rest ?state)" by (intro noted_intros)
  moreover have "?rest ?state (s\<lparr>nm_active := hm_insert n a (nm_active s)\<rparr>, w) = Ret (r, (s', w'))"
    using assms unfolding activated_on_def by (simp only: bind_get then_modify)
  ultimately show ?thesis by (rule notedD)
qed

lemma activate_on_result:
  assumes "activate_on E profile n d (s, w) = Ret (q, (s', w'))"
  obtains d' t' where "activate (link_of E s) profile ((d, gl_vpn s), w) = Ret (q, ((d', t'), w'))"
    "s' = s\<lparr>nm_devices := hm_modify n (\<lambda>_. d') (nm_devices s), gl_vpn := t'\<rparr>"
  using assms by (auto simp: activate_on_def dest!: zoomed_Ok)

text \<open>The two ways an activation of a profile ends once a device was found for it.\<close>

definition activation_effect :: "string \<Rightarrow> Manager \<Rightarrow> Response result \<Rightarrow> Manager \<Rightarrow> bool" where
  "activation_effect pid s r s' \<longleftrightarrow>
     (\<exists>profile n d d' t q. cp_id profile = pid \<and> profile \<in> set (nm_connections s) \<and>
        hm_get (nm_devices s) n = Some d \<and> nd_device_type d = cp_device_type profile \<and>
        nd_active_connection d = None \<and> activation_outcome profile d (gl_vpn s) q d' t \<and>
        (case q of
           Inr a \<Rightarrow> r = Inr RespOk \<and> (\<exists>al ev. s' = s\<lparr>nm_devices := hm_modify n (\<lambda>_. d') (nm_devices s),
             gl_vpn := t, nm_active := hm_insert n a (nm_active s), nm_audit := al, nm_events := ev\<rparr>)
         | Inl e \<Rightarrow> r = Inr (RespError (''activation failed: '' @ error_to_string e)) \<and>
             s' = s\<lparr>nm_devices := hm_modify n (\<lambda>_. d'\<lparr>nd_state := Failed\<rparr>) (nm_devices s), gl_vpn := t\<rparr>))"

lemma set_state_modify: "set_state n st (hm_modify n (\<lambda>_. d) m) = hm_modify n (\<lambda>_. d\<lparr>nd_state := st\<rparr>) m"
  by (auto simp: set_state_def hm_modify_def)

lemma activate_profile_result:
  assumes ok: "manager_ok s" and run: "activate_profile E pid actor (s, w) = Ret (r, (s', w'))"
  shows "(s' = s \<and> (\<exists>msg. r = Inr (RespError msg))) \<or> activation_effect pid s r s'"
proof (cases "find (\<lambda>p. cp_id p = pid) (nm_connections s)")
  case None
  with run show ?thesis by (auto simp: activate_profile_def)
next
  case (Some profile)
  then have profile: "cp_id profile = pid" "profile \<in> set (nm_connections s)"
    by (auto simp: find_Some_iff)
  show ?thesis
  proof (cases "find_device_for_profile profile (nm_devices s)")
    case None
    with run Some show ?thesis by (auto simp: activate_profile_def)
  next
    case (Some n)
    from find_device_entry [OF ok Some] obtain d where d: "hm_get (nm_devices s) n = Some d"
      "nd_device_type d = cp_device_type profile" "nd_active_connection d = None" by blast
    let ?rest = "\<lambda>result. case result of
        Inr active \<Rightarrow> activated_on E pid actor n active
      | Inl e \<Rightarrow> then_io (modify_state (\<lambda>s. s\<lparr>nm_devices := set_state n Failed (nm_devices s)\<rparr>))
          (return_io (RespError (''activation failed: '' @ error_to_string e)))"
    have "bind_io (try_io (activate_on E profile n d)) ?rest (s, w) = Ret (r, (s', w'))"
      using run unfolding activate_profile_def
      by (simp only: bind_get \<open>find _ _ = Some profile\<close> Some d(1) option.case)
    then obtain q x where q: "activate_on E profile n d (s, w) = Ret (q, x)" and rest: "?rest q x = Ret (r, (s', w'))"
      by (cases rule: bind_io_cases) (auto simp: try_io_def split: outcome.splits)
    obtain s1 w1 where x: "x = (s1, w1)" by (cases x)
    from q x obtain d' t where run': "activate (link_of E s) profile ((d, gl_vpn s), w) = Ret (q, ((d', t), w1))"
      and s1: "s1 = s\<lparr>nm_devices := hm_modify n (\<lambda>_. d') (nm_devices s), gl_vpn := t\<rparr>"
      by (auto elim: activate_on_result)
    have "case q of
           Inr a \<Rightarrow> r = Inr RespOk \<and> (\<exists>al ev. s' = s\<lparr>nm_devices := hm_modify n (\<lambda>_. d') (nm_devices s),
             gl_vpn := t, nm_active := hm_insert n a (nm_active s), nm_audit := al, nm_events := ev\<rparr>)
         | Inl e \<Rightarrow> r = Inr (RespError (''activation failed: '' @ error_to_string e)) \<and>
             s' = s\<lparr>nm_devices := hm_modify n (\<lambda>_. d'\<lparr>nd_state := Failed\<rparr>) (nm_devices s), gl_vpn := t\<rparr>"
    proof (cases q)
      case (Inl e)
      with rest x s1 show ?thesis by (auto simp: set_state_modify)
    next
      case (Inr a)
      with rest x have "activated_on E pid actor n a (s1, w1) = Ret (r, (s', w'))" by simp
      from activated_on_result [OF this] Inr s1 show ?thesis by auto
    qed
    then have "activation_effect pid s r s'"
      unfolding activation_effect_def
      by (intro exI [of _ profile] exI [of _ n] exI [of _ d] exI [of _ d'] exI [of _ t] exI [of _ q] conjI
            profile d activate_outcome [OF run'])
    then show ?thesis ..
  qed
qed


lemma hm_get_insert: "hm_get (hm_insert n a m) k = (if k = n then Some a else hm_get m k)"
  by (rule hm.get_ins)

lemma hm_get_remove: "hm_get (hm_remove n m) k = (if k = n then None else hm_get m k)"
  by (rule hm.get_del)

lemma activation_effect_ok:
  assumes ok: "manager_ok s" and eff: "activation_effect pid s r s'"
  shows "manager_ok s'"
proof -
  obtain profile n d d' t q where d: "hm_get (nm_devices s) n = Some d" "nd_active_connection d = None"
    and out: "activation_outcome profile d (gl_vpn s) q d' t"
    and s': "case q of
           Inr a \<Rightarrow> r = Inr RespOk \<and> (\<exists>al ev. s' = s\<lparr>nm_devices := hm_modify n (\<lambda>_. d') (nm_devices s),
             gl_vpn := t, nm_active := hm_insert n a (nm_active s), nm_audit := al, nm_events := ev\<rparr>)
         | Inl e \<Rightarrow> r = Inr (RespError (''activation failed: '' @ error_to_string e)) \<and>
             s' = s\<lparr>nm_devices := hm_modify n (\<lambda>_. d'\<lparr>nd_state := Failed\<rparr>) (nm_devices s), gl_vpn := t\<rparr>"
    using eff unfolding activation_effect_def by blast
  from manager_okD [OF ok d(1)] have n: "nd_name d = n" by (simp add: device_ok_def)
  have act: "hm_ok (nm_active s)" using ok by (simp add: manager_ok_def)
  show ?thesis
  proof (cases q)
    case (Inl e)
    with out d n have "device_ok (nm_active s) n (d'\<lparr>nd_state := Failed\<rparr>)"
      by (simp add: activation_outcome_def in_progress_def same_link_def device_ok_def)
    from manager_ok_device [OF ok this _ act, where t = t] s' Inl show ?thesis by simp
  next
    case (Inr a)
    with out n have "device_ok (hm_insert n a (nm_active s)) n d'"
      by (simp add: activation_outcome_def same_link_def device_ok_def hm_get_insert)
    from manager_ok_device [OF ok this _ hm_ok_insert [OF act], where t = t] s' Inr show ?thesis
      by (auto simp: hm_get_insert)
  qed
qed

lemma keeps_activate_profile [manager_keeps]: "keeps_io ok_state (activate_profile E pid actor)"
proof
  fix x r y
  assume "ok_state x" "activate_profile E pid actor x = Ret (r, y)"
  then show "ok_state y"
    using activate_profile_result [of "fst x" E pid actor "snd x" r "fst y" "snd y"]
      activation_effect_ok [of "fst x" pid r "fst y"]
    by (auto simp: split_beta)
qed

section \<open>Deactivation\<close>

text \<open>The ways a deactivation ends once the active connection was found: its entry is gone in every case.\<close>

definition taken_down :: "string \<Rightarrow> NetworkDevice \<Rightarrow> Manager \<Rightarrow> Response result \<Rightarrow> Manager \<Rightarrow> bool" where
  "taken_down n d gone r s' \<longleftrightarrow>
     (\<exists>d' t. nd_name d' = nd_name d \<and>
        ((r = Inr RespOk \<and> nd_state d' = Disconnected \<and> nd_active_connection d' = None \<and>
          (\<exists>al ev. s' = gone\<lparr>nm_devices := hm_modify n (\<lambda>_. d') (nm_devices gone), gl_vpn := t,
            nm_audit := al, nm_events := ev\<rparr>)) \<or>
         ((\<exists>e. r = Inr (RespError (''deactivation failed: '' @ error_to_string e))) \<and>
          nd_state d' = Deactivating \<and> nd_active_connection d' = nd_active_connection d \<and>
          s' = gone\<lparr>nm_devices := hm_modify n (\<lambda>_. d') (nm_devices gone), gl_vpn := t\<rparr>)))"

definition deactivation_effect :: "string \<Rightarrow> Manager \<Rightarrow> Response result \<Rightarrow> Manager \<Rightarrow> bool" where
  "deactivation_effect pid s r s' \<longleftrightarrow>
     (\<exists>n a. hm_get (nm_active s) n = Some a \<and> ac_profile_id a = pid \<and>
        (case hm_get (nm_devices s) n of
           None \<Rightarrow> r = Inr (RespError (''device '' @ quoted n @ '' disappeared'')) \<and>
             s' = s\<lparr>nm_active := hm_remove n (nm_active s)\<rparr>
         | Some d \<Rightarrow> taken_down n d (s\<lparr>nm_active := hm_remove n (nm_active s)\<rparr>) r s'))"

lemma deactivate_on_result:
  assumes "deactivate_on E a n d (s, w) = Ret (q, (s', w'))"
  shows "\<exists>d' t. nd_name d' = nd_name d \<and>
    s' = s\<lparr>nm_devices := hm_modify n (\<lambda>_. d') (nm_devices s), gl_vpn := t\<rparr> \<and>
    (case q of
       Inr _ \<Rightarrow> nd_state d' = Disconnected \<and> nd_active_connection d' = None
     | Inl _ \<Rightarrow> nd_state d' = Deactivating \<and> nd_active_connection d' = nd_active_connection d)"
proof -
  from assms obtain a' d' t where run: "deactivate (link_of E s) ((a, d, gl_vpn s), w) = Ret (q, ((a', d', t), w'))"
    and s': "s' = s\<lparr>nm_devices := hm_modify n (\<lambda>_. d') (nm_devices s), gl_vpn := t\<rparr>"
    by (auto simp: deactivate_on_def dest!: zoomed_Ok)
  from deactivate_outcome [OF run] s' show ?thesis
    by (intro exI [of _ d'] exI [of _ t]) (auto simp: deactivation_outcome_def same_link_def split: sum.splits)
qed


text \<open>The end of \<open>deactivate_profile\<close>.\<close>

definition deactivated :: "'w Env \<Rightarrow> string \<Rightarrow> string \<Rightarrow> string \<Rightarrow> unit result \<Rightarrow> ('w, Response) manager_io" where
  "deactivated E pid actor n result =
     (case result of
        Inr _ \<Rightarrow>
          then_io (record_audit E actor ''connection.deactivate'' (pid @ '' on '' @ n))
         (then_io (broadcast E (ConnectionDeactivated pid))
         (then_io (broadcast_state E)
            (return_io RespOk)))
      | Inl e \<Rightarrow> return_io (RespError (''deactivation failed: '' @ error_to_string e)))"

lemma deactivate_found:
  assumes "bind_io (try_io (deactivate_on E a n d)) (deactivated E pid actor n) (s, w) = Ret (r, (s', w'))"
  shows "taken_down n d s r s'"
proof -
  from assms obtain q x where q: "deactivate_on E a n d (s, w) = Ret (q, x)"
    and rest: "deactivated E pid actor n q x = Ret (r, (s', w'))"
    by (cases rule: bind_io_cases) (auto simp: try_io_def split: outcome.splits)
  obtain s1 w1 where x: "x = (s1, w1)" by (cases x)
  from deactivate_on_result [OF q [unfolded x]] obtain d' t where d': "nd_name d' = nd_name d"
    and s1: "s1 = s\<lparr>nm_devices := hm_modify n (\<lambda>_. d') (nm_devices s), gl_vpn := t\<rparr>"
    and st: "case q of Inr _ \<Rightarrow> nd_state d' = Disconnected \<and> nd_active_connection d' = None
       | Inl _ \<Rightarrow> nd_state d' = Deactivating \<and> nd_active_connection d' = nd_active_connection d"
    by auto
  show ?thesis
  proof (cases q)
    case (Inl e)
    with rest x s1 st d' show ?thesis by (auto simp: deactivated_def taken_down_def)
  next
    case (Inr u)
    have "noted RespOk (deactivated E pid actor n q)" unfolding Inr deactivated_def sum.case by (intro noted_intros)
    from notedD [OF this rest [unfolded x]] st Inr s1 d' show ?thesis
      unfolding taken_down_def by (intro exI [of _ d'] exI [of _ t]) simp
  qed
qed

lemma deactivate_profile_result:
  assumes ok: "manager_ok s" and run: "deactivate_profile E pid actor (s, w) = Ret (r, (s', w'))"
  shows "(s' = s \<and> r = Inr (RespError (''connection '' @ quoted pid @ '' is not active'')) \<and>
      (\<forall>n a. hm_get (nm_active s) n = Some a \<longrightarrow> ac_profile_id a \<noteq> pid)) \<or> deactivation_effect pid s r s'"
proof (cases "find (\<lambda>(_, a). ac_profile_id a = pid) (nm_active s)")
  case None
  with run show ?thesis by (auto simp: deactivate_profile_def find_None_iff hm_get_def dest!: map_of_SomeD)
next
  case (Some entry)
  obtain n a where entry: "entry = (n, a)" by (cases entry)
  with Some have "(n, a) \<in> set (nm_active s)" and pid: "ac_profile_id a = pid"
    by (auto simp: find_Some_iff dest: nth_mem)
  with ok have a: "hm_get (nm_active s) n = Some a" by (simp add: manager_ok_def hm_ok_def hm_get_def)
  let ?gone = "s\<lparr>nm_active := hm_remove n (nm_active s)\<rparr>"
  have "case hm_get (nm_devices s) n of
      None \<Rightarrow> r = Inr (RespError (''device '' @ quoted n @ '' disappeared'')) \<and> s' = ?gone
    | Some d \<Rightarrow> taken_down n d ?gone r s'"
  proof (cases "hm_get (nm_devices s) n")
    case None
    with run Some entry a show ?thesis by (simp add: deactivate_profile_def)
  next
    case (Some d)
    have "bind_io (try_io (deactivate_on E a n d)) (deactivated E pid actor n) (?gone, w) = Ret (r, (s', w'))"
      using run unfolding deactivate_profile_def deactivated_def [abs_def]
      by (simp only: bind_get then_modify \<open>find _ _ = Some entry\<close> entry a option.case prod.case)
         (simp add: Some)
    from deactivate_found [OF this] Some show ?thesis by simp
  qed
  with a pid have "deactivation_effect pid s r s'" unfolding deactivation_effect_def by blast
  then show ?thesis ..
qed


lemma manager_ok_remove:
  assumes ok: "manager_ok s" and d: "device_ok (hm_remove n (nm_active s)) n d'"
  shows "manager_ok (s\<lparr>nm_active := hm_remove n (nm_active s),
    nm_devices := hm_modify n (\<lambda>_. d') (nm_devices s), gl_vpn := t\<rparr>)"
proof -
  have "hm_ok (hm_remove n (nm_active s))" using ok by (simp add: manager_ok_def)
  from manager_ok_device [OF ok d _ this] show ?thesis by (simp add: hm_get_remove manager_ok_def)
qed

lemma taken_down_ok:
  assumes ok: "manager_ok s" and d: "hm_get (nm_devices s) n = Some d"
    and down: "taken_down n d (s\<lparr>nm_active := hm_remove n (nm_active s)\<rparr>) r s'"
  shows "manager_ok s'"
proof -
  note dd = manager_okD [OF ok d]
  from down obtain d' t al ev where d': "nd_name d' = nd_name d"
    and st: "(nd_state d' = Disconnected \<and> nd_active_connection d' = None) \<or> nd_state d' = Deactivating"
    and s': "s' = s\<lparr>nm_active := hm_remove n (nm_active s), nm_devices := hm_modify n (\<lambda>_. d') (nm_devices s), gl_vpn := t,
        nm_audit := al, nm_events := ev\<rparr> \<or>
      s' = s\<lparr>nm_active := hm_remove n (nm_active s), nm_devices := hm_modify n (\<lambda>_. d') (nm_devices s), gl_vpn := t\<rparr>"
    unfolding taken_down_def by auto
  have "device_ok (hm_remove n (nm_active s)) n d'" using dd d' st by (auto simp: device_ok_def)
  from manager_ok_remove [OF ok this] s' show ?thesis by (metis manager_ok_frame(4,5))
qed

lemma deactivation_effect_ok:
  assumes ok: "manager_ok s" and eff: "deactivation_effect pid s r s'"
  shows "manager_ok s'"
proof -
  from eff obtain n where n: "case hm_get (nm_devices s) n of
       None \<Rightarrow> r = Inr (RespError (''device '' @ quoted n @ '' disappeared'')) \<and>
         s' = s\<lparr>nm_active := hm_remove n (nm_active s)\<rparr>
     | Some d \<Rightarrow> taken_down n d (s\<lparr>nm_active := hm_remove n (nm_active s)\<rparr>) r s'"
    unfolding deactivation_effect_def by blast
  show ?thesis
  proof (cases "hm_get (nm_devices s) n")
    case None
    have "device_ok (hm_remove n (nm_active s)) k d" if "hm_get (nm_devices s) k = Some d" for k d
      using that None manager_okD [OF ok that] by (auto simp: device_ok_def hm_get_remove)
    with n None ok show ?thesis by (simp add: manager_ok_def)
  next
    case (Some d)
    with n taken_down_ok [OF ok Some] show ?thesis by simp
  qed
qed

lemma keeps_deactivate_profile [manager_keeps]: "keeps_io ok_state (deactivate_profile E pid actor)"
proof
  fix x r y
  assume "ok_state x" "deactivate_profile E pid actor x = Ret (r, y)"
  then show "ok_state y"
    using deactivate_profile_result [of "fst x" E pid actor "snd x" r "fst y" "snd y"]
      deactivation_effect_ok [of "fst x" pid r "fst y"]
    by (auto simp: split_beta)
qed

section \<open>Every handler keeps the invariant\<close>

lemmas ok_intros = keeps_intros keeps_if keeps_state_update manager_ok_frame

lemma keeps_visible_ssids [manager_keeps]: "keeps_io ok_state (visible_ssids E n)"
  unfolding visible_ssids_def by (intro ok_intros manager_keeps)

lemma keeps_try_autoconnect [manager_keeps]: "keeps_io ok_state (try_autoconnect E n)"
  unfolding try_autoconnect_def by (intro ok_intros manager_keeps)

lemma keeps_try_autoconnect_all: "keeps_io ok_state (try_autoconnect_all E)"
  unfolding try_autoconnect_all_def by (intro ok_intros manager_keeps)

lemma keeps_device_changed [manager_keeps]: "keeps_io ok_state (device_changed E name)"
  unfolding device_changed_def by (intro ok_intros manager_keeps)

lemma manager_ok_unplug:
  assumes "manager_ok s"
  shows "manager_ok (s\<lparr>nm_active := hm_remove n (nm_active s), nm_devices := hm_remove n (nm_devices s)\<rparr>)"
  using assms by (auto simp: manager_ok_def hm_get_remove device_ok_def)

lemma keeps_handle_hotplug [manager_keeps]: "keeps_io ok_state (handle_hotplug E ev)"
proof (cases ev)
  case (LinkRemoved name)
  show ?thesis
    unfolding handle_hotplug_def LinkRemoved HotplugEvent.case
    by (intro keeps_then manager_keeps keeps_modify_state manager_ok_unplug)
qed (simp_all only: handle_hotplug_def HotplugEvent.case, (intro ok_intros manager_keeps)+)

lemma keeps_check_lease [manager_keeps]: "keeps_io ok_state (check_lease E p)"
  unfolding check_lease_def by (intro ok_intros manager_keeps)

lemma keeps_handle_tick [manager_keeps]: "keeps_io ok_state (handle_tick E kind)"
  by (cases kind) (simp_all only: handle_tick_def TickKind.case Let_def, (intro ok_intros manager_keeps)+)


section \<open>The laws of an invariant of requests\<close>

text \<open>
  Most of what a request changes is not looked at by an invariant of devices and active connections. An
  invariant has to name what it needs: it is blind to the other fields, it implies that of the firewall and
  depends on no more of it, and activation and deactivation keep it. Every request then keeps it.
\<close>

locale request_laws =
  fixes E :: "'w Env" and inv :: "Manager \<Rightarrow> bool"
  assumes frame: "inv (s\<lparr>nm_config := c\<rparr>) = inv s" "inv (s\<lparr>nm_connections := cs\<rparr>) = inv s"
      "inv (s\<lparr>nm_events := ev\<rparr>) = inv s" "inv (s\<lparr>nm_audit := al\<rparr>) = inv s"
      "inv (s\<lparr>gl_children := ch\<rparr>) = inv s" "inv (s\<lparr>gl_proxy := p\<rparr>) = inv s"
    and firewall: "inv s \<Longrightarrow> fw_inv (nm_firewall s)" "inv s \<Longrightarrow> fw_inv fw \<Longrightarrow> inv (s\<lparr>nm_firewall := fw\<rparr>)"
    and act: "keeps_io (\<lambda>(s, w). inv s) (activate_profile E pid actor)"
    and deact: "keeps_io (\<lambda>(s, w). inv s) (deactivate_profile E pid actor)"
begin

lemma audit_kept: "keeps_io (\<lambda>(s, w). inv s) (record_audit E actor action detail)"
  using keeps_notes [of inv, OF frame(4,3)] by blast

lemma parts_kept:
  "keeps_io (\<lambda>(s, w). inv s) (proxy_part m)"
  "keeps_io (\<lambda>(s, w). inv s) (zoom gl_children (\<lambda>ch s. s\<lparr>gl_children := ch\<rparr>) k)"
  by (rule keeps_zoom, simp add: frame)+

lemma fw_part_kept: "keeps_io fw_kept m \<Longrightarrow> keeps_io (\<lambda>(s, w). inv s) (fw_part m)"
  by (rule keeps_zoom_part [where Q = fw_inv]) (auto intro: firewall)

lemma share_part_kept: "keeps_io share_kept m \<Longrightarrow> keeps_io (\<lambda>(s, w). inv s) (share_part m)"
  by (rule keeps_zoom_part [where Q = "fw_inv \<circ> fst"]) (auto intro: firewall simp: frame)

lemma audited_kept:
  "keeps_io (\<lambda>(s, w). inv s) m \<Longrightarrow> keeps_io (\<lambda>(s, w). inv s) (audited E actor action detail m)"
  unfolding audited_def by (intro keeps_intros keeps_answer audit_kept)

lemma profile_calls_kept:
  "keeps_io (\<lambda>(s, w). inv s) (store_profile E profile)" "keeps_io (\<lambda>(s, w). inv s) (erase_profile E ident)"
  "keeps_io (\<lambda>(s, w). inv s) (erase_secrets E ident)"
  unfolding store_profile_def erase_profile_def erase_secrets_def by (intro keeps_intros)+

lemmas kept_intros = keeps_intros keeps_cases keeps_if keeps_on_found keeps_answer keeps_state_update frame
  audit_kept parts_kept fw_part_kept share_part_kept audited_kept profile_calls_kept keeps_fw keeps_hotspot_start act deact

lemma requests_kept:
  "keeps_io (\<lambda>(s, w). inv s) (req_add_connection E actor profile)"
  "keeps_io (\<lambda>(s, w). inv s) (req_delete_connection E actor ident)"
  "keeps_io (\<lambda>(s, w). inv s) (req_connect_wifi E actor device ssid security passphrase)"
  "keeps_io (\<lambda>(s, w). inv s) (req_forget_wifi E actor device ssid)"
  "keeps_io (\<lambda>(s, w). inv s) (req_start_hotspot E actor device ssid passphrase uplink)"
  "keeps_io (\<lambda>(s, w). inv s) (req_stop_hotspot E actor device)"
  "keeps_io (\<lambda>(s, w). inv s) (req_set_proxy E actor config)"
  "keeps_io (\<lambda>(s, w). inv s) (req_diagnose E)"
  "keeps_io (\<lambda>(s, w). inv s) (req_reload E actor)"
  "keeps_io (\<lambda>(s, w). inv s) (req_bluetooth E actor action detail m)"
  unfolding req_add_connection_def req_delete_connection_def req_connect_wifi_def req_forget_wifi_def
    req_start_hotspot_def req_stop_hotspot_def req_set_proxy_def req_diagnose_def req_reload_def req_bluetooth_def
    Let_def
  by (intro kept_intros)+

lemma request_kept: "keeps_io (\<lambda>(s, w). inv s) (handle_request E req identity)"
  by (cases req; simp only: handle_request_def Request.case Let_def; intro kept_intros requests_kept)

text \<open>A sequence of requests, from whatever peers.\<close>

lemma requests_sequence_kept: "keeps_io (\<lambda>(s, w). inv s) (command_loop E (map (case_prod CmdRequest) reqs))"
proof (induction reqs)
  case (Cons q reqs)
  obtain req identity where q: "q = (req, identity)" by (cases q)
  have "keeps_io (\<lambda>(s, w). inv s) (handle_command E (CmdRequest req identity))"
    unfolding handle_command_def Command.case by (intro keeps_intros request_kept)
  with Cons show ?case unfolding q by (simp, intro keeps_intros)
qed simp

end

interpretation ok_laws: request_laws E manager_ok for E
  by unfold_locales
     (simp_all add: manager_ok_fw_inv manager_ok_firewall keeps_activate_profile keeps_deactivate_profile)

lemma keeps_handle_command: "keeps_io ok_state (handle_command E cmd)"
  by (cases cmd; simp only: handle_command_def Command.case register_client_def unregister_client_def;
      intro ok_intros manager_keeps ok_laws.request_kept)

lemma blank_ok: "manager_ok (blank config)"
  by (simp add: manager_ok_def blank_def Let_def fw_inv_new hm.get_emp)

lemma keeps_manager_init: "keeps_io ok_state (manager_init E)"
  unfolding manager_init_def by (intro ok_intros manager_keeps ok_laws.parts_kept)

section \<open>The daemon over time\<close>

text \<open>
  The manager's state and the world at the points between commands: after start-up, after the first
  autoconnect, after any command, and with anything happening outside in between.
\<close>

inductive reachable :: "'w Env \<Rightarrow> Manager \<times> 'w \<Rightarrow> bool" for E where
  started: "manager_new E config w = Ret (Inr s, w') \<Longrightarrow> reachable E (s, w')"
| autoconnected: "reachable E x \<Longrightarrow> try_autoconnect_all E x = Ret (r, y) \<Longrightarrow> reachable E y"
| commanded: "reachable E x \<Longrightarrow> handle_command E cmd x = Ret (r, y) \<Longrightarrow> reachable E y"
| outside: "reachable E (s, w) \<Longrightarrow> reachable E (s, w')"

lemma manager_new_ok:
  assumes "manager_new E config w = Ret (Inr s, w')"
  shows "manager_ok s"
proof -
  from assms obtain u where "manager_init E (blank config, w) = Ret (Inr u, (s, w'))"
    by (auto simp: manager_new_def split: outcome.splits sum.splits)
  from keeps_ioD [OF keeps_manager_init this] blank_ok show ?thesis by simp
qed

lemma reachable_ok: "reachable E x \<Longrightarrow> ok_state x"
proof (induction rule: reachable.induct)
  case (started config w s w')
  then show ?case by (simp add: manager_new_ok)
next
  case (autoconnected x r y)
  then show ?case using keeps_ioD [OF keeps_try_autoconnect_all] by blast
next
  case (commanded x cmd r y)
  then show ?case using keeps_ioD [OF keeps_handle_command] by blast
qed simp

lemma no_connecting_overall:
  assumes "manager_ok s"
  shows "overall_state (hm_values (nm_devices s)) c \<noteq> NetConnecting"
proof -
  have "nd_state d \<noteq> Connecting \<and> nd_state d \<noteq> IpConfiguring" if "d \<in> set (hm_values (nm_devices s))" for d
  proof -
    from that assms obtain k where "hm_get (nm_devices s) k = Some d" by (auto simp: manager_ok_def hm_values_get)
    from manager_okD [OF assms this] show ?thesis by (simp add: device_ok_def)
  qed
  then show ?thesis by (auto simp: overall_state_def list_ex_iff split: ConnectivityState.splits)
qed

end
