(* ===== verification/Daemon.thy ===== *)
theory Daemon
  imports Manager_Inv Sample_Host
begin

text \<open>
  The daemon as a whole: what its clients may rely on. The control socket's connection handler runs against
  the manager's request handler, the invariant is stated for every state the daemon reaches, and the outcome
  of the requests that bring connections up and down is described for all of them.
\<close>

section \<open>A connection served by the manager\<close>

text \<open>The socket of a connection touches the world only; its place on the event bus is the manager's.\<close>

definition beside :: "('w \<Rightarrow> 'a \<times> 'w) \<Rightarrow> 's \<times> 'w \<Rightarrow> 'a \<times> ('s \<times> 'w)" where
  "beside f = (\<lambda>(s, w). case f w of (x, w') \<Rightarrow> (x, (s, w')))"

definition daemon_stream :: "'w Stream \<Rightarrow> (Manager \<times> 'w) Stream" where
  "daemon_stream S = \<lparr>st_write_all = (\<lambda>b. beside (st_write_all S b)), st_flush = beside (st_flush S),
     st_read_exact = (\<lambda>n. beside (st_read_exact S n))\<rparr>"

definition daemon_conn :: "'w ConnEnv \<Rightarrow> (Manager \<times> 'w) ConnEnv" where
  "daemon_conn C = \<lparr>co_stream = daemon_stream (co_stream C), co_requests = co_requests C,
     co_messages = co_messages C, co_groups = co_groups C, co_now = beside (co_now C),
     co_sleep = (\<lambda>n (s, w). (s, co_sleep C n w)), co_peercred = beside (co_peercred C),
     co_try_clone = beside (co_try_clone C), co_register = register_client, co_unregister = unregister_client\<rparr>"

definition daemon_link :: "'w Env \<Rightarrow> (Manager \<times> 'w) manager_link" where
  "daemon_link E = (\<lambda>req identity. bind_io (handle_request E req identity) (\<lambda>resp. return_io (Some resp)))"

lemma keeps_beside [keeps_intros]:
  "keeps_io (\<lambda>(s, w). P s) (sys_call mk (beside f))" "keeps_io (\<lambda>(s, w). P s) (ask (beside g))"
  unfolding keeps_io_def sys_call_def ask_def beside_def by (auto split: prod.splits sum.splits)

lemma keeps_serde [keeps_intros]: "keeps_io P (serde mk r)"
  unfolding serde_def by (auto split: sum.splits)

lemma daemon_parts:
  "st_write_all (daemon_stream S) b = beside (st_write_all S b)" "st_flush (daemon_stream S) = beside (st_flush S)"
  "st_read_exact (daemon_stream S) n = beside (st_read_exact S n)"
  "co_stream (daemon_conn C) = daemon_stream (co_stream C)" "co_groups (daemon_conn C) = co_groups C"
  "co_peercred (daemon_conn C) = beside (co_peercred C)" "co_requests (daemon_conn C) = co_requests C"
  "co_messages (daemon_conn C) = co_messages C"
  "co_try_clone (daemon_conn C) = beside (co_try_clone C)" "co_now (daemon_conn C) = beside (co_now C)"
  "co_register (daemon_conn C) = register_client" "co_unregister (daemon_conn C) = unregister_client"
  by (simp_all add: daemon_stream_def daemon_conn_def)

lemma keeps_messages [keeps_intros]:
  "keeps_io (\<lambda>(s, w). P s) (write_message (daemon_stream S) J m)"
  "keeps_io (\<lambda>(s, w). P s) (read_message (daemon_stream S) J)"
  unfolding write_message_def read_message_def Let_def daemon_parts
  by (intro keeps_intros keeps_if)+

lemma keeps_throttle [keeps_intros]: "keeps_io (\<lambda>(s, w). P s) (throttle (daemon_conn C) win)"
proof -
  have "keeps_io (\<lambda>(s, w). P s) (\<lambda>w. Ret (Inr (), co_sleep (daemon_conn C) 50 w))"
    unfolding keeps_io_def by (auto simp: daemon_conn_def)
  then show ?thesis
    unfolding throttle_def Let_def daemon_parts by (intro keeps_intros keeps_if keeps_cases)
qed

section \<open>Requests that only look\<close>

lemma keeps_resolve: "keeps_io (\<lambda>(s, w). P s) (proxy_part (resolve_for_url X url))"
proof
  fix x r y
  assume P: "(\<lambda>(s, w). P s) x" and run: "proxy_part (resolve_for_url X url) x = Ret (r, y)"
  obtain s w where x: "x = (s, w)" by (cases x)
  with run obtain p w' where y: "y = (s\<lparr>gl_proxy := p\<rparr>, w')"
    and "resolve_for_url X url (gl_proxy s, w) = Ret (r, (p, w'))" by (auto dest!: zoomed_Ok)
  with resolve_answers [of X url "gl_proxy s" w] have "p = gl_proxy s" by auto
  with P x y show "(\<lambda>(s, w). P s) y" by simp
qed

lemma view_keeps_state:
  assumes "required_capability req = ViewState"
  shows "keeps_io (\<lambda>(s, w). P s) (handle_request E req identity)"
  using assms
  by (cases req; simp only: handle_request_def Request.case Let_def req_diagnose_def required_capability.simps
        Capability.distinct;
      intro keeps_intros keeps_answer keeps_resolve keeps_cases)

text \<open>A peer that is neither root nor in the privileged group.\<close>

definition unprivileged :: "GroupDb \<Rightarrow> PeerIdentity \<Rightarrow> bool" where
  "unprivileged db identity \<longleftrightarrow> \<not> is_root identity \<and> \<not> in_group db identity PRIVILEGED_GROUP"

lemma unprivileged_answer:
  assumes "unprivileged db identity"
  shows "keeps_io (\<lambda>(s, w). P s) (answer_request db (daemon_link E) identity req)"
proof (cases "check db identity (required_capability req)")
  case (Inl e)
  then show ?thesis by (simp add: answer_request_def)
next
  case (Inr u)
  with assms check_ok [of db identity "required_capability req"] have "required_capability req = ViewState"
    by (auto simp: unprivileged_def)
  from view_keeps_state [OF this] Inr show ?thesis
    unfolding answer_request_def daemon_link_def by (simp, intro keeps_intros)
qed

lemma unprivileged_loop:
  assumes "unprivileged (co_groups C) identity"
  shows "keeps_io (\<lambda>(s, w). P s) (request_loop (daemon_conn C) (daemon_link E) identity fuel win)"
proof (induction fuel arbitrary: win)
  case 0
  show ?case by (simp add: keeps_io_def)
next
  case (Suc fuel)
  have "keeps_io (\<lambda>(s, w). P s) (request_step (daemon_conn C) (daemon_link E) identity win)"
    unfolding request_step_def daemon_parts by (intro keeps_intros unprivileged_answer assms)
  from keeps_bind [OF this Suc.IH] show ?case unfolding keeps_io_def by simp
qed

text \<open>Binding a call whose answers are known to satisfy a condition.\<close>

lemma keeps_bind_where:
  assumes m: "keeps_io P m" and post: "\<And>w x w'. m w = Ret (Inr x, w') \<Longrightarrow> Q x" and f: "\<And>x. Q x \<Longrightarrow> keeps_io P (f x)"
  shows "keeps_io P (bind_io m f)"
proof
  fix w r w'
  assume w: "P w" and run: "bind_io m f w = Ret (r, w')"
  from run show "P w'"
  proof (cases rule: bind_io_cases)
    case (ok x w1)
    then show ?thesis using keeps_ioD [OF m _ w] keeps_ioD [OF f [OF post]] by blast
  next
    case err
    then show ?thesis using keeps_ioD [OF m _ w] by blast
  qed
qed

lemma unprivileged_handler:
  assumes peers: "\<And>w identity w'. co_peercred C w = (Inr identity, w') \<Longrightarrow> unprivileged (co_groups C) identity"
    and events: "\<And>s ev. P (s\<lparr>nm_events := ev\<rparr>) = P s"
  shows "keeps_io (\<lambda>(s, w). P s) (handle_connection (daemon_conn C) (daemon_link E) fuel)"
proof -
  have reg: "keeps_io (\<lambda>(s, w). P s) register_client" "keeps_io (\<lambda>(s, w). P s) (unregister_client i)" for i
    unfolding register_client_def unregister_client_def by (intro keeps_intros keeps_state_update events)+
  have who: "unprivileged (co_groups C) identity"
    if "sys_call (\<lambda>e. Other (''SO_PEERCRED failed: '' @ e)) (beside (co_peercred C)) x = Ret (Inr identity, y)"
    for x y and identity
    using that by (auto simp: sys_call_Ok beside_def intro: peers split: prod.splits)
  show ?thesis
    unfolding handle_connection_def peer_identity_def daemon_parts
    by (rule keeps_bind_where [where Q = "unprivileged (co_groups C)"])
       (erule who | intro keeps_intros reg unprivileged_loop | assumption)+
qed

text \<open>C1. A client that is neither root nor in the group netdev cannot change anything: whatever it sends over its whole
  connection, the manager's configuration, devices, profiles, active connections, firewall, proxy and
  logs stay as they are; only its own place on the event bus comes and goes.
\<close>

theorem unprivileged_connection:
  assumes "\<And>w identity w'. co_peercred C w = (Inr identity, w') \<Longrightarrow> unprivileged (co_groups C) identity"
    and "handle_connection (daemon_conn C) (daemon_link E) fuel (s, w) = Ret (r, (s', w'))"
  shows "\<exists>ev. s' = s\<lparr>nm_events := ev\<rparr>"
proof -
  let ?same = "\<lambda>x. x\<lparr>nm_events := bus_new\<rparr> = s\<lparr>nm_events := bus_new\<rparr>"
  have "keeps_io (\<lambda>(x, w). ?same x) (handle_connection (daemon_conn C) (daemon_link E) fuel)"
    by (rule unprivileged_handler [where P = ?same]) (use assms(1) in simp_all)
  from keeps_ioD [OF this assms(2)] have "?same s'" by simp
  from arg_cong [OF this, of "\<lambda>x. x\<lparr>nm_events := nm_events s'\<rparr>"] have "s' = s\<lparr>nm_events := nm_events s'\<rparr>" by simp
  then show ?thesis ..
qed


section \<open>A host for examples\<close>

definition quiet_env :: "'w Env" where
  "quiet_env = \<lparr>en_link = quiet_link,
     en_sysfs = (\<lambda>_. \<lparr>sf_exists = (\<lambda>p. p = ''/sys/class/net/eth0/device''), sf_link_name = (\<lambda>_. None), sf_read = (\<lambda>_. None)\<rparr>),
     en_nft = \<lparr>nft_delete_table = (\<lambda>w. w), nft_load = (\<lambda>_ w. (NftOk, w))\<rparr>,
     en_ap = \<lparr>ap_mkdir = (\<lambda>_ w. (Inr (), w)), ap_write = (\<lambda>_ _ w. (Inr (), w)), ap_unlink = (\<lambda>_ w. w),
       ap_spawn = (\<lambda>_ w. (Inr 7, w)), ap_kill = (\<lambda>_ w. w)\<rparr>,
     en_dhcpd = \<lparr>dd_socket = (\<lambda>w. (Inr 8, w)), dd_bind = (\<lambda>_ _ w. (Inr (), w)), dd_close = (\<lambda>_ w. w),
       dd_set_timeout = (\<lambda>_ _ w. (Inr (), w)), dd_spawn = (\<lambda>_ _ w. (Inr 9, w)), dd_stop = (\<lambda>_ w. w)\<rparr>,
     en_http = \<lparr>he_connect = (\<lambda>_ _ w. (False, w)), he_set_read_timeout = (\<lambda>_ w. (Inr (), w)),
       he_set_write_timeout = (\<lambda>_ w. (Inr (), w)), he_write_all = (\<lambda>_ w. (True, w)), he_read = (\<lambda>w. ([], w))\<rparr>,
     en_bluetooth = (\<lambda>_ _ w. (RunError ''no bluetoothctl'', w)),
     en_audit = \<lparr>au_mkdir = (\<lambda>_ w. (Inr (), w)), au_open = (\<lambda>_ w. (Inr (), w)), au_unix = (\<lambda>w. (0, w)),
       au_append = (\<lambda>_ w. (Inr (), w))\<rparr>,
     en_proxy = \<lparr>pv_fs = quiet_fs,
       pv_pac = \<lparr>pe_unicode = \<lparr>uc_alphabetic = (\<lambda>_. False), uc_alphanumeric = (\<lambda>_. False), uc_escape = (\<lambda>c. c)\<rparr>,
         pe_connect = (\<lambda>_ _ w. (Inl ''unreachable'', w)), pe_set_read_timeout = (\<lambda>_ w. (Inr (), w)),
         pe_set_write_timeout = (\<lambda>_ w. (Inr (), w)), pe_write_all = (\<lambda>_ w. (Inr (), w)),
         pe_read_to_end = (\<lambda>_ w. (Inr [], w)), pe_lookup_host = (\<lambda>_ w. (Inl [], w)),
         pe_route_source = (\<lambda>w. (Inl [], w)), pe_unix_secs = (\<lambda>w. (0, w))\<rparr>,
       pv_codec = \<lparr>enc = (\<lambda>_. Inr []), dec = (\<lambda>_. Inl [])\<rparr>, pv_data_dir = None\<rparr>,
     en_profile_codec = \<lparr>enc = (\<lambda>_. Inr []), dec = (\<lambda>_. Inl [])\<rparr>,
     en_config_codecs = \<lparr>toml_general = \<lparr>enc = (\<lambda>_. Inr []), dec = (\<lambda>_. Inl [])\<rparr>,
       toml_interfaces = \<lparr>enc = (\<lambda>_. Inr []), dec = (\<lambda>_. Inl [])\<rparr>,
       toml_dns = \<lparr>enc = (\<lambda>_. Inr []), dec = (\<lambda>_. Inl [])\<rparr>,
       toml_wireless = \<lparr>enc = (\<lambda>_. Inr []), dec = (\<lambda>_. Inl [])\<rparr>\<rparr>,
     en_alive = (\<lambda>_ _. True)\<rparr>"

text \<open>A peer with user id 1000 and no groups that sends one request, \<open>Reload\<close>, and goes away. The world
  counts its reads.\<close>

definition nosy_conn :: "nat ConnEnv" where
  "nosy_conn = still_conn\<lparr>co_stream := \<lparr>st_write_all = (\<lambda>_ w. (Inr (), w)), st_flush = (\<lambda>w. (Inr (), w)),
       st_read_exact = (\<lambda>n w. if n = 4 \<and> w = 0 then (Inr [0, 0, 0, 0], 1) else if n = 0 \<and> w = 1 then (Inr [], 2)
          else (Inl ''closed'', w))\<rparr>,
     co_requests := \<lparr>to_vec = (\<lambda>_. Inl []), from_slice = (\<lambda>_. Inr Reload)\<rparr>,
     co_messages := \<lparr>to_vec = (\<lambda>_. Inr []), from_slice = (\<lambda>_. Inl [])\<rparr>\<rparr>"

lemma nosy_unprivileged: "co_peercred nosy_conn w = (Inr identity, w1) \<Longrightarrow> unprivileged (co_groups nosy_conn) identity"
  by (auto simp: nosy_conn_def still_conn_def unprivileged_def is_root_def in_group_def group_gid_def)

lemma nosy_reads:
  "read_message (daemon_stream (co_stream nosy_conn)) (co_requests nosy_conn) (s, 0) = Ret (Inr Reload, (s, 2))"
  "read_message (daemon_stream (co_stream nosy_conn)) (co_requests nosy_conn) (s, 2) = Ret (Inl (Io ''closed''), (s, 2))"
proof -
  have "unat (from_le32 0 0 0 0) = 0" by code_simp
  then show "read_message (daemon_stream (co_stream nosy_conn)) (co_requests nosy_conn) (s, 0) = Ret (Inr Reload, (s, 2))"
    by (simp add: read_message_def daemon_parts sys_call_def beside_def nosy_conn_def bind_io_def serde_def lift_io_def)
  show "read_message (daemon_stream (co_stream nosy_conn)) (co_requests nosy_conn) (s, 2) = Ret (Inl (Io ''closed''), (s, 2))"
    by (simp add: read_message_def daemon_parts sys_call_def beside_def nosy_conn_def bind_io_def)
qed

lemma nosy_calls:
  "throttle (daemon_conn nosy_conn) (0, 0) (s, 2) = Ret (Inr (0, 1), (s, 2))"
  "write_message (daemon_stream (co_stream nosy_conn)) (co_messages nosy_conn) m (s, 2) = Ret (Inr (), (s, 2))"
  by (simp_all add: throttle_def write_message_def daemon_parts ask_def sys_call_def beside_def nosy_conn_def
      still_conn_def bind_io_def then_io_def serde_def lift_io_def return_io_def)

lemma nosy_run:
  "\<exists>r s' w'. handle_connection (daemon_conn nosy_conn) (daemon_link quiet_env) 2 (s, 0) = Ret (r, (s', w'))"
proof -
  let ?me = "\<lparr>pi_uid = 1000, pi_gid = 1000, pi_pid = 1\<rparr>"
  have socket: "co_peercred nosy_conn w = (Inr ?me, w)" "co_try_clone nosy_conn w = (Inr (), w)"
    "co_now nosy_conn w = (w, w)" for w
    by (simp_all add: nosy_conn_def still_conn_def)
  have "check (co_groups nosy_conn) ?me Admin \<noteq> Inr ()" unfolding check_ok by (simp add: is_root_def)
  then obtain e where e: "check (co_groups nosy_conn) ?me Admin = Inl e"
    by (cases "check (co_groups nosy_conn) ?me Admin") auto
  have loop: "request_loop (daemon_conn nosy_conn) (daemon_link quiet_env) ?me 2 (0, 0) (x, 0) =
      Ret (Inl (Io ''closed''), (x, 2))" for x
    by (simp add: numeral_2_eq_2 request_step_def daemon_parts bind_io_def then_io_def answer_request_def e return_io_def
        nosy_reads [unfolded numeral_2_eq_2] nosy_calls [unfolded numeral_2_eq_2])
  show ?thesis
    by (simp add: handle_connection_def peer_identity_def daemon_parts then_io_def bind_io_def try_io_def ignore_io_def
        register_client_def unregister_client_def get_state_def modify_state_def return_io_def lift_io_def
        sys_call_def ask_def beside_def socket loop)
qed

theorem unprivileged_connection_witness:
  "\<exists>r s' w' ev. handle_connection (daemon_conn nosy_conn) (daemon_link quiet_env) 2 (blank default_config, 0) =
     Ret (r, (s', w')) \<and> s' = (blank default_config)\<lparr>nm_events := ev\<rparr>"
proof -
  obtain r s' w' where run: "handle_connection (daemon_conn nosy_conn) (daemon_link quiet_env) 2 (blank default_config, 0) =
     Ret (r, (s', w'))"
    using nosy_run by blast
  from unprivileged_connection [OF _ run] nosy_unprivileged
  obtain ev where "s' = (blank default_config)\<lparr>nm_events := ev\<rparr>" by blast
  with run show ?thesis by blast
qed


section \<open>The invariant at every point between commands\<close>


definition bench_links :: "(i32 \<times> u32 \<times> string) list" where
  "bench_links = [(4, 0x41, ''eth0'')]"

definition bench :: "bytes Env" where
  "bench = quiet_env\<lparr>en_link := quiet_link\<lparr>ln_kernel := host_kernel bench_links\<rparr>\<rparr>"

lemma bench_links_ok: "host_links_ok bench_links"
  by (simp add: host_links_ok_def bench_links_def dg_ok_def link_frames_def frame_fits_def multi_def datagram_def
      length_enc_frame link_body_def build_ifinfomsg_def length_wire align_def enc_attrs_simps length_enc_attr
      plain_text_def is_ascii_def)

lemma bench_scan:
  "\<exists>w'. scan (host_kernel bench_links) S (Suc 0) w = Ret (Inr [device_of_interface S [] (link_interface (4, 0x41, ''eth0''))], w')"
proof -
  obtain w1 where w1: "interface_list (host_kernel bench_links) (Suc 0) w = Ret (Inr (map link_interface bench_links), w1)"
    using host_interfaces [OF bench_links_ok] by blast
  obtain w2 where w2: "address_list (host_kernel bench_links) (Suc 0) None w1 = Ret (Inr [], w2)"
    using host_no_addresses by blast
  show ?thesis by (simp add: scan_def w1 w2 return_io_apply) (simp add: bench_links_def)
qed

lemma bench_refresh:
  "\<exists>d w'. refresh_devices bench (s, w) = Ret (Inr (), (s\<lparr>nm_devices := [(''eth0'', d)]\<rparr>, w'))"
proof -
  let ?S = "en_sysfs bench w" let ?un = "unmanaged_devices (cfg_general (nm_config s))"
  let ?dev = "device_of_interface ?S [] (link_interface (4, 0x41, ''eth0''))"
  have env: "ln_kernel (en_link bench) = host_kernel bench_links" "ln_fuel (en_link bench) = Suc 0"
    by (simp_all add: bench_def quiet_link_def)
  obtain w' where "scan (host_kernel bench_links) ?S (Suc 0) w = Ret (Inr [?dev], w')" using bench_scan by blast
  moreover have "rebuild ?un [?dev] (nm_devices s) = [(''eth0'', merge_device ?un (nm_devices s) ?dev)]"
    by (simp add: rebuild_def hm_insert_def hm_remove_def device_of_interface_def link_interface_def)
  ultimately show ?thesis
    by (simp add: refresh_devices_def env on_world_def ask_def bind_io_def zoom_def refresh_def) blast
qed

lemma zone_returns: "\<exists>fw. ignore_io (fw_part (ensure_default_zone (en_nft bench) n)) (s, w) = Ret (Inr (), (s\<lparr>nm_firewall := fw\<rparr>, w))"
proof -
  have "\<exists>r fw'. assign_zone (en_nft bench) n z (fw, w) = Ret (r, (fw', w))" for z fw
    by (auto simp: assign_zone_def Let_def fw_commit_def nft_apply_def bench_def quiet_env_def split: sum.split)
  then have "\<exists>r fw'. ensure_default_zone (en_nft bench) n (nm_firewall s, w) = Ret (r, (fw', w))"
    by (auto simp: ensure_default_zone_def)
  then obtain r fw' where "ensure_default_zone (en_nft bench) n (nm_firewall s, w) = Ret (r, (fw', w))" by blast
  then show ?thesis by (auto simp: ignore_io_def try_io_def bind_io_def zoom_def return_io_def)
qed


lemma bench_new:
  "\<exists>s w'. manager_new bench default_config [] = Ret (Inr s, w') \<and> map fst (nm_devices s) = [''eth0'']"
proof -
  let ?b = "blank default_config"
  have fs: "ln_fs (en_link bench) = quiet_fs" "pv_fs (en_proxy bench) = quiet_fs"
    by (simp_all add: bench_def quiet_link_def quiet_env_def)
  have load: "load_all quiet_fs C dir w = Ret (Inr [], w)" for C dir and w :: bytes
    by (simp add: load_all_def then_io_def fs_call_def list_dir_def unless_missing_def quiet_fs_def return_io_apply
        bind_io_def List.map_filter_simps)
  have proxy: "load_proxy_config (proxy_of bench s) w = Ret (Inr None, w)" for s w
    by (simp add: load_proxy_config_def read_json_def read_optional_def proxy_of_def fs quiet_fs_def missing_file_def
        unless_missing_def bind_io_def return_io_def)
  have idle: "ignore_io (\<lambda>(s, w). Ret (Inr (), s, w)) (s, w) = Ret (Inr (), (s, w))" for s :: Manager and w :: bytes
    by (simp add: ignore_io_def try_io_def bind_io_def return_io_def)
  obtain d w1 where "refresh_devices bench (?b, []) = Ret (Inr (), (?b\<lparr>nm_devices := [(''eth0'', d)]\<rparr>, w1))"
    using bench_refresh by blast
  moreover have "nm_connections ?b = []" by (simp add: blank_def Let_def)
  then have "?b\<lparr>nm_connections := []\<rparr> = ?b" by simp
  moreover obtain fw where "ignore_io (fw_part (ensure_default_zone (en_nft bench) (nd_name d)))
      (?b\<lparr>nm_devices := [(''eth0'', d)]\<rparr>, w1) = Ret (Inr (), (?b\<lparr>nm_devices := [(''eth0'', d)], nm_firewall := fw\<rparr>, w1))"
    using zone_returns by blast
  moreover have "dns_mode (cfg_dns (nm_config (?b\<lparr>nm_devices := [(''eth0'', d)], nm_firewall := fw\<rparr>))) = DnsAuto"
    by (simp add: blank_def Let_def default_config_def)
  ultimately have "manager_init bench (?b, []) = Ret (Inr (), (?b\<lparr>nm_devices := [(''eth0'', d)], nm_firewall := fw\<rparr>, w1))"
    by (simp add: manager_init_def fs load on_world_def then_io_def bind_io_def get_state_def modify_state_def hm_values_def
        apply_from_config_def idle try_io_def return_io_def proxy)
  then show ?thesis by (simp add: manager_new_def)
qed


section \<open>Bringing a connection up\<close>

text \<open>C3. The answer to a request to activate a profile tells what happened. After \<open>Ok\<close> exactly one device, so far without
  a connection, is up with the profile and recorded as active. After an error no active connection has changed
  and at most one device has, to \<open>Failed\<close>.
\<close>

theorem activation_answers:
  assumes "manager_ok s"
    and "handle_request E (ActivateConnection pid) identity (s, w) = Ret (r, (s', w'))"
  shows "case r of
      Inr RespOk \<Rightarrow> \<exists>n d d' a. hm_get (nm_devices s) n = Some d \<and> nd_active_connection d = None \<and>
        hm_get (nm_devices s') n = Some d' \<and> nd_state d' = Activated \<and> nd_active_connection d' = Some pid \<and>
        same_link d d' \<and> hm_get (nm_active s') n = Some a \<and> ac_profile_id a = pid \<and>
        (\<forall>k. k \<noteq> n \<longrightarrow> hm_get (nm_devices s') k = hm_get (nm_devices s) k \<and>
           hm_get (nm_active s') k = hm_get (nm_active s) k)
    | Inr (RespError msg) \<Rightarrow> nm_active s' = nm_active s \<and>
        (\<exists>n. (\<forall>k. k \<noteq> n \<longrightarrow> hm_get (nm_devices s') k = hm_get (nm_devices s) k) \<and>
           (hm_get (nm_devices s') n = hm_get (nm_devices s) n \<or>
            (\<exists>d'. hm_get (nm_devices s') n = Some d' \<and> nd_state d' = Failed)))
    | _ \<Rightarrow> False"
proof -
  have "activate_profile E pid (actor_of identity) (s, w) = Ret (r, (s', w'))"
    using assms(2) by (simp add: handle_request_def)
  from activate_profile_result [OF assms(1) this] show ?thesis
  proof
    assume "s' = s \<and> (\<exists>msg. r = Inr (RespError msg))"
    then show ?thesis by auto
  next
    assume "activation_effect pid s r s'"
    then obtain profile n d d' t q where d: "hm_get (nm_devices s) n = Some d" "nd_active_connection d = None"
      and p: "cp_id profile = pid" and out: "activation_outcome profile d (gl_vpn s) q d' t"
      and s': "case q of
           Inr a \<Rightarrow> r = Inr RespOk \<and> (\<exists>al ev. s' = s\<lparr>nm_devices := hm_modify n (\<lambda>_. d') (nm_devices s),
             gl_vpn := t, nm_active := hm_insert n a (nm_active s), nm_audit := al, nm_events := ev\<rparr>)
         | Inl e \<Rightarrow> r = Inr (RespError (''activation failed: '' @ error_to_string e)) \<and>
             s' = s\<lparr>nm_devices := hm_modify n (\<lambda>_. d'\<lparr>nd_state := Failed\<rparr>) (nm_devices s), gl_vpn := t\<rparr>"
      unfolding activation_effect_def by blast
    show ?thesis
    proof (cases q)
      case (Inl e)
      with s' d show ?thesis by (auto simp: hm_get_modify)
    next
      case (Inr a)
      with s' obtain al ev where r: "r = Inr RespOk" and eq: "s' = s\<lparr>nm_devices := hm_modify n (\<lambda>_. d') (nm_devices s),
             gl_vpn := t, nm_active := hm_insert n a (nm_active s), nm_audit := al, nm_events := ev\<rparr>" by auto
      have "hm_get (nm_devices s') n = Some d' \<and> nd_state d' = Activated \<and> nd_active_connection d' = Some pid \<and>
        same_link d d' \<and> hm_get (nm_active s') n = Some a \<and> ac_profile_id a = pid \<and>
        (\<forall>k. k \<noteq> n \<longrightarrow> hm_get (nm_devices s') k = hm_get (nm_devices s) k \<and>
           hm_get (nm_active s') k = hm_get (nm_active s) k)"
        using d out p Inr by (simp add: eq hm_get_modify hm_get_insert activation_outcome_def)
      with d r show ?thesis by (simp, intro exI [of _ n] exI [of _ d]) blast
    qed
  qed
qed


text \<open>A host with a VPN device and an OpenVPN profile.\<close>

definition vpn_host :: Manager where
  "vpn_host = (blank default_config)\<lparr>nm_devices := [(''wg0'', wg_device)], nm_connections := [office_vpn],
     gl_data_dir := None, gl_ctrl_dir := None\<rparr>"

lemma vpn_host_link: "link_of quiet_env vpn_host = quiet_link"
  by (simp add: link_of_def vpn_host_def quiet_env_def quiet_link_def)

lemma vpn_host_ok: "manager_ok vpn_host"
  by (simp add: manager_ok_def vpn_host_def blank_def Let_def fw_inv_new device_ok_def wg_device_def sample_device_def
      hm_get_def hm_ok_def)

lemma quiet_touch: "\<exists>r. touch quiet_fs dir ident w = Ret (r, w)"
  by (cases "profile_path dir ident")
     (auto simp: touch_def filetime_set_mtime_best_effort_def lift_io_def bind_io_def fs_call_def quiet_fs_def ask_def
        return_io_def missing_file_def split: prod.splits)

lemma notes_return:
  "returns_io (record_audit E actor action detail)" "returns_io (broadcast E ev)" "returns_io (broadcast_state E)"
proof -
  show "returns_io (record_audit E actor action detail)"
    unfolding returns_io_def using record_audit_runs [of E actor action detail] by (metis surj_pair)
  show b: "returns_io (broadcast E ev)" for ev
    unfolding returns_io_def using broadcast_runs [of E ev] by (metis surj_pair)
  show "returns_io (broadcast_state E)"
    unfolding broadcast_state_def by (intro returns_intros returns_state b)
qed

lemma activated_on_returns:
  assumes "\<And>dir. returns_io (touch (ln_fs (en_link E)) dir pid)"
  shows "returns_io (activated_on E pid actor n a)"
  unfolding activated_on_def if_some_def
  by (intro returns_intros returns_state returns_on_world notes_return returns_basic assms)
     (auto intro: notes_return split: option.split)

lemma vpn_host_up:
  "\<exists>s' w'. handle_request quiet_env (ActivateConnection ''office'') identity (vpn_host, ()) = Ret (Inr RespOk, (s', w'))"
proof -
  obtain a d t where up: "activate quiet_link office_vpn ((wg_device, \<lparr>vt_active = [], vt_sessions = []\<rparr>), ()) =
     Ret (Inr a, ((d, t), ()))" using office_up by blast
  have "returns_io (touch quiet_fs dir ident :: (unit, unit) io)" for dir ident
    unfolding returns_io_def using quiet_touch by metis
  then have rets: "returns_io (activated_on (quiet_env :: unit Env) ''office'' (actor_of identity) ''wg0'' a)"
    by (intro activated_on_returns) (simp add: quiet_env_def quiet_link_def)
  have ends: "\<exists>s'. activated_on quiet_env ''office'' (actor_of identity) ''wg0'' a (x, ()) = Ret (Inr RespOk, (s', ()))" for x
  proof -
    obtain r y where "activated_on quiet_env ''office'' (actor_of identity) ''wg0'' a (x, ()) = Ret (r, y)"
      using returns_ioD [OF rets, of "(x, ())"] by blast
    moreover obtain s' u where "y = (s', u)" by (cases y)
    ultimately have "activated_on quiet_env ''office'' (actor_of identity) ''wg0'' a (x, ()) = Ret (r, (s', ()))" by simp
    from this activated_on_result [OF this] show ?thesis by auto
  qed
  have "find_device_for_profile office_vpn (nm_devices vpn_host) = Some ''wg0''"
    by (simp add: find_device_for_profile_def vpn_host_def hm_values_def office_vpn_def sample_profile_def new_wifi_def
        wg_device_def sample_device_def)
  moreover have "nm_connections vpn_host = [office_vpn]" "cp_id office_vpn = ''office''"
    "hm_get (nm_devices vpn_host) ''wg0'' = Some wg_device" "gl_vpn vpn_host = \<lparr>vt_active = [], vt_sessions = []\<rparr>"
    by (simp_all add: vpn_host_def office_vpn_def sample_profile_def new_wifi_def hm_get_def blank_def Let_def)
  ultimately show ?thesis
    using up ends by (simp add: handle_request_def activate_profile_def activate_on_def vpn_host_link zoom_def)
qed

theorem activation_answers_witness:
  "\<exists>s' w' n d'. handle_request quiet_env (ActivateConnection ''office'') \<lparr>pi_uid = 0, pi_gid = 0, pi_pid = 1\<rparr> (vpn_host, ()) =
     Ret (Inr RespOk, (s', w')) \<and> hm_get (nm_devices s') n = Some d' \<and> nd_state d' = Activated"
proof -
  obtain s' w' where run: "handle_request quiet_env (ActivateConnection ''office'') \<lparr>pi_uid = 0, pi_gid = 0, pi_pid = 1\<rparr>
     (vpn_host, ()) = Ret (Inr RespOk, (s', w'))" using vpn_host_up by blast
  from activation_answers [OF vpn_host_ok run] obtain n d' where "hm_get (nm_devices s') n = Some d'" "nd_state d' = Activated"
    by auto
  with run show ?thesis by blast
qed


section \<open>A deactivation that fails\<close>

text \<open>A device that is neither up nor free: it still names its connection, but no active connection is recorded.\<close>

definition stuck :: "string \<Rightarrow> string \<Rightarrow> Manager \<Rightarrow> bool" where
  "stuck n pid s \<longleftrightarrow> hm_get (nm_active s) n = None \<and>
     (\<exists>d. hm_get (nm_devices s) n = Some d \<and> nd_state d = Deactivating \<and> nd_active_connection d = Some pid)"

lemma stuck_frame [simp]:
  "stuck n pid (s\<lparr>nm_config := c\<rparr>) = stuck n pid s" "stuck n pid (s\<lparr>nm_connections := cs\<rparr>) = stuck n pid s"
  "stuck n pid (s\<lparr>nm_events := ev\<rparr>) = stuck n pid s" "stuck n pid (s\<lparr>nm_audit := al\<rparr>) = stuck n pid s"
  "stuck n pid (s\<lparr>gl_children := ch\<rparr>) = stuck n pid s" "stuck n pid (s\<lparr>gl_proxy := p\<rparr>) = stuck n pid s"
  "stuck n pid (s\<lparr>gl_vpn := t\<rparr>) = stuck n pid s" "stuck n pid (s\<lparr>nm_firewall := fw\<rparr>) = stuck n pid s"
  by (simp_all add: stuck_def)

text \<open>What another device and its active connection do is of no concern.\<close>

lemma stuck_other:
  assumes "stuck n pid s" "\<And>k. k \<noteq> m \<Longrightarrow> hm_get (nm_devices s') k = hm_get (nm_devices s) k"
    "\<And>k. k \<noteq> m \<Longrightarrow> hm_get (nm_active s') k = hm_get (nm_active s) k" "m \<noteq> n"
  shows "stuck n pid s'"
  using assms(1) assms(2,3) [of n] assms(4) by (simp add: stuck_def)

lemma stuck_activation:
  assumes st: "stuck n pid s" and eff: "activation_effect p s r s'"
  shows "stuck n pid s'"
proof -
  obtain m d d' t q where d: "hm_get (nm_devices s) m = Some d" "nd_active_connection d = None"
    and s': "case q of
           Inr a \<Rightarrow> r = Inr RespOk \<and> (\<exists>al ev. s' = s\<lparr>nm_devices := hm_modify m (\<lambda>_. d') (nm_devices s),
             gl_vpn := t, nm_active := hm_insert m a (nm_active s), nm_audit := al, nm_events := ev\<rparr>)
         | Inl e \<Rightarrow> r = Inr (RespError (''activation failed: '' @ error_to_string e)) \<and>
             s' = s\<lparr>nm_devices := hm_modify m (\<lambda>_. d'\<lparr>nd_state := Failed\<rparr>) (nm_devices s), gl_vpn := t\<rparr>"
    using eff unfolding activation_effect_def by blast
  have "m \<noteq> n" using st d by (auto simp: stuck_def)
  moreover have "hm_get (nm_devices s') k = hm_get (nm_devices s) k \<and> hm_get (nm_active s') k = hm_get (nm_active s) k"
    if "k \<noteq> m" for k
    using s' that by (auto simp: hm_get_modify hm_get_insert split: sum.splits)
  ultimately show ?thesis by (intro stuck_other [OF st, of m]) blast+
qed

lemma taken_down_other:
  assumes "taken_down m d gone r s'" "k \<noteq> m"
  shows "hm_get (nm_devices s') k = hm_get (nm_devices gone) k \<and> nm_active s' = nm_active gone"
  using assms by (auto simp: taken_down_def hm_get_modify)

lemma stuck_deactivation:
  assumes st: "stuck n pid s" and eff: "deactivation_effect p s r s'"
  shows "stuck n pid s'"
proof -
  obtain m a where m: "hm_get (nm_active s) m = Some a"
    and s': "case hm_get (nm_devices s) m of
       None \<Rightarrow> r = Inr (RespError (''device '' @ quoted m @ '' disappeared'')) \<and>
         s' = s\<lparr>nm_active := hm_remove m (nm_active s)\<rparr>
     | Some d \<Rightarrow> taken_down m d (s\<lparr>nm_active := hm_remove m (nm_active s)\<rparr>) r s'"
    using eff unfolding deactivation_effect_def by blast
  have "m \<noteq> n" using st m by (auto simp: stuck_def)
  moreover have "hm_get (nm_devices s') k = hm_get (nm_devices s) k \<and> hm_get (nm_active s') k = hm_get (nm_active s) k"
    if "k \<noteq> m" for k
  proof (cases "hm_get (nm_devices s) m")
    case None
    with s' that show ?thesis by (simp add: hm_get_remove)
  next
    case (Some d)
    with s' taken_down_other [of m d _ r s' k] that show ?thesis by (simp add: hm_get_remove)
  qed
  ultimately show ?thesis by (intro stuck_other [OF st, of m]) blast+
qed

interpretation stuck_laws: request_laws E "\<lambda>s. manager_ok s \<and> stuck n pid s" for E n pid
proof
  fix p actor
  show "keeps_io (\<lambda>(s, w). manager_ok s \<and> stuck n pid s) (activate_profile E p actor)"
  proof
    fix x r y
    assume x: "(\<lambda>(s, w). manager_ok s \<and> stuck n pid s) x" and run: "activate_profile E p actor x = Ret (r, y)"
    obtain s w s' w' where eq: "x = (s, w)" "y = (s', w')" by (cases x, cases y)
    from activate_profile_result [of s E p actor w r s' w'] x run eq have "s' = s \<or> activation_effect p s r s'" by auto
    with x eq activation_effect_ok stuck_activation show "(\<lambda>(s, w). manager_ok s \<and> stuck n pid s) y" by auto
  qed
  show "keeps_io (\<lambda>(s, w). manager_ok s \<and> stuck n pid s) (deactivate_profile E p actor)"
  proof
    fix x r y
    assume x: "(\<lambda>(s, w). manager_ok s \<and> stuck n pid s) x" and run: "deactivate_profile E p actor x = Ret (r, y)"
    obtain s w s' w' where eq: "x = (s, w)" "y = (s', w')" by (cases x, cases y)
    from deactivate_profile_result [of s E p actor w r s' w'] x run eq have "s' = s \<or> deactivation_effect p s r s'" by auto
    with x eq deactivation_effect_ok stuck_deactivation show "(\<lambda>(s, w). manager_ok s \<and> stuck n pid s) y" by auto
  qed
qed (simp_all add: manager_ok_fw_inv manager_ok_firewall)

lemma stuck_overall:
  assumes "manager_ok s" "stuck n pid s"
  shows "overall_state (hm_values (nm_devices s)) c = NetDisconnecting"
proof -
  obtain d where d: "hm_get (nm_devices s) n = Some d" "nd_state d = Deactivating" using assms(2) by (auto simp: stuck_def)
  have hm: "hm_ok (nm_devices s)" using assms(1) by (simp add: manager_ok_def)
  from d(1) have "d \<in> set (hm_values (nm_devices s))" unfolding hm_values_get [OF hm] by (rule exI)
  with d(2) have "\<exists>d \<in> set (hm_values (nm_devices s)). nd_state d = Deactivating" by (intro bexI)
  then show ?thesis
    using no_connecting_overall [OF assms(1), of c] by (auto simp: overall_state_def list_ex_iff split: if_splits)
qed


lemma failed_deactivation_stuck:
  assumes ok: "manager_ok s"
    and run: "deactivate_profile E pid actor (s, w) = Ret (Inr (RespError msg), (s1, w1))"
    and d: "hm_get (nm_devices s) n = Some d" "nd_state d = Activated" "nd_active_connection d = Some pid"
    and only: "\<And>m a. hm_get (nm_active s) m = Some a \<Longrightarrow> ac_profile_id a = pid \<Longrightarrow> m = n"
  shows "stuck n pid s1"
proof -
  from manager_okD [OF ok d(1)] d(2,3) obtain a where a: "hm_get (nm_active s) n = Some a" "ac_profile_id a = pid"
    by (auto simp: device_ok_def)
  with deactivate_profile_result [OF ok run] have "deactivation_effect pid s (Inr (RespError msg)) s1" by blast
  then obtain m b where "hm_get (nm_active s) m = Some b" "ac_profile_id b = pid"
    and eff: "case hm_get (nm_devices s) m of
       None \<Rightarrow> (Inr (RespError msg) :: Response result) = Inr (RespError (''device '' @ quoted m @ '' disappeared'')) \<and>
         s1 = s\<lparr>nm_active := hm_remove m (nm_active s)\<rparr>
     | Some d \<Rightarrow> taken_down m d (s\<lparr>nm_active := hm_remove m (nm_active s)\<rparr>) (Inr (RespError msg)) s1"
    unfolding deactivation_effect_def by blast
  from only [OF this(1,2)] eff d(1)
  have "taken_down n d (s\<lparr>nm_active := hm_remove n (nm_active s)\<rparr>) (Inr (RespError msg)) s1" by simp
  then obtain d' t where "nd_state d' = Deactivating" "nd_active_connection d' = nd_active_connection d"
    "s1 = s\<lparr>nm_active := hm_remove n (nm_active s), nm_devices := hm_modify n (\<lambda>_. d') (nm_devices s), gl_vpn := t\<rparr>"
    unfolding taken_down_def by auto
  with d show ?thesis by (simp add: stuck_def hm_get_remove hm_get_modify)
qed

text \<open>C4. When the deactivation of a connection that is up fails, its device is stuck. The active connection is forgotten
  and the device stays in \<open>Deactivating\<close> under its old connection; no sequence of requests, from whatever peer, gets
  it out of there, and all that time the daemon reports the overall state \<open>Disconnecting\<close>.
\<close>

theorem failed_deactivation_sticks:
  assumes ok: "manager_ok s"
    and run: "handle_request E (DeactivateConnection pid) identity (s, w) = Ret (Inr (RespError msg), (s1, w1))"
    and d: "hm_get (nm_devices s) n = Some d" "nd_state d = Activated" "nd_active_connection d = Some pid"
    and only: "\<And>m a. hm_get (nm_active s) m = Some a \<Longrightarrow> ac_profile_id a = pid \<Longrightarrow> m = n"
    and more: "command_loop E (map (case_prod CmdRequest) reqs) (s1, w2) = Ret (r, (s2, w3))"
  shows "hm_get (nm_active s2) n = None \<and>
    (\<exists>d'. hm_get (nm_devices s2) n = Some d' \<and> nd_state d' = Deactivating \<and> nd_active_connection d' = Some pid) \<and>
    (\<forall>c. overall_state (hm_values (nm_devices s2)) c = NetDisconnecting)"
proof -
  have down: "deactivate_profile E pid (actor_of identity) (s, w) = Ret (Inr (RespError msg), (s1, w1))"
    using run by (simp add: handle_request_def)
  from keeps_ioD [OF keeps_deactivate_profile down] ok have "manager_ok s1" by simp
  moreover have "stuck n pid s1" using failed_deactivation_stuck [OF ok down d] only by blast
  ultimately have "manager_ok s2 \<and> stuck n pid s2"
    using keeps_ioD [OF stuck_laws.requests_sequence_kept [of n pid] more] by simp
  then show ?thesis using stuck_overall [of s2 n pid] by (simp add: stuck_def)
qed

text \<open>The OpenVPN connection of the example host, up: its session is not tracked under the device's name.\<close>

definition vpn_host_up_state :: Manager where
  "vpn_host_up_state = vpn_host\<lparr>
     nm_devices := [(''wg0'', wg_device\<lparr>nd_state := Activated, nd_active_connection := Some ''office''\<rparr>)],
     nm_active := [(''wg0'', \<lparr>ac_profile_id = ''office'', ac_device_name = ''tun0'', ac_state = AcActivated, ac_since = 0,
       ac_failure_reason = None\<rparr>)]\<rparr>"

lemma vpn_up_ok: "manager_ok vpn_host_up_state"
  by (simp add: manager_ok_def vpn_host_up_state_def vpn_host_def blank_def Let_def fw_inv_new device_ok_def wg_device_def
      sample_device_def hm_get_def hm_ok_def)

lemma vpn_down_fails:
  "\<exists>msg s1. handle_request quiet_env (DeactivateConnection ''office'') identity (vpn_host_up_state, ()) =
     Ret (Inr (RespError msg), (s1, ()))"
proof -
  let ?d = "wg_device\<lparr>nd_state := Activated, nd_active_connection := Some ''office''\<rparr>"
  let ?t = "\<lparr>vt_active = [], vt_sessions = []\<rparr>"
  have "nd_device_type ?d = VpnType" "hm_get (vt_active ?t) (nd_name ?d) = None"
    by (simp_all add: wg_device_def hm_get_def)
  note fails = deactivate_untracked [OF this]
  obtain a where a: "nm_active vpn_host_up_state = [(''wg0'', a)]" "ac_profile_id a = ''office''"
    by (simp add: vpn_host_up_state_def)
  have parts: "nm_devices vpn_host_up_state = [(''wg0'', ?d)]" "gl_vpn vpn_host_up_state = ?t"
    by (simp_all add: vpn_host_up_state_def vpn_host_def blank_def Let_def)
  let ?L = "link_of quiet_env (vpn_host_up_state\<lparr>nm_active := []\<rparr>) :: unit LinkEnv"
  obtain a' d' t' where down: "deactivate ?L ((a, ?d, ?t), ()) =
      Ret (Inl (NotFound (''no active VPN session on '' @ quoted (nd_name ?d))), ((a', d', t'), ()))"
    using fails [of ?L a "()"] by blast
  show ?thesis
    by (simp add: handle_request_def deactivate_profile_def a parts hm_get_def hm_remove_def deactivate_on_def zoom_def down)
qed

theorem failed_deactivation_sticks_witness:
  "\<exists>msg s1 d'. handle_request quiet_env (DeactivateConnection ''office'') \<lparr>pi_uid = 0, pi_gid = 0, pi_pid = 1\<rparr>
       (vpn_host_up_state, ()) = Ret (Inr (RespError msg), (s1, ())) \<and>
     hm_get (nm_devices s1) ''wg0'' = Some d' \<and> nd_state d' = Deactivating"
proof -
  obtain msg s1 where run: "handle_request quiet_env (DeactivateConnection ''office'') \<lparr>pi_uid = 0, pi_gid = 0, pi_pid = 1\<rparr>
       (vpn_host_up_state, ()) = Ret (Inr (RespError msg), (s1, ()))"
    using vpn_down_fails by blast
  let ?d = "wg_device\<lparr>nd_state := Activated, nd_active_connection := Some ''office''\<rparr>"
  have d: "hm_get (nm_devices vpn_host_up_state) ''wg0'' = Some ?d" "nd_state ?d = Activated"
    "nd_active_connection ?d = Some ''office''" by (simp_all add: vpn_host_up_state_def hm_get_def)
  have only: "m = ''wg0''" if "hm_get (nm_active vpn_host_up_state) m = Some a" "ac_profile_id a = ''office''" for m a
    using that by (simp add: vpn_host_up_state_def hm_get_def split: if_splits)
  have "command_loop quiet_env (map (case_prod CmdRequest) []) (s1, ()) = Ret (Inr (), (s1, ()))"
    by (simp add: return_io_apply)
  from failed_deactivation_sticks [OF vpn_up_ok run d _ this] only
  have "\<exists>d'. hm_get (nm_devices s1) ''wg0'' = Some d' \<and> nd_state d' = Deactivating" by auto
  with run show ?thesis by auto
qed

section \<open>Choosing a device\<close>

text \<open>
  The device for a profile is chosen by type, name and the absence of a connection alone. Whether it is unmanaged,
  failed or without carrier plays no part, so a profile chosen for one device may be activated on another,
  an unmanaged one included.
\<close>

lemma device_choice_ignores_state:
  "find_device_for_profile profile (map (\<lambda>(k, d). (k, d\<lparr>nd_state := st k, nd_carrier := ca k\<rparr>)) reg) =
     find_device_for_profile profile reg"
  by (induction reg) (simp_all add: find_device_for_profile_def hm_values_def case_prod_unfold cong: option.case_cong)

section \<open>Stopping a hotspot\<close>

text \<open>\<open>StopHotspot\<close> ends hostapd and nothing else: zone, masquerading and forwarding stay as the start left them.\<close>

lemma stop_hotspot_keeps_firewall:
  assumes "handle_request E (StopHotspot device) identity (s, w) = Ret (r, (s', w'))"
  shows "nm_firewall s' = nm_firewall s \<and> r = Inr RespOk"
proof -
  obtain ch w1 where stop: "hotspot_stop (en_ap E) device (gl_children s, w) = (ch, w1)"
    by (cases "hotspot_stop (en_ap E) device (gl_children s, w)")
  obtain al w2 where "record_audit E (actor_of identity) ''hotspot.stop'' device (s\<lparr>gl_children := ch\<rparr>, w1) =
      Ret (Inr (), (s\<lparr>gl_children := ch, nm_audit := al\<rparr>, w2))"
    using record_audit_runs [of E "actor_of identity" "''hotspot.stop''" device "s\<lparr>gl_children := ch\<rparr>" w1]
    by (elim exE)
  with assms stop show ?thesis
    by (auto simp: handle_request_def req_stop_hotspot_def then_io_def zoom_def do_io_def return_io_apply)
qed

end
