(* ===== verification/Netctl.thy ===== *)
theory Netctl
  imports Manager
begin

text \<open>
  The two programs: the command-line client \<^verbatim>\<open>bin/mitos-netctl.rs\<close> and the start-up of the daemon,
  \<^verbatim>\<open>main.rs\<close> with the timers of \<^verbatim>\<open>manager/scheduler.rs\<close>. What a program prints and its exit status are its
  result.
\<close>

section \<open>The arguments of mitos-netctl\<close>

definition args_get :: "string list \<Rightarrow> nat \<Rightarrow> string option" where
  "args_get args n = (if n < length args then Some (args ! n) else None)"

text \<open>A missing argument prints the usage and ends the program: \<open>None\<close>.\<close>

definition arg_or_usage :: "string list \<Rightarrow> nat \<Rightarrow> string option" where
  "arg_or_usage args n = args_get args n"

definition on_off_or_usage :: "string list \<Rightarrow> nat \<Rightarrow> bool option" where
  "on_off_or_usage args n =
     (case args_get args n of
        Some a \<Rightarrow> if a = ''on'' then Some True else if a = ''off'' then Some False else None
      | None \<Rightarrow> None)"

definition proxy_set_request :: "string list \<Rightarrow> Request option" where
  "proxy_set_request args =
     (case args_get args 2 of
        None \<Rightarrow> None
      | Some how \<Rightarrow>
          if how = ''none'' then Some (SetProxyConfig (default_proxy\<lparr>pc_mode := NoProxy\<rparr>))
          else if how = ''manual'' then
            map_option (\<lambda>http. SetProxyConfig (default_proxy\<lparr>pc_mode := ManualProxy, pc_http := Some http,
              pc_https := args_get args 4\<rparr>)) (arg_or_usage args 3)
          else if how = ''auto'' then
            map_option (\<lambda>url. SetProxyConfig (default_proxy\<lparr>pc_mode := AutoProxy, pc_pac_url := Some url\<rparr>))
              (arg_or_usage args 3)
          else None)"

definition wifi_request :: "string list \<Rightarrow> string \<Rightarrow> Request option" where
  "wifi_request args sub =
     (if sub = ''scan'' then map_option ScanWifi (arg_or_usage args 2)
      else if sub = ''list'' then map_option ListWifiNetworks (arg_or_usage args 2)
      else if sub = ''connect'' then
        Option.bind (arg_or_usage args 2) (\<lambda>device.
        Option.bind (arg_or_usage args 3) (\<lambda>ssid.
        let passphrase = args_get args 4;
            security = (if passphrase \<noteq> None then Wpa2Psk else Open)
        in Some (ConnectWifi device ssid security passphrase)))
      else if sub = ''forget'' then
        Option.bind (arg_or_usage args 2) (\<lambda>device.
        Option.bind (arg_or_usage args 3) (\<lambda>ssid. Some (ForgetWifi device ssid)))
      else None)"

definition bluetooth_request :: "string list \<Rightarrow> string \<Rightarrow> Request option" where
  "bluetooth_request args sub =
     (if sub = ''list'' then Some ListBluetoothDevices
      else if sub = ''power'' then map_option BluetoothPower (on_off_or_usage args 2)
      else if sub = ''scan'' then map_option BluetoothScan (on_off_or_usage args 2)
      else if sub = ''pair'' then map_option PairBluetooth (arg_or_usage args 2)
      else if sub = ''trust'' then map_option TrustBluetooth (arg_or_usage args 2)
      else if sub = ''connect'' then map_option ConnectBluetooth (arg_or_usage args 2)
      else if sub = ''disconnect'' then map_option DisconnectBluetooth (arg_or_usage args 2)
      else if sub = ''remove'' then map_option RemoveBluetooth (arg_or_usage args 2)
      else None)"

definition connection_request :: "string list \<Rightarrow> string \<Rightarrow> Request option" where
  "connection_request args sub =
     (if sub = ''list'' then Some ListConnections
      else if sub = ''show'' then map_option GetConnection (arg_or_usage args 2)
      else if sub = ''up'' then map_option ActivateConnection (arg_or_usage args 2)
      else if sub = ''down'' then map_option DeactivateConnection (arg_or_usage args 2)
      else if sub = ''delete'' then map_option DeleteConnection (arg_or_usage args 2)
      else None)"

definition hotspot_request :: "string list \<Rightarrow> string \<Rightarrow> Request option" where
  "hotspot_request args sub =
     (if sub = ''start'' then
        Option.bind (arg_or_usage args 2) (\<lambda>device.
        Option.bind (arg_or_usage args 3) (\<lambda>ssid.
          Some (StartHotspot device ssid (args_get args 4) (args_get args 5))))
      else if sub = ''stop'' then map_option StopHotspot (arg_or_usage args 2)
      else None)"

text \<open>The commands with a second word.\<close>

definition sub_request :: "string list \<Rightarrow> string \<Rightarrow> string \<Rightarrow> Request option" where
  "sub_request args command sub =
     (if command = ''device'' then
        (if sub = ''list'' then Some ListDevices
         else if sub = ''show'' then map_option GetDevice (arg_or_usage args 2)
         else None)
      else if command = ''connection'' then connection_request args sub
      else if command = ''wifi'' then wifi_request args sub
      else if command = ''hotspot'' then hotspot_request args sub
      else if command = ''firewall'' then
        (if sub = ''zone'' then
           Option.bind (arg_or_usage args 2) (\<lambda>interface.
           Option.bind (arg_or_usage args 3) (\<lambda>zone. Some (SetFirewallZone interface zone)))
         else None)
      else if command = ''bluetooth'' then bluetooth_request args sub
      else if command = ''proxy'' then
        (if sub = ''show'' then Some GetProxyConfig
         else if sub = ''resolve'' then map_option ResolveProxy (arg_or_usage args 2)
         else if sub = ''set'' then proxy_set_request args
         else None)
      else None)"

datatype netctl_command = Usage | Monitor | Send Request

definition netctl_command_of :: "string list \<Rightarrow> netctl_command" where
  "netctl_command_of args =
     (let sending = (\<lambda>r. case r of Some req \<Rightarrow> Send req | None \<Rightarrow> Usage) in
      case args of
        [] \<Rightarrow> Usage
      | command # _ \<Rightarrow>
          if command = ''status'' then Send GetState
          else if command = ''connectivity'' then Send GetConnectivity
          else if command = ''diagnose'' then Send Diagnose
          else if command = ''reload'' then Send Reload
          else if command = ''monitor'' then Monitor
          else sending (Option.bind (args_get args 1) (sub_request args command)))"

section \<open>Running mitos-netctl\<close>

record program_end =
  pe_stdout :: "string list"
  pe_stderr :: "string list"
  pe_status :: nat

definition exit_with :: "string list \<Rightarrow> string list \<Rightarrow> nat \<Rightarrow> program_end" where
  "exit_with out err status = \<lparr>pe_stdout = out, pe_stderr = err, pe_status = status\<rparr>"

text \<open>\<open>ct_pretty\<close> is serde_json's pretty printer with the \<open>Debug\<close> form where it fails, \<open>ct_line\<close> the
  one-line form of an event, \<open>ct_usage\<close> the usage text.\<close>

record 'w CtlEnv =
  ct_connect :: "string \<Rightarrow> 'w \<Rightarrow> (string + unit) \<times> 'w"
  ct_stream :: "'w Stream"
  ct_requests :: "Request Json"
  ct_messages :: "ServerMessage Json"
  ct_pretty :: "Response \<Rightarrow> string"
  ct_line :: "Event \<Rightarrow> string"
  ct_usage :: string
  ct_fuel :: nat

definition ctl_send :: "'w CtlEnv \<Rightarrow> Request \<Rightarrow> ('w, program_end) io" where
  "ctl_send C req =
     bind_io (try_io (client_connect (ct_connect C) DEFAULT_SOCKET_PATH)) (\<lambda>connected.
     case connected of
       Inl e \<Rightarrow> return_io (exit_with [] [error_to_string e] 1)
     | Inr _ \<Rightarrow>
         bind_io (try_io (client_request (ct_stream C) (ct_requests C) (ct_messages C) (ct_fuel C) req)) (\<lambda>result.
         return_io (case result of
             Inr RespOk \<Rightarrow> exit_with [''OK''] [] 0
           | Inr (RespError e) \<Rightarrow> exit_with [] [''error: '' @ e] 1
           | Inr other \<Rightarrow> exit_with [ct_pretty C other] [] 0
           | Inl e \<Rightarrow> exit_with [] [''error: '' @ error_to_string e] 1)))"

text \<open>\<open>monitor\<close> prints events until the stream ends.\<close>

fun monitor_loop :: "'w CtlEnv \<Rightarrow> nat \<Rightarrow> string list \<Rightarrow> ('w, program_end) io" where
  "monitor_loop C 0 out w = NoFuel"
| "monitor_loop C (Suc fuel) out w =
     bind_io (try_io (next_event (ct_stream C) (ct_messages C) (ct_fuel C))) (\<lambda>r.
       case r of
         Inr ev \<Rightarrow> monitor_loop C fuel (out @ [ct_line C ev])
       | Inl e \<Rightarrow> return_io (exit_with out [''monitor stream ended: '' @ error_to_string e] 1)) w"

definition ctl_main :: "'w CtlEnv \<Rightarrow> string list \<Rightarrow> ('w, program_end) io" where
  "ctl_main C args =
     (case netctl_command_of args of
        Usage \<Rightarrow> return_io (exit_with [] [ct_usage C] 2)
      | Monitor \<Rightarrow>
          bind_io (try_io (client_connect (ct_connect C) DEFAULT_SOCKET_PATH)) (\<lambda>connected.
          case connected of
            Inl e \<Rightarrow> return_io (exit_with [] [error_to_string e] 1)
          | Inr _ \<Rightarrow> monitor_loop C (ct_fuel C) [])
      | Send req \<Rightarrow> ctl_send C req)"

section \<open>Which requests the client can make\<close>

text \<open>The words that make a request, and the requests that have such words.\<close>

definition opt_list :: "'a option \<Rightarrow> 'a list" where
  "opt_list x = (case x of Some v \<Rightarrow> [v] | None \<Rightarrow> [])"

definition on_off :: "bool \<Rightarrow> string" where
  "on_off b = (if b then ''on'' else ''off'')"

fun words_of :: "Request \<Rightarrow> string list" where
  "words_of GetState = [''status'']"
| "words_of GetConnectivity = [''connectivity'']"
| "words_of Diagnose = [''diagnose'']"
| "words_of Reload = [''reload'']"
| "words_of ListDevices = [''device'', ''list'']"
| "words_of (GetDevice name) = [''device'', ''show'', name]"
| "words_of ListConnections = [''connection'', ''list'']"
| "words_of (GetConnection i) = [''connection'', ''show'', i]"
| "words_of (ActivateConnection i) = [''connection'', ''up'', i]"
| "words_of (DeactivateConnection i) = [''connection'', ''down'', i]"
| "words_of (DeleteConnection i) = [''connection'', ''delete'', i]"
| "words_of (ScanWifi d) = [''wifi'', ''scan'', d]"
| "words_of (ListWifiNetworks d) = [''wifi'', ''list'', d]"
| "words_of (ConnectWifi d ssid _ pass) = [''wifi'', ''connect'', d, ssid] @ opt_list pass"
| "words_of (ForgetWifi d ssid) = [''wifi'', ''forget'', d, ssid]"
| "words_of (StartHotspot d ssid pass uplink) = [''hotspot'', ''start'', d, ssid] @ opt_list pass @ opt_list uplink"
| "words_of (StopHotspot d) = [''hotspot'', ''stop'', d]"
| "words_of (SetFirewallZone i z) = [''firewall'', ''zone'', i, z]"
| "words_of ListBluetoothDevices = [''bluetooth'', ''list'']"
| "words_of (BluetoothPower b) = [''bluetooth'', ''power'', on_off b]"
| "words_of (BluetoothScan b) = [''bluetooth'', ''scan'', on_off b]"
| "words_of (PairBluetooth a) = [''bluetooth'', ''pair'', a]"
| "words_of (TrustBluetooth a) = [''bluetooth'', ''trust'', a]"
| "words_of (ConnectBluetooth a) = [''bluetooth'', ''connect'', a]"
| "words_of (DisconnectBluetooth a) = [''bluetooth'', ''disconnect'', a]"
| "words_of (RemoveBluetooth a) = [''bluetooth'', ''remove'', a]"
| "words_of GetProxyConfig = [''proxy'', ''show'']"
| "words_of (ResolveProxy url) = [''proxy'', ''resolve'', url]"
| "words_of (SetProxyConfig c) =
     (case pc_mode c of
        NoProxy \<Rightarrow> [''proxy'', ''set'', ''none'']
      | ManualProxy \<Rightarrow> [''proxy'', ''set'', ''manual''] @ opt_list (pc_http c) @ opt_list (pc_https c)
      | AutoProxy \<Rightarrow> [''proxy'', ''set'', ''auto''] @ opt_list (pc_pac_url c))"
| "words_of (AddConnection _) = []"
| "words_of (AddFirewallRule _) = []"
| "words_of (RemoveFirewallRule _) = []"

text \<open>A hotspot can have an uplink only together with a passphrase, a network is joined with WPA2 or none at
  all, a proxy configuration has only the fields of its mode, and profiles and firewall rules cannot be given.\<close>

fun expressible :: "Request \<Rightarrow> bool" where
  "expressible (ConnectWifi _ _ security pass) = (security = (if pass = None then Open else Wpa2Psk))"
| "expressible (StartHotspot _ _ pass uplink) = (pass = None \<longrightarrow> uplink = None)"
| "expressible (SetProxyConfig c) =
     (c \<in> {default_proxy} \<or>
      (pc_mode c = ManualProxy \<and> pc_http c \<noteq> None \<and>
         c = default_proxy\<lparr>pc_mode := ManualProxy, pc_http := pc_http c, pc_https := pc_https c\<rparr>) \<or>
      (pc_mode c = AutoProxy \<and> pc_pac_url c \<noteq> None \<and>
         c = default_proxy\<lparr>pc_mode := AutoProxy, pc_pac_url := pc_pac_url c\<rparr>))"
| "expressible (AddConnection _) = False"
| "expressible (AddFirewallRule _) = False"
| "expressible (RemoveFirewallRule _) = False"
| "expressible _ = True"

lemmas netctl_defs = netctl_command_of_def sub_request_def connection_request_def wifi_request_def hotspot_request_def
  bluetooth_request_def proxy_set_request_def arg_or_usage_def on_off_or_usage_def args_get_def

lemma netctl_words: "expressible req \<Longrightarrow> netctl_command_of (words_of req) = Send req"
  by (cases req)
     (auto simp: netctl_defs opt_list_def on_off_def default_proxy_def split: option.splits if_splits ProxyMode.splits)

lemma sub_request_expressible: "sub_request args command sub = Some req \<Longrightarrow> expressible req"
  by (auto simp: sub_request_def connection_request_def wifi_request_def hotspot_request_def
      bluetooth_request_def proxy_set_request_def arg_or_usage_def args_get_def Let_def bind_eq_Some_conv
      default_proxy_def split: if_splits option.splits)

lemma netctl_expressible: "netctl_command_of args = Send req \<Longrightarrow> expressible req"
  by (auto simp: netctl_command_of_def bind_eq_Some_conv dest: sub_request_expressible
      split: list.splits if_splits option.splits)

text \<open>C40. The requests the client can make are exactly the expressible ones, each by the words of the usage text.\<close>

theorem netctl_requests:
  "((\<exists>args. netctl_command_of args = Send req) \<longleftrightarrow> expressible req) \<and>
   (expressible req \<longleftrightarrow> netctl_command_of (words_of req) = Send req)"
  using netctl_words netctl_expressible by blast

section \<open>Starting the daemon, \<^verbatim>\<open>main.rs\<close>\<close>

datatype daemon_args = RunWith string | PrintVersion | PrintHelp | BadArguments string

fun parse_args :: "string \<Rightarrow> string list \<Rightarrow> daemon_args" where
  "parse_args config_dir [] = RunWith config_dir"
| "parse_args config_dir (a # rest) =
     (if a = ''--config-dir'' then
        (case rest of
           v # rest' \<Rightarrow> parse_args v rest'
         | [] \<Rightarrow> BadArguments ''--config-dir requires a path argument'')
      else if a = ''--version'' then PrintVersion
      else if a = ''--help'' then PrintHelp
      else BadArguments (''unrecognized argument: '' @ a))"

text \<open>The timers: the interval in seconds and the tick each one sends.\<close>

definition scheduler_start :: "u64 \<Rightarrow> u64 \<Rightarrow> (u64 \<times> TickKind) list" where
  "scheduler_start connectivity_interval wifi_scan_interval =
     [(connectivity_interval, TickConnectivity), (wifi_scan_interval, TickWifiScan), (30, TickLeaseCheck),
      (5, TickDeviceRefresh)]"

definition daemon_timers :: "NetworkConfig \<Rightarrow> (u64 \<times> TickKind) list" where
  "daemon_timers cfg =
     scheduler_start (max (connectivity_check_interval_secs (cfg_general cfg)) 5)
       (max (wl_scan_interval_secs (cfg_wireless cfg)) 10)"

text \<open>What the monitor thread and its relay send for one read of the notification socket: a failed read is
  logged and nothing is sent.\<close>

definition hotplug_commands :: "RawEvent list result \<Rightarrow> Command list" where
  "hotplug_commands r = (case r of Inr events \<Rightarrow> map (CmdHotplug \<circ> hotplug_of_raw) events | Inl _ \<Rightarrow> [])"

text \<open>The daemon from its arguments to its exit status; \<open>cmds\<close> are the commands its threads send, in the order
  they arrive.\<close>

definition daemon_main :: "'w Env \<Rightarrow> string list \<Rightarrow> Command list \<Rightarrow> ('w, nat) io" where
  "daemon_main E args cmds =
     (case parse_args DEFAULT_CONFIG_DIR args of
        BadArguments _ \<Rightarrow> return_io 2
      | PrintVersion \<Rightarrow> return_io 0
      | PrintHelp \<Rightarrow> return_io 0
      | RunWith dir \<Rightarrow>
          bind_io (try_io (load_config (ln_fs (en_link E)) (en_config_codecs E) dir)) (\<lambda>loaded.
          case loaded of
            Inl _ \<Rightarrow> return_io 1
          | Inr cfg \<Rightarrow>
              bind_io (try_io (manager_new E cfg)) (\<lambda>made.
              case made of
                Inl _ \<Rightarrow> return_io 1
              | Inr s \<Rightarrow> (\<lambda>w. case manager_run E cmds (s, w) of
                  Ret (_, (_, w')) \<Rightarrow> Ret (Inr 0, w') | Panic \<Rightarrow> Panic | NoFuel \<Rightarrow> NoFuel))))"

lemma daemon_timers_positive: "\<forall>(t, k) \<in> set (daemon_timers cfg). 5 \<le> t"
  by (auto simp: daemon_timers_def scheduler_start_def le_max_iff_disj)

text \<open>The daemon runs exactly when its arguments are \<open>--config-dir\<close> pairs, with the directory of the last one.\<close>

definition config_dir_args :: "string list \<Rightarrow> string list" where
  "config_dir_args dirs = concat (map (\<lambda>v. [''--config-dir'', v]) dirs)"

lemma parse_config_dirs: "parse_args d0 (config_dir_args dirs) = RunWith (last (d0 # dirs))"
  by (induction dirs arbitrary: d0) (auto simp: config_dir_args_def)

lemma parse_args_runs: "parse_args d0 args = RunWith d \<Longrightarrow> \<exists>dirs. args = config_dir_args dirs"
proof (induction d0 args rule: parse_args.induct)
  case (1 config_dir)
  have "[] = config_dir_args []" by (simp add: config_dir_args_def)
  then show ?case by blast
next
  case (2 config_dir a rest)
  from "2.prems" obtain v rest' where a: "a = ''--config-dir''" and rest: "rest = v # rest'"
    and run: "parse_args v rest' = RunWith d"
    by (auto split: if_splits list.splits)
  from "2.IH" [OF a rest run] obtain dirs where "rest' = config_dir_args dirs" by blast
  with a rest have "a # rest = config_dir_args (v # dirs)" by (simp add: config_dir_args_def)
  then show ?case by blast
qed

theorem daemon_arguments:
  "parse_args d0 args = RunWith d \<longleftrightarrow> (\<exists>dirs. args = config_dir_args dirs \<and> d = last (d0 # dirs))"
proof
  assume run: "parse_args d0 args = RunWith d"
  then obtain dirs where "args = config_dir_args dirs" using parse_args_runs by blast
  moreover from this run have "d = last (d0 # dirs)" by (simp only: parse_config_dirs daemon_args.inject)
  ultimately show "\<exists>dirs. args = config_dir_args dirs \<and> d = last (d0 # dirs)" by blast
next
  assume "\<exists>dirs. args = config_dir_args dirs \<and> d = last (d0 # dirs)"
  then show "parse_args d0 args = RunWith d" by (metis parse_config_dirs)
qed

end
