(* ===== verification/Rate_Sampler.thy ===== *)
theory Rate_Sampler
  imports Device Rust_Float
begin

text \<open>
  Traffic rates from two readings of a device's counters, \<^verbatim>\<open>monitoring/statistics.rs\<close>. Times are
  nanoseconds of the monotonic clock.
\<close>

record Rates =
  rx_bytes_per_sec :: F64
  tx_bytes_per_sec :: F64

definition default_rates :: Rates where
  "default_rates = \<lparr>rx_bytes_per_sec = Fin 0, tx_bytes_per_sec = Fin 0\<rparr>"

type_synonym RateSampler = "(string \<times> (nat \<times> DeviceStatistics)) list"

definition sampler_new :: RateSampler where
  "sampler_new = []"

text \<open>The rational value of a double; quotients and sums of finite doubles round once.\<close>

definition fin_val :: "F64 \<Rightarrow> rat" where
  "fin_val x = (case x of Fin q \<Rightarrow> q | _ \<Rightarrow> 0)"

definition u64_as_f64 :: "u64 \<Rightarrow> rat" where
  "u64_as_f64 n = fin_val (f64_of (of_nat (unat n)))"

text \<open>\<open>Duration::as_secs_f64\<close>, at least a millisecond.\<close>

definition as_secs_f64 :: "nat \<Rightarrow> rat" where
  "as_secs_f64 ns =
     fin_val (f64_of (fin_val (f64_of (of_nat (ns div 1000000000))) +
       fin_val (f64_of (of_nat (ns mod 1000000000) / 1000000000))))"

definition elapsed_secs :: "nat \<Rightarrow> nat \<Rightarrow> rat" where
  "elapsed_secs before now = max (as_secs_f64 (now - before)) (fin_val (f64_of (1 / 1000)))"

definition rates_of :: "rat \<Rightarrow> DeviceStatistics \<Rightarrow> Rates" where
  "rates_of elapsed d =
     \<lparr>rx_bytes_per_sec = f64_of (u64_as_f64 (ds_rx_bytes d) / elapsed),
      tx_bytes_per_sec = f64_of (u64_as_f64 (ds_tx_bytes d) / elapsed)\<rparr>"

definition sample :: "Sysfs \<Rightarrow> nat \<Rightarrow> string \<Rightarrow> RateSampler \<Rightarrow> Rates \<times> RateSampler" where
  "sample S now ifname last_seen =
     (let current = statistics_read S ifname;
          rates = (case hm_get last_seen ifname of
                     Some (prev_time, prev_stats) \<Rightarrow> rates_of (elapsed_secs prev_time now) (delta prev_stats current)
                   | None \<Rightarrow> default_rates)
      in (rates, hm_insert ifname (now, current) last_seen))"

definition prune_stale :: "nat \<Rightarrow> nat \<Rightarrow> RateSampler \<Rightarrow> RateSampler" where
  "prune_stale now max_age last_seen = filter (\<lambda>(_, (t, _)). now - t < max_age) last_seen"

lemma zero_rate [simp]: "f64_of 0 = Fin 0" "u64_as_f64 0 = 0"
  by (simp_all add: u64_as_f64_def fin_val_def f64_of_def)

text \<open>Counters that stand still, or that were reset to smaller values, give rate zero however short the interval.\<close>

lemma rates_no_traffic:
  assumes "hm_get last_seen i = Some (t, prev)"
    and "ds_rx_bytes (statistics_read S i) \<le> ds_rx_bytes prev" "ds_tx_bytes (statistics_read S i) \<le> ds_tx_bytes prev"
  shows "fst (sample S now i last_seen) = default_rates"
proof -
  have "saturating_sub a b = 0" if "a \<le> b" for a b :: u64
    using that by (simp add: saturating_sub_def)
  with assms show ?thesis
    by (simp add: sample_def rates_of_def delta_def default_rates_def Let_def)
qed

text \<open>Pruning keeps exactly the devices sampled within the given age; a device just sampled survives.\<close>

lemma prune_after_sample:
  assumes "0 < max_age" "hm_ok last_seen"
  shows "hm_get (prune_stale now max_age (snd (sample S now i last_seen))) i = Some (now, statistics_read S i)"
  using assms by (simp add: sample_def Let_def hm_insert_def prune_stale_def hm_get_def)

end
