(* ===== verification/Dhcp_Session.thy ===== *)
theory Dhcp_Session
  imports Dhcp_Client Dhcp_Server
begin

text \<open>
  The DHCPv4 client of \<^verbatim>\<open>src/src/dhcp/client.rs\<close> talking to the hotspot server of
  \<^verbatim>\<open>src/src/sharing/dhcp_server.rs\<close> over one link: a datagram the client sends is handled by the
  server at once, and the server's replies wait in a queue until the client reads them.
\<close>

section \<open>The link\<close>

record dhcp_net =
  dn_table :: LeaseTable
  dn_queue :: "bytes list"
  dn_clock :: nat
  dn_unix :: u64

definition net_send :: "DhcpServerConfig \<Rightarrow> bytes \<Rightarrow> dhcp_net \<Rightarrow> dhcp_net" where
  "net_send cfg d w =
     (case handle_datagram cfg d (dn_table w) of
        Ret (r, t) \<Rightarrow> w\<lparr>dn_table := t, dn_queue := dn_queue w @ (case r of Some b \<Rightarrow> [b] | None \<Rightarrow> [])\<rparr>
      | _ \<Rightarrow> w)"

definition net_env :: "DhcpServerConfig \<Rightarrow> dhcp_net UdpEnv" where
  "net_env cfg = \<lparr>
     u_now = (\<lambda>w. (dn_clock w, w)),
     u_unix = (\<lambda>w. (dn_unix w, w)),
     u_nanos = (\<lambda>w. (0, w)),
     u_pid = 1,
     u_hostname = (\<lambda>w. (None, w)),
     u_socket = (\<lambda>w. (Inr (), w)),
     u_bind = (\<lambda>_ w. (Inr (), w)),
     u_send = (\<lambda>d _ w. (Inr (), net_send cfg d w)),
     u_recv = (\<lambda>w. case dn_queue w of
                     [] \<Rightarrow> (WouldBlock, w\<lparr>dn_clock := dn_clock w + 1\<rparr>)
                   | d # ds \<Rightarrow> (Got d, w\<lparr>dn_queue := ds\<rparr>)),
     u_load_lease = (\<lambda>_ w. (Inr None, w)),
     u_clear_lease = (\<lambda>_ w. (Inr (), w)) \<rparr>"

section \<open>The packets of the exchange\<close>

lemma length_serialize:
  "length (p_chaddr p) = 6 \<Longrightarrow> length (serialize p) = 241 + length (enc_options (p_options p))"
  by (simp add: serialize_def length_wire MAGIC_COOKIE_def)

lemma length_enc_options:
  "length (enc_options opts) = (\<Sum>(c, d) \<leftarrow> opts. 2 + length d)"
  by (simp add: enc_options_def length_concat comp_def case_prod_unfold)

lemma parse_serialize_small:
  assumes "packet_ok p" "length (enc_options (p_options p)) \<le> 1259"
  shows "parse_packet (take 1500 (serialize p)) = Some p"
  using assms parse_serialize [of p] length_serialize [of p] by (simp add: packet_ok_def)

definition hostname_ok :: "string option \<Rightarrow> bool" where
  "hostname_ok h = (case h of Some s \<Rightarrow> length s \<le> 255 | None \<Rightarrow> True)"

lemma client_packets_parse:
  assumes "length mac = 6" "hostname_ok h"
  shows "parse_packet (take 1500 (build_discover xid mac h)) = Some (discover_packet xid mac h)"
    "parse_packet (take 1500 (build_request xid mac ip sid h)) = Some (request_packet xid mac ip sid h)"
  unfolding build_discover_def build_request_def using assms
  by (intro parse_serialize_small;
      auto simp: packet_ok_def discover_packet_def request_packet_def push_options_def base_request_def
        option_ok_def client_id_def DEFAULT_PARAM_REQUEST_LIST_def hostname_option_def hostname_ok_def
        length_enc_options split: option.splits)+

lemma client_packet_fields:
  "message_type (discover_packet xid mac h) = Some MSG_DISCOVER"
  "message_type (request_packet xid mac ip sid h) = Some MSG_REQUEST"
  "requested_ip (request_packet xid mac ip sid h) = ip"
  "p_chaddr (discover_packet xid mac h) = mac" "p_chaddr (request_packet xid mac ip sid h) = mac"
  "p_xid (discover_packet xid mac h) = xid" "p_xid (request_packet xid mac ip sid h) = xid"
  by (simp_all add: message_type_def get_option_def discover_packet_def request_packet_def
      push_options_def base_request_def requested_ip_def octets4_def)

lemma reply_parse_small:
  assumes "length (p_chaddr req) = 6" "length (sc_dns_servers cfg) \<le> 63"
  shows "parse_packet (take 1500 (build_reply req a cfg ty)) = Some (reply_packet req a cfg ty)"
proof -
  have "length (concat (map octets4 (sc_dns_servers cfg))) \<le> 252"
    using assms(2) by (simp add: length_concat comp_def sum_list_triv)
  then have "length (enc_options (p_options (reply_packet req a cfg ty))) \<le> 1259"
    by (simp add: reply_packet_def reply_options_def length_enc_options length_wire)
  then show ?thesis
    unfolding build_reply_def by (rule parse_serialize_small [OF reply_packet_ok [OF assms]])
qed

lemma chunks_octets: "List.map_filter ip_of_bytes (chunks_exact 4 (concat (map octets4 xs))) = xs"
proof -
  have "chunks_exact 4 (concat (map octets4 xs)) = map octets4 xs"
    by (rule chunks_exact_concat_map) simp_all
  then show ?thesis
    by (simp add: List.map_filter_def ip_of_bytes_def octets4_def comp_def)
qed

text \<open>The lease the client reads out of the server's ACK.\<close>

lemma lease_of_reply:
  assumes "sc_prefixlen cfg \<le> 32"
  shows "lease_of_ack (reply_packet req a cfg MSG_ACK) sid now =
    \<lparr>l_address = a, l_prefixlen = sc_prefixlen cfg, l_gateway = Some (sc_server_ip cfg),
     l_dns_servers = sc_dns_servers cfg, l_domain = None, l_server_id = sid,
     l_lease_time_secs = sc_lease_time_secs cfg, l_obtained_at_unix = now\<rparr>"
proof -
  have "(word_of_nat (count_ones (subnet_mask (sc_prefixlen cfg))) :: u8) = sc_prefixlen cfg"
    by (simp add: count_ones_subnet_mask [OF assms])
  moreover have "ip_of_bytes (octets4 x) = Some x" for x by (simp add: ip_of_bytes_def octets4_def)
  ultimately show ?thesis
    using chunks_octets [of "sc_dns_servers cfg"]
    by (simp add: lease_of_ack_def get_option_def reply_packet_def reply_options_def octets4_def
        length_wire [unfolded octets4_def])
qed

section \<open>The exchange\<close>

lemma net_env_simps:
  "u_now (net_env cfg) w = (dn_clock w, w)"
  "u_unix (net_env cfg) w = (dn_unix w, w)"
  "u_send (net_env cfg) d a w = (Inr (), net_send cfg d w)"
  by (simp_all add: net_env_def)

lemma net_recv:
  "dn_queue w = d # ds \<Longrightarrow> u_recv (net_env cfg) w = (Got d, w\<lparr>dn_queue := ds\<rparr>)"
  by (simp add: net_env_def)

lemma offer_loop_server:
  assumes "allocate mac cfg (dn_table w) = Ret (Some a, t)" "dn_queue w = []"
    and "length mac = 6" "hostname_ok h" "length (sc_dns_servers cfg) \<le> 63" "dn_clock w < deadline"
  shows "offer_loop (net_env cfg) (Suc fuel) deadline xid mac h ifname w =
    Ret (Inr (reply_packet (discover_packet xid mac h) a cfg MSG_OFFER), w\<lparr>dn_table := t\<rparr>)"
proof -
  let ?r = "build_reply (discover_packet xid mac h) a cfg MSG_OFFER"
  have "net_send cfg (build_discover xid mac h) w = w\<lparr>dn_table := t, dn_queue := [?r]\<rparr>"
    using assms by (simp add: net_send_def handle_datagram_def client_packets_parse client_packet_fields)
  moreover have "u_recv (net_env cfg) (w\<lparr>dn_table := t, dn_queue := [?r]\<rparr>) = (Got ?r, w\<lparr>dn_table := t\<rparr>)"
    using assms(2) by (subst net_recv [of _ ?r "[]"]) auto
  moreover have "parse_packet (take 1500 ?r) = Some (reply_packet (discover_packet xid mac h) a cfg MSG_OFFER)"
    using assms by (intro reply_parse_small) (simp_all add: client_packet_fields)
  ultimately show ?thesis
    using assms by (simp add: net_env_simps message_type_reply client_packet_fields)
qed

lemma ack_loop_server:
  assumes "table_lookup (dn_table w) mac = Some a" "dn_queue w = []"
    and "length mac = 6" "hostname_ok h" "length (sc_dns_servers cfg) \<le> 63" "dn_clock w < deadline"
  shows "ack_loop (net_env cfg) (Suc fuel) deadline xid mac a sid h ifname w =
    Ret (Inr (reply_packet (request_packet xid mac a sid h) a cfg MSG_ACK), w)"
proof -
  let ?r = "build_reply (request_packet xid mac a sid h) a cfg MSG_ACK"
  have "net_send cfg (build_request xid mac a sid h) w = w\<lparr>dn_queue := [?r]\<rparr>"
    using assms
    by (simp add: net_send_def handle_datagram_def client_packets_parse client_packet_fields table_lookup_def)
  moreover have "u_recv (net_env cfg) (w\<lparr>dn_queue := [?r]\<rparr>) = (Got ?r, w)"
    using assms(2) by (subst net_recv [of _ ?r "[]"]) auto
  moreover have "parse_packet (take 1500 ?r) = Some (reply_packet (request_packet xid mac a sid h) a cfg MSG_ACK)"
    using assms by (intro reply_parse_small) (simp_all add: client_packet_fields)
  ultimately show ?thesis
    using assms by (simp add: net_env_simps message_type_reply client_packet_fields)
qed

lemma offer_server_id:
  "Option.bind (get_option (reply_packet req a cfg MSG_OFFER) OPT_SERVER_ID) ip_of_bytes
     = Some (sc_server_ip cfg)"
  by (simp add: get_option_def reply_packet_def reply_options_def ip_of_bytes_def octets4_def)

lemma allocate_grants:
  assumes "pool_ok cfg" "table_inv cfg t" "map_of (lt_by_mac t) mac \<noteq> None \<or> \<not> pool_full cfg t"
  obtains a t' where "allocate mac cfg t = Ret (Some a, t')" "in_pool cfg a" "table_inv cfg t'"
    "table_lookup t' mac = Some a"
  using assms(1,2)
proof (cases rule: allocate_cases [where mac = mac])
  case (bound a)
  have "in_pool cfg a"
    using bound(1) assms(2) by (auto simp: table_inv_eq list_all_iff dest!: map_of_SomeD)
  then show thesis using bound assms(2) by (intro that) (auto simp: table_lookup_def)
next
  case (fresh a t')
  then show thesis
    using allocate_effect [OF assms(1,2) fresh(2)] by (intro that) auto
next
  case full
  then show thesis using assms(3) by simp
qed

section \<open>Properties\<close>

text \<open>C8. Client and server agree end to end. Against the hotspot server, with a free address in the
  pool (or one already bound to the client) and time left, the client's exchange returns a lease on
  the first attempt: an address of the pool that the server's table binds to this client's hardware
  address, with the server's prefix length, gateway, DNS servers and lease time; the server's table
  stays well-formed.
\<close>

theorem exchange_with_server:
  assumes "pool_ok cfg" "table_inv cfg (dn_table w)" "dn_queue w = []"
    and "map_of (lt_by_mac (dn_table w)) mac \<noteq> None \<or> \<not> pool_full cfg (dn_table w)"
    and "length (sc_dns_servers cfg) \<le> 63" "sc_prefixlen cfg \<le> 32"
    and "length mac = 6" "hostname_ok h" "dn_clock w < deadline"
  shows "\<exists>a t. exchange (net_env cfg) (Suc fuel) deadline xid mac h ifname w =
      Ret (Inr \<lparr>l_address = a, l_prefixlen = sc_prefixlen cfg, l_gateway = Some (sc_server_ip cfg),
                l_dns_servers = sc_dns_servers cfg, l_domain = None, l_server_id = sc_server_ip cfg,
                l_lease_time_secs = sc_lease_time_secs cfg, l_obtained_at_unix = dn_unix w\<rparr>,
           w\<lparr>dn_table := t\<rparr>)
    \<and> in_pool cfg a \<and> table_inv cfg t \<and> map_of (lt_by_mac t) mac = Some a"
proof -
  obtain a t where al: "allocate mac cfg (dn_table w) = Ret (Some a, t)" "in_pool cfg a"
    "table_inv cfg t" "table_lookup t mac = Some a"
    using allocate_grants [OF assms(1,2,4)] by blast
  have "offer_loop (net_env cfg) (Suc fuel) deadline xid mac h ifname w =
      Ret (Inr (reply_packet (discover_packet xid mac h) a cfg MSG_OFFER), w\<lparr>dn_table := t\<rparr>)"
    using al(1) assms by (intro offer_loop_server) simp_all
  moreover have "ack_loop (net_env cfg) (Suc fuel) deadline xid mac a (sc_server_ip cfg) h ifname
      (w\<lparr>dn_table := t\<rparr>) = Ret (Inr (reply_packet (request_packet xid mac a (sc_server_ip cfg) h) a cfg MSG_ACK),
      w\<lparr>dn_table := t\<rparr>)"
    using al(4) assms by (intro ack_loop_server) simp_all
  ultimately have "exchange (net_env cfg) (Suc fuel) deadline xid mac h ifname w =
      lease_from_ack (net_env cfg) (reply_packet (request_packet xid mac a (sc_server_ip cfg) h) a cfg MSG_ACK)
        (sc_server_ip cfg) (w\<lparr>dn_table := t\<rparr>)"
    by (simp add: exchange_def offer_server_id lift_io_def return_io_apply bind_io_def del: offer_loop.simps ack_loop.simps)
  then show ?thesis
    using al lease_of_reply [OF assms(6)]
    by (intro exI [of _ a] exI [of _ t])
      (simp add: lease_from_ack_def ask_def net_env_simps bind_io_def return_io_def table_lookup_def)
qed

theorem exchange_with_server_witness:
  "\<exists>a t. exchange (net_env \<lparr>sc_interface = ''ap0'', sc_server_ip = 0x0A000001,
        sc_pool_start = 0x0A000002, sc_pool_end = 0x0A000003, sc_prefixlen = 24,
        sc_lease_time_secs = 3600, sc_dns_servers = [0x08080808]\<rparr>)
      (Suc 0) 30 7 [0, 1, 2, 3, 4, 5] (Some ''host'') ''wlan0''
      \<lparr>dn_table = \<lparr>lt_by_mac = [], lt_next_candidate = 0x0A000002\<rparr>, dn_queue = [], dn_clock = 0, dn_unix = 9\<rparr>
    = Ret (Inr \<lparr>l_address = a, l_prefixlen = 24, l_gateway = Some 0x0A000001,
                l_dns_servers = [0x08080808], l_domain = None, l_server_id = 0x0A000001,
                l_lease_time_secs = 3600, l_obtained_at_unix = 9\<rparr>,
        \<lparr>dn_table = t, dn_queue = [], dn_clock = 0, dn_unix = 9\<rparr>)"
proof -
  let ?cfg = "\<lparr>sc_interface = ''ap0'', sc_server_ip = 0x0A000001,
        sc_pool_start = 0x0A000002, sc_pool_end = 0x0A000003, sc_prefixlen = 24,
        sc_lease_time_secs = 3600, sc_dns_servers = [0x08080808]\<rparr>"
  have "in_pool ?cfg 0x0A000002" by (simp add: in_pool_def)
  then have "\<not> pool_full ?cfg \<lparr>lt_by_mac = [], lt_next_candidate = 0x0A000002\<rparr>"
    by (auto simp: pool_full_def)
  then show ?thesis
    using exchange_with_server [of ?cfg "\<lparr>dn_table = \<lparr>lt_by_mac = [], lt_next_candidate = 0x0A000002\<rparr>,
        dn_queue = [], dn_clock = 0, dn_unix = 9\<rparr>" "[0, 1, 2, 3, 4, 5]" "Some ''host''" 30 0 7 "''wlan0''"]
    by (auto simp: pool_ok_def table_inv_def hostname_ok_def)
qed

end
