(* ===== verification/Pac.thy ===== *)
theory Pac
  imports Pac_Eval
begin

text \<open>
  Properties of the script interpreter: shell patterns against a reference definition, chunked
  bodies, what global variables are worth, and how much work a script can demand.
\<close>

section \<open>Shell patterns\<close>

text \<open>The strings a pattern stands for: \<open>*\<close> any string, \<open>?\<close> any byte, anything else itself.\<close>

fun glob :: "string \<Rightarrow> string set" where
  "glob [] = {[]}"
| "glob (c # p) =
     (if c = CHR ''*'' then {u @ v | u v. v \<in> glob p}
      else if c = CHR ''?'' then {x # v | x v. v \<in> glob p}
      else {c # v | v. v \<in> glob p})"

lemma glob_star: "s \<in> glob (CHR ''*'' # p) \<longleftrightarrow> s \<in> glob p \<or> (s \<noteq> [] \<and> tl s \<in> glob (CHR ''*'' # p))"
proof (cases s)
  case (Cons c t)
  have "(\<exists>u v. c # t = u @ v \<and> v \<in> glob p) \<longleftrightarrow> c # t \<in> glob p \<or> (\<exists>u v. t = u @ v \<and> v \<in> glob p)"
    by (auto simp: Cons_eq_append_conv)
  then show ?thesis using Cons by auto
qed auto

text \<open>C29. \<open>shExpMatch\<close> decides membership in the language of the pattern.\<close>

theorem sh_exp_match_glob: "sh_exp_match s pattern \<longleftrightarrow> s \<in> glob pattern"
  unfolding sh_exp_match_def
proof (induction s pattern rule: sh_match.induct)
  case (1 s p)
  show ?case
  proof (cases p)
    case Nil
    then show ?thesis by (simp add: sh_match.simps)
  next
    case (Cons c q)
    consider "c = CHR ''*''" | "c \<noteq> CHR ''*''" by blast
    then show ?thesis
    proof cases
      case 1
      then show ?thesis
        using Cons "1.IH" glob_star [of s q] by (subst sh_match.simps) (auto simp del: glob.simps)
    next
      case 2
      then show ?thesis
        using Cons "1.IH" by (subst sh_match.simps) (cases s; auto)
    qed
  qed
qed

section \<open>Chunked bodies\<close>

definition encode_chunk :: "string \<Rightarrow> string" where
  "encode_chunk c = show_radix 16 (length c) @ crlf @ c @ crlf"

definition encode_chunks :: "string list \<Rightarrow> string" where
  "encode_chunks cs = concat (map encode_chunk cs) @ ''0'' @ crlf @ crlf"


lemma hex_char:
  assumes "c \<in> set (show_radix 16 n)"
  shows "33 \<le> code_of c \<and> code_of c < 128 \<and> c \<noteq> CHR '';'' \<and> c \<noteq> cr"
proof -
  have "to_digit 16 c \<noteq> None" using assms by (intro show_radix_chars) auto
  then show ?thesis by (auto simp: to_digit_def is_digit_def split: if_splits)
qed

lemma chunk_size_show: "n < 2 ^ 64 \<Longrightarrow> chunk_size (show_radix 16 n) = Some n"
  unfolding chunk_size_def
  using trim_plain [of "show_radix 16 n"] hex_char [of _ n] parse_uint_show [of 16 n "2 ^ 64 - 1"]
  by (subst split_by_none) auto

lemma split_crlf: "cr \<notin> set a \<Longrightarrow> split_once_str crlf (a @ crlf @ b) = Some (a, b)"
  by (induction a) (auto simp: crlf_def)

lemma dechunk_step:
  assumes "0 < n" "n < 2 ^ 64" "n \<le> length tail"
  shows "dechunk_from out (show_radix 16 n @ crlf @ tail) =
    (if \<not> char_boundary tail n then Panic
     else dechunk_from (out @ take n tail) (case strip_prefix crlf (drop n tail) of Some s \<Rightarrow> s | None \<Rightarrow> []))"
proof -
  have "cr \<notin> set (show_radix 16 n)" using hex_char [of cr n] by blast
  then have "split_once_str crlf (show_radix 16 n @ crlf @ tail) = Some (show_radix 16 n, tail)" by (rule split_crlf)
  with chunk_size_show [OF assms(2)] assms show ?thesis
    by (subst dechunk_from.simps) simp
qed

lemma dechunk_end: "dechunk_from out (''0'' @ crlf @ crlf) = Ret out"
proof -
  have 0: "show_radix 16 0 = ''0''" by code_simp
  have "split_once_str crlf (''0'' @ crlf @ crlf) = Some (''0'', crlf)" by (rule split_crlf) simp
  with chunk_size_show [of 0] 0 show ?thesis
    by (subst dechunk_from.simps) simp
qed

lemma dechunk_encoded:
  "\<forall>c \<in> set cs. c \<noteq> [] \<and> length c < 2 ^ 64 \<Longrightarrow> dechunk_from out (encode_chunks cs) = Ret (out @ concat cs)"
proof (induction cs arbitrary: out)
  case Nil
  show ?case unfolding encode_chunks_def using dechunk_end by simp
next
  case (Cons c cs)
  have split: "encode_chunks (c # cs) = show_radix 16 (length c) @ crlf @ c @ crlf @ encode_chunks cs"
    by (simp add: encode_chunks_def encode_chunk_def)
  have boundary: "char_boundary (c @ crlf @ encode_chunks cs) (length c)"
    by (simp add: char_boundary_def crlf_def nth_append continuation_def)
  have "strip_prefix crlf (crlf @ encode_chunks cs) = Some (encode_chunks cs)" by (simp add: strip_prefix_Some)
  moreover have "0 < length c" "length c < 2 ^ 64" "dechunk_from (out @ c) (encode_chunks cs) = Ret ((out @ c) @ concat cs)"
    using Cons by auto
  ultimately show ?case
    unfolding split using dechunk_step [of "length c" "c @ crlf @ encode_chunks cs" out] boundary by simp
qed

text \<open>Decoding a chunked body gives back the concatenation of its chunks.\<close>

theorem dechunk_roundtrip:
  "\<forall>c \<in> set cs. c \<noteq> [] \<and> length c < 2 ^ 64 \<Longrightarrow> dechunk (encode_chunks cs) = Ret (concat cs)"
  by (simp add: dechunk_def dechunk_encoded)

theorem dechunk_roundtrip_witness: "dechunk (encode_chunks [''Hello'', '', PAC!'']) = Ret ''Hello, PAC!''"
  using dechunk_roundtrip [of "[''Hello'', '', PAC!'']"] by simp

text \<open>A chunk boundary inside a character: the bytes around it are replaced before the body is
  decoded, and the announced size then cuts the replacement character, which panics.\<close>

lemma lossy_ascii_Cons: "a < 0x80 \<Longrightarrow> lossy_bytes (a # bs) = a # lossy_bytes bs"
  by (simp add: lossy_bytes.simps(2) utf8_width_def)

lemma split_character_panics:
  "dechunk (from_utf8_lossy ([0x31, 0x0D, 0x0A, 0xC3, 0x0D, 0x0A] @ bs)) = Panic"
proof -
  let ?tail = "of_bytes (replacement @ lossy_bytes (0x0D # 0x0A # bs))"
  have "lossy_bytes (0xC3 # 0x0D # 0x0A # bs) = replacement @ lossy_bytes (0x0D # 0x0A # bs)"
    by (subst lossy_bytes.simps(2)) (simp add: utf8_width_def second_ok_def cont_def)
  then have "from_utf8_lossy ([0x31, 0x0D, 0x0A, 0xC3, 0x0D, 0x0A] @ bs) = of_bytes [0x31, 0x0D, 0x0A] @ ?tail"
    by (simp add: from_utf8_lossy_def of_bytes_def lossy_ascii_Cons)
  moreover have "of_bytes [0x31, 0x0D, 0x0A] = show_radix 16 1 @ crlf"
    by code_simp
  moreover have "\<not> char_boundary ?tail 1"
    by (simp add: char_boundary_def replacement_def of_bytes_def char_of_byte_def continuation_def)
  moreover have "1 \<le> length ?tail"
    by (simp add: replacement_def of_bytes_def)
  ultimately show ?thesis using dechunk_step [of 1 ?tail "[]"] by (simp add: dechunk_def)
qed

section \<open>Work\<close>

text \<open>
  The depth of calls is bounded, their number is not: of functions each of which calls the next one
  twice, the \<open>k\<close>-th costs \<open>2 ^ k\<close> name lookups. The world here counts the lookups.
\<close>

definition counting :: "nat PacEnv" where
  "counting = \<lparr>pe_unicode = \<lparr>uc_alphabetic = (\<lambda>_. False), uc_alphanumeric = (\<lambda>_. False), uc_escape = (\<lambda>c. c)\<rparr>,
     pe_connect = (\<lambda>_ _ w. (Inr (), w)), pe_set_read_timeout = (\<lambda>_ w. (Inr (), w)),
     pe_set_write_timeout = (\<lambda>_ w. (Inr (), w)), pe_write_all = (\<lambda>_ w. (Inr (), w)),
     pe_read_to_end = (\<lambda>_ w. (Inr [], w)), pe_lookup_host = (\<lambda>_ w. (Inl ''not found'', Suc w)),
     pe_route_source = (\<lambda>w. (Inl [], w)), pe_unix_secs = (\<lambda>w. (0, w))\<rparr>"

definition fname :: "nat \<Rightarrow> string" where
  "fname k = replicate (Suc k) (CHR ''f'')"

definition twice :: "nat \<Rightarrow> FunctionDecl" where
  "twice k = \<lparr>fd_params = [],
     fd_body = (case k of 0 \<Rightarrow> [ExprStmt (ECall ''dnsResolve'' [EStr ''h''])]
                | Suc j \<Rightarrow> [ExprStmt (ECall (fname j) []), ExprStmt (ECall (fname j) [])])\<rparr>"

definition doubling :: "nat \<Rightarrow> (string \<times> FunctionDecl) list" where
  "doubling n = map (\<lambda>k. (fname k, twice k)) [0..<Suc n]"

lemma fname_inject [simp]: "fname j = fname k \<longleftrightarrow> j = k"
  by (auto simp: fname_def dest: arg_cong [of _ _ length])

lemma doubling_get: "k \<le> n \<Longrightarrow> hm_get (doubling n) (fname k) = Some (twice k)"
proof -
  have "map_of (map (\<lambda>k. (fname k, twice k)) ks) (fname k) = (if k \<in> set ks then Some (twice k) else None)" for ks
    by (induction ks) auto
  then show "k \<le> n \<Longrightarrow> ?thesis" by (simp add: hm_get_def doubling_def del: upt_Suc)
qed

lemma fname_not_builtin: "call_builtin E (fname k) args = return_io None"
  by (simp add: call_builtin_def fname_def)

lemma lookup_once:
  assumes "d \<le> 64"
  shows "pac_call counting F ''dnsResolve'' [VStr ''h''] d w = Ret (Inr VNull, Suc w)"
proof -
  have "parse_ip ''h'' = None"
    by (simp add: parse_ip_def read_ipv4_addr_def read_octet_def read_separator_def read_number_def to_digit_def
        is_digit_def read_ipv6_addr_def read_groups.simps [of 8 0] read_given_char_def)
  then have "resolve_host counting ''h'' w = (None, Suc w)"
    by (simp add: resolve_host_def counting_def)
  then show ?thesis
    using assms
    by (simp add: pac_call.simps call_builtin_def with_arg_def arg_str_def lift_io_def bind_io_def ask_def return_io_def)
qed

lemma doubling_cost:
  "k \<le> n \<Longrightarrow> d + k \<le> 63 \<Longrightarrow> pac_call counting (doubling n) (fname k) [] d w = Ret (Inr VNull, w + 2 ^ k)"
proof (induction k arbitrary: d w)
  case 0
  then show ?case
    by (subst pac_call.simps)
       (simp add: fname_not_builtin doubling_get twice_def lookup_once bind_params_def bind_io_def return_io_def)
next
  case (Suc k)
  then show ?case
    by (subst pac_call.simps)
       (simp add: fname_not_builtin doubling_get twice_def bind_params_def bind_io_def return_io_def)
qed

text \<open>A script of 64 two-line functions, within the depth limit, makes \<open>2 ^ 63\<close> lookups.\<close>

lemma runaway_lookups: "pac_call counting (doubling 63) (fname 63) [] 0 0 = Ret (Inr VNull, 2 ^ 63)"
  using doubling_cost [of 63 63 0 0] by simp

section \<open>Global variables\<close>

definition backup_script :: string where
  "backup_script =
     ''var b='' @ [dquote] @ ''PROXY b:80'' @ [dquote] @ '';function FindProxyForURL(url,host){return b;}''"

lemma backup_tokens:
  "tokenize U backup_script = Inr
     [TIdent ''var'', TIdent ''b'', Assign, TStr ''PROXY b:80'', Semi, TIdent ''function'', TIdent ''FindProxyForURL'',
      LParen, TIdent ''url'', Comma, TIdent ''host'', RParen, LBrace, TIdent ''return'', TIdent ''b'', Semi, RBrace, Eof]"
  by code_simp

lemma backup_program:
  "parse_program U
     [TIdent ''var'', TIdent ''b'', Assign, TStr ''PROXY b:80'', Semi, TIdent ''function'', TIdent ''FindProxyForURL'',
      LParen, TIdent ''url'', Comma, TIdent ''host'', RParen, LBrace, TIdent ''return'', TIdent ''b'', Semi, RBrace, Eof] =
   Ret (Inr \<lparr>pg_functions = [(''FindProxyForURL'', \<lparr>fd_params = [''url'', ''host''], fd_body = [SReturn (Some (EIdent ''b''))]\<rparr>)],
             pg_globals = [VarDecl ''b'' (Some (EStr ''PROXY b:80''))]\<rparr>, [Eof])"
  by code_simp


end
