(* ===== verification/Ethernet.thy ===== *)
theory Ethernet
  imports Ip_Ops
begin

text \<open>
  Wired links, \<^verbatim>\<open>ethernet/\<close>: the driver's answers to \<^verbatim>\<open>ETHTOOL_GLINK\<close> and \<^verbatim>\<open>ETHTOOL_GSET\<close>
  (\<^verbatim>\<open>link.rs\<close>), their description (\<^verbatim>\<open>auto.rs\<close>) and the readiness test (\<^verbatim>\<open>ethernet.rs\<close>).
\<close>

section \<open>Driver queries, \<^verbatim>\<open>ethernet/link.rs\<close>\<close>

text \<open>The fields of \<open>ethtool_cmd\<close> the daemon reads.\<close>

record EthtoolCmd =
  et_speed :: u16
  et_speed_hi :: u16
  et_duplex :: u8
  et_autoneg :: u8

record 'w EthEnv =
  ee_socket :: "'w \<Rightarrow> (string + nat) \<times> 'w"
  ee_glink :: "nat \<Rightarrow> string \<Rightarrow> 'w \<Rightarrow> (string + u32) \<times> 'w"
  ee_gset :: "nat \<Rightarrow> string \<Rightarrow> 'w \<Rightarrow> (string + EthtoolCmd) \<times> 'w"
  ee_close :: "nat \<Rightarrow> 'w \<Rightarrow> 'w"

definition ioctl_socket :: "'w EthEnv \<Rightarrow> ('w, nat) io" where
  "ioctl_socket E = sys_call Io (ee_socket E)"

definition set_ifr_name :: "string \<Rightarrow> unit result" where
  "set_ifr_name ifname =
     (if nul \<in> set ifname then Inl (Parse ''interface name contains a NUL byte'')
      else if 16 < length ifname + 1 then Inl (Parse (''interface name '' @ quoted ifname @ '' too long''))
      else Inr ())"

text \<open>One ioctl: the socket is closed after it, but not when the name is refused.\<close>

definition ethtool ::
    "'w EthEnv \<Rightarrow> string \<Rightarrow> string \<Rightarrow> (nat \<Rightarrow> string \<Rightarrow> 'w \<Rightarrow> (string + 'a) \<times> 'w) \<Rightarrow> ('w, 'a) io" where
  "ethtool E what ifname f =
     bind_io (ioctl_socket E) (\<lambda>fd.
     then_io (lift_io (set_ifr_name ifname))
       (\<lambda>w. case f fd ifname w of
          (Inl e, w') \<Rightarrow> Ret (Inl (Device (what @ '' on '' @ ifname @ '' failed: '' @ e)), ee_close E fd w')
        | (Inr x, w') \<Rightarrow> Ret (Inr x, ee_close E fd w')))"

definition eth_has_carrier :: "'w EthEnv \<Rightarrow> string \<Rightarrow> ('w, bool) io" where
  "eth_has_carrier E ifname =
     bind_io (ethtool E ''ETHTOOL_GLINK'' ifname (ee_glink E)) (\<lambda>data. return_io (data \<noteq> 0))"

record LinkSettings =
  ls_speed_mbps :: "u32 option"
  ls_full_duplex :: bool
  ls_autoneg :: bool

definition settings_of_cmd :: "EthtoolCmd \<Rightarrow> LinkSettings" where
  "settings_of_cmd cmd =
     (let combined_speed = push_bit 16 (ucast (et_speed_hi cmd)) OR (ucast (et_speed cmd) :: u32)
      in \<lparr>ls_speed_mbps = (if et_speed cmd = 0xFFFF \<or> combined_speed = 0 then None else Some combined_speed),
          ls_full_duplex = (et_duplex cmd = 1), ls_autoneg = (et_autoneg cmd = 1)\<rparr>)"

definition link_settings :: "'w EthEnv \<Rightarrow> string \<Rightarrow> ('w, LinkSettings) io" where
  "link_settings E ifname =
     bind_io (ethtool E ''ETHTOOL_GSET'' ifname (ee_gset E)) (\<lambda>cmd. return_io (settings_of_cmd cmd))"

section \<open>Description and readiness, \<^verbatim>\<open>ethernet/auto.rs\<close>, \<^verbatim>\<open>ethernet/ethernet.rs\<close>\<close>

definition describe :: "LinkSettings \<Rightarrow> string" where
  "describe s =
     (case ls_speed_mbps s of Some v \<Rightarrow> show_nat (unat v) @ '' Mbps'' | None \<Rightarrow> ''unknown speed'') @ '', '' @
     (if ls_full_duplex s then ''full duplex'' else ''half duplex'') @ '' ('' @
     (if ls_autoneg s then ''auto-negotiated'' else ''fixed'') @ '')''"

definition is_ready :: "'w Kernel \<Rightarrow> 'w EthEnv \<Rightarrow> nat \<Rightarrow> string \<Rightarrow> ('w, bool) io" where
  "is_ready K E fuel ifname =
     bind_io (try_io (get_by_name K fuel ifname)) (\<lambda>r.
     let netlink_carrier = (case r of Inr i \<Rightarrow> if_has_carrier i | Inl _ \<Rightarrow> False) in
     bind_io (try_io (eth_has_carrier E ifname)) (\<lambda>q.
     let ethtool_carrier = (case q of Inr b \<Rightarrow> b | Inl _ \<Rightarrow> netlink_carrier)
     in return_io (netlink_carrier \<and> ethtool_carrier)))"

definition describe_link :: "'w EthEnv \<Rightarrow> string \<Rightarrow> ('w, string) io" where
  "describe_link E ifname = bind_io (link_settings E ifname) (\<lambda>s. return_io (describe s))"

section \<open>Readiness and speeds\<close>

text \<open>A device counts as ready only when the kernel and the driver agree, and the driver's failure to
  answer leaves the decision to the kernel.\<close>

lemma is_ready_iff:
  assumes "get_by_name K fuel i w = Ret (r, w1)" and "eth_has_carrier E i w1 = Ret (q, w2)"
  shows "is_ready K E fuel i w = Ret (Inr ((\<exists>d. r = Inr d \<and> if_has_carrier d) \<and> q \<noteq> Inr False), w2)"
  using assms by (cases r; cases q) (auto simp: is_ready_def Let_def return_io_def)

text \<open>The unknown speed of the interface's documentation, 0xffff in either half, is recognised in the low half
  only: a high half of 0xffff is reported as a speed.\<close>

lemma unknown_high_speed_reported:
  "et_speed c \<noteq> 0xFFFF \<Longrightarrow> ls_speed_mbps (settings_of_cmd (c\<lparr>et_speed_hi := 0xFFFF\<rparr>)) \<noteq> None"
proof -
  assume "et_speed c \<noteq> 0xFFFF"
  moreover have "bit (push_bit 16 (ucast (0xFFFF :: u16)) OR (ucast (et_speed c) :: u32)) 16"
    by (simp add: bit_simps)
  then have "push_bit 16 (ucast (0xFFFF :: u16)) OR (ucast (et_speed c) :: u32) \<noteq> 0" by (metis bit_0_eq bot_apply bot_bool_def)
  ultimately show ?thesis by (simp add: settings_of_cmd_def Let_def)
qed

end
